(* ===== verification/Prelude.thy ===== *)
theory Prelude
  imports
    "HOL-Library.Word"
    "HOL-Library.Char_ord"
    "HOL-Library.List_Lexorder"
    "HOL-Library.Stream"
begin

text \<open>
  Shared vocabulary of the development: machine integers, results with early return
  (\<open>Result\<close> and the \<open>?\<close> operator), and computations over a state, among them those that draw
  randomness.  A Rust string is the list of its UTF-8 bytes, so \<^term>\<open>length\<close> is the byte
  length that \<open>str::len\<close> returns.
\<close>

named_theorems result_simps \<open>evaluation of result combinators\<close>
named_theorems wf_intros \<open>well-formedness of constructed values\<close>
named_theorems step_defs \<open>definitions of state-changing operations\<close>


section \<open>Machine integers\<close>

type_synonym u8 = "8 word"
type_synonym u32 = "32 word"
type_synonym u64 = "64 word"
type_synonym bytes = "u8 list"

text \<open>Rust's \<open>checked_add\<close>: the sum when it fits the width.\<close>

definition checked_add :: "'a::len word \<Rightarrow> 'a word \<Rightarrow> 'a word option" where
  "checked_add x y = (if unat x + unat y < 2 ^ LENGTH('a) then Some (x + y) else None)"

text \<open>Rust's \<open>try_from\<close> between unsigned widths: the value when it fits the target.\<close>

definition try_from_word :: "'a::len word \<Rightarrow> 'b::len word option" where
  "try_from_word x = (if unat x < 2 ^ LENGTH('b) then Some (ucast x) else None)"

lemma checked_add_eq_Some:
  "checked_add x y = Some z \<longleftrightarrow> unat x + unat y < 2 ^ LENGTH('a) \<and> z = x + y"
  for x y z :: "'a::len word"
  by (auto simp: checked_add_def)

lemma unat_checked_add:
  "checked_add x y = Some z \<Longrightarrow> unat z = unat x + unat y"
  for x y z :: "'a::len word"
  by (simp add: checked_add_eq_Some unat_word_ariths(1))

lemma unat_try_from_word:
  "try_from_word x = Some (y :: 'b::len word) \<Longrightarrow> unat y = unat x"
  by (auto simp: try_from_word_def unsigned_ucast_eq take_bit_nat_eq_self split: if_splits)

lemma try_from_word_ucast_u32 [simp]:
  "try_from_word (ucast (v :: u32) :: u64) = Some v"
proof -
  have lt: "unat v < 2 ^ 32" using unsigned_less [of v] by simp
  then have "unat (ucast v :: u64) = unat v"
    by (simp add: unsigned_ucast_eq take_bit_nat_eq_self)
  with lt show ?thesis
    by (simp add: try_from_word_def word_unat_eq_iff unsigned_ucast_eq
        take_bit_nat_eq_self take_bit_word_eq_self)
qed

text \<open>Signed reading of a word: a value below the sign bit reads as itself.\<close>

lemma sint_nonneg_of_small: "unat (v :: 64 word) < 2 ^ 63 \<Longrightarrow> \<not> sint v < 0"
proof -
  assume small: "unat v < 2 ^ 63"
  have "\<not> bit (unat v) 63" using small by (simp add: bit_iff_odd)
  then have "\<not> bit v 63" by (simp add: bit_unsigned_iff)
  then show ?thesis using bit_last_iff [of v] by simp
qed

lemma sint_small: "unat (w :: 64 word) < 2 ^ 63 \<Longrightarrow> sint w = int (unat w)"
proof -
  assume "unat w < 2 ^ 63"
  then have nonneg: "0 \<le> sint w" using sint_nonneg_of_small [of w] by linarith
  have "sint w < 2 ^ 64" using sint_less [of w] by simp
  with nonneg have "take_bit 64 (sint w) = sint w" by (rule take_bit_int_eq_self)
  moreover have "uint w = take_bit 64 (sint w)" using uint_sint [of w] by simp
  ultimately have "sint w = uint w" by (rule HOL.trans [OF sym sym])
  then show ?thesis by (simp only: unat_eq_nat_uint) (use nonneg in simp)
qed


section \<open>Results\<close>

text \<open>\<open>Result<T, E>\<close> is the sum \<^typ>\<open>'e + 'a\<close> with the error on the left.
  \<open>rbind\<close> is the \<open>?\<close> operator followed by the rest of the function.\<close>

definition rbind :: "'e + 'a \<Rightarrow> ('a \<Rightarrow> 'e + 'b) \<Rightarrow> 'e + 'b" where
  "rbind m f = (case m of Inl e \<Rightarrow> Inl e | Inr x \<Rightarrow> f x)"

definition map_err :: "('e \<Rightarrow> 'f) \<Rightarrow> 'e + 'a \<Rightarrow> 'f + 'a" where
  "map_err g m = (case m of Inl e \<Rightarrow> Inl (g e) | Inr x \<Rightarrow> Inr x)"

definition map_ok :: "('a \<Rightarrow> 'b) \<Rightarrow> 'e + 'a \<Rightarrow> 'e + 'b" where
  "map_ok g m = (case m of Inl e \<Rightarrow> Inl e | Inr x \<Rightarrow> Inr (g x))"

definition ok_or :: "'e \<Rightarrow> 'a option \<Rightarrow> 'e + 'a" where
  "ok_or e m = (case m of None \<Rightarrow> Inl e | Some x \<Rightarrow> Inr x)"

definition reject_if :: "bool \<Rightarrow> 'e \<Rightarrow> 'e + unit" where
  "reject_if b e = (if b then Inl e else Inr ())"

definition is_ok :: "'e + 'a \<Rightarrow> bool" where
  "is_ok m = (case m of Inl _ \<Rightarrow> False | Inr _ \<Rightarrow> True)"

definition ok :: "'e + 'a \<Rightarrow> 'a option" where
  "ok m = (case m of Inl _ \<Rightarrow> None | Inr x \<Rightarrow> Some x)"

lemma rbind_simps [simp, result_simps]:
  "rbind (Inl e) f = Inl e"
  "rbind (Inr x) f = f x"
  by (simp_all add: rbind_def)

lemma map_err_simps [simp, result_simps]:
  "map_err g (Inl e) = Inl (g e)"
  "map_err g (Inr x) = Inr x"
  by (simp_all add: map_err_def)

lemma map_ok_simps [simp, result_simps]:
  "map_ok g (Inl e) = Inl e"
  "map_ok g (Inr x) = Inr (g x)"
  by (simp_all add: map_ok_def)

lemma ok_or_simps [simp, result_simps]:
  "ok_or e None = Inl e"
  "ok_or e (Some x) = Inr x"
  by (simp_all add: ok_or_def)

lemma reject_if_simps [simp, result_simps]:
  "reject_if True e = Inl e"
  "reject_if False e = Inr ()"
  by (simp_all add: reject_if_def)

lemma is_ok_simps [simp, result_simps]:
  "is_ok (Inl e) = False"
  "is_ok (Inr x) = True"
  by (simp_all add: is_ok_def)

lemma ok_simps [simp, result_simps]:
  "ok (Inl e) = None"
  "ok (Inr x) = Some x"
  by (simp_all add: ok_def)

lemma rbind_eq_Inr [simp]: "rbind m f = Inr y \<longleftrightarrow> (\<exists>x. m = Inr x \<and> f x = Inr y)"
  by (cases m) simp_all

lemma rbind_eq_Inl:
  "rbind m f = Inl e \<longleftrightarrow> m = Inl e \<or> (\<exists>x. m = Inr x \<and> f x = Inl e)"
  by (cases m) auto

lemma map_err_eq_Inr [simp]: "map_err g m = Inr y \<longleftrightarrow> m = Inr y"
  by (cases m) simp_all

lemma map_err_eq_Inl: "map_err g m = Inl e \<longleftrightarrow> (\<exists>e'. m = Inl e' \<and> e = g e')"
  by (cases m) auto

lemma map_ok_eq_Inr [simp]: "map_ok g m = Inr y \<longleftrightarrow> (\<exists>x. m = Inr x \<and> y = g x)"
  by (cases m) auto

lemma map_ok_eq_Inl [simp]: "map_ok g m = Inl e \<longleftrightarrow> m = Inl e"
  by (cases m) simp_all

lemma ok_or_eq_Inr [simp]: "ok_or e m = Inr y \<longleftrightarrow> m = Some y"
  by (cases m) simp_all

lemma ok_or_eq_Inl [simp]: "ok_or e m = Inl e' \<longleftrightarrow> m = None \<and> e' = e"
  by (cases m) auto

lemma reject_if_eq_Inr [simp]: "reject_if b e = Inr u \<longleftrightarrow> \<not> b"
  by (cases b) simp_all

lemma reject_if_eq_Inl [simp]: "reject_if b e = Inl e' \<longleftrightarrow> b \<and> e' = e"
  by (cases b) auto

lemma is_ok_iff: "is_ok m \<longleftrightarrow> (\<exists>x. m = Inr x)"
  by (cases m) simp_all

lemma is_ok_rbind: "is_ok (rbind m f) \<longleftrightarrow> (\<exists>x. m = Inr x \<and> is_ok (f x))"
  by (cases m) simp_all

lemma is_ok_map_err [simp]: "is_ok (map_err g m) = is_ok m"
  by (cases m) simp_all

lemma is_ok_reject_if [simp]: "is_ok (reject_if b e) \<longleftrightarrow> \<not> b"
  by (cases b) simp_all

lemma rbind_assoc: "rbind (rbind m f) g = rbind m (\<lambda>x. rbind (f x) g)"
  by (cases m) simp_all

lemma rbind_cong [fundef_cong]:
  assumes "m = m'" and "\<And>x. m' = Inr x \<Longrightarrow> f x = f' x"
  shows "rbind m f = rbind m' f'"
  using assms by (cases m') auto

text \<open>Loops whose body may return early: over each element, and collecting the results.\<close>

fun try_each :: "('a \<Rightarrow> 'e + unit) \<Rightarrow> 'a list \<Rightarrow> 'e + unit" where
  "try_each f [] = Inr ()"
| "try_each f (x # xs) = rbind (f x) (\<lambda>_. try_each f xs)"

fun try_map :: "('a \<Rightarrow> 'e + 'b) \<Rightarrow> 'a list \<Rightarrow> 'e + 'b list" where
  "try_map f [] = Inr []"
| "try_map f (x # xs) = rbind (f x) (\<lambda>y. rbind (try_map f xs) (\<lambda>ys. Inr (y # ys)))"

lemma try_each_eq_Inr: "try_each f xs = Inr () \<longleftrightarrow> (\<forall>x \<in> set xs. f x = Inr ())"
  by (induction xs) auto

lemma is_ok_try_each: "is_ok (try_each f xs) \<longleftrightarrow> (\<forall>x \<in> set xs. is_ok (f x))"
  by (induction xs) (auto simp: is_ok_rbind is_ok_iff)

lemma try_each_append:
  "try_each f (xs @ ys) = rbind (try_each f xs) (\<lambda>_. try_each f ys)"
  by (induction xs) (simp_all add: rbind_assoc)

lemma try_each_cong [fundef_cong]:
  assumes "xs = ys" and "\<And>x. x \<in> set ys \<Longrightarrow> f x = g x"
  shows "try_each f xs = try_each g ys"
  using assms by (induction ys arbitrary: xs) auto

lemma try_map_eq_Inr:
  "try_map f xs = Inr ys \<longleftrightarrow> list_all2 (\<lambda>x y. f x = Inr y) xs ys"
  by (induction xs arbitrary: ys) (auto simp: list_all2_Cons1)

lemma try_map_length: "try_map f xs = Inr ys \<Longrightarrow> length ys = length xs"
  by (auto simp: try_map_eq_Inr dest: list_all2_lengthD)


text \<open>\<open>Iterator::find\<close> returns an element that satisfies the predicate.\<close>

lemma find_append_Some: "find P xs = Some x \<Longrightarrow> find P (xs @ ys) = Some x"
  by (induction xs) auto

lemma find_map_conv: "find P (map f xs) = map_option f (find (\<lambda>x. P (f x)) xs)"
  by (induction xs) simp_all

lemma find_SomeD: "find P xs = Some x \<Longrightarrow> x \<in> set xs \<and> P x"
  by (auto simp: find_Some_iff)


section \<open>Computations over a state\<close>

text \<open>A fallible computation that reads and changes a state \<^typ>\<open>'s\<close> (the randomness
  source, a store, the outside world).  The state survives an error, as it does in the
  program.\<close>

type_synonym ('s, 'e, 'a) comp = "'s \<Rightarrow> ('e + 'a) \<times> 's"

definition sbind :: "('s, 'e, 'a) comp \<Rightarrow> ('a \<Rightarrow> ('s, 'e, 'b) comp) \<Rightarrow> ('s, 'e, 'b) comp" where
  "sbind m f = (\<lambda>s. case m s of (Inl e, s') \<Rightarrow> (Inl e, s') | (Inr x, s') \<Rightarrow> f x s')"

definition sret :: "'a \<Rightarrow> ('s, 'e, 'a) comp" where
  "sret x = (\<lambda>s. (Inr x, s))"

definition slift :: "'e + 'a \<Rightarrow> ('s, 'e, 'a) comp" where
  "slift r = (\<lambda>s. (r, s))"

definition smap_err :: "('e \<Rightarrow> 'f) \<Rightarrow> ('s, 'e, 'a) comp \<Rightarrow> ('s, 'f, 'a) comp" where
  "smap_err g m = (\<lambda>s. case m s of (r, s') \<Rightarrow> (map_err g r, s'))"

lemma sret_apply [simp, result_simps]: "sret x s = (Inr x, s)"
  by (simp add: sret_def)

lemma slift_apply [simp, result_simps]: "slift r s = (r, s)"
  by (simp add: slift_def)

lemma sbind_eq_Inr:
  "sbind m f s = (Inr y, t) \<longleftrightarrow> (\<exists>x s'. m s = (Inr x, s') \<and> f x s' = (Inr y, t))"
  by (auto simp: sbind_def split: prod.splits sum.splits)

lemma sbind_cases:
  assumes "sbind m f s = (r, t)"
  obtains e where "m s = (Inl e, t)" "r = Inl e" | x u where "m s = (Inr x, u)" "f x u = (r, t)"
  using assms by (auto simp: sbind_def split: prod.splits sum.splits)

lemma smap_err_eq_Inr [simp]: "smap_err g m s = (Inr y, t) \<longleftrightarrow> m s = (Inr y, t)"
  by (auto simp: smap_err_def split: prod.splits)

lemma sbind_step [result_simps]:
  "m s = (Inl e, t) \<Longrightarrow> sbind m f s = (Inl e, t)"
  "m s = (Inr x, t) \<Longrightarrow> sbind m f s = f x t"
  by (simp_all add: sbind_def)

lemma sbind_slift [result_simps]:
  "sbind (slift r) f s = (case r of Inl e \<Rightarrow> (Inl e, s) | Inr x \<Rightarrow> f x s)"
  by (simp add: sbind_def slift_def)

lemma sbind_sret [simp, result_simps]: "sbind (sret x) f s = f x s"
  by (simp add: sbind_def sret_def)

text \<open>A computation on one half of a state with two parts.\<close>

definition on_fst :: "('s, 'e, 'a) comp \<Rightarrow> ('s \<times> 't, 'e, 'a) comp" where
  "on_fst m = (\<lambda>(s, t). case m s of (r, s') \<Rightarrow> (r, s', t))"

definition on_snd :: "('t, 'e, 'a) comp \<Rightarrow> ('s \<times> 't, 'e, 'a) comp" where
  "on_snd m = (\<lambda>(s, t). case m t of (r, t') \<Rightarrow> (r, s, t'))"

lemma on_fst_apply [simp, result_simps]: "on_fst m (s, t) = (case m s of (r, s') \<Rightarrow> (r, s', t))"
  by (simp add: on_fst_def)

lemma on_snd_apply [simp, result_simps]: "on_snd m (s, t) = (case m t of (r, t') \<Rightarrow> (r, s, t'))"
  by (simp add: on_snd_def)

text \<open>The operating system's randomness: a stream of answers to \<open>getrandom::fill\<close>, each of
  which fills a buffer of the requested length or fails.\<close>

type_synonym rng = "(nat \<Rightarrow> bytes option) stream"

definition getrandom_fill :: "nat \<Rightarrow> (rng, unit, bytes) comp" where
  "getrandom_fill n r = (ok_or () (shd r n), stl r)"

text \<open>What the crate documents: a successful call fills the whole buffer.\<close>

definition rng_fills :: "rng \<Rightarrow> bool" where
  "rng_fills r \<longleftrightarrow> (\<forall>f \<in> sset r. \<forall>n b. f n = Some b \<longrightarrow> length b = n)"

lemma getrandom_fill_length:
  assumes "getrandom_fill n r = (Inr b, r')" and "rng_fills r"
  shows "length b = n" and "rng_fills r'"
proof -
  from assms(1) have b: "shd r n = Some b" and r': "r' = stl r"
    by (auto simp: getrandom_fill_def)
  show "length b = n" using assms(2) b shd_sset [of r] by (auto simp: rng_fills_def)
  show "rng_fills r'" using assms(2) r' stl_sset [of _ r] by (auto simp: rng_fills_def)
qed

end
