(* ===== verification/Rust_Strings.thy ===== *)
theory Rust_Strings
  imports Prelude
begin

text \<open>
  The parts of Rust's string library that the sources call, on strings given as their UTF-8
  bytes: \<open>str::trim\<close> (Unicode white space), ASCII case folding, suffix tests, decimal
  printing of unsigned integers, conversion to and from bytes, and UTF-8 validation.
\<close>


section \<open>Trimming\<close>

text \<open>The encodings of the \<open>White_Space\<close> code points, by number of bytes.\<close>

definition ws1 :: "char \<Rightarrow> bool" where
  "ws1 a \<longleftrightarrow> (let n = (of_char a :: nat) in 9 \<le> n \<and> n \<le> 13 \<or> n = 32)"

definition ws2 :: "char \<Rightarrow> char \<Rightarrow> bool" where
  "ws2 a b \<longleftrightarrow> (of_char a :: nat) = 194 \<and> (of_char b :: nat) \<in> {133, 160}"

definition ws3 :: "char \<Rightarrow> char \<Rightarrow> char \<Rightarrow> bool" where
  "ws3 a b c \<longleftrightarrow>
    (let x = (of_char a :: nat); y = (of_char b :: nat); z = (of_char c :: nat) in
      x = 225 \<and> y = 154 \<and> z = 128 \<or>
      x = 226 \<and> y = 128 \<and> (128 \<le> z \<and> z \<le> 138 \<or> z = 168 \<or> z = 169 \<or> z = 175) \<or>
      x = 226 \<and> y = 129 \<and> z = 159 \<or>
      x = 227 \<and> y = 128 \<and> z = 128)"

text \<open>The length of the white-space character a string starts with (0 if none), and the same
  at its end, on the reversed string.\<close>

definition ws_len :: "string \<Rightarrow> nat" where
  "ws_len s =
    (case s of
      [] \<Rightarrow> 0
    | a # s1 \<Rightarrow> if ws1 a then 1 else
        (case s1 of
          [] \<Rightarrow> 0
        | b # s2 \<Rightarrow> if ws2 a b then 2 else
            (case s2 of [] \<Rightarrow> 0 | c # _ \<Rightarrow> if ws3 a b c then 3 else 0)))"

definition ws_len_rev :: "string \<Rightarrow> nat" where
  "ws_len_rev s =
    (case s of
      [] \<Rightarrow> 0
    | a # s1 \<Rightarrow> if ws1 a then 1 else
        (case s1 of
          [] \<Rightarrow> 0
        | b # s2 \<Rightarrow> if ws2 b a then 2 else
            (case s2 of [] \<Rightarrow> 0 | c # _ \<Rightarrow> if ws3 c b a then 3 else 0)))"

function strip_ws :: "(string \<Rightarrow> nat) \<Rightarrow> string \<Rightarrow> string" where
  "strip_ws len s = (if len s = 0 \<or> s = [] then s else strip_ws len (drop (len s) s))"
  by auto
termination
  by (relation "measure (\<lambda>(_, s). length s)") auto

declare strip_ws.simps [simp del]

definition str_trim :: "string \<Rightarrow> string" where
  "str_trim s = rev (strip_ws ws_len_rev (rev (strip_ws ws_len s)))"

lemma strip_ws_stop: "len s = 0 \<Longrightarrow> strip_ws len s = s"
  by (simp add: strip_ws.simps)

lemma strip_ws_stops: "strip_ws len s = [] \<or> len (strip_ws len s) = 0"
proof (induction len s rule: strip_ws.induct)
  case (1 len s)
  then show ?case
    by (cases "len s = 0 \<or> s = []") (auto simp: strip_ws.simps [of len s])
qed

lemma strip_ws_suffix: "\<exists>p. s = p @ strip_ws len s"
proof (induction len s rule: strip_ws.induct)
  case (1 len s)
  show ?case
  proof (cases "len s = 0 \<or> s = []")
    case True
    then show ?thesis by (simp add: strip_ws.simps [of len s])
  next
    case False
    then obtain p where "drop (len s) s = p @ strip_ws len (drop (len s) s)"
      using 1 by blast
    then have "s = (take (len s) s @ p) @ strip_ws len (drop (len s) s)"
      by (metis append.assoc append_take_drop_id)
    moreover from False have "strip_ws len s = strip_ws len (drop (len s) s)"
      by (simp add: strip_ws.simps [of len s])
    ultimately show ?thesis by metis
  qed
qed

lemma strip_ws_length: "length (strip_ws len s) \<le> length s"
proof -
  obtain p where "s = p @ strip_ws len s" using strip_ws_suffix by blast
  then have "length s = length p + length (strip_ws len s)"
    by (metis length_append)
  then show ?thesis by simp
qed

lemma str_trim_length: "length (str_trim s) \<le> length s"
  using strip_ws_length [of ws_len s] strip_ws_length [of ws_len_rev "rev (strip_ws ws_len s)"]
  by (simp add: str_trim_def)

text \<open>Text free of white space at both ends is left alone.\<close>

lemma str_trim_id: "ws_len s = 0 \<Longrightarrow> ws_len_rev (rev s) = 0 \<Longrightarrow> str_trim s = s"
  by (simp add: str_trim_def strip_ws_stop)

lemma str_trim_Nil [simp]: "str_trim [] = []"
  by (simp add: str_trim_id ws_len_def ws_len_rev_def)

text \<open>Bytes that neither are white space nor occur in the encoding of one.\<close>

definition plain_char :: "char \<Rightarrow> bool" where
  "plain_char c \<longleftrightarrow> (let n = (of_char c :: nat) in 33 \<le> n \<and> n < 128)"

lemma plain_char_not_ws:
  assumes "plain_char a"
  shows "\<not> ws1 a" and "\<not> ws2 a b" and "\<not> ws2 b a" and "\<not> ws3 a b c" and "\<not> ws3 b a c"
    and "\<not> ws3 b c a"
  using assms by (auto simp: plain_char_def ws1_def ws2_def ws3_def Let_def)

lemma ws_len_plain [simp]: "plain_char a \<Longrightarrow> ws_len (a # s) = 0"
  by (simp add: ws_len_def plain_char_not_ws split: list.splits)

lemma ws_len_rev_plain [simp]: "plain_char a \<Longrightarrow> ws_len_rev (a # s) = 0"
  by (simp add: ws_len_rev_def plain_char_not_ws split: list.splits)

lemma str_trim_plain:
  assumes "s \<noteq> []" "plain_char (hd s)" "plain_char (last s)"
  shows "str_trim s = s"
proof (rule str_trim_id)
  show "ws_len s = 0" using assms by (cases s) auto
  show "ws_len_rev (rev s) = 0" using assms by (cases s rule: rev_cases) auto
qed

lemma str_trim_all_plain: "\<forall>c \<in> set s. plain_char c \<Longrightarrow> str_trim s = s"
  by (cases "s = []") (auto intro!: str_trim_plain)


section \<open>ASCII case and suffixes\<close>

definition ascii_lower :: "char \<Rightarrow> char" where
  "ascii_lower c =
    (let n = (of_char c :: nat) in if 65 \<le> n \<and> n \<le> 90 then char_of (n + 32) else c)"

definition ascii_upper :: "char \<Rightarrow> char" where
  "ascii_upper c =
    (let n = (of_char c :: nat) in if 97 \<le> n \<and> n \<le> 122 then char_of (n - 32) else c)"

definition to_ascii_lowercase :: "string \<Rightarrow> string" where
  "to_ascii_lowercase s = map ascii_lower s"

definition to_ascii_uppercase :: "string \<Rightarrow> string" where
  "to_ascii_uppercase s = map ascii_upper s"

definition str_ends_with :: "string \<Rightarrow> string \<Rightarrow> bool" where
  "str_ends_with s t \<longleftrightarrow> length t \<le> length s \<and> drop (length s - length t) s = t"

definition str_starts_with :: "string \<Rightarrow> string \<Rightarrow> bool" where
  "str_starts_with s t \<longleftrightarrow> take (length t) s = t"

definition str_strip_prefix :: "string \<Rightarrow> string \<Rightarrow> string option" where
  "str_strip_prefix s t = (if str_starts_with s t then Some (drop (length t) s) else None)"

definition str_contains :: "string \<Rightarrow> string \<Rightarrow> bool" where
  "str_contains s t = list_ex (\<lambda>k. str_starts_with (drop k s) t) [0..<Suc (length s)]"

lemma str_contains_iff: "str_contains s t \<longleftrightarrow> (\<exists>p q. s = p @ t @ q)"
proof
  assume "str_contains s t"
  then obtain k where "take (length t) (drop k s) = t"
    by (auto simp: str_contains_def list_ex_iff str_starts_with_def)
  then have "s = take k s @ t @ drop (length t) (drop k s)" by (metis append_take_drop_id)
  then show "\<exists>p q. s = p @ t @ q" by blast
next
  assume "\<exists>p q. s = p @ t @ q"
  then obtain p q where s: "s = p @ t @ q" by blast
  then have "str_starts_with (drop (length p) s) t" by (simp add: str_starts_with_def)
  moreover have "length p < Suc (length s)" by (simp add: s)
  ultimately show "str_contains s t"
    unfolding str_contains_def list_ex_iff by (intro bexI [of _ "length p"]) auto
qed

lemma str_strip_prefix_append [simp]: "str_strip_prefix (t @ s) t = Some s"
  by (simp add: str_strip_prefix_def str_starts_with_def)

lemma ascii_lower_idem [simp]: "ascii_lower (ascii_lower c) = ascii_lower c"
  by (auto simp: ascii_lower_def Let_def)

lemma to_ascii_lowercase_idem [simp]:
  "to_ascii_lowercase (to_ascii_lowercase s) = to_ascii_lowercase s"
  by (simp add: to_ascii_lowercase_def)

lemma to_ascii_lowercase_length [simp]: "length (to_ascii_lowercase s) = length s"
  by (simp add: to_ascii_lowercase_def)

lemma to_ascii_uppercase_length [simp]: "length (to_ascii_uppercase s) = length s"
  by (simp add: to_ascii_uppercase_def)

lemma str_ends_with_iff: "str_ends_with s t \<longleftrightarrow> (\<exists>p. s = p @ t)"
  by (auto simp: str_ends_with_def) (metis append_take_drop_id)


text \<open>Keys in snake case are what they are compared as.\<close>

definition snake_case :: "string \<Rightarrow> bool" where
  "snake_case k \<longleftrightarrow> list_all (\<lambda>c. let n = (of_char c :: nat) in n = 95 \<or> 97 \<le> n \<and> n \<le> 122) k"

lemma snake_case_compared:
  assumes "snake_case k"
  shows "to_ascii_lowercase (str_trim k) = k"
proof -
  have "str_trim k = k"
    using assms by (intro str_trim_all_plain) (auto simp: snake_case_def list_all_iff plain_char_def Let_def)
  moreover have "to_ascii_lowercase k = k"
    unfolding to_ascii_lowercase_def
    using assms by (intro map_idI) (auto simp: snake_case_def list_all_iff ascii_lower_def Let_def)
  ultimately show ?thesis by simp
qed


section \<open>Decimal printing\<close>

fun dec_digits :: "nat \<Rightarrow> string" where
  "dec_digits n = (if n < 10 then [char_of (48 + n)]
    else dec_digits (n div 10) @ [char_of (48 + n mod 10)])"

declare dec_digits.simps [simp del]

definition u32_to_string :: "u32 \<Rightarrow> string" where
  "u32_to_string v = dec_digits (unat v)"

fun dec_value :: "string \<Rightarrow> nat" where
  "dec_value [] = 0"
| "dec_value (c # s) = (of_char c - 48) * 10 ^ length s + dec_value s"

lemma dec_value_append: "dec_value (s @ t) = dec_value s * 10 ^ length t + dec_value t"
  by (induction s) (simp_all add: algebra_simps power_add)

lemma dec_value_digits: "dec_value (dec_digits n) = n"
proof (induction n rule: dec_digits.induct)
  case (1 n)
  show ?case
  proof (cases "n < 10")
    case True
    then show ?thesis by (simp add: dec_digits.simps [of n])
  next
    case False
    have "n mod 10 < 10" by simp
    with 1 False show ?thesis
      by (simp add: dec_digits.simps [of n] dec_value_append)
  qed
qed

lemma dec_digits_inj: "dec_digits m = dec_digits n \<Longrightarrow> m = n"
  by (metis dec_value_digits)

lemma u32_to_string_inj: "u32_to_string v = u32_to_string w \<Longrightarrow> v = w"
  by (auto simp: u32_to_string_def word_unat_eq_iff dest: dec_digits_inj)


section \<open>Bytes\<close>

definition str_bytes :: "string \<Rightarrow> bytes" where
  "str_bytes s = map of_char s"

definition bytes_str :: "bytes \<Rightarrow> string" where
  "bytes_str b = map (\<lambda>w. char_of (unat w)) b"

lemma bytes_str_str_bytes [simp]: "bytes_str (str_bytes s) = s"
proof -
  have "unat (of_char c :: u8) = of_char c" for c :: char
  proof -
    have "(of_char c :: u8) = of_nat (of_char c :: nat)" by (simp add: of_nat_of_char)
    then have "unat (of_char c :: u8) = (of_char c :: nat) mod 2 ^ LENGTH(8)"
      by (simp only: unat_of_nat)
    then show ?thesis by simp
  qed
  then show ?thesis by (simp add: bytes_str_def str_bytes_def o_def)
qed

lemma str_bytes_length [simp]: "length (str_bytes s) = length s"
  by (simp add: str_bytes_def)

lemma str_bytes_inj [simp]: "str_bytes s = str_bytes t \<longleftrightarrow> s = t"
  by (metis bytes_str_str_bytes)

text \<open>\<open>std::str::from_utf8\<close> accepts exactly the well-formed byte sequences of the Unicode
  standard.\<close>

definition utf8_cont :: "u8 \<Rightarrow> bool" where
  "utf8_cont b \<longleftrightarrow> 0x80 \<le> b \<and> b \<le> 0xBF"

fun utf8_valid :: "bytes \<Rightarrow> bool" where
  "utf8_valid [] = True"
| "utf8_valid (a # s) =
    (if a \<le> 0x7F then utf8_valid s else
      (case s of
        [] \<Rightarrow> False
      | b # s1 \<Rightarrow>
        if 0xC2 \<le> a \<and> a \<le> 0xDF then utf8_cont b \<and> utf8_valid s1 else
          (case s1 of
            [] \<Rightarrow> False
          | c # s2 \<Rightarrow>
            if 0xE0 \<le> a \<and> a \<le> 0xEF then
              (if a = 0xE0 then 0xA0 \<le> b \<and> b \<le> 0xBF
               else if a = 0xED then 0x80 \<le> b \<and> b \<le> 0x9F else utf8_cont b) \<and>
              utf8_cont c \<and> utf8_valid s2
            else
              (case s2 of
                [] \<Rightarrow> False
              | d # s3 \<Rightarrow>
                0xF0 \<le> a \<and> a \<le> 0xF4 \<and>
                (if a = 0xF0 then 0x90 \<le> b \<and> b \<le> 0xBF
                 else if a = 0xF4 then 0x80 \<le> b \<and> b \<le> 0x8F else utf8_cont b) \<and>
                utf8_cont c \<and> utf8_cont d \<and> utf8_valid s3))))"

definition str_from_utf8 :: "bytes \<Rightarrow> string option" where
  "str_from_utf8 b = (if utf8_valid b then Some (bytes_str b) else None)"

lemma utf8_valid_ascii: "\<forall>b \<in> set s. b \<le> 0x7F \<Longrightarrow> utf8_valid s"
  by (induction s) simp_all

end
