(* ===== verification/Ordered_Maps.thy ===== *)
theory Ordered_Maps
  imports Prelude
begin

text \<open>
  \<open>BTreeMap\<close> as a list of entries sorted by key.  The interface \<open>ordered_map\<close> states what the
  sources rely on (what a lookup returns after an insertion), and carries the lemmas on maps
  built by repeated insertion; it is interpreted on the sorted lists below.
\<close>

fun bt_insert :: "'k::linorder \<Rightarrow> 'v \<Rightarrow> ('k \<times> 'v) list \<Rightarrow> ('k \<times> 'v) list" where
  "bt_insert k v [] = [(k, v)]"
| "bt_insert k v ((k', v') # m) =
    (if k < k' then (k, v) # (k', v') # m
     else if k = k' then (k, v) # m
     else (k', v') # bt_insert k v m)"

definition bt_get :: "('k \<times> 'v) list \<Rightarrow> 'k \<Rightarrow> 'v option" where
  "bt_get m k = map_of m k"

definition bt_keys :: "('k \<times> 'v) list \<Rightarrow> 'k list" where
  "bt_keys m = map fst m"

definition bt_wf :: "('k::linorder \<times> 'v) list \<Rightarrow> bool" where
  "bt_wf m \<longleftrightarrow> sorted_wrt (<) (map fst m)"

definition bt_of_list :: "('k::linorder \<times> 'v) list \<Rightarrow> ('k \<times> 'v) list" where
  "bt_of_list kvs = fold (\<lambda>(k, v). bt_insert k v) kvs []"

lemma map_of_rev_distinct: "distinct (map fst kvs) \<Longrightarrow> map_of (rev kvs) = map_of kvs"
proof (induction kvs)
  case Nil
  then show ?case by simp
next
  case (Cons kv kvs)
  obtain a b where kv: "kv = (a, b)" by (cases kv)
  from Cons have "map_of kvs a = None" by (auto simp: kv map_of_eq_None_iff image_iff)
  with Cons show ?case by (auto simp: kv map_add_def fun_eq_iff split: option.splits)
qed

locale ordered_map =
  fixes empty :: "'m"
    and insert :: "'k \<Rightarrow> 'v \<Rightarrow> 'm \<Rightarrow> 'm"
    and get :: "'m \<Rightarrow> 'k \<Rightarrow> 'v option"
    and entries :: "'m \<Rightarrow> ('k \<times> 'v) list"
    and invar :: "'m \<Rightarrow> bool"
  assumes get_empty: "get empty k = None"
    and get_insert: "invar m \<Longrightarrow> get (insert k v m) k' = (if k' = k then Some v else get m k')"
    and entries_iff: "invar m \<Longrightarrow> (k, v) \<in> set (entries m) \<longleftrightarrow> get m k = Some v"
    and invar_empty: "invar empty"
    and invar_insert: "invar m \<Longrightarrow> invar (insert k v m)"
begin

lemma invar_fold: "invar m \<Longrightarrow> invar (fold (\<lambda>(k, v). insert k v) kvs m)"
  by (induction kvs arbitrary: m) (auto simp: invar_insert)

lemma get_fold:
  "invar m \<Longrightarrow> get (fold (\<lambda>(k, v). insert k v) kvs m) k =
    (case map_of (rev kvs) k of Some v \<Rightarrow> Some v | None \<Rightarrow> get m k)"
proof (induction kvs arbitrary: m)
  case Nil
  then show ?case by simp
next
  case (Cons kv kvs)
  obtain a b where kv: "kv = (a, b)" by (cases kv)
  have "invar (insert a b m)" using Cons.prems by (rule invar_insert)
  from Cons.IH [OF this] Cons.prems kv show ?case
    by (auto simp: get_insert map_add_def split: option.splits)
qed

lemma get_fold_empty:
  "get (fold (\<lambda>(k, v). insert k v) kvs empty) k = map_of (rev kvs) k"
  using get_fold [OF invar_empty, of kvs k] by (simp add: get_empty split: option.splits)

lemma get_fold_distinct:
  "distinct (map fst kvs) \<Longrightarrow>
    get (fold (\<lambda>(k, v). insert k v) kvs empty) k = map_of kvs k"
  by (simp add: get_fold_empty map_of_rev_distinct)

lemma entries_insert:
  "invar m \<Longrightarrow> set (entries (insert k v m)) = {kv \<in> set (entries m). fst kv \<noteq> k} \<union> {(k, v)}"
  using entries_iff [of m] entries_iff [OF invar_insert, of m]
  by (auto simp: get_insert split: if_splits)

end

lemma bt_insert_keys: "set (map fst (bt_insert k v m)) = Set.insert k (set (map fst m))"
  by (induction k v m rule: bt_insert.induct) auto

lemma bt_wf_Nil [simp]: "bt_wf []"
  by (simp add: bt_wf_def)

lemma bt_wf_Cons: "bt_wf ((k, v) # m) \<longleftrightarrow> (\<forall>k' \<in> fst ` set m. k < k') \<and> bt_wf m"
  by (auto simp: bt_wf_def)

lemma bt_wf_insert: "bt_wf m \<Longrightarrow> bt_wf (bt_insert k v m)"
proof (induction k v m rule: bt_insert.induct)
  case (1 k v)
  then show ?case by (simp add: bt_wf_def)
next
  case (2 k v k' v' m)
  then show ?case
    using bt_insert_keys [of k v m] by (auto simp: bt_wf_Cons)
qed

lemma bt_wf_distinct: "bt_wf m \<Longrightarrow> distinct (map fst m)"
  by (simp add: bt_wf_def strict_sorted_iff)

lemma bt_get_insert: "bt_get (bt_insert k v m) k' = (if k' = k then Some v else bt_get m k')"
  by (induction k v m rule: bt_insert.induct) (auto simp: bt_get_def)

interpretation bt: ordered_map "[]" bt_insert bt_get "\<lambda>m. m" bt_wf
proof unfold_locales
  show "bt_get [] k = None" for k :: 'a by (simp add: bt_get_def)
  show "bt_get (bt_insert k v m) k' = (if k' = k then Some v else bt_get m k')"
    if "bt_wf m" for m :: "('a \<times> 'b) list" and k v k'
    by (rule bt_get_insert)
  show "(k, v) \<in> set m \<longleftrightarrow> bt_get m k = Some v" if "bt_wf m"
    for m :: "('a \<times> 'b) list" and k v
    using bt_wf_distinct [OF that] by (simp add: bt_get_def)
  show "bt_wf []" by simp
  show "bt_wf (bt_insert k v m)" if "bt_wf m" for m :: "('a \<times> 'b) list" and k v
    using that by (rule bt_wf_insert)
qed

lemma bt_of_list_wf: "bt_wf (bt_of_list kvs)"
  unfolding bt_of_list_def by (rule bt.invar_fold) simp

lemma bt_get_of_list: "distinct (map fst kvs) \<Longrightarrow> bt_get (bt_of_list kvs) k = map_of kvs k"
  unfolding bt_of_list_def by (rule bt.get_fold_distinct)

lemma bt_keys_of_list: "set (bt_keys (bt_of_list kvs)) = fst ` set kvs"
proof -
  have "set (map fst (fold (\<lambda>(k, v). bt_insert k v) kvs m)) = fst ` set kvs \<union> fst ` set m" for m
    by (induction kvs arbitrary: m) (simp_all add: bt_insert_keys [simplified] case_prod_unfold)
  from this [of "[]"] show ?thesis by (simp add: bt_keys_def bt_of_list_def)
qed

text \<open>A sorted map is determined by its lookups.\<close>

lemma bt_eqI:
  assumes "bt_wf a" "bt_wf b" "\<And>k. bt_get a k = bt_get b k"
  shows "a = b"
proof -
  have entries: "m = map (\<lambda>k. (k, the (bt_get m k))) (map fst m)"
    if "bt_wf m" for m :: "('a \<times> 'b) list"
    using bt_wf_distinct [OF that] by (auto simp: bt_get_def intro!: map_idI [symmetric])
  have "set (map fst a) = set (map fst b)"
    using assms(3) unfolding bt_get_def
    by (metis (no_types, opaque_lifting) map_of_eq_None_iff set_eqI set_map)
  with assms(1,2) have "map fst a = map fst b"
    unfolding bt_wf_def by (intro strict_sorted_equal) simp_all
  with entries [OF assms(1)] entries [OF assms(2)] show ?thesis
    using assms(3) by simp
qed

end
