(* ===== verification/Crates.thy ===== *)
theory Crates
  imports Rust_Strings Ordered_Maps
begin

text \<open>
  The third-party crates the sources call, as one record of functions that every definition
  using them takes as an argument, and the documented behaviour of those crates as named
  predicates on the record.  JSON values are the data type of \<open>serde_json\<close>; its objects are
  \<open>BTreeMap\<close>s, that is, entry lists sorted by key.
\<close>


section \<open>Data of the crates\<close>

type_synonym uuid = "128 word"

text \<open>An instant (nanoseconds since the epoch) and a UTC offset (seconds).\<close>

type_synonym datetime = "int \<times> int"

datatype number = PosInt u64 | NegInt int | Float u64

datatype json =
    JNull
  | JBool bool
  | JNumber number
  | JString string
  | JArray "json list"
  | JObject "(string \<times> json) list"

definition as_u64 :: "number \<Rightarrow> u64 option" where
  "as_u64 n = (case n of PosInt v \<Rightarrow> Some v | _ \<Rightarrow> None)"

definition as_str :: "json \<Rightarrow> string option" where
  "as_str v = (case v of JString s \<Rightarrow> Some s | _ \<Rightarrow> None)"

definition as_object :: "json \<Rightarrow> (string \<times> json) list option" where
  "as_object v = (case v of JObject m \<Rightarrow> Some m | _ \<Rightarrow> None)"

text \<open>A number literal of an unsigned Rust integer, and the object that \<open>json!\<close> builds.\<close>

definition json_uint :: "'a::len word \<Rightarrow> json" where
  "json_uint v = JNumber (PosInt (ucast v))"

definition json_object :: "(string \<times> json) list \<Rightarrow> json" where
  "json_object kvs = JObject (bt_of_list kvs)"


section \<open>Functions of the crates\<close>

record crates =
  uuid_parse_str :: "string \<Rightarrow> uuid option"
  uuid_hyphenated :: "uuid \<Rightarrow> string"
  uuid_is_v4 :: "uuid \<Rightarrow> bool"
  uuid_from_random_bytes :: "bytes \<Rightarrow> uuid"
  json_to_string :: "json \<Rightarrow> string + string"
  json_from_str :: "string \<Rightarrow> string + json"
  json_number_to_string :: "number \<Rightarrow> string"
  rfc3339_parse :: "string \<Rightarrow> datetime option"
  rfc3339_format :: "datetime \<Rightarrow> string + string"
  dt_offset_is_utc :: "datetime \<Rightarrow> bool"
  dt_to_utc :: "datetime \<Rightarrow> datetime"
  aead_key_ok :: "bytes \<Rightarrow> bool"
  aead_encrypt :: "bytes \<Rightarrow> bytes \<Rightarrow> bytes \<Rightarrow> bytes \<Rightarrow> bytes option"
  aead_decrypt :: "bytes \<Rightarrow> bytes \<Rightarrow> bytes \<Rightarrow> bytes \<Rightarrow> bytes option"
  sha256 :: "bytes \<Rightarrow> bytes"
  hmac_sha3_256 :: "bytes \<Rightarrow> bytes \<Rightarrow> bytes option"
  hex_encode :: "bytes \<Rightarrow> string"
  hex_decode :: "string \<Rightarrow> bytes option"
  ed25519_public_key :: "bytes \<Rightarrow> bytes"
  ed25519_public_key_ok :: "bytes \<Rightarrow> bool"
  ed25519_sign :: "bytes \<Rightarrow> bytes \<Rightarrow> bytes"
  ed25519_verify :: "bytes \<Rightarrow> bytes \<Rightarrow> bytes \<Rightarrow> bool"


section \<open>Documented behaviour\<close>

text \<open>\<open>uuid\<close>: parsing reads the hyphenated form back; random bytes give a version 4 value.\<close>

definition uuid_laws :: "crates \<Rightarrow> bool" where
  "uuid_laws C \<longleftrightarrow>
    (\<forall>u. uuid_parse_str C (uuid_hyphenated C u) = Some u) \<and>
    (\<forall>u. length (uuid_hyphenated C u) = 36) \<and>
    (\<forall>b. uuid_is_v4 C (uuid_from_random_bytes C b))"

text \<open>\<open>serde_json\<close>: the text of a document determines it, field order included, and a value
  whose objects are sorted maps is read back from its text.  Both are stated for values free
  of floating-point numbers, whose text is rounded.\<close>

fun json_exact :: "json \<Rightarrow> bool" where
  "json_exact (JNumber (PosInt _)) = True"
| "json_exact (JNumber (NegInt i)) \<longleftrightarrow> - (2 ^ 63) \<le> i \<and> i < 0"
| "json_exact (JNumber (Float _)) = False"
| "json_exact (JArray xs) = list_all json_exact xs"
| "json_exact (JObject kvs) = list_all (\<lambda>(_, v). json_exact v) kvs"
| "json_exact _ = True"

fun json_sorted :: "json \<Rightarrow> bool" where
  "json_sorted (JArray xs) = list_all json_sorted xs"
| "json_sorted (JObject kvs) \<longleftrightarrow> bt_wf kvs \<and> list_all (\<lambda>(_, v). json_sorted v) kvs"
| "json_sorted _ = True"

definition json_laws :: "crates \<Rightarrow> bool" where
  "json_laws C \<longleftrightarrow>
    (\<forall>v w s. json_exact v \<longrightarrow> json_exact w \<longrightarrow> json_to_string C v = Inr s \<longrightarrow>
      json_to_string C w = Inr s \<longrightarrow> v = w) \<and>
    (\<forall>v s. json_exact v \<longrightarrow> json_sorted v \<longrightarrow> json_to_string C v = Inr s \<longrightarrow>
      json_from_str C s = Inr v)"

text \<open>The compact text is UTF-8, not blank, and has no control characters, which are escaped
  within strings.\<close>

definition json_line_laws :: "crates \<Rightarrow> bool" where
  "json_line_laws C \<longleftrightarrow>
    (\<forall>v s. json_to_string C v = Inr s \<longrightarrow>
      utf8_valid (str_bytes s) \<and> str_trim s \<noteq> [] \<and> (\<forall>c \<in> set s. 32 \<le> (of_char c :: nat)))"

text \<open>\<open>time\<close>: a UTC date-time formats to digits, separators and a final \<open>Z\<close>, and is read back.\<close>

definition rfc3339_chars :: string where
  "rfc3339_chars = ''0123456789-:.T''"

definition rfc3339_text :: "string \<Rightarrow> bool" where
  "rfc3339_text s \<longleftrightarrow> (\<exists>p. s = p @ ''Z'' \<and> set p \<subseteq> set rfc3339_chars)"

definition time_laws :: "crates \<Rightarrow> bool" where
  "time_laws C \<longleftrightarrow>
    (\<forall>d. dt_offset_is_utc C (dt_to_utc C d)) \<and>
    (\<forall>d. dt_offset_is_utc C d \<longrightarrow> dt_to_utc C d = d) \<and>
    (\<forall>d s. dt_offset_is_utc C d \<longrightarrow> rfc3339_format C d = Inr s \<longrightarrow>
      rfc3339_text s \<and> rfc3339_parse C s = Some d)"

text \<open>\<open>chacha20poly1305\<close>: keys have 32 bytes, the tag adds 16 bytes, and decryption under the
  same key, nonce and associated data inverts encryption.\<close>

definition aead_laws :: "crates \<Rightarrow> bool" where
  "aead_laws C \<longleftrightarrow>
    (\<forall>k. aead_key_ok C k \<longleftrightarrow> length k = 32) \<and>
    (\<forall>k n a m c. aead_encrypt C k n a m = Some c \<longrightarrow>
      length c = length m + 16 \<and> aead_decrypt C k n a c = Some m)"

text \<open>\<open>hex\<close>: decoding inverts encoding, which yields two lower-case digits per byte.\<close>

definition hex_digits :: string where
  "hex_digits = ''0123456789abcdef''"

definition hex_laws :: "crates \<Rightarrow> bool" where
  "hex_laws C \<longleftrightarrow>
    (\<forall>b. hex_decode C (hex_encode C b) = Some b) \<and>
    (\<forall>b. length (hex_encode C b) = 2 * length b) \<and>
    (\<forall>b. set (hex_encode C b) \<subseteq> set hex_digits)"

text \<open>\<open>ed25519-dalek\<close>: a signature verifies under the signer's public key.  \<open>sha2\<close>: digests have
  32 bytes.\<close>

definition ed25519_laws :: "crates \<Rightarrow> bool" where
  "ed25519_laws C \<longleftrightarrow>
    (\<forall>k m. length (ed25519_sign C k m) = 64) \<and>
    (\<forall>k. ed25519_public_key_ok C (ed25519_public_key C k)) \<and>
    (\<forall>k m. ed25519_verify C (ed25519_public_key C k) m (ed25519_sign C k m))"

definition sha256_laws :: "crates \<Rightarrow> bool" where
  "sha256_laws C \<longleftrightarrow> (\<forall>m. length (sha256 C m) = 32)"

lemma time_lawsD:
  assumes "time_laws C"
  shows "dt_offset_is_utc C (dt_to_utc C d)"
    and "dt_offset_is_utc C d \<Longrightarrow> dt_to_utc C d = d"
    and "dt_offset_is_utc C d \<Longrightarrow> rfc3339_format C d = Inr s \<Longrightarrow> rfc3339_text s"
    and "dt_offset_is_utc C d \<Longrightarrow> rfc3339_format C d = Inr s \<Longrightarrow>
      rfc3339_parse C s = Some d"
  using assms unfolding time_laws_def by blast+

lemma aead_lawsD:
  assumes "aead_laws C"
  shows "aead_key_ok C k \<longleftrightarrow> length k = 32"
    and "aead_encrypt C k n a m = Some c \<Longrightarrow> length c = length m + 16"
    and "aead_encrypt C k n a m = Some c \<Longrightarrow> aead_decrypt C k n a c = Some m"
  using assms unfolding aead_laws_def by blast+

lemma uuid_hyphenated_inj:
  "uuid_laws C \<Longrightarrow> uuid_hyphenated C u = uuid_hyphenated C v \<longleftrightarrow> u = v"
  unfolding uuid_laws_def by (metis option.inject)

lemma json_lawsD:
  assumes "json_laws C"
  shows "json_exact v \<Longrightarrow> json_exact w \<Longrightarrow> json_to_string C v = Inr s \<Longrightarrow>
      json_to_string C w = Inr s \<Longrightarrow> v = w"
    and "json_exact v \<Longrightarrow> json_sorted v \<Longrightarrow> json_to_string C v = Inr s \<Longrightarrow>
      json_from_str C s = Inr v"
  using assms unfolding json_laws_def by blast+

lemma json_exact_uint [simp]: "json_exact (json_uint v)"
  by (simp add: json_uint_def)

lemma json_sorted_uint [simp]: "json_sorted (json_uint v)"
  by (simp add: json_uint_def)

lemma json_uint_inj_u32: "json_uint (v :: u32) = json_uint (w :: u32) \<longleftrightarrow> v = w"
  by (auto simp: json_uint_def dest: arg_cong [where f = "try_from_word :: u64 \<Rightarrow> u32 option"])

lemma json_uint_inj_u64: "json_uint (v :: u64) = json_uint (w :: u64) \<longleftrightarrow> v = w"
  by (simp add: json_uint_def)

lemma rfc3339_format_inj:
  assumes "time_laws C" "dt_offset_is_utc C d" "dt_offset_is_utc C e"
    and "rfc3339_format C d = Inr s" "rfc3339_format C e = Inr s"
  shows "d = e"
  using assms unfolding time_laws_def by (metis option.inject)

lemma rfc3339_plain: "c \<in> set rfc3339_chars \<Longrightarrow> plain_char c"
  by (auto simp: plain_char_def rfc3339_chars_def)

lemma rfc3339_text_trim:
  assumes "rfc3339_text s"
  shows "str_trim s = s"
proof (rule str_trim_all_plain)
  from assms obtain p where s: "s = p @ ''Z''" and p: "set p \<subseteq> set rfc3339_chars"
    by (auto simp: rfc3339_text_def)
  have "plain_char CHR ''Z''" by (simp add: plain_char_def)
  with p rfc3339_plain show "\<forall>c \<in> set s. plain_char c" unfolding s by auto
qed

lemma hex_encode_inj: "hex_laws C \<Longrightarrow> hex_encode C a = hex_encode C b \<longleftrightarrow> a = b"
  unfolding hex_laws_def by (metis option.inject)

end
