(* ===== verification/Errors.thy ===== *)
theory Errors
  imports Rust_Strings
begin

text \<open>
  The error enumerations of \<open>src/error.rs\<close> and \<open>src/alias/error.rs\<close>, their messages
  (the \<open>Display\<close> implementations) and the conversions that the \<open>?\<close> operator applies
  (the \<open>From\<close> implementations).
\<close>

datatype AadError =
    ExpectedJsonObject
  | MissingField string
  | UnexpectedField string
  | InvalidFieldType string string
  | UnsupportedAadVersion string
  | InvalidUuid string string
  | InvalidUuidVersion string string string
  | InvalidPositiveInteger string string
  | InvalidClassification
  | InvalidTimestamp string string
  | SerializationFailed string

fun AadError_display :: "AadError \<Rightarrow> string" where
  "AadError_display ExpectedJsonObject = ''aad_context must be a JSON object''"
| "AadError_display (MissingField field) = ''required field is missing: '' @ field"
| "AadError_display (UnexpectedField field) = ''unexpected field in aad_context: '' @ field"
| "AadError_display (InvalidFieldType field expected) =
    ''field '' @ field @ '' must be '' @ expected"
| "AadError_display (UnsupportedAadVersion value) = ''unsupported aad_version: '' @ value"
| "AadError_display (InvalidUuid field value) =
    ''field '' @ field @ '' must be a canonicalizable UUID: '' @ value"
| "AadError_display (InvalidUuidVersion field value expected) =
    ''field '' @ field @ '' must be a '' @ expected @ '' UUID: '' @ value"
| "AadError_display (InvalidPositiveInteger field value) =
    ''field '' @ field @ '' must be a positive integer: '' @ value"
| "AadError_display InvalidClassification =
    ''classification must not be empty or whitespace only''"
| "AadError_display (InvalidTimestamp field value) =
    ''field '' @ field @ '' must be a UTC RFC3339 timestamp: '' @ value"
| "AadError_display (SerializationFailed message) =
    ''failed to serialize canonical AAD: '' @ message"

datatype InputError =
    InvalidDeviceId
  | InvalidSecretAlias
  | SecretAliasTooLong nat
  | SecretAliasLooksLikeUuid
  | SecretVersionOverflow

fun InputError_display :: "InputError \<Rightarrow> string" where
  "InputError_display InvalidDeviceId = ''device_id must not be empty or whitespace only''"
| "InputError_display InvalidSecretAlias =
    ''secret alias must use only ASCII letters, digits, '' @ [CHR 0x27] @ ''.'' @ [CHR 0x27] @
    '', '' @ [CHR 0x27] @ ''_'' @ [CHR 0x27] @ '', or '' @ [CHR 0x27] @ ''-'' @ [CHR 0x27]"
| "InputError_display (SecretAliasTooLong maxlen) =
    ''secret alias must be at most '' @ dec_digits maxlen @ '' characters''"
| "InputError_display SecretAliasLooksLikeUuid = ''secret alias must not be a UUID v4''"
| "InputError_display SecretVersionOverflow = ''secret version cannot be incremented''"

datatype AliasInputError =
    AliasEmpty
  | AliasTooLong nat nat
  | DisallowedCharacter nat

fun AliasInputError_display :: "AliasInputError \<Rightarrow> string" where
  "AliasInputError_display AliasEmpty = ''alias must not be empty or whitespace only''"
| "AliasInputError_display (AliasTooLong actual maxlen) =
    ''alias must be at most '' @ dec_digits maxlen @ '' characters: actual '' @ dec_digits actual"
| "AliasInputError_display (DisallowedCharacter position) =
    ''alias contains disallowed character at position '' @ dec_digits position"

datatype JwtVerificationError =
    EmptyToken | InvalidToken | MissingKeyId | UnsupportedAlgorithm | KeyNotFound
  | InvalidSignature | Expired | InvalidIssuer | InvalidAudience | InvalidSubject
  | InvalidJwks | MalformedClaims

fun JwtVerificationError_display :: "JwtVerificationError \<Rightarrow> string" where
  "JwtVerificationError_display EmptyToken = ''jwt must not be empty or whitespace only''"
| "JwtVerificationError_display InvalidToken = ''jwt is invalid''"
| "JwtVerificationError_display MissingKeyId = ''jwt header is missing kid''"
| "JwtVerificationError_display UnsupportedAlgorithm = ''jwt algorithm is not supported''"
| "JwtVerificationError_display KeyNotFound = ''matching jwks key was not found''"
| "JwtVerificationError_display InvalidSignature = ''jwt signature is invalid''"
| "JwtVerificationError_display Expired = ''jwt is expired''"
| "JwtVerificationError_display InvalidIssuer = ''jwt issuer is invalid''"
| "JwtVerificationError_display InvalidAudience = ''jwt audience is invalid''"
| "JwtVerificationError_display InvalidSubject = ''jwt subject is invalid''"
| "JwtVerificationError_display InvalidJwks = ''jwks is invalid''"
| "JwtVerificationError_display MalformedClaims = ''jwt claims are malformed''"

datatype CryptoError =
    InvalidDataKeyLength nat
  | InvalidMasterKeyLength nat
  | InvalidAliasEncryptionKeyLength nat
  | InvalidAliasFingerprintKeyLength nat
  | InvalidAliasFingerprintLength nat
  | InvalidNonceLength nat
  | InvalidKeyVersion u32
  | UnsupportedAliasFingerprintSchemaVersion u32
  | InvalidEncryptedDataKeyLength nat
  | UnsupportedEncryptedDataKeyVersion u8
  | EmptyCiphertext
  | RandomnessUnavailable
  | AadFailed
  | EncryptionFailed
  | DecryptionFailed
  | FingerprintComputationFailed
  | KeyWrapFailed
  | KeyUnwrapFailed

fun CryptoError_display :: "CryptoError \<Rightarrow> string" where
  "CryptoError_display (InvalidDataKeyLength actual) =
    ''data key must be 32 bytes: actual length '' @ dec_digits actual"
| "CryptoError_display (InvalidMasterKeyLength actual) =
    ''master key must be 32 bytes: actual length '' @ dec_digits actual"
| "CryptoError_display (InvalidAliasEncryptionKeyLength actual) =
    ''alias encryption key must be 32 bytes: actual length '' @ dec_digits actual"
| "CryptoError_display (InvalidAliasFingerprintKeyLength actual) =
    ''alias fingerprint key must be 32 bytes: actual length '' @ dec_digits actual"
| "CryptoError_display (InvalidAliasFingerprintLength actual) =
    ''alias fingerprint must be 32 bytes: actual length '' @ dec_digits actual"
| "CryptoError_display (InvalidNonceLength actual) =
    ''nonce must be 24 bytes: actual length '' @ dec_digits actual"
| "CryptoError_display (InvalidKeyVersion value) =
    ''key version must be positive: actual value '' @ u32_to_string value"
| "CryptoError_display (UnsupportedAliasFingerprintSchemaVersion value) =
    ''unsupported alias fingerprint schema version: '' @ u32_to_string value"
| "CryptoError_display (InvalidEncryptedDataKeyLength actual) =
    ''encrypted data key envelope has invalid length: actual length '' @ dec_digits actual"
| "CryptoError_display (UnsupportedEncryptedDataKeyVersion version) =
    ''unsupported encrypted data key envelope version: '' @ dec_digits (unat version)"
| "CryptoError_display EmptyCiphertext = ''ciphertext must not be empty''"
| "CryptoError_display RandomnessUnavailable = ''cryptographic randomness is unavailable''"
| "CryptoError_display AadFailed = ''failed to build canonical AAD''"
| "CryptoError_display EncryptionFailed = ''encryption failed''"
| "CryptoError_display DecryptionFailed = ''decryption failed''"
| "CryptoError_display FingerprintComputationFailed = ''alias fingerprint computation failed''"
| "CryptoError_display KeyWrapFailed = ''data key wrapping failed''"
| "CryptoError_display KeyUnwrapFailed = ''data key unwrapping failed''"

definition CryptoError_from_AadError :: "AadError \<Rightarrow> CryptoError" where
  "CryptoError_from_AadError e = AadFailed"

datatype KeyringError =
    KeyringEmpty
  | DuplicateKeyVersion u32
  | ActiveKeyMissing u32
  | KeyUnavailable u32

fun KeyringError_display :: "KeyringError \<Rightarrow> string" where
  "KeyringError_display KeyringEmpty = ''master keyring must not be empty''"
| "KeyringError_display (DuplicateKeyVersion key_version) =
    ''duplicate master key version: '' @ u32_to_string key_version"
| "KeyringError_display (ActiveKeyMissing key_version) =
    ''active master key version is not present: '' @ u32_to_string key_version"
| "KeyringError_display (KeyUnavailable key_version) =
    ''master key version is unavailable: '' @ u32_to_string key_version"

datatype SecretWriteError =
    SecretWrite_Input InputError
  | SecretWrite_Aad AadError
  | SecretWrite_Crypto CryptoError
  | SecretWrite_Keyring KeyringError

fun SecretWriteError_display :: "SecretWriteError \<Rightarrow> string" where
  "SecretWriteError_display (SecretWrite_Input error) = InputError_display error"
| "SecretWriteError_display (SecretWrite_Aad error) = AadError_display error"
| "SecretWriteError_display (SecretWrite_Crypto error) = CryptoError_display error"
| "SecretWriteError_display (SecretWrite_Keyring error) = KeyringError_display error"

datatype AuthorizationError = OwnerMismatch | NotCurrentVersion | MissingAuditorRole

fun AuthorizationError_display :: "AuthorizationError \<Rightarrow> string" where
  "AuthorizationError_display OwnerMismatch = ''actor is not allowed to decrypt this secret''"
| "AuthorizationError_display NotCurrentVersion = ''requested secret version is not current''"
| "AuthorizationError_display MissingAuditorRole =
    ''actor is not allowed to read audit ui data''"

datatype DecryptIntegrityError = AadContextMismatch

fun DecryptIntegrityError_display :: "DecryptIntegrityError \<Rightarrow> string" where
  "DecryptIntegrityError_display AadContextMismatch =
    ''aad_context does not match row metadata''"

datatype SecretDecryptError =
    SecretDecrypt_Authorization AuthorizationError
  | SecretDecrypt_Aad AadError
  | SecretDecrypt_Crypto CryptoError
  | SecretDecrypt_Integrity DecryptIntegrityError
  | SecretDecrypt_Keyring KeyringError

fun SecretDecryptError_display :: "SecretDecryptError \<Rightarrow> string" where
  "SecretDecryptError_display (SecretDecrypt_Authorization error) =
    AuthorizationError_display error"
| "SecretDecryptError_display (SecretDecrypt_Aad error) = AadError_display error"
| "SecretDecryptError_display (SecretDecrypt_Crypto error) = CryptoError_display error"
| "SecretDecryptError_display (SecretDecrypt_Integrity error) =
    DecryptIntegrityError_display error"
| "SecretDecryptError_display (SecretDecrypt_Keyring error) = KeyringError_display error"

end
