(* ===== verification/Ids.thy ===== *)
theory Ids
  imports Crates Errors
begin

text \<open>
  Identifiers, versions, aliases and timestamps: \<open>src/types/ids.rs\<close>, \<open>src/types/time.rs\<close>
  and \<open>src/alias/input.rs\<close>.  \<open>NonZeroU32\<close> is a \<^typ>\<open>u32\<close> whose constructors never build zero;
  the predicates \<open>..._wf\<close> state the invariant of each newtype.
\<close>


section \<open>Aliases\<close>

datatype NormalizedAlias = NormalizedAlias (alias_str: string)

definition ALIAS_MAX_LENGTH :: nat where
  "ALIAS_MAX_LENGTH = 128"

definition is_allowed_byte :: "char \<Rightarrow> bool" where
  "is_allowed_byte byte \<longleftrightarrow>
    (let b = (of_char byte :: nat) in
      65 \<le> b \<and> b \<le> 90 \<or> 97 \<le> b \<and> b \<le> 122 \<or> 48 \<le> b \<and> b \<le> 57 \<or> b = 45 \<or> b = 95)"

fun first_disallowed :: "nat \<Rightarrow> string \<Rightarrow> nat option" where
  "first_disallowed position [] = None"
| "first_disallowed position (byte # rest) =
    (if \<not> is_allowed_byte byte then Some position else first_disallowed (position + 1) rest)"

definition NormalizedAlias_parse :: "string \<Rightarrow> AliasInputError + NormalizedAlias" where
  "NormalizedAlias_parse value =
    (let trimmed = str_trim value in
     if trimmed = [] then Inl AliasEmpty
     else if length trimmed > ALIAS_MAX_LENGTH
       then Inl (AliasTooLong (length trimmed) ALIAS_MAX_LENGTH)
     else (case first_disallowed 0 trimmed of
         Some position \<Rightarrow> Inl (DisallowedCharacter position)
       | None \<Rightarrow> Inr (NormalizedAlias trimmed)))"

definition NormalizedAlias_wf :: "NormalizedAlias \<Rightarrow> bool" where
  "NormalizedAlias_wf a \<longleftrightarrow>
    alias_str a \<noteq> [] \<and> length (alias_str a) \<le> ALIAS_MAX_LENGTH \<and>
    list_all is_allowed_byte (alias_str a)"


section \<open>UUID identifiers\<close>

datatype SecretId = SecretId (SecretId_uuid: uuid)
datatype SecretAliasId = SecretAliasId (SecretAliasId_uuid: uuid)
datatype SecretVersionId = SecretVersionId (SecretVersionId_uuid: uuid)
datatype OwnerUserId = OwnerUserId (OwnerUserId_uuid: uuid)

definition SecretId_generate :: "crates \<Rightarrow> (rng, CryptoError, SecretId) comp" where
  "SecretId_generate C =
    sbind (smap_err (\<lambda>_. RandomnessUnavailable) (getrandom_fill 16)) (\<lambda>bytes.
    sret (SecretId (uuid_from_random_bytes C bytes)))"

definition SecretId_parse :: "crates \<Rightarrow> string \<Rightarrow> AadError + SecretId" where
  "SecretId_parse C value =
    rbind (ok_or (InvalidUuid ''secret_id'' value) (uuid_parse_str C value)) (\<lambda>u.
    if \<not> uuid_is_v4 C u then Inl (InvalidUuidVersion ''secret_id'' value ''v4'')
    else Inr (SecretId u))"

definition SecretId_as_canonical_string :: "crates \<Rightarrow> SecretId \<Rightarrow> string" where
  "SecretId_as_canonical_string C i = uuid_hyphenated C (SecretId_uuid i)"

definition SecretAliasId_generate :: "crates \<Rightarrow> (rng, CryptoError, SecretAliasId) comp" where
  "SecretAliasId_generate C =
    sbind (smap_err (\<lambda>_. RandomnessUnavailable) (getrandom_fill 16)) (\<lambda>bytes.
    sret (SecretAliasId (uuid_from_random_bytes C bytes)))"

definition SecretAliasId_parse :: "crates \<Rightarrow> string \<Rightarrow> AadError + SecretAliasId" where
  "SecretAliasId_parse C value =
    rbind (ok_or (InvalidUuid ''secret_alias_id'' value) (uuid_parse_str C value)) (\<lambda>u.
    if \<not> uuid_is_v4 C u then Inl (InvalidUuidVersion ''secret_alias_id'' value ''v4'')
    else Inr (SecretAliasId u))"

definition SecretAliasId_as_canonical_string :: "crates \<Rightarrow> SecretAliasId \<Rightarrow> string" where
  "SecretAliasId_as_canonical_string C i = uuid_hyphenated C (SecretAliasId_uuid i)"

definition SecretVersionId_generate :: "crates \<Rightarrow> (rng, CryptoError, SecretVersionId) comp" where
  "SecretVersionId_generate C =
    sbind (smap_err (\<lambda>_. RandomnessUnavailable) (getrandom_fill 16)) (\<lambda>bytes.
    sret (SecretVersionId (uuid_from_random_bytes C bytes)))"

definition SecretVersionId_parse :: "crates \<Rightarrow> string \<Rightarrow> AadError + SecretVersionId" where
  "SecretVersionId_parse C value =
    rbind (ok_or (InvalidUuid ''secret_version_id'' value) (uuid_parse_str C value)) (\<lambda>u.
    if \<not> uuid_is_v4 C u then Inl (InvalidUuidVersion ''secret_version_id'' value ''v4'')
    else Inr (SecretVersionId u))"

definition SecretVersionId_as_canonical_string :: "crates \<Rightarrow> SecretVersionId \<Rightarrow> string" where
  "SecretVersionId_as_canonical_string C i = uuid_hyphenated C (SecretVersionId_uuid i)"

definition OwnerUserId_parse :: "crates \<Rightarrow> string \<Rightarrow> AadError + OwnerUserId" where
  "OwnerUserId_parse C value =
    map_ok OwnerUserId (ok_or (InvalidUuid ''owner_user_id'' value) (uuid_parse_str C value))"

definition OwnerUserId_as_canonical_string :: "crates \<Rightarrow> OwnerUserId \<Rightarrow> string" where
  "OwnerUserId_as_canonical_string C i = uuid_hyphenated C (OwnerUserId_uuid i)"

datatype SecretRef = SecretRef_Id SecretId | SecretRef_Alias NormalizedAlias

definition SecretRef_parse :: "crates \<Rightarrow> string \<Rightarrow> InputError + SecretRef" where
  "SecretRef_parse C value =
    (let trimmed = str_trim value in
     case SecretId_parse C trimmed of
       Inr secret_id \<Rightarrow> Inr (SecretRef_Id secret_id)
     | Inl _ \<Rightarrow> map_err (\<lambda>_. InvalidSecretAlias)
                 (map_ok SecretRef_Alias (NormalizedAlias_parse trimmed)))"


section \<open>Versions\<close>

datatype SecretVersion = SecretVersion (SecretVersion_get: u32)

definition SecretVersion_wf :: "SecretVersion \<Rightarrow> bool" where
  "SecretVersion_wf v \<longleftrightarrow> SecretVersion_get v \<noteq> 0"

definition SecretVersion_first :: SecretVersion where
  "SecretVersion_first = SecretVersion 1"

definition SecretVersion_new :: "u32 \<Rightarrow> AadError + SecretVersion" where
  "SecretVersion_new value =
    (if value = 0 then Inl (InvalidPositiveInteger ''version'' (u32_to_string value))
     else Inr (SecretVersion value))"

definition SecretVersion_next :: "SecretVersion \<Rightarrow> InputError + SecretVersion" where
  "SecretVersion_next v =
    rbind (ok_or SecretVersionOverflow (checked_add (SecretVersion_get v) 1)) (\<lambda>n.
    if n = 0 then Inl SecretVersionOverflow else Inr (SecretVersion n))"

datatype KeyVersion = KeyVersion (KeyVersion_get: u32)

instantiation KeyVersion :: linorder
begin

definition less_eq_KeyVersion :: "KeyVersion \<Rightarrow> KeyVersion \<Rightarrow> bool" where
  "less_eq_KeyVersion a b \<longleftrightarrow> KeyVersion_get a \<le> KeyVersion_get b"

definition less_KeyVersion :: "KeyVersion \<Rightarrow> KeyVersion \<Rightarrow> bool" where
  "less_KeyVersion a b \<longleftrightarrow> KeyVersion_get a < KeyVersion_get b"

instance
  by standard (auto simp: less_eq_KeyVersion_def less_KeyVersion_def KeyVersion.expand)

end

definition KeyVersion_wf :: "KeyVersion \<Rightarrow> bool" where
  "KeyVersion_wf v \<longleftrightarrow> KeyVersion_get v \<noteq> 0"

definition KeyVersion_new :: "u32 \<Rightarrow> CryptoError + KeyVersion" where
  "KeyVersion_new value =
    (if value = 0 then Inl (InvalidKeyVersion value) else Inr (KeyVersion value))"

datatype AliasFingerprintSchemaVersion =
  AliasFingerprintSchemaVersion (AliasFingerprintSchemaVersion_get: u32)

definition AliasFingerprintSchemaVersion_V1 :: AliasFingerprintSchemaVersion where
  "AliasFingerprintSchemaVersion_V1 = AliasFingerprintSchemaVersion 1"

definition AliasFingerprintSchemaVersion_new ::
    "u32 \<Rightarrow> CryptoError + AliasFingerprintSchemaVersion" where
  "AliasFingerprintSchemaVersion_new value =
    (if value = 0 then Inl (InvalidKeyVersion value)
     else if value \<noteq> AliasFingerprintSchemaVersion_get AliasFingerprintSchemaVersion_V1
       then Inl (UnsupportedAliasFingerprintSchemaVersion value)
     else Inr (AliasFingerprintSchemaVersion value))"


section \<open>Non-blank strings\<close>

datatype Classification = Classification (Classification_str: string)

definition Classification_wf :: "Classification \<Rightarrow> bool" where
  "Classification_wf c \<longleftrightarrow> str_trim (Classification_str c) \<noteq> []"

definition Classification_new :: "string \<Rightarrow> AadError + Classification" where
  "Classification_new value =
    (if str_trim value = [] then Inl InvalidClassification else Inr (Classification value))"

datatype DeviceId = DeviceId (DeviceId_str: string)

definition DeviceId_new :: "string \<Rightarrow> InputError + DeviceId" where
  "DeviceId_new value =
    (if str_trim value = [] then Inl InvalidDeviceId else Inr (DeviceId value))"


section \<open>Timestamps\<close>

datatype CreatedAt = CreatedAt (CreatedAt_dt: datetime)
datatype SourceEventAt = SourceEventAt (SourceEventAt_str: string)

definition rewrite_utc_suffix :: "string \<Rightarrow> string" where
  "rewrite_utc_suffix value =
    (let trimmed = str_trim value; upper = to_ascii_uppercase trimmed in
     if str_ends_with upper '' UTC'' then take (length trimmed - 4) trimmed @ ''Z''
     else if str_ends_with upper ''UTC'' then take (length trimmed - 3) trimmed @ ''Z''
     else trimmed)"

definition parse_utc_rfc3339 :: "crates \<Rightarrow> string \<Rightarrow> string \<Rightarrow> AadError + datetime" where
  "parse_utc_rfc3339 C value field =
    rbind (ok_or (InvalidTimestamp field value) (rfc3339_parse C (rewrite_utc_suffix value)))
      (\<lambda>parsed.
    if \<not> dt_offset_is_utc C parsed then Inl (InvalidTimestamp field value)
    else Inr (dt_to_utc C parsed))"

definition format_utc_rfc3339 :: "crates \<Rightarrow> datetime \<Rightarrow> AadError + string" where
  "format_utc_rfc3339 C value = map_err SerializationFailed (rfc3339_format C (dt_to_utc C value))"

definition CreatedAt_parse :: "crates \<Rightarrow> string \<Rightarrow> AadError + CreatedAt" where
  "CreatedAt_parse C value = map_ok CreatedAt (parse_utc_rfc3339 C value ''created_at'')"

definition CreatedAt_as_rfc3339_utc :: "crates \<Rightarrow> CreatedAt \<Rightarrow> AadError + string" where
  "CreatedAt_as_rfc3339_utc C t = format_utc_rfc3339 C (CreatedAt_dt t)"

text \<open>\<open>now\<close> is the reading of the system clock.\<close>

definition SourceEventAt_now_utc :: "crates \<Rightarrow> datetime \<Rightarrow> AadError + SourceEventAt" where
  "SourceEventAt_now_utc C now = map_ok SourceEventAt (format_utc_rfc3339 C now)"

definition SourceEventAt_parse :: "crates \<Rightarrow> string \<Rightarrow> AadError + SourceEventAt" where
  "SourceEventAt_parse C value =
    (if \<not> str_ends_with value ''Z'' then Inl (InvalidTimestamp ''source_event_at'' value)
     else rbind (ok_or (InvalidTimestamp ''source_event_at'' value) (rfc3339_parse C value))
       (\<lambda>parsed.
     if \<not> dt_offset_is_utc C parsed then Inl (InvalidTimestamp ''source_event_at'' value)
     else Inr (SourceEventAt value)))"

definition CreatedAt_wf :: "crates \<Rightarrow> CreatedAt \<Rightarrow> bool" where
  "CreatedAt_wf C t \<longleftrightarrow> dt_offset_is_utc C (CreatedAt_dt t)"


section \<open>Lemmas\<close>

lemma first_disallowed_None: "first_disallowed p s = None \<longleftrightarrow> list_all is_allowed_byte s"
  by (induction p s rule: first_disallowed.induct) auto

lemma first_disallowed_Some:
  "first_disallowed p s = Some i \<Longrightarrow>
    p \<le> i \<and> i - p < length s \<and> \<not> is_allowed_byte (s ! (i - p)) \<and>
    list_all is_allowed_byte (take (i - p) s)"
proof (induction p s arbitrary: i rule: first_disallowed.induct)
  case (1 position)
  then show ?case by simp
next
  case (2 position byte rest)
  show ?case
  proof (cases "is_allowed_byte byte")
    case False
    with "2.prems" show ?thesis by simp
  next
    case True
    with "2.prems" "2.IH" have "Suc position \<le> i \<and> i - Suc position < length rest \<and>
      \<not> is_allowed_byte (rest ! (i - Suc position)) \<and>
      list_all is_allowed_byte (take (i - Suc position) rest)" by simp
    moreover from this have "i - position = Suc (i - Suc position)" by linarith
    ultimately show ?thesis using True by simp
  qed
qed

lemma is_allowed_byte_plain: "is_allowed_byte c \<Longrightarrow> plain_char c"
  by (auto simp: is_allowed_byte_def plain_char_def Let_def)

lemma NormalizedAlias_parse_wf: "NormalizedAlias_parse s = Inr a \<Longrightarrow> NormalizedAlias_wf a"
  by (auto simp: NormalizedAlias_parse_def NormalizedAlias_wf_def Let_def first_disallowed_None
      split: if_splits option.splits)

lemma NormalizedAlias_wf_trim: "NormalizedAlias_wf a \<Longrightarrow> str_trim (alias_str a) = alias_str a"
  by (auto simp: NormalizedAlias_wf_def list_all_iff intro!: str_trim_all_plain
      is_allowed_byte_plain)

lemma NormalizedAlias_parse_of_wf:
  "NormalizedAlias_wf a \<Longrightarrow> NormalizedAlias_parse (alias_str a) = Inr a"
  using NormalizedAlias_wf_trim [of a] first_disallowed_None [of 0 "alias_str a"]
  by (auto simp: NormalizedAlias_parse_def NormalizedAlias_wf_def Let_def split: option.splits)

lemma SecretVersion_wf_simps [simp, wf_intros]:
  "SecretVersion_wf SecretVersion_first"
  "SecretVersion_new n = Inr v \<Longrightarrow> SecretVersion_wf v"
  "SecretVersion_next w = Inr v \<Longrightarrow> SecretVersion_wf v"
  by (auto simp: SecretVersion_wf_def SecretVersion_first_def SecretVersion_new_def
      SecretVersion_next_def split: if_splits)

lemma SecretVersion_next_Inr:
  "SecretVersion_next v = Inr w \<longleftrightarrow>
    unat (SecretVersion_get v) < 2 ^ 32 - 1 \<and> unat (SecretVersion_get w) = unat (SecretVersion_get v) + 1"
proof
  assume "SecretVersion_next v = Inr w"
  then show "unat (SecretVersion_get v) < 2 ^ 32 - 1 \<and>
      unat (SecretVersion_get w) = unat (SecretVersion_get v) + 1"
    by (auto simp: SecretVersion_next_def checked_add_eq_Some unat_word_ariths(1)
        split: if_splits)
next
  assume a: "unat (SecretVersion_get v) < 2 ^ 32 - 1 \<and>
      unat (SecretVersion_get w) = unat (SecretVersion_get v) + 1"
  then have "SecretVersion_get w = SecretVersion_get v + 1"
    by (simp add: word_unat_eq_iff unat_word_ariths(1))
  moreover from this a have "SecretVersion_get w \<noteq> 0" by (auto simp: word_unat_eq_iff)
  ultimately show "SecretVersion_next v = Inr w"
    using a by (cases w) (auto simp: SecretVersion_next_def checked_add_def)
qed

lemma SecretVersion_next_Inl:
  "SecretVersion_next v = Inl e \<longleftrightarrow>
    unat (SecretVersion_get v) = 2 ^ 32 - 1 \<and> e = SecretVersionOverflow"
proof -
  have lt: "unat (SecretVersion_get v) < 2 ^ 32"
    using unsigned_less [of "SecretVersion_get v"] by simp
  show ?thesis
  proof (cases "unat (SecretVersion_get v) = 2 ^ 32 - 1")
    case True
    then show ?thesis by (auto simp: SecretVersion_next_def checked_add_def)
  next
    case False
    with lt have "SecretVersion_next v = Inr (SecretVersion (SecretVersion_get v + 1))"
      by (subst SecretVersion_next_Inr) (simp add: unat_word_ariths(1))
    with False show ?thesis by simp
  qed
qed

text \<open>Parsing reads back what the identifiers print.\<close>

lemma uuid_id_roundtrips:
  assumes "uuid_laws C"
  shows "uuid_is_v4 C (SecretId_uuid i) \<Longrightarrow>
      SecretId_parse C (SecretId_as_canonical_string C i) = Inr i"
    and "uuid_is_v4 C (SecretAliasId_uuid j) \<Longrightarrow>
      SecretAliasId_parse C (SecretAliasId_as_canonical_string C j) = Inr j"
    and "uuid_is_v4 C (SecretVersionId_uuid k) \<Longrightarrow>
      SecretVersionId_parse C (SecretVersionId_as_canonical_string C k) = Inr k"
    and "OwnerUserId_parse C (OwnerUserId_as_canonical_string C l) = Inr l"
  using assms
  by (simp_all add: uuid_laws_def SecretId_parse_def SecretId_as_canonical_string_def
      SecretAliasId_parse_def SecretAliasId_as_canonical_string_def
      SecretVersionId_parse_def SecretVersionId_as_canonical_string_def
      OwnerUserId_parse_def OwnerUserId_as_canonical_string_def)

lemma uuid_id_v4:
  "SecretId_parse C s = Inr i \<Longrightarrow> uuid_is_v4 C (SecretId_uuid i)"
  "SecretAliasId_parse C s = Inr j \<Longrightarrow> uuid_is_v4 C (SecretAliasId_uuid j)"
  "SecretVersionId_parse C s = Inr k \<Longrightarrow> uuid_is_v4 C (SecretVersionId_uuid k)"
  by (auto simp: SecretId_parse_def SecretAliasId_parse_def SecretVersionId_parse_def
      split: if_splits)

lemma uuid_generate_v4:
  assumes "uuid_laws C"
  shows "SecretId_generate C r = (Inr i, r') \<Longrightarrow> uuid_is_v4 C (SecretId_uuid i)"
    and "SecretAliasId_generate C r = (Inr j, r') \<Longrightarrow> uuid_is_v4 C (SecretAliasId_uuid j)"
    and "SecretVersionId_generate C r = (Inr k, r') \<Longrightarrow> uuid_is_v4 C (SecretVersionId_uuid k)"
  using assms
  by (auto simp: SecretId_generate_def SecretAliasId_generate_def SecretVersionId_generate_def
      sbind_eq_Inr uuid_laws_def)

lemma rfc3339_rewrite_utc_suffix:
  assumes "rfc3339_text s"
  shows "rewrite_utc_suffix s = s"
proof -
  from assms obtain p where s: "s = p @ ''Z''" by (auto simp: rfc3339_text_def)
  have "last (to_ascii_uppercase s) = CHR ''Z''"
    by (simp add: s to_ascii_uppercase_def ascii_upper_def Let_def)
  then have "\<not> str_ends_with (to_ascii_uppercase s) '' UTC''"
    and "\<not> str_ends_with (to_ascii_uppercase s) ''UTC''"
    by (auto simp: str_ends_with_iff)
  with rfc3339_text_trim [OF assms] show ?thesis by (simp add: rewrite_utc_suffix_def Let_def)
qed

text \<open>A creation time that is printed is read back.\<close>

lemma CreatedAt_roundtrip:
  assumes "time_laws C" and "CreatedAt_wf C t" and "CreatedAt_as_rfc3339_utc C t = Inr s"
  shows "CreatedAt_parse C s = Inr t"
proof -
  note laws = time_lawsD [OF assms(1)]
  have utc: "dt_offset_is_utc C (CreatedAt_dt t)" using assms(2) by (simp add: CreatedAt_wf_def)
  with assms(3) have fmt: "rfc3339_format C (CreatedAt_dt t) = Inr s"
    by (simp add: CreatedAt_as_rfc3339_utc_def format_utc_rfc3339_def laws)
  show ?thesis
    using laws(2) [OF utc] laws(3,4) [OF utc fmt] utc
    by (simp add: CreatedAt_parse_def parse_utc_rfc3339_def rfc3339_rewrite_utc_suffix)
qed

lemma CreatedAt_parse_wf: "time_laws C \<Longrightarrow> CreatedAt_parse C s = Inr t \<Longrightarrow> CreatedAt_wf C t"
  by (auto simp: CreatedAt_parse_def parse_utc_rfc3339_def CreatedAt_wf_def time_lawsD
      split: if_splits)

end
