(* ===== verification/Sample_Crates.thy ===== *)
theory Sample_Crates
  imports Crates
begin

text \<open>
  One concrete instance of the third-party crates that satisfies every documented behaviour
  assumed in the development.  It is used only where a property is applied to concrete data, to
  show that its hypotheses can hold.  The cipher, digest and signature are stand-ins; the
  encodings (UUID, hexadecimal, JSON) are invertible on all their inputs.
\<close>


section \<open>Hexadecimal digits\<close>

definition hexdig :: "nat \<Rightarrow> char" where
  "hexdig n = (if n < 10 then char_of (48 + n) else char_of (87 + n))"

definition hexval :: "char \<Rightarrow> nat" where
  "hexval c = (let n = of_char c in if n < 58 then n - 48 else n - 87)"

fun hex_fixed :: "nat \<Rightarrow> nat \<Rightarrow> string" where
  "hex_fixed 0 n = []"
| "hex_fixed (Suc w) n = hex_fixed w (n div 16) @ [hexdig (n mod 16)]"

definition hex_number :: "string \<Rightarrow> nat" where
  "hex_number s = foldl (\<lambda>a c. 16 * a + hexval c) 0 s"

lemma hexval_hexdig: "n < 16 \<Longrightarrow> hexval (hexdig n) = n"
  by (simp add: hexval_def hexdig_def)

lemma hex_fixed_length [simp]: "length (hex_fixed w n) = w"
  by (induction w arbitrary: n) simp_all

lemma hex_number_fixed: "hex_number (hex_fixed w n) = n mod 16 ^ w"
proof (induction w arbitrary: n)
  case 0
  then show ?case by (simp add: hex_number_def)
next
  case (Suc w)
  have "hex_number (hex_fixed (Suc w) n) = 16 * (n div 16 mod 16 ^ w) + n mod 16"
    using Suc [of "n div 16"] by (simp add: hex_number_def hexval_hexdig)
  also have "\<dots> = n mod 16 ^ Suc w" by (simp add: mod_mult2_eq add.commute)
  finally show ?case .
qed

lemma hexdig_set: "n < 16 \<Longrightarrow> hexdig n \<in> set hex_digits"
proof -
  have "list_all (\<lambda>n. hexdig n \<in> set hex_digits) [0..<16]" by code_simp
  then show "n < 16 \<Longrightarrow> hexdig n \<in> set hex_digits" by (simp add: list_all_iff)
qed

lemma hex_fixed_set: "set (hex_fixed w n) \<subseteq> set hex_digits"
proof (induction w arbitrary: n)
  case 0
  show ?case by simp
next
  case (Suc w)
  have "hexdig (n mod 16) \<in> set hex_digits" by (rule hexdig_set) simp
  with Suc [of "n div 16"] show ?case by simp
qed

definition sample_hex_encode :: "bytes \<Rightarrow> string" where
  "sample_hex_encode b = concat (map (\<lambda>w. hex_fixed 2 (unat w)) b)"

fun sample_hex_decode :: "string \<Rightarrow> bytes option" where
  "sample_hex_decode [] = Some []"
| "sample_hex_decode [c] = None"
| "sample_hex_decode (c # d # s) =
    map_option (\<lambda>b. of_nat (hex_number [c, d]) # b) (sample_hex_decode s)"

lemma hex_fixed_2: "\<exists>c d. hex_fixed 2 n = [c, d]"
  by (simp add: numeral_2_eq_2)

lemma sample_hex_roundtrip: "sample_hex_decode (sample_hex_encode b) = Some b"
proof (induction b)
  case Nil
  then show ?case by (simp add: sample_hex_encode_def)
next
  case (Cons w b)
  obtain c d where cd: "hex_fixed 2 (unat w) = [c, d]" using hex_fixed_2 by blast
  have "unat w < 256" using unsigned_less [of w] by simp
  then have "hex_number [c, d] = unat w" using hex_number_fixed [of 2 "unat w"] by (simp add: cd)
  with Cons show ?case by (simp add: sample_hex_encode_def cd)
qed

lemma sample_hex_length: "length (sample_hex_encode b) = 2 * length b"
  by (induction b) (simp_all add: sample_hex_encode_def)

lemma sample_hex_set: "set (sample_hex_encode b) \<subseteq> set hex_digits"
  using hex_fixed_set [of 2] by (induction b) (simp_all add: sample_hex_encode_def)


section \<open>UUIDs\<close>

definition sample_hyphenated :: "uuid \<Rightarrow> string" where
  "sample_hyphenated u =
    (let h = hex_fixed 32 (unat u) in
     take 8 h @ ''-'' @ take 4 (drop 8 h) @ ''-'' @ take 4 (drop 12 h) @ ''-'' @
     take 4 (drop 16 h) @ ''-'' @ drop 20 h)"

definition sample_parse_uuid :: "string \<Rightarrow> uuid option" where
  "sample_parse_uuid s =
    (let h = filter (\<lambda>c. c \<noteq> CHR ''-'') s in
     if length h = 32 \<and> length s = 36 \<and> list_all (\<lambda>c. c \<in> set hex_digits) h
     then Some (of_nat (hex_number h)) else None)"

lemma take_drop_pieces:
  "take 8 h @ take 4 (drop 8 h) @ take 4 (drop 12 h) @ take 4 (drop 16 h) @ drop 20 h = h"
proof -
  have "take 4 (drop 16 h) @ drop 20 h = drop 16 h"
    using append_take_drop_id [of 4 "drop 16 h"] by simp
  moreover have "take 4 (drop 12 h) @ drop 16 h = drop 12 h"
    using append_take_drop_id [of 4 "drop 12 h"] by simp
  moreover have "take 4 (drop 8 h) @ drop 12 h = drop 8 h"
    using append_take_drop_id [of 4 "drop 8 h"] by simp
  ultimately show ?thesis by simp
qed

lemma sample_uuid_roundtrip: "sample_parse_uuid (sample_hyphenated u) = Some u"
proof -
  define h where "h = hex_fixed 32 (unat u)"
  have len: "length h = 32" by (simp add: h_def)
  have chars: "set h \<subseteq> set hex_digits" unfolding h_def by (rule hex_fixed_set)
  then have nohyphen: "filter (\<lambda>c. c \<noteq> CHR ''-'') t = t" if "set t \<subseteq> set h" for t
    using that by (intro filter_True) (auto simp: hex_digits_def)
  have "filter (\<lambda>c. c \<noteq> CHR ''-'') (sample_hyphenated u) =
      take 8 h @ take 4 (drop 8 h) @ take 4 (drop 12 h) @ take 4 (drop 16 h) @ drop 20 h"
    unfolding sample_hyphenated_def Let_def h_def [symmetric]
    using set_take_subset [of 8 h] set_drop_subset [of 20 h]
      subset_trans [OF set_take_subset [of 4 "drop 8 h"] set_drop_subset [of 8 h]]
      subset_trans [OF set_take_subset [of 4 "drop 12 h"] set_drop_subset [of 12 h]]
      subset_trans [OF set_take_subset [of 4 "drop 16 h"] set_drop_subset [of 16 h]]
    by (simp add: nohyphen)
  then have f: "filter (\<lambda>c. c \<noteq> CHR ''-'') (sample_hyphenated u) = h"
    by (simp only: take_drop_pieces)
  have "length (sample_hyphenated u) = 36"
    by (simp add: sample_hyphenated_def Let_def)
  moreover have "hex_number h = unat u"
  proof -
    have "unat u < 2 ^ 128" using unsigned_less [of u] by simp
    then show ?thesis using hex_number_fixed [of 32 "unat u"] by (simp add: h_def)
  qed
  moreover have "list_all (\<lambda>c. c \<in> set hex_digits) h"
    using chars by (auto simp: list_all_iff)
  ultimately show ?thesis
    unfolding sample_parse_uuid_def Let_def f using len by simp
qed

definition sample_is_v4 :: "uuid \<Rightarrow> bool" where
  "sample_is_v4 u \<longleftrightarrow> (unat u div 2 ^ 76) mod 16 = 4"

definition bytes_number :: "bytes \<Rightarrow> nat" where
  "bytes_number b = foldl (\<lambda>a w. 256 * a + unat w) 0 b"

definition sample_from_random_bytes :: "bytes \<Rightarrow> uuid" where
  "sample_from_random_bytes b = of_nat (4 * 2 ^ 76 + bytes_number b mod 2 ^ 76)"

lemma sample_from_random_bytes_v4: "sample_is_v4 (sample_from_random_bytes b)"
proof -
  have lt: "bytes_number b mod 2 ^ 76 < 2 ^ 76" by simp
  then have "4 * 2 ^ 76 + bytes_number b mod 2 ^ 76 < (2 ^ 128 :: nat)" by simp
  then have "unat (sample_from_random_bytes b) = 4 * 2 ^ 76 + bytes_number b mod 2 ^ 76"
    unfolding sample_from_random_bytes_def by (subst unat_of_nat) simp
  with lt show ?thesis by (simp add: sample_is_v4_def)
qed


section \<open>JSON text\<close>

definition unary :: "nat \<Rightarrow> string" where
  "unary n = replicate n CHR ''1'' @ ''0''"

fun read_unary :: "string \<Rightarrow> nat \<times> string" where
  "read_unary (c # s) = (if c = CHR ''1'' then (case read_unary s of (n, t) \<Rightarrow> (Suc n, t)) else (0, s))"
| "read_unary [] = (0, [])"

text \<open>Strings are written in hexadecimal, so that the text has no control characters.\<close>

definition quoted :: "string \<Rightarrow> string" where
  "quoted s = sample_hex_encode (str_bytes s)"

definition unquoted :: "string \<Rightarrow> string" where
  "unquoted t = (case sample_hex_decode t of Some b \<Rightarrow> bytes_str b | None \<Rightarrow> [])"

lemma unquoted_quoted [simp]: "unquoted (quoted s) = s"
  by (simp add: unquoted_def quoted_def sample_hex_roundtrip)

lemma quoted_length [simp]: "length (quoted s) = 2 * length s"
  by (simp add: quoted_def sample_hex_length)

fun jenc :: "json \<Rightarrow> string" where
  "jenc JNull = ''n''"
| "jenc (JBool b) = (if b then ''t'' else ''f'')"
| "jenc (JNumber (PosInt w)) = ''p'' @ hex_fixed 16 (unat w)"
| "jenc (JNumber (NegInt i)) = (if i < 0 then ''m'' else ''i'') @ unary (nat \<bar>i\<bar>)"
| "jenc (JNumber (Float w)) = ''d'' @ hex_fixed 16 (unat w)"
| "jenc (JString s) = ''s'' @ unary (2 * length s) @ quoted s"
| "jenc (JArray xs) = ''a'' @ unary (length xs) @ concat (map jenc xs)"
| "jenc (JObject kvs) =
    ''o'' @ unary (length kvs) @ concat
      (map (\<lambda>(k, v). unary (2 * length k) @ quoted k @ jenc v) kvs)"

fun parse_n :: "(string \<Rightarrow> ('a \<times> string) option) \<Rightarrow> nat \<Rightarrow> string \<Rightarrow> ('a list \<times> string) option" where
  "parse_n p 0 s = Some ([], s)"
| "parse_n p (Suc n) s =
    (case p s of
      None \<Rightarrow> None
    | Some (x, t) \<Rightarrow> map_option (\<lambda>(xs, u). (x # xs, u)) (parse_n p n t))"

primrec jdec :: "nat \<Rightarrow> string \<Rightarrow> (json \<times> string) option" where
  "jdec 0 s = None"
| "jdec (Suc f) s =
    (case s of
      [] \<Rightarrow> None
    | c # t \<Rightarrow>
      if c = CHR ''n'' then Some (JNull, t)
      else if c = CHR ''t'' then Some (JBool True, t)
      else if c = CHR ''f'' then Some (JBool False, t)
      else if c = CHR ''p'' then
        Some (JNumber (PosInt (of_nat (hex_number (take 16 t)))), drop 16 t)
      else if c = CHR ''d'' then
        Some (JNumber (Float (of_nat (hex_number (take 16 t)))), drop 16 t)
      else if c = CHR ''m'' then
        (case read_unary t of (n, u) \<Rightarrow> Some (JNumber (NegInt (- int n)), u))
      else if c = CHR ''i'' then
        (case read_unary t of (n, u) \<Rightarrow> Some (JNumber (NegInt (int n)), u))
      else if c = CHR ''s'' then
        (case read_unary t of (n, u) \<Rightarrow> Some (JString (unquoted (take n u)), drop n u))
      else if c = CHR ''a'' then
        (case read_unary t of (n, u) \<Rightarrow>
          map_option (\<lambda>(xs, w). (JArray xs, w)) (parse_n (jdec f) n u))
      else if c = CHR ''o'' then
        (case read_unary t of (n, u) \<Rightarrow>
          map_option (\<lambda>(xs, w). (JObject xs, w))
            (parse_n (\<lambda>z. case read_unary z of (m, w) \<Rightarrow>
              map_option (\<lambda>(v, q). ((unquoted (take m w), v), q)) (jdec f (drop m w))) n u))
      else None)"

lemma read_unary_unary [simp]: "read_unary (unary n @ s) = (n, s)"
  by (induction n) (simp_all add: unary_def)

lemma parse_n_concat:
  "(\<And>x t. x \<in> set xs \<Longrightarrow> p (enc x @ t) = Some (x, t)) \<Longrightarrow>
    parse_n p (length xs) (concat (map enc xs) @ s) = Some (xs, s)"
  by (induction xs) (simp_all)

lemma length_concat_member: "x \<in> set xs \<Longrightarrow> length (f x) \<le> length (concat (map f xs))"
  by (induction xs) auto

lemma u64_hex [simp]:
  "(of_nat (hex_number (hex_fixed 16 (unat w))) :: u64) = w"
proof -
  have "unat w < 2 ^ 64" using unsigned_less [of w] by simp
  then have "hex_number (hex_fixed 16 (unat w)) = unat w" by (simp add: hex_number_fixed)
  then show ?thesis by simp
qed

lemma jenc_nonempty: "0 < length (jenc v)"
  by (cases v rule: jenc.cases) simp_all

lemma jdec_jenc_Suc: "length (jenc v) \<le> Suc f \<Longrightarrow> jdec (Suc f) (jenc v @ s) = Some (v, s)"
proof (induction v arbitrary: f s rule: jenc.induct)
  case (7 xs)
  have "jdec f (jenc x @ t) = Some (x, t)" if x: "x \<in> set xs" for x t
  proof -
    have "length (jenc x) \<le> f"
      using length_concat_member [OF x, of jenc] "7.prems" by simp
    moreover from this jenc_nonempty [of x] obtain g where "f = Suc g" by (cases f) auto
    ultimately show ?thesis using "7.IH" [OF x] by simp
  qed
  then have "parse_n (jdec f) (length xs) (concat (map jenc xs) @ s) = Some (xs, s)"
    by (rule parse_n_concat)
  then show ?case by simp
next
  case (8 kvs)
  let ?enc = "\<lambda>(k, v). unary (2 * length k) @ quoted k @ jenc v"
  let ?p = "\<lambda>z. case read_unary z of (m, w) \<Rightarrow>
      map_option (\<lambda>(v, q). ((unquoted (take m w), v), q)) (jdec f (drop m w))"
  have "?p (?enc x @ t) = Some (x, t)" if "x \<in> set kvs" for x t
  proof -
    obtain k v where x: "x = (k, v)" by (cases x)
    have "length (jenc v) \<le> f"
      using length_concat_member [OF that, of ?enc] "8.prems" by (simp add: x)
    moreover from this jenc_nonempty [of v] obtain g where "f = Suc g" by (cases f) auto
    ultimately show ?thesis using "8.IH" [OF that x [symmetric]] by (simp add: x)
  qed
  then have "parse_n ?p (length kvs) (concat (map ?enc kvs) @ s) = Some (kvs, s)"
    by (rule parse_n_concat)
  then show ?case by simp
qed simp_all

lemma jdec_jenc: "length (jenc v) \<le> f \<Longrightarrow> jdec f (jenc v @ s) = Some (v, s)"
  using jdec_jenc_Suc [of v "f - 1" s] jenc_nonempty [of v] by (cases f) simp_all

definition sample_json_from_str :: "string \<Rightarrow> string + json" where
  "sample_json_from_str s =
    (case jdec (length s) s of Some (v, []) \<Rightarrow> Inr v | _ \<Rightarrow> Inl ''invalid text'')"

lemma sample_json_roundtrip: "sample_json_from_str (jenc v) = Inr v"
  using jdec_jenc [of v "length (jenc v)" "[]"] by (simp add: sample_json_from_str_def)


section \<open>Time, cipher, digest and signature\<close>

definition sample_rfc3339_format :: "datetime \<Rightarrow> string + string" where
  "sample_rfc3339_format d =
    (if 0 \<le> fst d then Inr (dec_digits (nat (fst d)) @ ''Z'') else Inl ''out of range'')"

definition sample_rfc3339_parse :: "string \<Rightarrow> datetime option" where
  "sample_rfc3339_parse s =
    (if s \<noteq> [] \<and> last s = CHR ''Z'' then Some (int (dec_value (butlast s)), 0) else None)"

lemma digit_char: "n < 10 \<Longrightarrow> char_of (48 + n :: nat) \<in> set rfc3339_chars"
proof -
  have "list_all (\<lambda>n. char_of (48 + n :: nat) \<in> set rfc3339_chars) [0..<10]" by code_simp
  then show "n < 10 \<Longrightarrow> char_of (48 + n :: nat) \<in> set rfc3339_chars"
    by (simp add: list_all_iff)
qed

lemma dec_digits_set: "set (dec_digits n) \<subseteq> set rfc3339_chars"
proof (induction n rule: dec_digits.induct)
  case (1 n)
  have "char_of (48 + n mod 10) \<in> set rfc3339_chars" by (rule digit_char) simp
  with 1 digit_char [of n] show ?case
    by (cases "n < 10") (simp_all add: dec_digits.simps [of n])
qed

definition sample_tag :: "bytes \<Rightarrow> bytes \<Rightarrow> bytes \<Rightarrow> bytes" where
  "sample_tag k n a = replicate 16 (sum_list k + 3 * sum_list n + 5 * sum_list a)"

definition sample_encrypt :: "bytes \<Rightarrow> bytes \<Rightarrow> bytes \<Rightarrow> bytes \<Rightarrow> bytes option" where
  "sample_encrypt k n a m = Some (m @ sample_tag k n a)"

definition sample_decrypt :: "bytes \<Rightarrow> bytes \<Rightarrow> bytes \<Rightarrow> bytes \<Rightarrow> bytes option" where
  "sample_decrypt k n a c =
    (let l = length c - 16 in
     if length c \<ge> 16 \<and> drop l c = sample_tag k n a then Some (take l c) else None)"

definition sample_sha256 :: "bytes \<Rightarrow> bytes" where
  "sample_sha256 m = replicate 31 (sum_list m) @ [of_nat (length m)]"

definition sample_sign :: "bytes \<Rightarrow> bytes \<Rightarrow> bytes" where
  "sample_sign k m = replicate 32 (sum_list k + 7 * sum_list m) @ take 32 (m @ replicate 32 0)"

lemma sample_sign_length [simp]: "length (sample_sign k m) = 64"
  by (simp add: sample_sign_def min_def)

definition sample_crates :: crates where
  "sample_crates =
    \<lparr>uuid_parse_str = sample_parse_uuid,
     uuid_hyphenated = sample_hyphenated,
     uuid_is_v4 = sample_is_v4,
     uuid_from_random_bytes = sample_from_random_bytes,
     json_to_string = (\<lambda>v. Inr (jenc v)),
     json_from_str = sample_json_from_str,
     json_number_to_string = (\<lambda>n. jenc (JNumber n)),
     rfc3339_parse = sample_rfc3339_parse,
     rfc3339_format = sample_rfc3339_format,
     dt_offset_is_utc = (\<lambda>d. snd d = 0),
     dt_to_utc = (\<lambda>d. (fst d, 0)),
     aead_key_ok = (\<lambda>k. length k = 32),
     aead_encrypt = sample_encrypt,
     aead_decrypt = sample_decrypt,
     sha256 = sample_sha256,
     hmac_sha3_256 = (\<lambda>k m. Some (sample_sha256 (k @ m))),
     hex_encode = sample_hex_encode,
     hex_decode = sample_hex_decode,
     ed25519_public_key = (\<lambda>k. k),
     ed25519_public_key_ok = (\<lambda>_. True),
     ed25519_sign = sample_sign,
     ed25519_verify = (\<lambda>k m s. s = sample_sign k m)\<rparr>"

lemma sample_simps [simp]:
  "uuid_parse_str sample_crates = sample_parse_uuid"
  "uuid_hyphenated sample_crates = sample_hyphenated"
  "uuid_is_v4 sample_crates = sample_is_v4"
  "uuid_from_random_bytes sample_crates = sample_from_random_bytes"
  "json_to_string sample_crates v = Inr (jenc v)"
  "json_from_str sample_crates = sample_json_from_str"
  "rfc3339_parse sample_crates = sample_rfc3339_parse"
  "rfc3339_format sample_crates = sample_rfc3339_format"
  "dt_offset_is_utc sample_crates d \<longleftrightarrow> snd d = 0"
  "dt_to_utc sample_crates d = (fst d, 0)"
  "aead_key_ok sample_crates k \<longleftrightarrow> length k = 32"
  "aead_encrypt sample_crates = sample_encrypt"
  "aead_decrypt sample_crates = sample_decrypt"
  "sha256 sample_crates = sample_sha256"
  "hmac_sha3_256 sample_crates k m = Some (sample_sha256 (k @ m))"
  "hex_encode sample_crates = sample_hex_encode"
  "hex_decode sample_crates = sample_hex_decode"
  "ed25519_public_key sample_crates k = k"
  "ed25519_public_key_ok sample_crates k"
  "ed25519_sign sample_crates = sample_sign"
  "ed25519_verify sample_crates k m s \<longleftrightarrow> s = sample_sign k m"
  by (simp_all add: sample_crates_def)

text \<open>A randomness source that always answers.\<close>

definition sample_rng :: rng where
  "sample_rng = sconst (\<lambda>n. Some (replicate n 7))"

lemma sample_rng_simps [simp]:
  "shd sample_rng = (\<lambda>n. Some (replicate n 7))" "stl sample_rng = sample_rng"
  "rng_fills sample_rng"
  by (simp_all add: sample_rng_def rng_fills_def sset_sconst)

lemma sample_getrandom [simp]:
  "getrandom_fill n sample_rng = (Inr (replicate n 7), sample_rng)"
  by (simp add: getrandom_fill_def)

lemma sample_uuid_laws: "uuid_laws sample_crates"
  by (simp add: uuid_laws_def sample_crates_def sample_uuid_roundtrip
      sample_from_random_bytes_v4) (simp add: sample_hyphenated_def Let_def)

lemma jenc_inj: "jenc v = jenc w \<Longrightarrow> v = w"
  by (metis sample_json_roundtrip sum.inject(2))

lemma hex_digits_plain: "c \<in> set hex_digits \<Longrightarrow> plain_char c"
  by (auto simp: hex_digits_def plain_char_def)

lemma literals_plain [simp]:
  "plain_char CHR ''0''" "plain_char CHR ''1''" "plain_char CHR ''n''" "plain_char CHR ''t''"
  "plain_char CHR ''f''" "plain_char CHR ''p''" "plain_char CHR ''m''" "plain_char CHR ''i''"
  "plain_char CHR ''d''" "plain_char CHR ''s''" "plain_char CHR ''a''" "plain_char CHR ''o''"
  by (simp_all add: plain_char_def)

lemma text_parts_plain:
  "c \<in> set (hex_fixed w n) \<Longrightarrow> plain_char c" "c \<in> set (quoted t) \<Longrightarrow> plain_char c"
  "c \<in> set (unary n) \<Longrightarrow> plain_char c"
  using hex_fixed_set [of w n] sample_hex_set [of "str_bytes t"]
  by (auto simp: quoted_def unary_def dest: hex_digits_plain split: if_splits)

lemma jenc_plain: "c \<in> set (jenc v) \<Longrightarrow> plain_char c"
proof (induction v arbitrary: c rule: jenc.induct)
  case (8 kvs)
  then show ?case by (auto dest: text_parts_plain)
qed (auto dest: text_parts_plain split: if_splits)

lemma sample_json_line_laws: "json_line_laws sample_crates"
proof -
  have "utf8_valid (str_bytes (jenc v))" for v
  proof (rule utf8_valid_ascii, rule ballI)
    fix b assume "b \<in> set (str_bytes (jenc v))"
    then obtain c where c: "c \<in> set (jenc v)" "b = of_nat (of_char c :: nat)"
      by (auto simp: str_bytes_def of_nat_of_char)
    then have "(of_char c :: nat) < 128" using jenc_plain by (auto simp: plain_char_def Let_def)
    with c(2) show "b \<le> 0x7F" by (simp add: word_le_nat_alt unat_of_nat)
  qed
  moreover have "str_trim (jenc v) = jenc v" for v
    by (rule str_trim_all_plain) (blast intro: jenc_plain)
  moreover have "jenc v \<noteq> []" for v using jenc_nonempty [of v] by auto
  moreover have "32 \<le> (of_char c :: nat)" if "c \<in> set (jenc v)" for c v
    using jenc_plain [OF that] by (simp add: plain_char_def Let_def)
  ultimately show ?thesis by (auto simp: json_line_laws_def)
qed

lemma sample_json_laws: "json_laws sample_crates"
  unfolding json_laws_def
proof (intro conjI allI impI)
  fix v w s
  assume "json_to_string sample_crates v = Inr s" "json_to_string sample_crates w = Inr s"
  then show "v = w" by (auto intro: jenc_inj)
next
  fix v s
  assume "json_to_string sample_crates v = Inr s"
  then show "json_from_str sample_crates s = Inr v" by (auto simp: sample_json_roundtrip)
qed

lemma sample_time_laws: "time_laws sample_crates"
  using dec_digits_set
  by (auto simp: time_laws_def sample_crates_def sample_rfc3339_format_def
      sample_rfc3339_parse_def rfc3339_text_def dec_value_digits split: if_splits)

lemma sample_aead_laws: "aead_laws sample_crates"
  by (auto simp: aead_laws_def sample_crates_def sample_encrypt_def sample_decrypt_def
      sample_tag_def Let_def)

lemma sample_hex_laws: "hex_laws sample_crates"
  using sample_hex_set
  by (simp add: hex_laws_def sample_crates_def sample_hex_roundtrip sample_hex_length)

lemma sample_ed25519_laws: "ed25519_laws sample_crates"
  by (simp add: ed25519_laws_def sample_crates_def)

lemma sample_sha256_laws: "sha256_laws sample_crates"
  by (simp add: sha256_laws_def sample_crates_def sample_sha256_def)

lemmas sample_laws =
  sample_uuid_laws sample_json_laws sample_json_line_laws sample_time_laws sample_aead_laws sample_hex_laws
  sample_ed25519_laws sample_sha256_laws

end
