(* ===== verification/Auth.thy ===== *)
theory Auth
  imports Ids Sample_Crates
begin

text \<open>
  Authentication and authorisation: \<open>src/auth/jwks.rs\<close>, \<open>src/auth/jwt.rs\<close>,
  \<open>src/auth/verifier.rs\<close> and \<open>src/authorization.rs\<close>.  The \<open>jsonwebtoken\<close> crate is the record
  \<open>jwt_crate\<close>; its documented guarantees are \<open>jwt_laws\<close>.
\<close>


section \<open>The token library\<close>

datatype Algorithm = RS256 | OtherAlgorithm

record Header =
  header_alg :: Algorithm
  header_kid :: "string option"

record RegisteredJwtClaims =
  claim_sub :: string
  claim_iss :: string
  claim_aud :: string
  claim_exp :: u64
  claim_mipsorcu_roles :: "string list"

record Validation =
  val_algorithm :: Algorithm
  val_issuer :: "string list"
  val_audience :: "string list"
  val_leeway :: u64

datatype ErrorKind =
    EK_InvalidSignature | EK_ExpiredSignature | EK_InvalidIssuer | EK_InvalidAudience
  | EK_InvalidAlgorithm | EK_Json | EK_Other

type_synonym decoding_key = "string \<times> string"

record jwt_crate =
  jwt_decode_header :: "string \<Rightarrow> ErrorKind + Header"
  jwt_from_rsa_components :: "string \<Rightarrow> string \<Rightarrow> decoding_key option"
  jwt_decode :: "string \<Rightarrow> decoding_key \<Rightarrow> Validation \<Rightarrow> ErrorKind + RegisteredJwtClaims"
  jwt_signed :: "string \<Rightarrow> decoding_key \<Rightarrow> bool"
  jwt_now :: u64

text \<open>\<open>decode\<close> returns claims only for a token signed by the key, issued by an accepted issuer
  for an accepted audience, and not expired beyond the leeway.\<close>

definition jwt_laws :: "jwt_crate \<Rightarrow> bool" where
  "jwt_laws J \<longleftrightarrow>
    (\<forall>t k v c. jwt_decode J t k v = Inr c \<longrightarrow>
      jwt_signed J t k \<and> claim_iss c \<in> set (val_issuer v) \<and> claim_aud c \<in> set (val_audience v) \<and>
      unat (jwt_now J) \<le> unat (claim_exp c) + unat (val_leeway v))"


section \<open>Key sets\<close>

record Jwk =
  jwk_kty :: string
  jwk_kid :: string
  jwk_alg :: "string option"
  jwk_public_key_use :: "string option"
  jwk_n :: string
  jwk_e :: string

definition validate_for_rs256 :: "Jwk \<Rightarrow> JwtVerificationError + unit" where
  "validate_for_rs256 k =
    (if jwk_kty k \<noteq> ''RSA'' then Inl InvalidJwks
     else if (case jwk_public_key_use k of None \<Rightarrow> False | Some u \<Rightarrow> u \<noteq> ''sig'')
       then Inl InvalidJwks
     else if (case jwk_alg k of None \<Rightarrow> False | Some a \<Rightarrow> a \<noteq> ''RS256'')
       then Inl UnsupportedAlgorithm
     else if str_trim (jwk_kid k) = [] \<or> str_trim (jwk_n k) = [] \<or> str_trim (jwk_e k) = []
       then Inl InvalidJwks
     else Inr ())"

datatype Jwks = Jwks (Jwks_keys: "Jwk list")

definition Jwks_new :: "Jwk list \<Rightarrow> JwtVerificationError + Jwks" where
  "Jwks_new keys =
    (if keys = [] then Inl InvalidJwks
     else rbind (try_each validate_for_rs256 keys) (\<lambda>_. Inr (Jwks keys)))"

definition find_signing_key :: "Jwks \<Rightarrow> string \<Rightarrow> JwtVerificationError + Jwk" where
  "find_signing_key jwks key_id =
    rbind (ok_or KeyNotFound (find (\<lambda>key. jwk_kid key = key_id) (Jwks_keys jwks))) (\<lambda>key.
    rbind (validate_for_rs256 key) (\<lambda>_. Inr key))"

definition Jwk_decoding_key :: "jwt_crate \<Rightarrow> Jwk \<Rightarrow> JwtVerificationError + decoding_key" where
  "Jwk_decoding_key J k = ok_or InvalidJwks (jwt_from_rsa_components J (jwk_n k) (jwk_e k))"

text \<open>The cache behind a read-write lock; a poisoned lock is \<^term>\<open>None\<close>.\<close>

type_synonym JwksCache = "Jwks option"

definition JwksCache_new :: "Jwks \<Rightarrow> JwksCache" where
  "JwksCache_new jwks = Some jwks"

definition JwksCache_snapshot :: "JwksCache \<Rightarrow> JwtVerificationError + Jwks" where
  "JwksCache_snapshot cache = ok_or InvalidJwks cache"

definition JwksCache_replace :: "Jwks \<Rightarrow> (JwksCache, JwtVerificationError, unit) comp" where
  "JwksCache_replace jwks cache =
    (case cache of None \<Rightarrow> (Inl InvalidJwks, None) | Some _ \<Rightarrow> (Inr (), Some jwks))"


section \<open>Tokens\<close>

datatype RawJwt = RawJwt (RawJwt_str: string)

definition RawJwt_new :: "string \<Rightarrow> JwtVerificationError + RawJwt" where
  "RawJwt_new value =
    (if str_trim value = [] then Inl EmptyToken else Inr (RawJwt value))"

record VerifiedJwtClaims =
  subject_user_id :: OwnerUserId
  issuer :: string
  audience :: string
  expires_at :: u64
  mipsorcu_roles :: "string list"

definition VerifiedJwtClaims_new ::
    "OwnerUserId \<Rightarrow> string \<Rightarrow> string \<Rightarrow> u64 \<Rightarrow> string list \<Rightarrow> VerifiedJwtClaims" where
  "VerifiedJwtClaims_new sub iss aud exp roles =
    \<lparr>subject_user_id = sub, issuer = iss, audience = aud, expires_at = exp,
     mipsorcu_roles = roles\<rparr>"

definition for_restore_test_only :: "OwnerUserId \<Rightarrow> VerifiedJwtClaims" where
  "for_restore_test_only owner_user_id =
    \<lparr>subject_user_id = owner_user_id, issuer = [], audience = [], expires_at = 0,
     mipsorcu_roles = []\<rparr>"

definition has_mipsorcu_role :: "VerifiedJwtClaims \<Rightarrow> string \<Rightarrow> bool" where
  "has_mipsorcu_role claims role =
    list_ex (\<lambda>candidate. candidate = role) (mipsorcu_roles claims)"

record JwtVerifierConfig =
  config_issuer :: string
  config_audience :: string
  config_leeway_seconds :: u64

definition JwtVerifierConfig_with_leeway_seconds ::
    "string \<Rightarrow> string \<Rightarrow> u64 \<Rightarrow> JwtVerificationError + JwtVerifierConfig" where
  "JwtVerifierConfig_with_leeway_seconds iss aud leeway =
    (if str_trim iss = [] \<or> str_trim aud = [] then Inl MalformedClaims
     else Inr \<lparr>config_issuer = iss, config_audience = aud, config_leeway_seconds = leeway\<rparr>)"

definition JwtVerifierConfig_new :: "string \<Rightarrow> string \<Rightarrow> JwtVerificationError + JwtVerifierConfig" where
  "JwtVerifierConfig_new iss aud = JwtVerifierConfig_with_leeway_seconds iss aud 0"

record JwtVerifier =
  verifier_config :: JwtVerifierConfig
  verifier_jwks_cache :: JwksCache

fun map_jwt_error :: "ErrorKind \<Rightarrow> JwtVerificationError" where
  "map_jwt_error EK_InvalidSignature = InvalidSignature"
| "map_jwt_error EK_ExpiredSignature = Expired"
| "map_jwt_error EK_InvalidIssuer = InvalidIssuer"
| "map_jwt_error EK_InvalidAudience = InvalidAudience"
| "map_jwt_error EK_InvalidAlgorithm = UnsupportedAlgorithm"
| "map_jwt_error EK_Json = MalformedClaims"
| "map_jwt_error EK_Other = InvalidToken"

definition verify ::
    "crates \<Rightarrow> jwt_crate \<Rightarrow> JwtVerifier \<Rightarrow> RawJwt \<Rightarrow> JwtVerificationError + VerifiedJwtClaims" where
  "verify C J v raw_jwt =
    rbind (map_err map_jwt_error (jwt_decode_header J (RawJwt_str raw_jwt))) (\<lambda>header.
    if header_alg header \<noteq> RS256 then Inl UnsupportedAlgorithm
    else
    rbind (ok_or MissingKeyId (header_kid header)) (\<lambda>key_id.
    rbind (JwksCache_snapshot (verifier_jwks_cache v)) (\<lambda>jwks.
    rbind (find_signing_key jwks key_id) (\<lambda>jwk.
    rbind (Jwk_decoding_key J jwk) (\<lambda>decoding_key.
    let validation =
      \<lparr>val_algorithm = RS256, val_issuer = [config_issuer (verifier_config v)],
       val_audience = [config_audience (verifier_config v)],
       val_leeway = config_leeway_seconds (verifier_config v)\<rparr> in
    rbind (map_err map_jwt_error (jwt_decode J (RawJwt_str raw_jwt) decoding_key validation))
      (\<lambda>token.
    rbind (map_err (\<lambda>_. InvalidSubject) (OwnerUserId_parse C (claim_sub token)))
      (\<lambda>subject.
    Inr (VerifiedJwtClaims_new subject (claim_iss token) (claim_aud token) (claim_exp token)
      (claim_mipsorcu_roles token)))))))))"


section \<open>Authorisation\<close>

definition AUDITOR_ROLE :: string where "AUDITOR_ROLE = ''auditor''"

definition authorize_new_secret_create :: "VerifiedJwtClaims \<Rightarrow> AuthorizationError + unit" where
  "authorize_new_secret_create claims = Inr ()"

definition authorize_current_version_decrypt ::
    "VerifiedJwtClaims \<Rightarrow> OwnerUserId \<Rightarrow> SecretVersion \<Rightarrow> SecretVersion \<Rightarrow>
     AuthorizationError + unit" where
  "authorize_current_version_decrypt claims owner requested_version current_version =
    (if subject_user_id claims \<noteq> owner then Inl OwnerMismatch
     else if requested_version \<noteq> current_version then Inl NotCurrentVersion
     else Inr ())"

definition authorize_existing_secret_version_write ::
    "VerifiedJwtClaims \<Rightarrow> OwnerUserId \<Rightarrow> AuthorizationError + unit" where
  "authorize_existing_secret_version_write claims owner =
    (if subject_user_id claims \<noteq> owner then Inl OwnerMismatch else Inr ())"

definition authorize_audit_ui_read :: "VerifiedJwtClaims \<Rightarrow> AuthorizationError + unit" where
  "authorize_audit_ui_read claims =
    (if \<not> has_mipsorcu_role claims AUDITOR_ROLE then Inl MissingAuditorRole else Inr ())"


section \<open>Lemmas\<close>

lemma authorize_current_version_decrypt_Inr [simp]:
  "authorize_current_version_decrypt claims owner v w = Inr () \<longleftrightarrow>
    subject_user_id claims = owner \<and> v = w"
  by (simp add: authorize_current_version_decrypt_def)

lemma has_mipsorcu_role_iff: "has_mipsorcu_role claims r \<longleftrightarrow> r \<in> set (mipsorcu_roles claims)"
  by (auto simp: has_mipsorcu_role_def list_ex_iff)

lemma validate_for_rs256_Inr:
  "validate_for_rs256 k = Inr () \<longleftrightarrow>
    jwk_kty k = ''RSA'' \<and> jwk_public_key_use k \<in> {None, Some ''sig''} \<and>
    jwk_alg k \<in> {None, Some ''RS256''} \<and>
    str_trim (jwk_kid k) \<noteq> [] \<and> str_trim (jwk_n k) \<noteq> [] \<and> str_trim (jwk_e k) \<noteq> []"
  by (auto simp: validate_for_rs256_def split: option.splits)

lemma find_signing_key_Inr:
  "find_signing_key jwks key_id = Inr k \<Longrightarrow>
    k \<in> set (Jwks_keys jwks) \<and> jwk_kid k = key_id \<and> validate_for_rs256 k = Inr ()"
  by (auto simp: find_signing_key_def dest: find_SomeD)

text \<open>
  C9 --- A token is accepted only if it is signed, under RS256, by the RSA key of the cached
  key set that its header names, was issued by the configured issuer for the configured
  audience, has not expired beyond the configured leeway, and names a UUID as subject; the
  returned claims are those of the token.
\<close>
theorem verify_sound:
  assumes "jwt_laws J" and "verify C J v raw = Inr claims"
  shows "\<exists>(header :: Header) kid jwks jwk key (token :: RegisteredJwtClaims) (val :: Validation).
    jwt_decode_header J (RawJwt_str raw) = Inr header \<and> header_alg header = RS256 \<and>
    header_kid header = Some kid \<and> verifier_jwks_cache v = Some jwks \<and>
    jwk \<in> set (Jwks_keys jwks) \<and> jwk_kid jwk = kid \<and> validate_for_rs256 jwk = Inr () \<and>
    jwt_from_rsa_components J (jwk_n jwk) (jwk_e jwk) = Some key \<and>
    jwt_signed J (RawJwt_str raw) key \<and>
    val_algorithm val = RS256 \<and> jwt_decode J (RawJwt_str raw) key val = Inr token \<and>
    mipsorcu_roles claims = claim_mipsorcu_roles token \<and>
    OwnerUserId_parse C (claim_sub token) = Inr (subject_user_id claims) \<and>
    issuer claims = config_issuer (verifier_config v) \<and>
    audience claims = config_audience (verifier_config v) \<and>
    unat (jwt_now J) \<le>
      unat (expires_at claims) + unat (config_leeway_seconds (verifier_config v))"
proof -
  from assms(2) obtain header kid jwks jwk key token where
    h: "jwt_decode_header J (RawJwt_str raw) = Inr header" "header_alg header = RS256"
      "header_kid header = Some kid" "verifier_jwks_cache v = Some jwks"
      "find_signing_key jwks kid = Inr jwk"
      "jwt_from_rsa_components J (jwk_n jwk) (jwk_e jwk) = Some key"
      "jwt_decode J (RawJwt_str raw) key
        \<lparr>val_algorithm = RS256, val_issuer = [config_issuer (verifier_config v)],
         val_audience = [config_audience (verifier_config v)],
         val_leeway = config_leeway_seconds (verifier_config v)\<rparr> = Inr token"
      "OwnerUserId_parse C (claim_sub token) = Inr (subject_user_id claims)"
      "claims = VerifiedJwtClaims_new (subject_user_id claims) (claim_iss token)
        (claim_aud token) (claim_exp token) (claim_mipsorcu_roles token)"
    by (auto simp: verify_def Let_def JwksCache_snapshot_def Jwk_decoding_key_def
        VerifiedJwtClaims_new_def split: if_splits)
  have "jwt_signed J (RawJwt_str raw) key" "claim_iss token = config_issuer (verifier_config v)"
    "claim_aud token = config_audience (verifier_config v)"
    "unat (jwt_now J) \<le>
      unat (claim_exp token) + unat (config_leeway_seconds (verifier_config v))"
    using assms(1) h(7) unfolding jwt_laws_def by fastforce+
  moreover have "issuer claims = claim_iss token" "audience claims = claim_aud token"
    "expires_at claims = claim_exp token" "mipsorcu_roles claims = claim_mipsorcu_roles token"
    by (subst h(9), simp add: VerifiedJwtClaims_new_def)+
  ultimately show ?thesis
    using h(1-4,6,8) find_signing_key_Inr [OF h(5)]
    by (intro exI [of _ header] exI [of _ kid] exI [of _ jwks] exI [of _ jwk] exI [of _ key]
        exI [of _ token] exI [of _ "\<lparr>val_algorithm = RS256,
          val_issuer = [config_issuer (verifier_config v)],
          val_audience = [config_audience (verifier_config v)],
          val_leeway = config_leeway_seconds (verifier_config v)\<rparr>"] conjI)
      (simp_all add: h(7))
qed



section \<open>A concrete token\<close>

definition sample_token :: RegisteredJwtClaims where
  "sample_token =
    \<lparr>claim_sub = sample_hyphenated 5, claim_iss = ''iss'', claim_aud = ''aud'', claim_exp = 10,
     claim_mipsorcu_roles = [AUDITOR_ROLE]\<rparr>"

definition sample_jwt :: jwt_crate where
  "sample_jwt =
    \<lparr>jwt_decode_header = (\<lambda>_. Inr \<lparr>header_alg = RS256, header_kid = Some ''k''\<rparr>),
     jwt_from_rsa_components = (\<lambda>n e. Some (n, e)),
     jwt_decode = (\<lambda>t k v.
       if t = ''token'' \<and> ''iss'' \<in> set (val_issuer v) \<and> ''aud'' \<in> set (val_audience v)
       then Inr sample_token else Inl EK_InvalidSignature),
     jwt_signed = (\<lambda>t k. t = ''token''),
     jwt_now = 5\<rparr>"

definition sample_verifier :: JwtVerifier where
  "sample_verifier =
    \<lparr>verifier_config = \<lparr>config_issuer = ''iss'', config_audience = ''aud'',
       config_leeway_seconds = 0\<rparr>,
     verifier_jwks_cache = Some (Jwks
       [\<lparr>jwk_kty = ''RSA'', jwk_kid = ''k'', jwk_alg = None, jwk_public_key_use = None,
         jwk_n = ''n'', jwk_e = ''e''\<rparr>])\<rparr>"

lemma sample_jwt_laws: "jwt_laws sample_jwt"
  by (simp add: jwt_laws_def sample_jwt_def sample_token_def split: if_splits)

lemma sample_verify:
  "verify sample_crates sample_jwt sample_verifier (RawJwt ''token'') =
    Inr (VerifiedJwtClaims_new (OwnerUserId 5) ''iss'' ''aud'' 10 [AUDITOR_ROLE])"
proof -
  have trim: "str_trim ''k'' = ''k''" "str_trim ''n'' = ''n''" "str_trim ''e'' = ''e''"
    by (rule str_trim_all_plain, simp add: plain_char_def)+
  show ?thesis
    by (simp add: verify_def sample_jwt_def sample_verifier_def JwksCache_snapshot_def
        find_signing_key_def validate_for_rs256_def Jwk_decoding_key_def OwnerUserId_parse_def
        sample_token_def sample_uuid_roundtrip trim del: rbind_eq_Inr)
qed

theorem verify_sound_witness:
  "jwt_laws sample_jwt \<and>
    (\<exists>key. jwt_signed sample_jwt ''token'' key \<and> unat (jwt_now sample_jwt) \<le> 10)"
  using sample_jwt_laws verify_sound [OF sample_jwt_laws sample_verify]
  by (auto simp: VerifiedJwtClaims_new_def sample_verifier_def)

end
