(* ===== verification/Aad.thy ===== *)
theory Aad
  imports Ids
begin

text \<open>
  The associated data that binds a ciphertext to its row: \<open>src/aad.rs\<close>.  \<open>AadV1\<close> is printed
  as canonical JSON (fields in alphabetical order) for the cipher, and as a JSON object for
  the database column \<open>aad_context\<close>.
\<close>

definition AAD_VERSION_V1 :: u8 where "AAD_VERSION_V1 = 1"

definition AAD_V1_FIELDS :: "string list" where
  "AAD_V1_FIELDS =
    [''aad_version'', ''classification'', ''created_at'', ''owner_user_id'', ''secret_id'',
     ''version'']"

record AadV1 =
  aad_secret_id :: SecretId
  aad_version :: SecretVersion
  aad_owner_user_id :: OwnerUserId
  aad_classification :: Classification
  aad_created_at :: CreatedAt

definition AadV1_new ::
    "SecretId \<Rightarrow> SecretVersion \<Rightarrow> OwnerUserId \<Rightarrow> Classification \<Rightarrow> CreatedAt \<Rightarrow> AadV1" where
  "AadV1_new secret_id version owner_user_id classification created_at =
    \<lparr>aad_secret_id = secret_id, aad_version = version, aad_owner_user_id = owner_user_id,
     aad_classification = classification, aad_created_at = created_at\<rparr>"

definition AadV1_parse ::
    "crates \<Rightarrow> string \<Rightarrow> u32 \<Rightarrow> string \<Rightarrow> string \<Rightarrow> string \<Rightarrow> AadError + AadV1" where
  "AadV1_parse C secret_id version owner_user_id classification created_at =
    rbind (SecretId_parse C secret_id) (\<lambda>secret_id.
    rbind (SecretVersion_new version) (\<lambda>version.
    rbind (OwnerUserId_parse C owner_user_id) (\<lambda>owner_user_id.
    rbind (Classification_new classification) (\<lambda>classification.
    rbind (CreatedAt_parse C created_at) (\<lambda>created_at.
    Inr (AadV1_new secret_id version owner_user_id classification created_at))))))"

definition required_value :: "(string \<times> json) list \<Rightarrow> string \<Rightarrow> AadError + json" where
  "required_value object field = ok_or (MissingField field) (bt_get object field)"

text \<open>The checks on field sets, strings and numbers that \<open>src/aad.rs\<close> and
  \<open>src/alias/aad.rs\<close> both make, over the list of expected fields.\<close>

definition validate_field_set :: "string list \<Rightarrow> (string \<times> json) list \<Rightarrow> AadError + unit" where
  "validate_field_set names object =
    rbind (try_each (\<lambda>field. map_ok (\<lambda>_. ()) (required_value object field)) names) (\<lambda>_.
    case find (\<lambda>key. key \<notin> set names) (bt_keys object) of
      Some field \<Rightarrow> Inl (UnexpectedField field)
    | None \<Rightarrow> Inr ())"

definition validate_aad_v1_field_set :: "(string \<times> json) list \<Rightarrow> AadError + unit" where
  "validate_aad_v1_field_set object = validate_field_set AAD_V1_FIELDS object"

definition parse_required_string :: "(string \<times> json) list \<Rightarrow> string \<Rightarrow> AadError + string" where
  "parse_required_string object field =
    rbind (required_value object field) (\<lambda>v.
    ok_or (InvalidFieldType field ''a string'') (as_str v))"

definition parse_positive_integer :: "crates \<Rightarrow> json \<Rightarrow> string \<Rightarrow> AadError + u32" where
  "parse_positive_integer C v field =
    (case v of
      JNumber n \<Rightarrow>
        rbind (ok_or (InvalidPositiveInteger field (json_number_to_string C n)) (as_u64 n))
          (\<lambda>parsed.
        rbind (ok_or (InvalidPositiveInteger field (json_number_to_string C n))
          (try_from_word parsed)) (\<lambda>parsed.
        if parsed = 0 then Inl (InvalidPositiveInteger field (json_number_to_string C n))
        else Inr parsed))
    | _ \<Rightarrow> Inl (InvalidFieldType field ''a positive integer''))"

definition parse_required_positive_integer ::
    "crates \<Rightarrow> (string \<times> json) list \<Rightarrow> string \<Rightarrow> AadError + u32" where
  "parse_required_positive_integer C object field =
    rbind (required_value object field) (\<lambda>v. parse_positive_integer C v field)"

definition parse_aad_version :: "crates \<Rightarrow> json \<Rightarrow> AadError + u8" where
  "parse_aad_version C v =
    (case v of
      JNumber n \<Rightarrow>
        rbind (ok_or (UnsupportedAadVersion (json_number_to_string C n))
          (Option.bind (as_u64 n) try_from_word)) (\<lambda>parsed.
        if parsed = AAD_VERSION_V1 then Inr parsed
        else Inl (UnsupportedAadVersion (json_number_to_string C n)))
    | _ \<Rightarrow> Inl (InvalidFieldType ''aad_version'' ''the integer 1''))"

definition from_stored_context :: "crates \<Rightarrow> json \<Rightarrow> AadError + AadV1" where
  "from_stored_context C context =
    rbind (ok_or ExpectedJsonObject (as_object context)) (\<lambda>object.
    rbind (validate_aad_v1_field_set object) (\<lambda>_.
    rbind (rbind (required_value object ''aad_version'') (parse_aad_version C)) (\<lambda>version_tag.
    if version_tag \<noteq> AAD_VERSION_V1
      then Inl (UnsupportedAadVersion (dec_digits (unat version_tag)))
    else
    rbind (parse_required_string object ''secret_id'') (\<lambda>secret_id.
    rbind (parse_required_positive_integer C object ''version'') (\<lambda>version.
    rbind (parse_required_string object ''owner_user_id'') (\<lambda>owner_user_id.
    rbind (parse_required_string object ''classification'') (\<lambda>classification.
    rbind (parse_required_string object ''created_at'') (\<lambda>created_at.
    AadV1_parse C secret_id version owner_user_id classification created_at))))))))"

definition from_row_metadata ::
    "SecretId \<Rightarrow> SecretVersion \<Rightarrow> OwnerUserId \<Rightarrow> Classification \<Rightarrow> CreatedAt \<Rightarrow> AadV1" where
  "from_row_metadata secret_id version owner_user_id classification created_at =
    AadV1_new secret_id version owner_user_id classification created_at"

text \<open>The document \<open>CanonicalAad\<close> with its fields in the order they are declared.\<close>

definition CanonicalAad :: "crates \<Rightarrow> AadV1 \<Rightarrow> string \<Rightarrow> json" where
  "CanonicalAad C aad created_at =
    JObject
     [(''aad_version'', json_uint AAD_VERSION_V1),
      (''classification'', JString (Classification_str (aad_classification aad))),
      (''created_at'', JString created_at),
      (''owner_user_id'', JString (OwnerUserId_as_canonical_string C (aad_owner_user_id aad))),
      (''secret_id'', JString (SecretId_as_canonical_string C (aad_secret_id aad))),
      (''version'', json_uint (SecretVersion_get (aad_version aad)))]"

definition canonical_json :: "crates \<Rightarrow> AadV1 \<Rightarrow> AadError + string" where
  "canonical_json C aad =
    rbind (CreatedAt_as_rfc3339_utc C (aad_created_at aad)) (\<lambda>created_at.
    map_err SerializationFailed (json_to_string C (CanonicalAad C aad created_at)))"

definition canonical_bytes :: "crates \<Rightarrow> AadV1 \<Rightarrow> AadError + bytes" where
  "canonical_bytes C aad = map_ok str_bytes (canonical_json C aad)"

definition to_stored_context :: "crates \<Rightarrow> AadV1 \<Rightarrow> AadError + json" where
  "to_stored_context C aad =
    rbind (CreatedAt_as_rfc3339_utc C (aad_created_at aad)) (\<lambda>created_at.
    Inr (json_object
     [(''aad_version'', json_uint AAD_VERSION_V1),
      (''secret_id'', JString (SecretId_as_canonical_string C (aad_secret_id aad))),
      (''version'', json_uint (SecretVersion_get (aad_version aad))),
      (''owner_user_id'', JString (OwnerUserId_as_canonical_string C (aad_owner_user_id aad))),
      (''classification'', JString (Classification_str (aad_classification aad))),
      (''created_at'', JString created_at)]))"

definition AadV1_wf :: "crates \<Rightarrow> AadV1 \<Rightarrow> bool" where
  "AadV1_wf C aad \<longleftrightarrow>
    uuid_is_v4 C (SecretId_uuid (aad_secret_id aad)) \<and> SecretVersion_wf (aad_version aad) \<and>
    Classification_wf (aad_classification aad) \<and> CreatedAt_wf C (aad_created_at aad)"


section \<open>Lemmas\<close>

lemma AadV1_eqI:
  fixes a b :: AadV1
  assumes "aad_secret_id a = aad_secret_id b" "aad_version a = aad_version b"
    "aad_owner_user_id a = aad_owner_user_id b" "aad_classification a = aad_classification b"
    "aad_created_at a = aad_created_at b"
  shows "a = b"
  using assms by (cases a; cases b) simp

lemma AadV1_parse_wf: "time_laws C \<Longrightarrow> AadV1_parse C i v u c t = Inr aad \<Longrightarrow> AadV1_wf C aad"
  by (auto simp: AadV1_parse_def AadV1_wf_def AadV1_new_def Classification_new_def
      Classification_wf_def dest: uuid_id_v4 CreatedAt_parse_wf split: if_splits)

lemma from_stored_context_wf:
  "time_laws C \<Longrightarrow> from_stored_context C ctx = Inr aad \<Longrightarrow> AadV1_wf C aad"
  by (auto simp: from_stored_context_def split: if_splits intro: AadV1_parse_wf)

text \<open>An accepted object has exactly the expected fields.\<close>

lemma validate_field_set_iff:
  "validate_field_set names object = Inr () \<longleftrightarrow> set (bt_keys object) = set names"
proof -
  have get: "bt_get object f = None \<longleftrightarrow> f \<notin> set (bt_keys object)" for f
    by (simp add: bt_get_def bt_keys_def map_of_eq_None_iff)
  have "validate_field_set names object = Inr () \<longleftrightarrow>
      (\<forall>f \<in> set names. bt_get object f \<noteq> None) \<and> set (bt_keys object) \<subseteq> set names"
    by (auto simp: validate_field_set_def try_each_eq_Inr required_value_def find_None_iff
        dest!: find_SomeD split: option.splits)
  with get show ?thesis by auto
qed

lemma parse_aad_version_1 [simp]:
  "parse_aad_version C (json_uint AAD_VERSION_V1) = Inr AAD_VERSION_V1"
  by (simp add: parse_aad_version_def json_uint_def AAD_VERSION_V1_def as_u64_def
      try_from_word_def)

lemma parse_positive_integer_uint [simp]:
  "v \<noteq> 0 \<Longrightarrow> parse_positive_integer C (json_uint v) f = Inr v"
  by (simp add: parse_positive_integer_def json_uint_def as_u64_def)

text \<open>The stored context is read back as the associated data it was made from.\<close>

lemma stored_context_roundtrip:
  assumes "uuid_laws C" "time_laws C" "AadV1_wf C aad" "to_stored_context C aad = Inr ctx"
  shows "from_stored_context C ctx = Inr aad"
proof -
  from assms(4) obtain t where t: "CreatedAt_as_rfc3339_utc C (aad_created_at aad) = Inr t"
    by (auto simp: to_stored_context_def)
  define kvs where "kvs =
     [(''aad_version'', json_uint AAD_VERSION_V1),
      (''secret_id'', JString (SecretId_as_canonical_string C (aad_secret_id aad))),
      (''version'', json_uint (SecretVersion_get (aad_version aad))),
      (''owner_user_id'', JString (OwnerUserId_as_canonical_string C (aad_owner_user_id aad))),
      (''classification'', JString (Classification_str (aad_classification aad))),
      (''created_at'', JString t)]"
  have ctx: "ctx = JObject (bt_of_list kvs)"
    using assms(4) t by (simp add: to_stored_context_def json_object_def kvs_def)
  have "bt_get (bt_of_list kvs) f = map_of kvs f" for f
    by (rule bt_get_of_list) (simp add: kvs_def)
  then have get: "bt_get (bt_of_list kvs) ''aad_version'' = Some (json_uint AAD_VERSION_V1)"
    "bt_get (bt_of_list kvs) ''secret_id'' =
      Some (JString (SecretId_as_canonical_string C (aad_secret_id aad)))"
    "bt_get (bt_of_list kvs) ''version'' =
      Some (json_uint (SecretVersion_get (aad_version aad)))"
    "bt_get (bt_of_list kvs) ''owner_user_id'' =
      Some (JString (OwnerUserId_as_canonical_string C (aad_owner_user_id aad)))"
    "bt_get (bt_of_list kvs) ''classification'' =
      Some (JString (Classification_str (aad_classification aad)))"
    "bt_get (bt_of_list kvs) ''created_at'' = Some (JString t)"
    by (simp_all add: kvs_def)
  have "validate_aad_v1_field_set (bt_of_list kvs) = Inr ()"
    unfolding validate_aad_v1_field_set_def validate_field_set_iff bt_keys_of_list
    by (auto simp: kvs_def AAD_V1_FIELDS_def)
  moreover have "CreatedAt_parse C t = Inr (aad_created_at aad)"
    using assms t by (auto simp: AadV1_wf_def intro: CreatedAt_roundtrip)
  moreover have "AadV1_new (aad_secret_id aad) (aad_version aad) (aad_owner_user_id aad)
      (aad_classification aad) (aad_created_at aad) = aad"
    by (rule AadV1_eqI) (simp_all add: AadV1_new_def)
  ultimately show ?thesis
    using assms(1,3) uuid_id_roundtrips [of C]
    by (cases "aad_version aad"; cases "aad_classification aad")
      (simp add: ctx from_stored_context_def as_object_def required_value_def get
        parse_required_string_def parse_required_positive_integer_def as_str_def AadV1_parse_def
        AadV1_wf_def SecretVersion_wf_def SecretVersion_new_def Classification_wf_def
        Classification_new_def del: rbind_eq_Inr)
qed

lemma CanonicalAad_exact: "json_exact (CanonicalAad C aad t)"
  by (simp add: CanonicalAad_def)

text \<open>The bytes given to the cipher determine the associated data.\<close>

lemma canonical_bytes_inj:
  assumes "uuid_laws C" "json_laws C" "time_laws C" "AadV1_wf C a" "AadV1_wf C b"
    and "canonical_bytes C a = Inr s" "canonical_bytes C b = Inr s"
  shows "a = b"
proof -
  from assms(6,7) obtain ta tb where
    ta: "CreatedAt_as_rfc3339_utc C (aad_created_at a) = Inr ta" and
    tb: "CreatedAt_as_rfc3339_utc C (aad_created_at b) = Inr tb" and
    doc: "\<exists>j. json_to_string C (CanonicalAad C a ta) = Inr j \<and>
          json_to_string C (CanonicalAad C b tb) = Inr j"
    by (auto simp: canonical_bytes_def canonical_json_def)
  from doc have eq: "CanonicalAad C a ta = CanonicalAad C b tb"
    using json_lawsD(1) [OF assms(2) CanonicalAad_exact CanonicalAad_exact] by blast
  have "CreatedAt_parse C ta = Inr (aad_created_at a)" "CreatedAt_parse C tb = Inr (aad_created_at b)"
    using assms(3-5) ta tb by (auto simp: AadV1_wf_def intro: CreatedAt_roundtrip)
  with eq have "aad_created_at a = aad_created_at b" by (simp add: CanonicalAad_def)
  with eq show ?thesis
    using uuid_hyphenated_inj [OF assms(1)]
    by (intro AadV1_eqI) (auto simp: CanonicalAad_def json_uint_inj_u32
        SecretId_as_canonical_string_def OwnerUserId_as_canonical_string_def
        intro: SecretId.expand SecretVersion.expand OwnerUserId.expand Classification.expand)
qed

end
