(* ===== verification/Secret_Material.thy ===== *)
theory Secret_Material
  imports Ids
begin

text \<open>
  Keys, nonces and ciphertexts of \<open>src/types/secret_material.rs\<close>.  A fixed-size array
  \<open>[u8; n]\<close> is a byte list whose constructors fix its length; \<open>..._wf\<close> is that invariant.
  Zeroing memory on drop has no counterpart here.
\<close>

definition DATA_KEY_LENGTH :: nat where "DATA_KEY_LENGTH = 32"
definition MASTER_KEY_LENGTH :: nat where "MASTER_KEY_LENGTH = 32"
definition NONCE_LENGTH :: nat where "NONCE_LENGTH = 24"
definition ENCRYPTED_DATA_KEY_VERSION :: u8 where "ENCRYPTED_DATA_KEY_VERSION = 1"
definition ENCRYPTED_DATA_KEY_TAG_LENGTH :: nat where "ENCRYPTED_DATA_KEY_TAG_LENGTH = 16"
definition ENCRYPTED_DATA_KEY_CIPHERTEXT_LENGTH :: nat where
  "ENCRYPTED_DATA_KEY_CIPHERTEXT_LENGTH = DATA_KEY_LENGTH + ENCRYPTED_DATA_KEY_TAG_LENGTH"
definition ENCRYPTED_DATA_KEY_LENGTH :: nat where
  "ENCRYPTED_DATA_KEY_LENGTH = 1 + NONCE_LENGTH + ENCRYPTED_DATA_KEY_CIPHERTEXT_LENGTH"

lemmas length_consts =
  DATA_KEY_LENGTH_def MASTER_KEY_LENGTH_def NONCE_LENGTH_def ENCRYPTED_DATA_KEY_TAG_LENGTH_def
  ENCRYPTED_DATA_KEY_CIPHERTEXT_LENGTH_def ENCRYPTED_DATA_KEY_LENGTH_def

datatype DataKey = DataKey (DataKey_bytes: bytes)
datatype MasterKey = MasterKey (MasterKey_bytes: bytes)
datatype AliasEncryptionKey = AliasEncryptionKey (AliasEncryptionKey_bytes: bytes)
datatype AliasFingerprintKey = AliasFingerprintKey (AliasFingerprintKey_bytes: bytes)
datatype EncryptedDataKey = EncryptedDataKey (EncryptedDataKey_bytes: bytes)
datatype Nonce = Nonce (Nonce_bytes: bytes)
datatype Ciphertext = Ciphertext (Ciphertext_bytes: bytes)
datatype Plaintext = Plaintext (Plaintext_bytes: bytes)

definition DataKey_generate :: "(rng, CryptoError, DataKey) comp" where
  "DataKey_generate =
    sbind (smap_err (\<lambda>_. RandomnessUnavailable) (getrandom_fill DATA_KEY_LENGTH)) (\<lambda>bytes.
    sret (DataKey bytes))"

definition DataKey_parse :: "bytes \<Rightarrow> CryptoError + DataKey" where
  "DataKey_parse b =
    (if length b \<noteq> DATA_KEY_LENGTH then Inl (InvalidDataKeyLength (length b))
     else Inr (DataKey b))"

definition MasterKey_generate :: "(rng, CryptoError, MasterKey) comp" where
  "MasterKey_generate =
    sbind (smap_err (\<lambda>_. RandomnessUnavailable) (getrandom_fill MASTER_KEY_LENGTH)) (\<lambda>bytes.
    sret (MasterKey bytes))"

definition MasterKey_parse :: "bytes \<Rightarrow> CryptoError + MasterKey" where
  "MasterKey_parse b =
    (if length b \<noteq> MASTER_KEY_LENGTH then Inl (InvalidMasterKeyLength (length b))
     else Inr (MasterKey b))"

definition AliasEncryptionKey_parse :: "bytes \<Rightarrow> CryptoError + AliasEncryptionKey" where
  "AliasEncryptionKey_parse b =
    (if length b \<noteq> MASTER_KEY_LENGTH then Inl (InvalidAliasEncryptionKeyLength (length b))
     else Inr (AliasEncryptionKey b))"

definition AliasFingerprintKey_parse :: "bytes \<Rightarrow> CryptoError + AliasFingerprintKey" where
  "AliasFingerprintKey_parse b =
    (if length b \<noteq> MASTER_KEY_LENGTH then Inl (InvalidAliasFingerprintKeyLength (length b))
     else Inr (AliasFingerprintKey b))"

definition validate_encrypted_data_key_envelope :: "bytes \<Rightarrow> CryptoError + unit" where
  "validate_encrypted_data_key_envelope b =
    (if length b \<noteq> ENCRYPTED_DATA_KEY_LENGTH
       then Inl (InvalidEncryptedDataKeyLength (length b))
     else if b ! 0 \<noteq> ENCRYPTED_DATA_KEY_VERSION
       then Inl (UnsupportedEncryptedDataKeyVersion (b ! 0))
     else Inr ())"

definition EncryptedDataKey_parse :: "bytes \<Rightarrow> CryptoError + EncryptedDataKey" where
  "EncryptedDataKey_parse b =
    rbind (validate_encrypted_data_key_envelope b) (\<lambda>_. Inr (EncryptedDataKey b))"

definition EncryptedDataKey_from_envelope_bytes :: "bytes \<Rightarrow> CryptoError + EncryptedDataKey" where
  "EncryptedDataKey_from_envelope_bytes b =
    rbind (validate_encrypted_data_key_envelope b) (\<lambda>_. Inr (EncryptedDataKey b))"

definition EncryptedDataKey_version :: "EncryptedDataKey \<Rightarrow> u8" where
  "EncryptedDataKey_version e = EncryptedDataKey_bytes e ! 0"

definition EncryptedDataKey_nonce_bytes :: "EncryptedDataKey \<Rightarrow> bytes" where
  "EncryptedDataKey_nonce_bytes e = take NONCE_LENGTH (drop 1 (EncryptedDataKey_bytes e))"

definition EncryptedDataKey_ciphertext_bytes :: "EncryptedDataKey \<Rightarrow> bytes" where
  "EncryptedDataKey_ciphertext_bytes e = drop (1 + NONCE_LENGTH) (EncryptedDataKey_bytes e)"

definition Nonce_generate :: "(rng, CryptoError, Nonce) comp" where
  "Nonce_generate =
    sbind (smap_err (\<lambda>_. RandomnessUnavailable) (getrandom_fill NONCE_LENGTH)) (\<lambda>bytes.
    sret (Nonce bytes))"

definition Nonce_parse :: "bytes \<Rightarrow> CryptoError + Nonce" where
  "Nonce_parse b =
    (if length b \<noteq> NONCE_LENGTH then Inl (InvalidNonceLength (length b)) else Inr (Nonce b))"

definition Ciphertext_new :: "bytes \<Rightarrow> CryptoError + Ciphertext" where
  "Ciphertext_new b = (if b = [] then Inl EmptyCiphertext else Inr (Ciphertext b))"

definition DataKey_wf :: "DataKey \<Rightarrow> bool" where
  "DataKey_wf k \<longleftrightarrow> length (DataKey_bytes k) = DATA_KEY_LENGTH"

definition MasterKey_wf :: "MasterKey \<Rightarrow> bool" where
  "MasterKey_wf k \<longleftrightarrow> length (MasterKey_bytes k) = MASTER_KEY_LENGTH"

definition AliasEncryptionKey_wf :: "AliasEncryptionKey \<Rightarrow> bool" where
  "AliasEncryptionKey_wf k \<longleftrightarrow> length (AliasEncryptionKey_bytes k) = MASTER_KEY_LENGTH"

definition Nonce_wf :: "Nonce \<Rightarrow> bool" where
  "Nonce_wf n \<longleftrightarrow> length (Nonce_bytes n) = NONCE_LENGTH"

definition Ciphertext_wf :: "Ciphertext \<Rightarrow> bool" where
  "Ciphertext_wf c \<longleftrightarrow> Ciphertext_bytes c \<noteq> []"

text \<open>The envelope is one version byte, the nonce, and the wrapped key with its tag.\<close>

definition EncryptedDataKey_wf :: "EncryptedDataKey \<Rightarrow> bool" where
  "EncryptedDataKey_wf e \<longleftrightarrow>
    length (EncryptedDataKey_bytes e) = ENCRYPTED_DATA_KEY_LENGTH \<and>
    EncryptedDataKey_bytes e ! 0 = ENCRYPTED_DATA_KEY_VERSION"

lemma generate_wf [wf_intros]:
  assumes "rng_fills r"
  shows "DataKey_generate r = (Inr k, r') \<Longrightarrow> DataKey_wf k \<and> rng_fills r'"
    and "MasterKey_generate r = (Inr m, r') \<Longrightarrow> MasterKey_wf m \<and> rng_fills r'"
    and "Nonce_generate r = (Inr n, r') \<Longrightarrow> Nonce_wf n \<and> rng_fills r'"
  using getrandom_fill_length [OF _ assms]
  by (auto simp: DataKey_generate_def MasterKey_generate_def Nonce_generate_def DataKey_wf_def
      MasterKey_wf_def Nonce_wf_def sbind_eq_Inr)

lemma parse_wf [wf_intros]:
  "DataKey_parse b = Inr k \<Longrightarrow> DataKey_wf k"
  "MasterKey_parse b = Inr m \<Longrightarrow> MasterKey_wf m"
  "Nonce_parse b = Inr n \<Longrightarrow> Nonce_wf n"
  "EncryptedDataKey_parse b = Inr e \<Longrightarrow> EncryptedDataKey_wf e"
  "EncryptedDataKey_from_envelope_bytes b = Inr e \<Longrightarrow> EncryptedDataKey_wf e"
  "Ciphertext_new b = Inr c \<Longrightarrow> Ciphertext_wf c"
  by (auto simp: DataKey_parse_def MasterKey_parse_def Nonce_parse_def EncryptedDataKey_parse_def
      EncryptedDataKey_from_envelope_bytes_def validate_encrypted_data_key_envelope_def
      Ciphertext_new_def DataKey_wf_def MasterKey_wf_def Nonce_wf_def EncryptedDataKey_wf_def
      Ciphertext_wf_def split: if_splits)

text \<open>Every well-formed value is accepted by the parser of its bytes.\<close>

lemma parse_of_wf:
  "DataKey_wf k \<Longrightarrow> DataKey_parse (DataKey_bytes k) = Inr k"
  "MasterKey_wf m \<Longrightarrow> MasterKey_parse (MasterKey_bytes m) = Inr m"
  "Nonce_wf n \<Longrightarrow> Nonce_parse (Nonce_bytes n) = Inr n"
  "EncryptedDataKey_wf e \<Longrightarrow> EncryptedDataKey_parse (EncryptedDataKey_bytes e) = Inr e"
  "Ciphertext_wf c \<Longrightarrow> Ciphertext_new (Ciphertext_bytes c) = Inr c"
  by (simp_all add: DataKey_parse_def MasterKey_parse_def Nonce_parse_def
      EncryptedDataKey_parse_def validate_encrypted_data_key_envelope_def Ciphertext_new_def
      DataKey_wf_def MasterKey_wf_def Nonce_wf_def EncryptedDataKey_wf_def Ciphertext_wf_def)

text \<open>Assembling an envelope and taking it apart again.\<close>

lemma envelope_parts:
  assumes "length n = NONCE_LENGTH" "length c = ENCRYPTED_DATA_KEY_CIPHERTEXT_LENGTH"
  shows "EncryptedDataKey_from_envelope_bytes (ENCRYPTED_DATA_KEY_VERSION # n @ c) =
      Inr (EncryptedDataKey (ENCRYPTED_DATA_KEY_VERSION # n @ c))"
    and "EncryptedDataKey_nonce_bytes (EncryptedDataKey (ENCRYPTED_DATA_KEY_VERSION # n @ c)) = n"
    and "EncryptedDataKey_ciphertext_bytes
      (EncryptedDataKey (ENCRYPTED_DATA_KEY_VERSION # n @ c)) = c"
  using assms
  by (simp_all add: EncryptedDataKey_from_envelope_bytes_def
      validate_encrypted_data_key_envelope_def EncryptedDataKey_nonce_bytes_def
      EncryptedDataKey_ciphertext_bytes_def ENCRYPTED_DATA_KEY_LENGTH_def)

lemma envelope_reassemble:
  assumes "EncryptedDataKey_wf e"
  shows "EncryptedDataKey_bytes e = ENCRYPTED_DATA_KEY_VERSION #
      EncryptedDataKey_nonce_bytes e @ EncryptedDataKey_ciphertext_bytes e"
    and "length (EncryptedDataKey_nonce_bytes e) = NONCE_LENGTH"
    and "length (EncryptedDataKey_ciphertext_bytes e) = ENCRYPTED_DATA_KEY_CIPHERTEXT_LENGTH"
proof -
  from assms obtain b bs where e: "EncryptedDataKey_bytes e = b # bs"
    by (cases "EncryptedDataKey_bytes e")
      (auto simp: EncryptedDataKey_wf_def ENCRYPTED_DATA_KEY_LENGTH_def)
  with assms show "EncryptedDataKey_bytes e = ENCRYPTED_DATA_KEY_VERSION #
      EncryptedDataKey_nonce_bytes e @ EncryptedDataKey_ciphertext_bytes e"
    and "length (EncryptedDataKey_nonce_bytes e) = NONCE_LENGTH"
    and "length (EncryptedDataKey_ciphertext_bytes e) = ENCRYPTED_DATA_KEY_CIPHERTEXT_LENGTH"
    by (simp_all add: EncryptedDataKey_wf_def EncryptedDataKey_nonce_bytes_def
        EncryptedDataKey_ciphertext_bytes_def ENCRYPTED_DATA_KEY_LENGTH_def)
qed

end
