(* ===== verification/Crypto.thy ===== *)
theory Crypto
  imports Aad Secret_Material
begin

text \<open>
  Envelope encryption: \<open>src/crypto.rs\<close>.  A master key of the keyring wraps a data key into an
  envelope, and the data key encrypts the plaintext under the associated data.  Operations
  that draw a nonce run over the randomness source.  The interface \<open>sealed_box\<close> states the
  one law that writers, readers and key rotation rely on: opening what was sealed.
\<close>

definition ALGORITHM_XCHACHA20_POLY1305 :: string where
  "ALGORITHM_XCHACHA20_POLY1305 = ''xchacha20-poly1305''"

definition KEY_WRAP_CONTEXT :: string where "KEY_WRAP_CONTEXT = ''data_key_wrap''"
definition KEY_WRAP_VERSION :: u8 where "KEY_WRAP_VERSION = 1"

record KeyWrapContext =
  wrap_secret_id :: SecretId
  wrap_key_version :: KeyVersion

definition KeyWrapContext_new :: "SecretId \<Rightarrow> KeyVersion \<Rightarrow> KeyWrapContext" where
  "KeyWrapContext_new secret_id key_version =
    \<lparr>wrap_secret_id = secret_id, wrap_key_version = key_version\<rparr>"

definition CanonicalKeyWrapAad :: "crates \<Rightarrow> KeyWrapContext \<Rightarrow> json" where
  "CanonicalKeyWrapAad C ctx =
    JObject
     [(''context'', JString KEY_WRAP_CONTEXT),
      (''key_version'', json_uint (KeyVersion_get (wrap_key_version ctx))),
      (''secret_id'', JString (SecretId_as_canonical_string C (wrap_secret_id ctx))),
      (''wrap_version'', json_uint KEY_WRAP_VERSION)]"

definition KeyWrapContext_canonical_bytes :: "crates \<Rightarrow> KeyWrapContext \<Rightarrow> CryptoError + bytes" where
  "KeyWrapContext_canonical_bytes C ctx =
    map_err (\<lambda>_. AadFailed) (map_ok str_bytes (json_to_string C (CanonicalKeyWrapAad C ctx)))"


section \<open>The keyring\<close>

record MasterKeyRing =
  ring_active_key_version :: KeyVersion
  ring_keys :: "(KeyVersion \<times> MasterKey) list"

definition MasterKeyRing_new ::
    "KeyVersion \<Rightarrow> (KeyVersion \<times> MasterKey) list \<Rightarrow> KeyringError + MasterKeyRing" where
  "MasterKeyRing_new active_key_version keys =
    (if keys = [] then Inl KeyringEmpty
     else if bt_get keys active_key_version = None
       then Inl (ActiveKeyMissing (KeyVersion_get active_key_version))
     else Inr \<lparr>ring_active_key_version = active_key_version, ring_keys = keys\<rparr>)"

fun insert_key_entries ::
    "(KeyVersion \<times> MasterKey) list \<Rightarrow> (KeyVersion \<times> MasterKey) list \<Rightarrow>
     KeyringError + (KeyVersion \<times> MasterKey) list" where
  "insert_key_entries keys [] = Inr keys"
| "insert_key_entries keys ((key_version, master_key) # entries) =
    (if bt_get keys key_version \<noteq> None
     then Inl (DuplicateKeyVersion (KeyVersion_get key_version))
     else insert_key_entries (bt_insert key_version master_key keys) entries)"

definition MasterKeyRing_from_key_entries ::
    "KeyVersion \<Rightarrow> (KeyVersion \<times> MasterKey) list \<Rightarrow> KeyringError + MasterKeyRing" where
  "MasterKeyRing_from_key_entries active_key_version entries =
    rbind (insert_key_entries [] entries) (MasterKeyRing_new active_key_version)"

definition MasterKeyRing_single :: "KeyVersion \<Rightarrow> MasterKey \<Rightarrow> KeyringError + MasterKeyRing" where
  "MasterKeyRing_single active_key_version master_key =
    MasterKeyRing_from_key_entries active_key_version [(active_key_version, master_key)]"

text \<open>\<open>active\<close> panics (\<open>unreachable!\<close>) when the active key is absent: the value \<^term>\<open>None\<close>.\<close>

definition MasterKeyRing_active :: "MasterKeyRing \<Rightarrow> (KeyVersion \<times> MasterKey) option" where
  "MasterKeyRing_active ring =
    (case bt_get (ring_keys ring) (ring_active_key_version ring) of
       None \<Rightarrow> None
     | Some master_key \<Rightarrow> Some (ring_active_key_version ring, master_key))"

definition MasterKeyRing_get :: "MasterKeyRing \<Rightarrow> KeyVersion \<Rightarrow> KeyringError + MasterKey" where
  "MasterKeyRing_get ring key_version =
    ok_or (KeyUnavailable (KeyVersion_get key_version)) (bt_get (ring_keys ring) key_version)"

definition MasterKeyRing_contains :: "MasterKeyRing \<Rightarrow> KeyVersion \<Rightarrow> bool" where
  "MasterKeyRing_contains ring key_version \<longleftrightarrow> bt_get (ring_keys ring) key_version \<noteq> None"

definition MasterKeyRing_key_versions :: "MasterKeyRing \<Rightarrow> KeyVersion list" where
  "MasterKeyRing_key_versions ring = bt_keys (ring_keys ring)"

definition MasterKeyRing_wf :: "MasterKeyRing \<Rightarrow> bool" where
  "MasterKeyRing_wf ring \<longleftrightarrow>
    bt_wf (ring_keys ring) \<and> bt_get (ring_keys ring) (ring_active_key_version ring) \<noteq> None \<and>
    (\<forall>(v, k) \<in> set (ring_keys ring). MasterKey_wf k)"


section \<open>Encryption and key wrapping\<close>

record EncryptedPayload =
  payload_ciphertext :: Ciphertext
  payload_nonce :: Nonce
  payload_aad_context :: json

definition cipher_from_data_key :: "crates \<Rightarrow> DataKey \<Rightarrow> CryptoError + bytes" where
  "cipher_from_data_key C data_key =
    (if aead_key_ok C (DataKey_bytes data_key) then Inr (DataKey_bytes data_key)
     else Inl (InvalidDataKeyLength (length (DataKey_bytes data_key))))"

definition cipher_from_master_key :: "crates \<Rightarrow> MasterKey \<Rightarrow> CryptoError + bytes" where
  "cipher_from_master_key C master_key =
    (if aead_key_ok C (MasterKey_bytes master_key) then Inr (MasterKey_bytes master_key)
     else Inl (InvalidMasterKeyLength (length (MasterKey_bytes master_key))))"

definition encrypt_secret ::
    "crates \<Rightarrow> DataKey \<Rightarrow> AadV1 \<Rightarrow> Plaintext \<Rightarrow> (rng, CryptoError, EncryptedPayload) comp" where
  "encrypt_secret C data_key aad plaintext =
    sbind Nonce_generate (\<lambda>nonce.
    sbind (slift (map_err CryptoError_from_AadError (canonical_bytes C aad))) (\<lambda>aad_bytes.
    sbind (slift (cipher_from_data_key C data_key)) (\<lambda>cipher.
    sbind (slift (rbind (ok_or EncryptionFailed
        (aead_encrypt C cipher (Nonce_bytes nonce) aad_bytes (Plaintext_bytes plaintext)))
      Ciphertext_new)) (\<lambda>ciphertext.
    sbind (slift (map_err CryptoError_from_AadError (to_stored_context C aad))) (\<lambda>aad_context.
    sret \<lparr>payload_ciphertext = ciphertext, payload_nonce = nonce,
          payload_aad_context = aad_context\<rparr>)))))"

definition decrypt_secret ::
    "crates \<Rightarrow> DataKey \<Rightarrow> AadV1 \<Rightarrow> Nonce \<Rightarrow> Ciphertext \<Rightarrow> CryptoError + Plaintext" where
  "decrypt_secret C data_key aad nonce ciphertext =
    rbind (map_err CryptoError_from_AadError (canonical_bytes C aad)) (\<lambda>aad_bytes.
    rbind (cipher_from_data_key C data_key) (\<lambda>cipher.
    rbind (ok_or DecryptionFailed
      (aead_decrypt C cipher (Nonce_bytes nonce) aad_bytes (Ciphertext_bytes ciphertext)))
      (\<lambda>plaintext.
    Inr (Plaintext plaintext))))"

definition wrap_data_key ::
    "crates \<Rightarrow> MasterKey \<Rightarrow> KeyWrapContext \<Rightarrow> DataKey \<Rightarrow> (rng, CryptoError, EncryptedDataKey) comp"
    where
  "wrap_data_key C master_key context data_key =
    sbind Nonce_generate (\<lambda>nonce.
    sbind (slift (KeyWrapContext_canonical_bytes C context)) (\<lambda>aad_bytes.
    sbind (slift (cipher_from_master_key C master_key)) (\<lambda>cipher.
    sbind (slift (ok_or KeyWrapFailed
      (aead_encrypt C cipher (Nonce_bytes nonce) aad_bytes (DataKey_bytes data_key))))
      (\<lambda>encrypted_data_key.
    if length encrypted_data_key \<noteq> ENCRYPTED_DATA_KEY_CIPHERTEXT_LENGTH
      then slift (Inl KeyWrapFailed)
    else
      slift (EncryptedDataKey_from_envelope_bytes
        ([ENCRYPTED_DATA_KEY_VERSION] @ Nonce_bytes nonce @ encrypted_data_key))))))"

definition unwrap_data_key ::
    "crates \<Rightarrow> MasterKey \<Rightarrow> KeyWrapContext \<Rightarrow> EncryptedDataKey \<Rightarrow> CryptoError + DataKey" where
  "unwrap_data_key C master_key context encrypted_data_key =
    rbind (KeyWrapContext_canonical_bytes C context) (\<lambda>aad_bytes.
    rbind (cipher_from_master_key C master_key) (\<lambda>cipher.
    rbind (ok_or KeyUnwrapFailed
      (aead_decrypt C cipher (EncryptedDataKey_nonce_bytes encrypted_data_key) aad_bytes
        (EncryptedDataKey_ciphertext_bytes encrypted_data_key))) (\<lambda>data_key.
    if length data_key \<noteq> DATA_KEY_LENGTH then Inl KeyUnwrapFailed
    else map_err (\<lambda>_. KeyUnwrapFailed) (DataKey_parse data_key))))"


section \<open>Lemmas on the keyring\<close>

lemma insert_key_entries_wf:
  "insert_key_entries keys entries = Inr keys' \<Longrightarrow> bt_wf keys \<Longrightarrow>
    bt_wf keys' \<and> set keys' = set keys \<union> set entries \<and>
    distinct (map fst entries) \<and> fst ` set entries \<inter> fst ` set keys = {}"
proof (induction keys entries rule: insert_key_entries.induct)
  case (1 keys)
  then show ?case by simp
next
  case (2 keys kv mk entries)
  from "2.prems" have fresh: "bt_get keys kv = None"
    and rest: "insert_key_entries (bt_insert kv mk keys) entries = Inr keys'"
    by (auto split: if_splits)
  from fresh have notin: "kv \<notin> fst ` set keys" by (simp add: bt_get_def map_of_eq_None_iff)
  have set: "set (bt_insert kv mk keys) = insert (kv, mk) (set keys)"
    using bt.entries_insert [OF "2.prems"(2), of kv mk] notin by force
  from "2.IH" [OF _ rest] fresh bt_wf_insert [OF "2.prems"(2)] set notin show ?case
    by auto
qed

lemma MasterKeyRing_from_key_entries_wf:
  assumes "MasterKeyRing_from_key_entries v entries = Inr ring"
    and "\<forall>(v, k) \<in> set entries. MasterKey_wf k"
  shows "MasterKeyRing_wf ring" and "ring_active_key_version ring = v"
    and "set (ring_keys ring) = set entries"
  using assms insert_key_entries_wf [of "[]" entries]
  by (auto simp: MasterKeyRing_from_key_entries_def MasterKeyRing_new_def MasterKeyRing_wf_def
      split: if_splits)

lemma MasterKeyRing_get_wf:
  "MasterKeyRing_wf ring \<Longrightarrow> MasterKeyRing_get ring v = Inr k \<Longrightarrow> MasterKey_wf k"
  using bt.entries_iff [of "ring_keys ring" v k]
  by (auto simp: MasterKeyRing_wf_def MasterKeyRing_get_def)

lemma MasterKeyRing_active_Some:
  assumes "MasterKeyRing_wf ring"
  obtains k where "MasterKeyRing_active ring = Some (ring_active_key_version ring, k)"
    and "MasterKeyRing_get ring (ring_active_key_version ring) = Inr k" and "MasterKey_wf k"
proof -
  from assms obtain k where k: "bt_get (ring_keys ring) (ring_active_key_version ring) = Some k"
    by (auto simp: MasterKeyRing_wf_def)
  then have "MasterKeyRing_get ring (ring_active_key_version ring) = Inr k"
    by (simp add: MasterKeyRing_get_def)
  with k MasterKeyRing_get_wf [OF assms] that show thesis
    by (simp add: MasterKeyRing_active_def)
qed


section \<open>Opening what was sealed\<close>

locale sealed_box =
  fixes laws :: "'c \<Rightarrow> bool"
    and valid_key :: "'k \<Rightarrow> bool"
    and valid_msg :: "'m \<Rightarrow> bool"
    and seal :: "'c \<Rightarrow> 'k \<Rightarrow> 'a \<Rightarrow> 'm \<Rightarrow> rng \<Rightarrow> ('e + 'b) \<times> rng"
    and unseal :: "'c \<Rightarrow> 'k \<Rightarrow> 'a \<Rightarrow> 'b \<Rightarrow> 'e + 'm"
  assumes unseal_seal:
    "laws C \<Longrightarrow> rng_fills r \<Longrightarrow> valid_key k \<Longrightarrow> valid_msg m \<Longrightarrow>
      seal C k a m r = (Inr b, r') \<Longrightarrow> unseal C k a b = Inr m \<and> rng_fills r'"
begin

text \<open>Re-sealing under another key and context keeps the content.\<close>

lemma reseal:
  assumes "laws C" "rng_fills r" "valid_key k" "valid_key k'" "valid_msg m"
    and "seal C k a m r = (Inr b, r1)" and "unseal C k a b = Inr m1"
    and "seal C k' a' m1 r1 = (Inr b', r2)"
  shows "unseal C k' a' b' = Inr m"
proof -
  from unseal_seal [OF assms(1,2,3,5,6)] assms(7) have "m1 = m" and "rng_fills r1" by auto
  with unseal_seal [OF assms(1) _ assms(4) assms(5)] assms(8) show ?thesis by blast
qed

text \<open>Two boxes sealed under one key and context with different contents differ.\<close>

lemma seal_content_unique:
  assumes "laws C" "rng_fills r" "rng_fills s" "valid_key k" "valid_msg m" "valid_msg n"
    and "seal C k a m r = (Inr b, r')" and "seal C k a n s = (Inr b, s')"
  shows "m = n"
  using unseal_seal [OF assms(1,2,4,5,7)] unseal_seal [OF assms(1,3,4,6,8)] by simp

end

lemma wrap_data_key_Inr:
  assumes "wrap_data_key C mk ctx dk r = (Inr e, r')" and "rng_fills r"
  obtains n a c where "Nonce_generate r = (Inr n, r')" "Nonce_wf n"
    "KeyWrapContext_canonical_bytes C ctx = Inr a" "aead_key_ok C (MasterKey_bytes mk)"
    "aead_encrypt C (MasterKey_bytes mk) (Nonce_bytes n) a (DataKey_bytes dk) = Some c"
    "length c = ENCRYPTED_DATA_KEY_CIPHERTEXT_LENGTH"
    "e = EncryptedDataKey (ENCRYPTED_DATA_KEY_VERSION # Nonce_bytes n @ c)"
    "EncryptedDataKey_wf e" "rng_fills r'"
proof -
  from assms(1) obtain n a c where w: "Nonce_generate r = (Inr n, r')"
    "KeyWrapContext_canonical_bytes C ctx = Inr a" "aead_key_ok C (MasterKey_bytes mk)"
    "aead_encrypt C (MasterKey_bytes mk) (Nonce_bytes n) a (DataKey_bytes dk) = Some c"
    "length c = ENCRYPTED_DATA_KEY_CIPHERTEXT_LENGTH"
    "EncryptedDataKey_from_envelope_bytes (ENCRYPTED_DATA_KEY_VERSION # Nonce_bytes n @ c) = Inr e"
    by (auto simp: wrap_data_key_def sbind_eq_Inr cipher_from_master_key_def split: if_splits)
  with generate_wf(3) [OF assms(2) w(1)] parse_wf(5) [OF w(6)] that show thesis
    by (simp add: Nonce_wf_def envelope_parts(1))
qed

lemma unwrap_wrap_data_key:
  assumes "aead_laws C" "rng_fills r" "DataKey_wf dk"
    and "wrap_data_key C mk ctx dk r = (Inr e, r')"
  shows "unwrap_data_key C mk ctx e = Inr dk \<and> rng_fills r'"
proof -
  from assms(4,2) obtain n a c where w: "Nonce_wf n"
    "KeyWrapContext_canonical_bytes C ctx = Inr a" "aead_key_ok C (MasterKey_bytes mk)"
    "aead_encrypt C (MasterKey_bytes mk) (Nonce_bytes n) a (DataKey_bytes dk) = Some c"
    "length c = ENCRYPTED_DATA_KEY_CIPHERTEXT_LENGTH"
    "e = EncryptedDataKey (ENCRYPTED_DATA_KEY_VERSION # Nonce_bytes n @ c)" "rng_fills r'"
    by (rule wrap_data_key_Inr)
  have "EncryptedDataKey_nonce_bytes e = Nonce_bytes n"
    and "EncryptedDataKey_ciphertext_bytes e = c"
    using w by (simp_all add: Nonce_wf_def envelope_parts)
  with w aead_lawsD(3) [OF assms(1) w(4)] assms(3) show ?thesis
    by (simp add: unwrap_data_key_def cipher_from_master_key_def DataKey_wf_def DataKey_parse_def
        del: rbind_eq_Inr)
qed

lemma encrypt_secret_Inr:
  assumes "encrypt_secret C dk aad p r = (Inr ep, r')" and "rng_fills r"
  obtains a c where "canonical_bytes C aad = Inr a" "aead_key_ok C (DataKey_bytes dk)"
    "aead_encrypt C (DataKey_bytes dk) (Nonce_bytes (payload_nonce ep)) a (Plaintext_bytes p) =
      Some c"
    "payload_ciphertext ep = Ciphertext c" "c \<noteq> []"
    "to_stored_context C aad = Inr (payload_aad_context ep)"
    "Nonce_wf (payload_nonce ep)" "rng_fills r'"
  using assms generate_wf(3) [OF assms(2)]
  by (auto simp: encrypt_secret_def sbind_eq_Inr cipher_from_data_key_def Ciphertext_new_def
      split: if_splits sum.splits)

lemma decrypt_encrypt_secret:
  assumes "aead_laws C" "rng_fills r" and "encrypt_secret C dk aad p r = (Inr ep, r')"
  shows "decrypt_secret C dk aad (payload_nonce ep) (payload_ciphertext ep) = Inr p \<and>
    rng_fills r'"
proof -
  from assms(3,2) obtain a c where w: "canonical_bytes C aad = Inr a"
    "aead_key_ok C (DataKey_bytes dk)"
    "aead_encrypt C (DataKey_bytes dk) (Nonce_bytes (payload_nonce ep)) a (Plaintext_bytes p) =
      Some c"
    "payload_ciphertext ep = Ciphertext c" "rng_fills r'"
    by (rule encrypt_secret_Inr)
  with aead_lawsD(3) [OF assms(1) w(3)] show ?thesis
    by (simp add: decrypt_secret_def cipher_from_data_key_def del: rbind_eq_Inr)
qed

text \<open>Both layers of the envelope are sealed boxes.\<close>

interpretation key_wrap: sealed_box aead_laws "\<lambda>_. True" DataKey_wf wrap_data_key
  unwrap_data_key
  by unfold_locales (rule unwrap_wrap_data_key)

interpretation payload: sealed_box aead_laws "\<lambda>_. True" "\<lambda>_. True" encrypt_secret
  "\<lambda>C dk aad ep. decrypt_secret C dk aad (payload_nonce ep) (payload_ciphertext ep)"
  by unfold_locales (rule decrypt_encrypt_secret)

text \<open>Wrapping succeeds whenever randomness, serialisation and the cipher do.\<close>

lemma wrap_data_key_total:
  assumes laws: "aead_laws C" and "MasterKey_wf mk" "DataKey_wf dk" "Nonce_generate r = (Inr n, r')"
    and "Nonce_wf n" and "KeyWrapContext_canonical_bytes C ctx = Inr a"
    and "aead_encrypt C (MasterKey_bytes mk) (Nonce_bytes n) a (DataKey_bytes dk) = Some c"
  shows "wrap_data_key C mk ctx dk r =
    (Inr (EncryptedDataKey (ENCRYPTED_DATA_KEY_VERSION # Nonce_bytes n @ c)), r')"
proof -
  have "length c = ENCRYPTED_DATA_KEY_CIPHERTEXT_LENGTH"
    using aead_lawsD(2) [OF laws assms(7)] assms(3) by (simp add: DataKey_wf_def length_consts)
  with assms show ?thesis
    by (simp add: wrap_data_key_def sbind_step(2) cipher_from_master_key_def aead_lawsD(1)
        MasterKey_wf_def Nonce_wf_def MASTER_KEY_LENGTH_def envelope_parts(1))
qed

end
