(* ===== verification/Secret_Write.thy ===== *)
theory Secret_Write
  imports Crypto
begin

text \<open>
  Preparing a secret version for storage: \<open>src/write/input.rs\<close> and \<open>src/write/prepare.rs\<close>.
  A keyring function whose active key is absent would panic; its result is then \<^term>\<open>None\<close>.
\<close>

record NewSecretVersionInput =
  new_owner_user_id :: OwnerUserId
  new_classification :: Classification
  new_created_by_device_id :: DeviceId
  new_created_at :: CreatedAt
  new_key_version :: KeyVersion
  new_plaintext :: Plaintext

record CurrentSecretVersionState =
  cur_secret_id :: SecretId
  cur_current_version :: SecretVersion
  cur_owner_user_id :: OwnerUserId
  cur_classification :: Classification
  cur_key_version :: KeyVersion
  cur_encrypted_data_key :: EncryptedDataKey

record ExistingSecretVersionInput =
  ex_current :: CurrentSecretVersionState
  ex_created_by_device_id :: DeviceId
  ex_created_at :: CreatedAt
  ex_plaintext :: Plaintext

datatype SecretWriteAction = EncryptCreate | EncryptRotate

fun SecretWriteAction_as_str :: "SecretWriteAction \<Rightarrow> string" where
  "SecretWriteAction_as_str EncryptCreate = ''encrypt_create''"
| "SecretWriteAction_as_str EncryptRotate = ''encrypt_rotate''"

record PreparedSecretVersion =
  prep_write_action :: SecretWriteAction
  prep_secret_id :: SecretId
  prep_secret_version_id :: SecretVersionId
  prep_version :: SecretVersion
  prep_owner_user_id :: OwnerUserId
  prep_classification :: Classification
  prep_created_by_device_id :: DeviceId
  prep_created_at :: CreatedAt
  prep_key_version :: KeyVersion
  prep_ciphertext :: Ciphertext
  prep_encrypted_data_key :: EncryptedDataKey
  prep_nonce_or_iv :: Nonce
  prep_aad_context :: json

record SecretVersionMetadata =
  md_secret_id :: SecretId
  md_version :: SecretVersion
  md_owner_user_id :: OwnerUserId
  md_classification :: Classification
  md_created_by_device_id :: DeviceId
  md_created_at :: CreatedAt
  md_key_version :: KeyVersion
  md_encrypted_data_key :: EncryptedDataKey

definition prepare_secret_version_with_data_key ::
    "crates \<Rightarrow> SecretWriteAction \<Rightarrow> SecretVersionMetadata \<Rightarrow> DataKey \<Rightarrow> Plaintext \<Rightarrow>
     (rng, SecretWriteError, PreparedSecretVersion) comp" where
  "prepare_secret_version_with_data_key C write_action metadata data_key plaintext =
    sbind (smap_err SecretWrite_Crypto (SecretVersionId_generate C)) (\<lambda>secret_version_id.
    let aad = from_row_metadata (md_secret_id metadata) (md_version metadata)
      (md_owner_user_id metadata) (md_classification metadata) (md_created_at metadata) in
    sbind (smap_err SecretWrite_Crypto (encrypt_secret C data_key aad plaintext)) (\<lambda>ep.
    sret
     \<lparr>prep_write_action = write_action,
      prep_secret_id = md_secret_id metadata,
      prep_secret_version_id = secret_version_id,
      prep_version = md_version metadata,
      prep_owner_user_id = md_owner_user_id metadata,
      prep_classification = md_classification metadata,
      prep_created_by_device_id = md_created_by_device_id metadata,
      prep_created_at = md_created_at metadata,
      prep_key_version = md_key_version metadata,
      prep_ciphertext = payload_ciphertext ep,
      prep_encrypted_data_key = md_encrypted_data_key metadata,
      prep_nonce_or_iv = payload_nonce ep,
      prep_aad_context = payload_aad_context ep\<rparr>))"

definition prepare_new_secret_version_parts ::
    "crates \<Rightarrow> MasterKey \<Rightarrow> KeyVersion \<Rightarrow> NewSecretVersionInput \<Rightarrow>
     (rng, SecretWriteError, PreparedSecretVersion) comp" where
  "prepare_new_secret_version_parts C master_key key_version input =
    sbind (smap_err SecretWrite_Crypto (SecretId_generate C)) (\<lambda>secret_id.
    sbind (smap_err SecretWrite_Crypto DataKey_generate) (\<lambda>data_key.
    sbind (smap_err SecretWrite_Crypto
      (wrap_data_key C master_key (KeyWrapContext_new secret_id key_version) data_key))
      (\<lambda>encrypted_data_key.
    prepare_secret_version_with_data_key C EncryptCreate
     \<lparr>md_secret_id = secret_id,
      md_version = SecretVersion_first,
      md_owner_user_id = new_owner_user_id input,
      md_classification = new_classification input,
      md_created_by_device_id = new_created_by_device_id input,
      md_created_at = new_created_at input,
      md_key_version = key_version,
      md_encrypted_data_key = encrypted_data_key\<rparr>
     data_key (new_plaintext input))))"

definition prepare_new_secret_version ::
    "crates \<Rightarrow> MasterKey \<Rightarrow> NewSecretVersionInput \<Rightarrow>
     (rng, SecretWriteError, PreparedSecretVersion) comp" where
  "prepare_new_secret_version C master_key input =
    prepare_new_secret_version_parts C master_key (new_key_version input) input"

definition prepare_new_secret_version_with_keyring ::
    "crates \<Rightarrow> MasterKeyRing \<Rightarrow> NewSecretVersionInput \<Rightarrow> rng \<Rightarrow>
     ((SecretWriteError + PreparedSecretVersion) \<times> rng) option" where
  "prepare_new_secret_version_with_keyring C ring input r =
    (case MasterKeyRing_active ring of
       None \<Rightarrow> None
     | Some (key_version, master_key) \<Rightarrow>
         Some (prepare_new_secret_version_parts C master_key key_version input r))"

definition prepare_existing_secret_version ::
    "crates \<Rightarrow> MasterKey \<Rightarrow> ExistingSecretVersionInput \<Rightarrow>
     (rng, SecretWriteError, PreparedSecretVersion) comp" where
  "prepare_existing_secret_version C master_key input =
    (let current = ex_current input in
    sbind (slift (map_err SecretWrite_Input (SecretVersion_next (cur_current_version current))))
      (\<lambda>version.
    sbind (slift (map_err SecretWrite_Crypto
      (unwrap_data_key C master_key
        (KeyWrapContext_new (cur_secret_id current) (cur_key_version current))
        (cur_encrypted_data_key current)))) (\<lambda>data_key.
    prepare_secret_version_with_data_key C EncryptRotate
     \<lparr>md_secret_id = cur_secret_id current,
      md_version = version,
      md_owner_user_id = cur_owner_user_id current,
      md_classification = cur_classification current,
      md_created_by_device_id = ex_created_by_device_id input,
      md_created_at = ex_created_at input,
      md_key_version = cur_key_version current,
      md_encrypted_data_key = cur_encrypted_data_key current\<rparr>
     data_key (ex_plaintext input))))"

definition prepare_existing_secret_version_with_keyring ::
    "crates \<Rightarrow> MasterKeyRing \<Rightarrow> ExistingSecretVersionInput \<Rightarrow> rng \<Rightarrow>
     ((SecretWriteError + PreparedSecretVersion) \<times> rng) option" where
  "prepare_existing_secret_version_with_keyring C ring input r =
    (let current = ex_current input in
     case
       rbind (map_err SecretWrite_Input (SecretVersion_next (cur_current_version current)))
         (\<lambda>version.
       rbind (map_err SecretWrite_Keyring (MasterKeyRing_get ring (cur_key_version current)))
         (\<lambda>current_master_key.
       rbind (map_err SecretWrite_Crypto
         (unwrap_data_key C current_master_key
           (KeyWrapContext_new (cur_secret_id current) (cur_key_version current))
           (cur_encrypted_data_key current))) (\<lambda>data_key.
       Inr (version, data_key))))
     of
       Inl e \<Rightarrow> Some (Inl e, r)
     | Inr (version, data_key) \<Rightarrow>
         (case MasterKeyRing_active ring of
            None \<Rightarrow> None
          | Some (active_key_version, active_master_key) \<Rightarrow> Some
             (sbind (smap_err SecretWrite_Crypto
               (wrap_data_key C active_master_key
                 (KeyWrapContext_new (cur_secret_id current) active_key_version) data_key))
               (\<lambda>rewrapped_data_key.
             prepare_secret_version_with_data_key C EncryptRotate
              \<lparr>md_secret_id = cur_secret_id current,
               md_version = version,
               md_owner_user_id = cur_owner_user_id current,
               md_classification = cur_classification current,
               md_created_by_device_id = ex_created_by_device_id input,
               md_created_at = ex_created_at input,
               md_key_version = active_key_version,
               md_encrypted_data_key = rewrapped_data_key\<rparr>
              data_key (ex_plaintext input)) r)))"

end
