(* ===== verification/Secret_Read.thy ===== *)
theory Secret_Read
  imports Auth Crypto
begin

text \<open>
  Decrypting the current version of a secret: \<open>src/read.rs\<close>.  Authorisation and the
  comparison of the stored associated data with the row come before any key is touched.
\<close>

record DecryptInput =
  dec_claims :: VerifiedJwtClaims
  dec_secret_id :: SecretId
  dec_version :: SecretVersion
  dec_current_version :: SecretVersion
  dec_owner_user_id :: OwnerUserId
  dec_classification :: Classification
  dec_created_at :: CreatedAt
  dec_key_version :: KeyVersion
  dec_encrypted_data_key :: EncryptedDataKey
  dec_nonce_or_iv :: Nonce
  dec_ciphertext :: Ciphertext
  dec_aad_context :: json

definition row_aad_from_input :: "DecryptInput \<Rightarrow> AadV1" where
  "row_aad_from_input input =
    from_row_metadata (dec_secret_id input) (dec_version input) (dec_owner_user_id input)
      (dec_classification input) (dec_created_at input)"

definition verify_stored_aad_matches_row ::
    "crates \<Rightarrow> json \<Rightarrow> AadV1 \<Rightarrow> SecretDecryptError + unit" where
  "verify_stored_aad_matches_row C stored_context row_aad =
    rbind (map_err SecretDecrypt_Aad (from_stored_context C stored_context)) (\<lambda>stored_aad.
    rbind (map_err SecretDecrypt_Aad (canonical_bytes C stored_aad)) (\<lambda>stored_bytes.
    rbind (map_err SecretDecrypt_Aad (canonical_bytes C row_aad)) (\<lambda>row_bytes.
    if stored_bytes = row_bytes then Inr ()
    else Inl (SecretDecrypt_Integrity AadContextMismatch))))"

definition validate_decrypt_input :: "crates \<Rightarrow> DecryptInput \<Rightarrow> SecretDecryptError + AadV1" where
  "validate_decrypt_input C input =
    rbind (map_err SecretDecrypt_Authorization
      (authorize_current_version_decrypt (dec_claims input) (dec_owner_user_id input)
        (dec_version input) (dec_current_version input))) (\<lambda>_.
    let row_aad = row_aad_from_input input in
    rbind (verify_stored_aad_matches_row C (dec_aad_context input) row_aad) (\<lambda>_.
    Inr row_aad))"

definition decrypt_with_selected_master_key ::
    "crates \<Rightarrow> MasterKey \<Rightarrow> AadV1 \<Rightarrow> DecryptInput \<Rightarrow> SecretDecryptError + Plaintext" where
  "decrypt_with_selected_master_key C master_key row_aad input =
    rbind (map_err SecretDecrypt_Crypto
      (unwrap_data_key C master_key
        (KeyWrapContext_new (dec_secret_id input) (dec_key_version input))
        (dec_encrypted_data_key input))) (\<lambda>data_key.
    map_err SecretDecrypt_Crypto
      (decrypt_secret C data_key row_aad (dec_nonce_or_iv input) (dec_ciphertext input)))"

definition decrypt_current_secret_version ::
    "crates \<Rightarrow> MasterKey \<Rightarrow> DecryptInput \<Rightarrow> SecretDecryptError + Plaintext" where
  "decrypt_current_secret_version C master_key input =
    rbind (validate_decrypt_input C input) (\<lambda>row_aad.
    decrypt_with_selected_master_key C master_key row_aad input)"

definition decrypt_current_secret_version_with_keyring ::
    "crates \<Rightarrow> MasterKeyRing \<Rightarrow> DecryptInput \<Rightarrow> SecretDecryptError + Plaintext" where
  "decrypt_current_secret_version_with_keyring C ring input =
    rbind (validate_decrypt_input C input) (\<lambda>row_aad.
    rbind (map_err SecretDecrypt_Keyring (MasterKeyRing_get ring (dec_key_version input)))
      (\<lambda>master_key.
    decrypt_with_selected_master_key C master_key row_aad input))"

lemma verify_stored_aad_ok:
  "verify_stored_aad_matches_row C ctx row = Inr () \<longleftrightarrow>
    (\<exists>stored b. from_stored_context C ctx = Inr stored \<and> canonical_bytes C stored = Inr b \<and>
      canonical_bytes C row = Inr b)"
  by (auto simp: verify_stored_aad_matches_row_def)

lemma validate_decrypt_input_ok:
  "validate_decrypt_input C input = Inr aad \<longleftrightarrow>
    subject_user_id (dec_claims input) = dec_owner_user_id input \<and>
    dec_version input = dec_current_version input \<and> aad = row_aad_from_input input \<and>
    verify_stored_aad_matches_row C (dec_aad_context input) (row_aad_from_input input) = Inr ()"
  by (auto simp: validate_decrypt_input_def Let_def)

end
