(* ===== verification/Envelope.thy ===== *)
theory Envelope
  imports Secret_Write Secret_Read Sample_Crates
begin

text \<open>
  What the write path and the read path promise together: a prepared version, once stored, is
  decrypted to the plaintext it was made from, for its owner and for nobody else, and key
  rotation keeps that.  \<open>stored_row\<close> is the decryption input that a stored row gives rise to.
\<close>

definition stored_row :: "VerifiedJwtClaims \<Rightarrow> PreparedSecretVersion \<Rightarrow> DecryptInput" where
  "stored_row claims p =
    \<lparr>dec_claims = claims, dec_secret_id = prep_secret_id p, dec_version = prep_version p,
     dec_current_version = prep_version p, dec_owner_user_id = prep_owner_user_id p,
     dec_classification = prep_classification p, dec_created_at = prep_created_at p,
     dec_key_version = prep_key_version p, dec_encrypted_data_key = prep_encrypted_data_key p,
     dec_nonce_or_iv = prep_nonce_or_iv p, dec_ciphertext = prep_ciphertext p,
     dec_aad_context = prep_aad_context p\<rparr>"

text \<open>The state of a secret whose current version is the given one.\<close>

definition current_state :: "PreparedSecretVersion \<Rightarrow> CurrentSecretVersionState" where
  "current_state p =
    \<lparr>cur_secret_id = prep_secret_id p, cur_current_version = prep_version p,
     cur_owner_user_id = prep_owner_user_id p, cur_classification = prep_classification p,
     cur_key_version = prep_key_version p,
     cur_encrypted_data_key = prep_encrypted_data_key p\<rparr>"

text \<open>The documented behaviour of the crates that the envelope relies on.\<close>

definition envelope_laws :: "crates \<Rightarrow> bool" where
  "envelope_laws C \<longleftrightarrow> aead_laws C \<and> uuid_laws C \<and> time_laws C"

text \<open>A version is sealed under a master key when the key recovers its data key, and the data
  key, the row and the stored context together recover the plaintext.\<close>

definition sealed_under ::
    "crates \<Rightarrow> MasterKey \<Rightarrow> DataKey \<Rightarrow> Plaintext \<Rightarrow> PreparedSecretVersion \<Rightarrow> bool" where
  "sealed_under C mk dk pt p \<longleftrightarrow>
    DataKey_wf dk \<and>
    unwrap_data_key C mk (KeyWrapContext_new (prep_secret_id p) (prep_key_version p))
      (prep_encrypted_data_key p) = Inr dk \<and>
    (\<exists>aad b. aad = from_row_metadata (prep_secret_id p) (prep_version p) (prep_owner_user_id p)
        (prep_classification p) (prep_created_at p) \<and>
      canonical_bytes C aad = Inr b \<and> from_stored_context C (prep_aad_context p) = Inr aad \<and>
      decrypt_secret C dk aad (prep_nonce_or_iv p) (prep_ciphertext p) = Inr pt)"

lemma from_row_metadata_sel [simp]:
  "aad_secret_id (from_row_metadata i v u c t) = i"
  "aad_version (from_row_metadata i v u c t) = v"
  "aad_owner_user_id (from_row_metadata i v u c t) = u"
  "aad_classification (from_row_metadata i v u c t) = c"
  "aad_created_at (from_row_metadata i v u c t) = t"
  by (simp_all add: from_row_metadata_def AadV1_new_def)

lemma KeyWrapContext_new_sel [simp]:
  "wrap_secret_id (KeyWrapContext_new i v) = i"
  "wrap_key_version (KeyWrapContext_new i v) = v"
  by (simp_all add: KeyWrapContext_new_def)

text \<open>A sealed version is decrypted by its owner under the master key.\<close>

lemma sealed_under_decrypts:
  assumes "sealed_under C mk dk pt p" and "subject_user_id claims = prep_owner_user_id p"
  shows "decrypt_current_secret_version C mk (stored_row claims p) = Inr pt"
    and "MasterKeyRing_get ring (prep_key_version p) = Inr mk \<Longrightarrow>
      decrypt_current_secret_version_with_keyring C ring (stored_row claims p) = Inr pt"
  using assms
  by (auto simp: sealed_under_def stored_row_def decrypt_current_secret_version_def
      decrypt_current_secret_version_with_keyring_def decrypt_with_selected_master_key_def
      validate_decrypt_input_ok row_aad_from_input_def verify_stored_aad_ok)

text \<open>The last step of every preparation seals the plaintext.\<close>

lemma prepare_with_data_key_sealed:
  assumes laws: "envelope_laws C" and "rng_fills r" "DataKey_wf dk"
    and unwrap: "unwrap_data_key C mk (KeyWrapContext_new (md_secret_id md) (md_key_version md))
      (md_encrypted_data_key md) = Inr dk"
    and wf: "uuid_is_v4 C (SecretId_uuid (md_secret_id md))" "SecretVersion_wf (md_version md)"
      "Classification_wf (md_classification md)" "CreatedAt_wf C (md_created_at md)"
    and prep: "prepare_secret_version_with_data_key C act md dk pt r = (Inr p, r')"
  shows "sealed_under C mk dk pt p \<and> rng_fills r' \<and> prep_secret_id p = md_secret_id md \<and>
    prep_version p = md_version md \<and> prep_owner_user_id p = md_owner_user_id md \<and>
    prep_classification p = md_classification md \<and> prep_created_at p = md_created_at md \<and>
    prep_key_version p = md_key_version md \<and>
    prep_encrypted_data_key p = md_encrypted_data_key md \<and> prep_write_action p = act"
proof -
  define aad where "aad = from_row_metadata (md_secret_id md) (md_version md)
      (md_owner_user_id md) (md_classification md) (md_created_at md)"
  from prep obtain i r1 ep where gen: "SecretVersionId_generate C r = (Inr i, r1)"
    and enc: "encrypt_secret C dk aad pt r1 = (Inr ep, r')"
    and p: "p = \<lparr>prep_write_action = act, prep_secret_id = md_secret_id md,
      prep_secret_version_id = i, prep_version = md_version md,
      prep_owner_user_id = md_owner_user_id md, prep_classification = md_classification md,
      prep_created_by_device_id = md_created_by_device_id md,
      prep_created_at = md_created_at md, prep_key_version = md_key_version md,
      prep_ciphertext = payload_ciphertext ep,
      prep_encrypted_data_key = md_encrypted_data_key md,
      prep_nonce_or_iv = payload_nonce ep, prep_aad_context = payload_aad_context ep\<rparr>"
    by (auto simp: prepare_secret_version_with_data_key_def sbind_eq_Inr Let_def aad_def)
  have r1: "rng_fills r1"
    using gen getrandom_fill_length(2) [OF _ assms(2)]
    by (auto simp: SecretVersionId_generate_def sbind_eq_Inr)
  from enc r1 obtain b where b: "canonical_bytes C aad = Inr b"
    and ctx: "to_stored_context C aad = Inr (payload_aad_context ep)"
    by (rule encrypt_secret_Inr)
  have "AadV1_wf C aad" using wf by (simp add: AadV1_wf_def aad_def)
  then have "from_stored_context C (payload_aad_context ep) = Inr aad"
    using stored_context_roundtrip [OF _ _ _ ctx] laws by (simp add: envelope_laws_def)
  moreover have "decrypt_secret C dk aad (payload_nonce ep) (payload_ciphertext ep) = Inr pt"
    and "rng_fills r'"
    using payload.unseal_seal [OF _ r1 TrueI TrueI enc] laws
    by (simp_all add: envelope_laws_def)
  ultimately show ?thesis
    using b unwrap assms(3) by (simp add: sealed_under_def p aad_def)
qed

lemma prepare_new_parts_sealed:
  assumes laws: "envelope_laws C" and "rng_fills r"
    and "Classification_wf (new_classification input)" "CreatedAt_wf C (new_created_at input)"
    and prep: "prepare_new_secret_version_parts C mk kv input r = (Inr p, r')"
  shows "\<exists>dk. sealed_under C mk dk (new_plaintext input) p \<and> rng_fills r' \<and>
    prep_version p = SecretVersion_first \<and> prep_key_version p = kv \<and>
    prep_owner_user_id p = new_owner_user_id input \<and>
    prep_classification p = new_classification input \<and>
    uuid_is_v4 C (SecretId_uuid (prep_secret_id p)) \<and> prep_write_action p = EncryptCreate"
proof -
  from prep obtain i r1 dk r2 e r3 where i: "SecretId_generate C r = (Inr i, r1)"
    and dk: "DataKey_generate r1 = (Inr dk, r2)"
    and e: "wrap_data_key C mk (KeyWrapContext_new i kv) dk r2 = (Inr e, r3)"
    and p: "prepare_secret_version_with_data_key C EncryptCreate
     \<lparr>md_secret_id = i, md_version = SecretVersion_first,
      md_owner_user_id = new_owner_user_id input,
      md_classification = new_classification input,
      md_created_by_device_id = new_created_by_device_id input,
      md_created_at = new_created_at input, md_key_version = kv,
      md_encrypted_data_key = e\<rparr> dk (new_plaintext input) r3 = (Inr p, r')"
    by (auto simp: prepare_new_secret_version_parts_def sbind_eq_Inr)
  have r1: "rng_fills r1"
    using i getrandom_fill_length(2) [OF _ assms(2)]
    by (auto simp: SecretId_generate_def sbind_eq_Inr)
  have dk_wf: "DataKey_wf dk" and r2: "rng_fills r2" using generate_wf(1) [OF r1 dk] by auto
  have "unwrap_data_key C mk (KeyWrapContext_new i kv) e = Inr dk" and r3: "rng_fills r3"
    using key_wrap.unseal_seal [OF _ r2 TrueI dk_wf e] laws by (simp_all add: envelope_laws_def)
  moreover have "uuid_is_v4 C (SecretId_uuid i)"
    using uuid_generate_v4(1) [OF _ i] laws by (simp add: envelope_laws_def)
  ultimately show ?thesis
    using prepare_with_data_key_sealed [OF laws r3 dk_wf _ _ _ _ _ p] assms(3,4) by auto
qed

lemma prepare_existing_sealed:
  assumes laws: "envelope_laws C" and ring: "MasterKeyRing_wf ring" and r: "rng_fills r"
    and old: "sealed_under C mk dk pt p" "MasterKeyRing_get ring (prep_key_version p) = Inr mk"
    and wf: "uuid_is_v4 C (SecretId_uuid (prep_secret_id p))"
      "Classification_wf (prep_classification p)" "CreatedAt_wf C (ex_created_at input)"
    and cur: "ex_current input = current_state p"
    and prep: "prepare_existing_secret_version_with_keyring C ring input r = Some (Inr q, r')"
  shows "\<exists>amk. MasterKeyRing_get ring (ring_active_key_version ring) = Inr amk \<and>
    sealed_under C amk dk (ex_plaintext input) q \<and> rng_fills r' \<and>
    SecretVersion_next (prep_version p) = Inr (prep_version q) \<and>
    prep_key_version q = ring_active_key_version ring \<and> prep_secret_id q = prep_secret_id p \<and>
    prep_owner_user_id q = prep_owner_user_id p \<and>
    prep_classification q = prep_classification p \<and> prep_write_action q = EncryptRotate"
proof -
  from MasterKeyRing_active_Some [OF ring] obtain amk
    where act: "MasterKeyRing_active ring = Some (ring_active_key_version ring, amk)"
    and amk: "MasterKeyRing_get ring (ring_active_key_version ring) = Inr amk" by metis
  from prep old cur act obtain v e r1 where v: "SecretVersion_next (prep_version p) = Inr v"
    and e: "wrap_data_key C amk (KeyWrapContext_new (prep_secret_id p)
      (ring_active_key_version ring)) dk r = (Inr e, r1)"
    and q: "prepare_secret_version_with_data_key C EncryptRotate
      \<lparr>md_secret_id = prep_secret_id p, md_version = v,
       md_owner_user_id = prep_owner_user_id p, md_classification = prep_classification p,
       md_created_by_device_id = ex_created_by_device_id input,
       md_created_at = ex_created_at input,
       md_key_version = ring_active_key_version ring, md_encrypted_data_key = e\<rparr>
      dk (ex_plaintext input) r1 = (Inr q, r')"
    by (cases "SecretVersion_next (prep_version p)")
      (auto simp: prepare_existing_secret_version_with_keyring_def current_state_def Let_def
        sealed_under_def sbind_eq_Inr)
  from old have dk_wf: "DataKey_wf dk" by (simp add: sealed_under_def)
  have "unwrap_data_key C amk (KeyWrapContext_new (prep_secret_id p)
      (ring_active_key_version ring)) e = Inr dk" and r1: "rng_fills r1"
    using key_wrap.unseal_seal [OF _ r TrueI dk_wf e] laws by (simp_all add: envelope_laws_def)
  with prepare_with_data_key_sealed [OF laws r1 dk_wf _ _ _ _ _ q] wf v amk show ?thesis
    by auto
qed


section \<open>Histories of a secret\<close>

text \<open>
  A history is the list of the versions written for one secret, newest first, each with the
  plaintext it was given, together with the keyring and randomness at the end.  A secret is
  created, then rotated against its newest version; between writes the operator may load
  another keyring, as long as it still holds the old keys.
\<close>

inductive history ::
    "crates \<Rightarrow> (PreparedSecretVersion \<times> Plaintext) list \<Rightarrow> MasterKeyRing \<Rightarrow> rng \<Rightarrow> bool"
  for C where
  create: "MasterKeyRing_wf ring \<Longrightarrow> rng_fills r \<Longrightarrow> Classification_wf (new_classification input) \<Longrightarrow>
    CreatedAt_wf C (new_created_at input) \<Longrightarrow>
    prepare_new_secret_version_with_keyring C ring input r = Some (Inr p, r') \<Longrightarrow>
    history C [(p, new_plaintext input)] ring r'"
| rotate: "history C ((p, pt) # h) ring r \<Longrightarrow> ex_current input = current_state p \<Longrightarrow>
    CreatedAt_wf C (ex_created_at input) \<Longrightarrow>
    prepare_existing_secret_version_with_keyring C ring input r = Some (Inr q, r') \<Longrightarrow>
    history C ((q, ex_plaintext input) # (p, pt) # h) ring r'"
| load_keyring: "history C h ring r \<Longrightarrow> MasterKeyRing_wf ring' \<Longrightarrow>
    (\<And>v k. MasterKeyRing_get ring v = Inr k \<Longrightarrow> MasterKeyRing_get ring' v = Inr k) \<Longrightarrow>
    history C h ring' r"

inductive_cases history_NilE: "history C [] ring r"

lemma history_not_Nil: "history C h ring r \<Longrightarrow> h \<noteq> []"
  by (induction rule: history.induct) simp_all

text \<open>Along a history the data key and the row stay recoverable, and the secret, its owner and
  its classification never change.\<close>

definition version_ok ::
    "crates \<Rightarrow> MasterKeyRing \<Rightarrow> SecretId \<Rightarrow> OwnerUserId \<Rightarrow> Classification \<Rightarrow> DataKey \<Rightarrow>
     PreparedSecretVersion \<times> Plaintext \<Rightarrow> bool" where
  "version_ok C ring i u c dk = (\<lambda>(p, pt).
    prep_secret_id p = i \<and> prep_owner_user_id p = u \<and> prep_classification p = c \<and>
    (\<exists>mk. MasterKeyRing_get ring (prep_key_version p) = Inr mk \<and> sealed_under C mk dk pt p))"

lemma history_invariant:
  assumes laws: "envelope_laws C" and "history C h ring r"
  shows "MasterKeyRing_wf ring \<and> rng_fills r \<and>
    (\<exists>i u c dk. uuid_is_v4 C (SecretId_uuid i) \<and> Classification_wf c \<and>
      list_all (version_ok C ring i u c dk) h) \<and>
    map (\<lambda>(p, _). unat (SecretVersion_get (prep_version p))) h = rev [1..<Suc (length h)]"
  using assms(2)
proof (induction rule: history.induct)
  case (create ring r input p r')
  from MasterKeyRing_active_Some [OF create(1)] obtain amk
    where act: "MasterKeyRing_active ring = Some (ring_active_key_version ring, amk)"
    and amk: "MasterKeyRing_get ring (ring_active_key_version ring) = Inr amk" by metis
  from create(5) act have "prepare_new_secret_version_parts C amk (ring_active_key_version ring)
      input r = (Inr p, r')"
    by (simp add: prepare_new_secret_version_with_keyring_def)
  from prepare_new_parts_sealed [OF laws create(2,3,4) this] amk create(1,3) show ?case
    by (auto simp: version_ok_def SecretVersion_first_def)
next
  case (rotate p pt h ring r input q r')
  then obtain i u c dk where inv: "MasterKeyRing_wf ring" "rng_fills r"
    "uuid_is_v4 C (SecretId_uuid i)" "Classification_wf c"
    "list_all (version_ok C ring i u c dk) ((p, pt) # h)"
    and nums: "map (\<lambda>(p, _). unat (SecretVersion_get (prep_version p))) ((p, pt) # h) =
      rev [1..<Suc (length ((p, pt) # h))]" by blast
  from inv(5) obtain mk where old: "sealed_under C mk dk pt p"
    "MasterKeyRing_get ring (prep_key_version p) = Inr mk" "prep_secret_id p = i"
    "prep_owner_user_id p = u" "prep_classification p = c" by (auto simp: version_ok_def)
  from prepare_existing_sealed [OF laws inv(1,2) old(1,2) _ _ rotate(3,2,4)] inv old
  obtain amk where new: "MasterKeyRing_get ring (ring_active_key_version ring) = Inr amk"
    "sealed_under C amk dk (ex_plaintext input) q" "rng_fills r'"
    "SecretVersion_next (prep_version p) = Inr (prep_version q)"
    "prep_key_version q = ring_active_key_version ring" "prep_secret_id q = i"
    "prep_owner_user_id q = u" "prep_classification q = c" by auto
  from new(4) nums have "unat (SecretVersion_get (prep_version q)) = length ((p, pt) # h) + 1"
    by (simp add: SecretVersion_next_Inr)
  with new inv nums show ?case by (auto simp: version_ok_def)
next
  case (load_keyring h ring r ring')
  have "version_ok C ring' i u c dk x" if "version_ok C ring i u c dk x" for i u c dk x
    using that load_keyring(3) by (auto simp: version_ok_def)
  with load_keyring show ?case by (metis (mono_tags, lifting) list.pred_mono_strong)
qed


text \<open>
  C26 --- The versions of a secret are numbered 1, 2, 3, ... without gaps or repetition, all
  carry the same secret identifier, owner and classification, and all wrap one data key.
\<close>
theorem history_versions_consecutive:
  assumes "envelope_laws C" and "history C h ring r"
  shows "map (\<lambda>(p, _). unat (SecretVersion_get (prep_version p))) h = rev [1..<Suc (length h)] \<and>
    (\<exists>i u c dk. \<forall>(p, pt) \<in> set h. prep_secret_id p = i \<and> prep_owner_user_id p = u \<and>
      prep_classification p = c \<and>
      (\<exists>mk. MasterKeyRing_get ring (prep_key_version p) = Inr mk \<and>
        unwrap_data_key C mk (KeyWrapContext_new i (prep_key_version p))
          (prep_encrypted_data_key p) = Inr dk))"
proof -
  from history_invariant [OF assms] obtain i u c dk where
    inv: "list_all (version_ok C ring i u c dk) h" and
    nums: "map (\<lambda>(p, _). unat (SecretVersion_get (prep_version p))) h = rev [1..<Suc (length h)]"
    by blast
  have "\<forall>(p, pt) \<in> set h. prep_secret_id p = i \<and> prep_owner_user_id p = u \<and>
      prep_classification p = c \<and>
      (\<exists>mk. MasterKeyRing_get ring (prep_key_version p) = Inr mk \<and>
        unwrap_data_key C mk (KeyWrapContext_new i (prep_key_version p))
          (prep_encrypted_data_key p) = Inr dk)"
    using inv by (auto simp: list_all_iff version_ok_def sealed_under_def)
  with nums show ?thesis by blast
qed


section \<open>A concrete secret\<close>

definition sample_ring :: MasterKeyRing where
  "sample_ring = \<lparr>ring_active_key_version = KeyVersion 1,
    ring_keys = [(KeyVersion 1, MasterKey (replicate 32 9))]\<rparr>"

definition sample_new_input :: NewSecretVersionInput where
  "sample_new_input =
    \<lparr>new_owner_user_id = OwnerUserId 5, new_classification = Classification ''secret'',
     new_created_by_device_id = DeviceId ''device'', new_created_at = CreatedAt (1000, 0),
     new_key_version = KeyVersion 1, new_plaintext = Plaintext [1, 2, 3]\<rparr>"

definition sample_claims :: VerifiedJwtClaims where
  "sample_claims = for_restore_test_only (OwnerUserId 5)"

lemma sample_envelope_laws: "envelope_laws sample_crates"
  by (simp add: envelope_laws_def sample_laws)

lemma sample_ring_wf: "MasterKeyRing_wf sample_ring"
  by (simp add: MasterKeyRing_wf_def sample_ring_def bt_wf_def bt_get_def MasterKey_wf_def
      MASTER_KEY_LENGTH_def)

lemma sample_input_wf:
  "Classification_wf (new_classification sample_new_input)"
  "CreatedAt_wf sample_crates (new_created_at sample_new_input)"
proof -
  have "str_trim ''secret'' = ''secret''"
    by (rule str_trim_all_plain) (simp add: plain_char_def)
  then show "Classification_wf (new_classification sample_new_input)"
    by (simp add: sample_new_input_def Classification_wf_def)
qed (simp add: sample_new_input_def CreatedAt_wf_def)

lemma sample_prepare_new:
  "\<exists>p. prepare_new_secret_version_with_keyring sample_crates sample_ring sample_new_input
    sample_rng = Some (Inr p, sample_rng) \<and> prep_owner_user_id p = OwnerUserId 5"
  by (simp add: prepare_new_secret_version_with_keyring_def MasterKeyRing_active_def
      sample_ring_def bt_get_def prepare_new_secret_version_parts_def
      prepare_secret_version_with_data_key_def Let_def sbind_def smap_err_def SecretId_generate_def
      DataKey_generate_def SecretVersionId_generate_def Nonce_generate_def wrap_data_key_def
      encrypt_secret_def KeyWrapContext_canonical_bytes_def cipher_from_master_key_def
      cipher_from_data_key_def canonical_bytes_def canonical_json_def to_stored_context_def
      CreatedAt_as_rfc3339_utc_def format_utc_rfc3339_def sample_rfc3339_format_def
      sample_new_input_def sample_encrypt_def sample_tag_def length_consts envelope_parts(1)
      Ciphertext_new_def)

lemma sample_history:
  "\<exists>p. history sample_crates [(p, Plaintext [1, 2, 3])] sample_ring sample_rng \<and>
    prep_owner_user_id p = OwnerUserId 5"
proof -
  obtain p where p: "prepare_new_secret_version_with_keyring sample_crates sample_ring
      sample_new_input sample_rng = Some (Inr p, sample_rng)" "prep_owner_user_id p = OwnerUserId 5"
    using sample_prepare_new by blast
  have "history sample_crates [(p, new_plaintext sample_new_input)] sample_ring sample_rng"
    by (rule history.create) (use p sample_ring_wf sample_input_wf in simp_all)
  with p show ?thesis by (auto simp: sample_new_input_def)
qed


theorem history_versions_consecutive_witness:
  "\<exists>p. history sample_crates [(p, Plaintext [1, 2, 3])] sample_ring sample_rng \<and>
    unat (SecretVersion_get (prep_version p)) = 1"
proof -
  obtain p where p: "history sample_crates [(p, Plaintext [1, 2, 3])] sample_ring sample_rng"
    using sample_history by blast
  from history_versions_consecutive [OF sample_envelope_laws p]
  have "unat (SecretVersion_get (prep_version p)) = 1" by simp
  with p show ?thesis by blast
qed

end
