(* ===== verification/Alias.thy ===== *)
theory Alias
  imports Crypto Sample_Crates
begin

text \<open>
  Encrypted aliases of secrets and their keyed fingerprints: \<open>src/alias/aad.rs\<close>,
  \<open>src/alias/crypto.rs\<close>, \<open>src/alias/fingerprint.rs\<close>, \<open>src/alias/read.rs\<close> and
  \<open>src/alias/write.rs\<close>.
\<close>


section \<open>Associated data of an alias\<close>

definition ALIAS_AAD_VERSION_V1 :: u8 where "ALIAS_AAD_VERSION_V1 = 1"

definition ALIAS_AAD_V1_FIELDS :: "string list" where
  "ALIAS_AAD_V1_FIELDS =
    [''aad_version'', ''alias_key_version'', ''owner_user_id'', ''secret_alias_id'',
     ''secret_id'']"

record AliasAadV1 =
  aaad_secret_alias_id :: SecretAliasId
  aaad_secret_id :: SecretId
  aaad_owner_user_id :: OwnerUserId
  aaad_alias_key_version :: KeyVersion

definition AliasAadV1_new ::
    "SecretAliasId \<Rightarrow> SecretId \<Rightarrow> OwnerUserId \<Rightarrow> KeyVersion \<Rightarrow> AliasAadV1" where
  "AliasAadV1_new secret_alias_id secret_id owner_user_id alias_key_version =
    \<lparr>aaad_secret_alias_id = secret_alias_id, aaad_secret_id = secret_id,
     aaad_owner_user_id = owner_user_id, aaad_alias_key_version = alias_key_version\<rparr>"

definition validate_alias_aad_v1_field_set :: "(string \<times> json) list \<Rightarrow> AadError + unit" where
  "validate_alias_aad_v1_field_set object = validate_field_set ALIAS_AAD_V1_FIELDS object"

definition alias_parse_aad_version :: "crates \<Rightarrow> json \<Rightarrow> AadError + u8" where
  "alias_parse_aad_version C v =
    (case v of
      JNumber n \<Rightarrow>
        rbind (ok_or (UnsupportedAadVersion (json_number_to_string C n))
          (Option.bind (as_u64 n) try_from_word)) (\<lambda>parsed.
        if parsed = ALIAS_AAD_VERSION_V1 then Inr parsed
        else Inl (UnsupportedAadVersion (json_number_to_string C n)))
    | _ \<Rightarrow> Inl (InvalidFieldType ''aad_version'' ''the integer 1''))"

definition alias_from_stored_context :: "crates \<Rightarrow> json \<Rightarrow> AadError + AliasAadV1" where
  "alias_from_stored_context C context =
    rbind (ok_or ExpectedJsonObject (as_object context)) (\<lambda>object.
    rbind (validate_alias_aad_v1_field_set object) (\<lambda>_.
    rbind (rbind (required_value object ''aad_version'') (alias_parse_aad_version C))
      (\<lambda>version_tag.
    if version_tag \<noteq> ALIAS_AAD_VERSION_V1
      then Inl (UnsupportedAadVersion (dec_digits (unat version_tag)))
    else
    rbind (parse_required_string object ''secret_alias_id'') (\<lambda>secret_alias_id.
    rbind (parse_required_string object ''secret_id'') (\<lambda>secret_id.
    rbind (parse_required_string object ''owner_user_id'') (\<lambda>owner_user_id.
    rbind (parse_required_positive_integer C object ''alias_key_version'')
      (\<lambda>alias_key_version.
    rbind (SecretAliasId_parse C secret_alias_id) (\<lambda>secret_alias_id.
    rbind (SecretId_parse C secret_id) (\<lambda>secret_id.
    rbind (OwnerUserId_parse C owner_user_id) (\<lambda>owner_user_id.
    rbind (map_err (\<lambda>_. InvalidPositiveInteger ''alias_key_version''
      (u32_to_string alias_key_version)) (KeyVersion_new alias_key_version)) (\<lambda>key_version.
    Inr (AliasAadV1_new secret_alias_id secret_id owner_user_id key_version))))))))))))"

definition CanonicalAliasAad :: "crates \<Rightarrow> AliasAadV1 \<Rightarrow> json" where
  "CanonicalAliasAad C aad =
    JObject
     [(''aad_version'', json_uint ALIAS_AAD_VERSION_V1),
      (''alias_key_version'', json_uint (KeyVersion_get (aaad_alias_key_version aad))),
      (''owner_user_id'', JString (OwnerUserId_as_canonical_string C (aaad_owner_user_id aad))),
      (''secret_alias_id'',
        JString (SecretAliasId_as_canonical_string C (aaad_secret_alias_id aad))),
      (''secret_id'', JString (SecretId_as_canonical_string C (aaad_secret_id aad)))]"

definition alias_canonical_json :: "crates \<Rightarrow> AliasAadV1 \<Rightarrow> AadError + string" where
  "alias_canonical_json C aad =
    map_err SerializationFailed (json_to_string C (CanonicalAliasAad C aad))"

definition alias_canonical_bytes :: "crates \<Rightarrow> AliasAadV1 \<Rightarrow> AadError + bytes" where
  "alias_canonical_bytes C aad = map_ok str_bytes (alias_canonical_json C aad)"

definition alias_to_stored_context :: "crates \<Rightarrow> AliasAadV1 \<Rightarrow> AadError + json" where
  "alias_to_stored_context C aad =
    rbind (alias_canonical_json C aad) (\<lambda>canonical.
    map_err SerializationFailed (json_from_str C canonical))"

definition AliasAadV1_wf :: "crates \<Rightarrow> AliasAadV1 \<Rightarrow> bool" where
  "AliasAadV1_wf C aad \<longleftrightarrow>
    uuid_is_v4 C (SecretAliasId_uuid (aaad_secret_alias_id aad)) \<and>
    uuid_is_v4 C (SecretId_uuid (aaad_secret_id aad)) \<and>
    KeyVersion_wf (aaad_alias_key_version aad)"


section \<open>Encryption\<close>

record EncryptedAlias =
  ea_ciphertext :: Ciphertext
  ea_nonce :: Nonce

definition cipher_from_alias_key :: "crates \<Rightarrow> AliasEncryptionKey \<Rightarrow> CryptoError + bytes" where
  "cipher_from_alias_key C key =
    (if aead_key_ok C (AliasEncryptionKey_bytes key) then Inr (AliasEncryptionKey_bytes key)
     else Inl (InvalidAliasEncryptionKeyLength (length (AliasEncryptionKey_bytes key))))"

definition encrypt_alias ::
    "crates \<Rightarrow> AliasEncryptionKey \<Rightarrow> AliasAadV1 \<Rightarrow> NormalizedAlias \<Rightarrow>
     (rng, CryptoError, EncryptedAlias) comp" where
  "encrypt_alias C encryption_key aad alias =
    sbind Nonce_generate (\<lambda>nonce.
    sbind (slift (map_err CryptoError_from_AadError (alias_canonical_bytes C aad)))
      (\<lambda>aad_bytes.
    sbind (slift (cipher_from_alias_key C encryption_key)) (\<lambda>cipher.
    sbind (slift (rbind (ok_or EncryptionFailed
        (aead_encrypt C cipher (Nonce_bytes nonce) aad_bytes (str_bytes (alias_str alias))))
      Ciphertext_new)) (\<lambda>ciphertext.
    sret \<lparr>ea_ciphertext = ciphertext, ea_nonce = nonce\<rparr>))))"

definition decrypt_alias ::
    "crates \<Rightarrow> AliasEncryptionKey \<Rightarrow> AliasAadV1 \<Rightarrow> Nonce \<Rightarrow> Ciphertext \<Rightarrow>
     CryptoError + NormalizedAlias" where
  "decrypt_alias C encryption_key aad nonce ciphertext =
    rbind (map_err CryptoError_from_AadError (alias_canonical_bytes C aad)) (\<lambda>aad_bytes.
    rbind (cipher_from_alias_key C encryption_key) (\<lambda>cipher.
    rbind (ok_or DecryptionFailed
      (aead_decrypt C cipher (Nonce_bytes nonce) aad_bytes (Ciphertext_bytes ciphertext)))
      (\<lambda>plaintext.
    rbind (ok_or DecryptionFailed (str_from_utf8 plaintext)) (\<lambda>plaintext.
    map_err (\<lambda>_. DecryptionFailed) (NormalizedAlias_parse plaintext)))))"


section \<open>Fingerprints\<close>

definition ALIAS_FINGERPRINT_LENGTH :: nat where "ALIAS_FINGERPRINT_LENGTH = 32"

definition FINGERPRINT_DOMAIN :: string where
  "FINGERPRINT_DOMAIN = ''mipsorcu:v1:secret-alias-fingerprint''"

datatype AliasFingerprint = AliasFingerprint (AliasFingerprint_bytes: bytes)

definition AliasFingerprint_parse :: "bytes \<Rightarrow> CryptoError + AliasFingerprint" where
  "AliasFingerprint_parse b =
    (if length b \<noteq> ALIAS_FINGERPRINT_LENGTH then Inl (InvalidAliasFingerprintLength (length b))
     else Inr (AliasFingerprint b))"

definition AliasFingerprint_to_hex_string :: "crates \<Rightarrow> AliasFingerprint \<Rightarrow> string" where
  "AliasFingerprint_to_hex_string C f = hex_encode C (AliasFingerprint_bytes f)"

text \<open>The bytes fed to the message authentication code, in order.\<close>

definition fingerprint_message :: "crates \<Rightarrow> OwnerUserId \<Rightarrow> NormalizedAlias \<Rightarrow> bytes" where
  "fingerprint_message C owner_user_id alias =
    str_bytes FINGERPRINT_DOMAIN @ str_bytes (OwnerUserId_as_canonical_string C owner_user_id) @
    str_bytes (alias_str alias)"

definition compute_alias_fingerprint ::
    "crates \<Rightarrow> AliasFingerprintKey \<Rightarrow> OwnerUserId \<Rightarrow> NormalizedAlias \<Rightarrow>
     CryptoError + AliasFingerprint" where
  "compute_alias_fingerprint C key owner_user_id alias =
    map_ok AliasFingerprint (ok_or FingerprintComputationFailed
      (hmac_sha3_256 C (AliasFingerprintKey_bytes key)
        (fingerprint_message C owner_user_id alias)))"

definition compute_lookup_fingerprint ::
    "crates \<Rightarrow> AliasFingerprintKey \<Rightarrow> OwnerUserId \<Rightarrow> NormalizedAlias \<Rightarrow>
     CryptoError + AliasFingerprint" where
  "compute_lookup_fingerprint C key owner_user_id alias =
    compute_alias_fingerprint C key owner_user_id alias"


section \<open>Rows\<close>

record DecryptedAlias =
  da_secret_alias_id :: SecretAliasId
  da_secret_id :: SecretId
  da_alias :: NormalizedAlias

definition decrypt_alias_row ::
    "crates \<Rightarrow> AliasEncryptionKey \<Rightarrow> SecretAliasId \<Rightarrow> SecretId \<Rightarrow> OwnerUserId \<Rightarrow> KeyVersion \<Rightarrow>
     Ciphertext \<Rightarrow> Nonce \<Rightarrow> json \<Rightarrow> SecretDecryptError + DecryptedAlias" where
  "decrypt_alias_row C encryption_key secret_alias_id secret_id owner_user_id alias_key_version
      ciphertext nonce aad_context =
    rbind (map_err SecretDecrypt_Aad (alias_from_stored_context C aad_context)) (\<lambda>stored_aad.
    let row_aad = AliasAadV1_new secret_alias_id secret_id owner_user_id alias_key_version in
    rbind (map_err SecretDecrypt_Aad (alias_canonical_bytes C stored_aad)) (\<lambda>stored_bytes.
    rbind (map_err SecretDecrypt_Aad (alias_canonical_bytes C row_aad)) (\<lambda>row_bytes.
    if stored_bytes \<noteq> row_bytes then Inl (SecretDecrypt_Integrity AadContextMismatch)
    else
    rbind (map_err SecretDecrypt_Crypto
      (decrypt_alias C encryption_key row_aad nonce ciphertext)) (\<lambda>alias.
    Inr \<lparr>da_secret_alias_id = secret_alias_id, da_secret_id = secret_id, da_alias = alias\<rparr>))))"

record PreparedAliasCreate =
  pac_secret_alias_id :: SecretAliasId
  pac_secret_id :: SecretId
  pac_owner_user_id :: OwnerUserId
  pac_ciphertext :: Ciphertext
  pac_nonce :: Nonce
  pac_alias_key_version :: KeyVersion
  pac_alias_fingerprint :: AliasFingerprint
  pac_fingerprint_key_version :: KeyVersion
  pac_fingerprint_schema_version :: AliasFingerprintSchemaVersion
  pac_aad_context :: json
  pac_created_at :: CreatedAt

record PreparedAliasUpdate =
  pau_secret_alias_id :: SecretAliasId
  pau_secret_id :: SecretId
  pau_owner_user_id :: OwnerUserId
  pau_ciphertext :: Ciphertext
  pau_nonce :: Nonce
  pau_alias_key_version :: KeyVersion
  pau_new_alias_fingerprint :: AliasFingerprint
  pau_fingerprint_key_version :: KeyVersion
  pau_fingerprint_schema_version :: AliasFingerprintSchemaVersion
  pau_aad_context :: json

definition prepare_alias_create ::
    "crates \<Rightarrow> AliasEncryptionKey \<Rightarrow> KeyVersion \<Rightarrow> AliasFingerprintKey \<Rightarrow> KeyVersion \<Rightarrow> SecretId \<Rightarrow>
     OwnerUserId \<Rightarrow> NormalizedAlias \<Rightarrow> CreatedAt \<Rightarrow> (rng, CryptoError, PreparedAliasCreate) comp"
    where
  "prepare_alias_create C encryption_key encryption_key_version fingerprint_key
      fingerprint_key_version secret_id owner_user_id alias_input created_at =
    sbind (SecretAliasId_generate C) (\<lambda>secret_alias_id.
    let aad = AliasAadV1_new secret_alias_id secret_id owner_user_id encryption_key_version in
    sbind (encrypt_alias C encryption_key aad alias_input) (\<lambda>encrypted.
    sbind (slift (compute_alias_fingerprint C fingerprint_key owner_user_id alias_input))
      (\<lambda>alias_fingerprint.
    sbind (slift (map_err CryptoError_from_AadError (alias_to_stored_context C aad)))
      (\<lambda>aad_context.
    sret
     \<lparr>pac_secret_alias_id = secret_alias_id, pac_secret_id = secret_id,
      pac_owner_user_id = owner_user_id, pac_ciphertext = ea_ciphertext encrypted,
      pac_nonce = ea_nonce encrypted, pac_alias_key_version = encryption_key_version,
      pac_alias_fingerprint = alias_fingerprint,
      pac_fingerprint_key_version = fingerprint_key_version,
      pac_fingerprint_schema_version = AliasFingerprintSchemaVersion_V1,
      pac_aad_context = aad_context, pac_created_at = created_at\<rparr>))))"

definition prepare_alias_update ::
    "crates \<Rightarrow> AliasEncryptionKey \<Rightarrow> KeyVersion \<Rightarrow> AliasFingerprintKey \<Rightarrow> KeyVersion \<Rightarrow>
     SecretAliasId \<Rightarrow> SecretId \<Rightarrow> OwnerUserId \<Rightarrow> NormalizedAlias \<Rightarrow>
     (rng, CryptoError, PreparedAliasUpdate) comp" where
  "prepare_alias_update C encryption_key encryption_key_version fingerprint_key
      fingerprint_key_version secret_alias_id secret_id owner_user_id new_alias =
    (let aad = AliasAadV1_new secret_alias_id secret_id owner_user_id encryption_key_version in
    sbind (encrypt_alias C encryption_key aad new_alias) (\<lambda>encrypted.
    sbind (slift (compute_alias_fingerprint C fingerprint_key owner_user_id new_alias))
      (\<lambda>new_alias_fingerprint.
    sbind (slift (map_err CryptoError_from_AadError (alias_to_stored_context C aad)))
      (\<lambda>aad_context.
    sret
     \<lparr>pau_secret_alias_id = secret_alias_id, pau_secret_id = secret_id,
      pau_owner_user_id = owner_user_id, pau_ciphertext = ea_ciphertext encrypted,
      pau_nonce = ea_nonce encrypted, pau_alias_key_version = encryption_key_version,
      pau_new_alias_fingerprint = new_alias_fingerprint,
      pau_fingerprint_key_version = fingerprint_key_version,
      pau_fingerprint_schema_version = AliasFingerprintSchemaVersion_V1,
      pau_aad_context = aad_context\<rparr>))))"


section \<open>Lemmas\<close>

lemma alias_parse_aad_version_1 [simp]:
  "alias_parse_aad_version C (json_uint ALIAS_AAD_VERSION_V1) = Inr ALIAS_AAD_VERSION_V1"
  by (simp add: alias_parse_aad_version_def json_uint_def ALIAS_AAD_VERSION_V1_def as_u64_def
      try_from_word_def)

text \<open>The text of an alias is ASCII, so it survives the trip through bytes.\<close>

lemma alias_bytes_ascii: "NormalizedAlias_wf a \<Longrightarrow> utf8_valid (str_bytes (alias_str a))"
proof (rule utf8_valid_ascii, rule ballI)
  fix b assume wf: "NormalizedAlias_wf a" and "b \<in> set (str_bytes (alias_str a))"
  then obtain c where c: "c \<in> set (alias_str a)" and b: "b = of_char c"
    by (auto simp: str_bytes_def)
  from wf c have lt: "(of_char c :: nat) < 128"
    using is_allowed_byte_plain [of c]
    by (auto simp: NormalizedAlias_wf_def list_all_iff plain_char_def Let_def)
  have "b = of_nat (of_char c)" by (simp add: b of_nat_of_char)
  then have "unat b = of_char c" using lt by (simp add: unat_of_nat)
  with lt show "b \<le> 0x7F" by (simp add: word_le_nat_alt)
qed

lemma alias_stored_context_roundtrip:
  assumes "uuid_laws C" "json_laws C" "AliasAadV1_wf C aad"
    and "alias_to_stored_context C aad = Inr ctx"
  shows "alias_from_stored_context C ctx = Inr aad"
proof -
  let ?kvs = "[(''aad_version'', json_uint ALIAS_AAD_VERSION_V1),
      (''alias_key_version'', json_uint (KeyVersion_get (aaad_alias_key_version aad))),
      (''owner_user_id'', JString (OwnerUserId_as_canonical_string C (aaad_owner_user_id aad))),
      (''secret_alias_id'',
        JString (SecretAliasId_as_canonical_string C (aaad_secret_alias_id aad))),
      (''secret_id'', JString (SecretId_as_canonical_string C (aaad_secret_id aad)))]"
  have "json_sorted (CanonicalAliasAad C aad)"
    by (simp add: CanonicalAliasAad_def bt_wf_def)
  moreover have "json_exact (CanonicalAliasAad C aad)" by (simp add: CanonicalAliasAad_def)
  moreover from assms(4) obtain s where "json_to_string C (CanonicalAliasAad C aad) = Inr s"
    and "json_from_str C s = Inr ctx"
    by (auto simp: alias_to_stored_context_def alias_canonical_json_def)
  ultimately have "ctx = CanonicalAliasAad C aad" using json_lawsD(2) [OF assms(2)] by fastforce
  then have ctx: "ctx = JObject ?kvs" by (simp add: CanonicalAliasAad_def)
  have "validate_alias_aad_v1_field_set ?kvs = Inr ()"
    unfolding validate_alias_aad_v1_field_set_def validate_field_set_iff
    by (auto simp: bt_keys_def ALIAS_AAD_V1_FIELDS_def)
  moreover have "AliasAadV1_new (aaad_secret_alias_id aad) (aaad_secret_id aad)
      (aaad_owner_user_id aad) (aaad_alias_key_version aad) = aad"
    by (simp add: AliasAadV1_new_def)
  ultimately show ?thesis
    using assms(1,3) uuid_id_roundtrips [of C]
    by (cases "aaad_alias_key_version aad")
      (simp add: ctx alias_from_stored_context_def as_object_def required_value_def bt_get_def
        parse_required_string_def parse_required_positive_integer_def as_str_def
        AliasAadV1_wf_def KeyVersion_wf_def KeyVersion_new_def del: rbind_eq_Inr)
qed

lemma decrypt_encrypt_alias:
  assumes "aead_laws C" "rng_fills r" "NormalizedAlias_wf a"
    and "encrypt_alias C key aad a r = (Inr e, r')"
  shows "decrypt_alias C key aad (ea_nonce e) (ea_ciphertext e) = Inr a \<and> rng_fills r'"
proof -
  from assms(4) obtain n b c where w: "Nonce_generate r = (Inr n, r')"
    "alias_canonical_bytes C aad = Inr b" "aead_key_ok C (AliasEncryptionKey_bytes key)"
    "aead_encrypt C (AliasEncryptionKey_bytes key) (Nonce_bytes n) b (str_bytes (alias_str a)) =
      Some c" "e = \<lparr>ea_ciphertext = Ciphertext c, ea_nonce = n\<rparr>"
    by (auto simp: encrypt_alias_def sbind_eq_Inr cipher_from_alias_key_def Ciphertext_new_def
        split: if_splits)
  with aead_lawsD(3) [OF assms(1) w(4)] generate_wf(3) [OF assms(2) w(1)]
    alias_bytes_ascii [OF assms(3)] NormalizedAlias_parse_of_wf [OF assms(3)]
  show ?thesis
    by (simp add: decrypt_alias_def cipher_from_alias_key_def str_from_utf8_def del: rbind_eq_Inr)
qed

interpretation alias_box: sealed_box aead_laws "\<lambda>_. True" NormalizedAlias_wf encrypt_alias
  "\<lambda>C key aad e. decrypt_alias C key aad (ea_nonce e) (ea_ciphertext e)"
  by unfold_locales (rule decrypt_encrypt_alias)

text \<open>
  C25 --- An alias that is created reads back as itself: decrypting the stored alias row under
  the alias key returns the alias that was given, for the same alias identifier and secret.
\<close>
theorem alias_create_reads_back:
  assumes "aead_laws C" "uuid_laws C" "json_laws C" "rng_fills r"
    and "NormalizedAlias_parse text = Inr a" and "uuid_is_v4 C (SecretId_uuid i)"
    and "KeyVersion_new n = Inr kv"
    and prep: "prepare_alias_create C key kv fkey fkv i u a t r = (Inr p, r')"
  shows "decrypt_alias_row C key (pac_secret_alias_id p) (pac_secret_id p) (pac_owner_user_id p)
      (pac_alias_key_version p) (pac_ciphertext p) (pac_nonce p) (pac_aad_context p) =
    Inr \<lparr>da_secret_alias_id = pac_secret_alias_id p, da_secret_id = i, da_alias = a\<rparr>"
proof -
  from prep obtain j r1 e ctx where gen: "SecretAliasId_generate C r = (Inr j, r1)"
    and enc: "encrypt_alias C key (AliasAadV1_new j i u kv) a r1 = (Inr e, r')"
    and ctx: "alias_to_stored_context C (AliasAadV1_new j i u kv) = Inr ctx"
    and p: "pac_secret_alias_id p = j" "pac_secret_id p = i" "pac_owner_user_id p = u"
      "pac_alias_key_version p = kv" "pac_ciphertext p = ea_ciphertext e"
      "pac_nonce p = ea_nonce e" "pac_aad_context p = ctx"
    by (auto simp: prepare_alias_create_def Let_def sbind_eq_Inr)
  have "rng_fills r1"
    using gen getrandom_fill_length(2) [OF _ assms(4)]
    by (auto simp: SecretAliasId_generate_def sbind_eq_Inr)
  from alias_box.unseal_seal [OF assms(1) this TrueI NormalizedAlias_parse_wf [OF assms(5)] enc]
  have dec: "decrypt_alias C key (AliasAadV1_new j i u kv) (ea_nonce e) (ea_ciphertext e) = Inr a"
    by simp
  have "AliasAadV1_wf C (AliasAadV1_new j i u kv)"
    using uuid_generate_v4(2) [OF assms(2) gen] assms(6,7)
    by (auto simp: AliasAadV1_wf_def AliasAadV1_new_def KeyVersion_new_def KeyVersion_wf_def
        split: if_splits)
  from alias_stored_context_roundtrip [OF assms(2,3) this ctx] dec show ?thesis
    using ctx
    by (auto simp: p decrypt_alias_row_def Let_def alias_to_stored_context_def
        alias_canonical_bytes_def)
qed

text \<open>
  C27 --- Fingerprint messages never collide: two owner and alias pairs are authenticated as the
  same bytes only if both the owner and the alias are the same, because the domain and the
  owner identifier have a fixed width in front of the alias.
\<close>
theorem fingerprint_message_inj:
  assumes "uuid_laws C" and "fingerprint_message C u a = fingerprint_message C v b"
  shows "u = v \<and> a = b"
proof -
  have "length (str_bytes (OwnerUserId_as_canonical_string C u)) =
      length (str_bytes (OwnerUserId_as_canonical_string C v))"
    using assms(1) by (simp add: uuid_laws_def OwnerUserId_as_canonical_string_def)
  with assms(2) have "OwnerUserId_as_canonical_string C u = OwnerUserId_as_canonical_string C v"
    and "alias_str a = alias_str b"
    by (auto simp: fingerprint_message_def append_eq_append_conv)
  with assms(1) show ?thesis
    by (auto simp: OwnerUserId_as_canonical_string_def uuid_hyphenated_inj
        intro: OwnerUserId.expand NormalizedAlias.expand)
qed



section \<open>A concrete alias\<close>

definition sample_alias_create :: "(CryptoError + PreparedAliasCreate) \<times> rng" where
  "sample_alias_create =
    prepare_alias_create sample_crates (AliasEncryptionKey (replicate 32 3)) (KeyVersion 1)
      (AliasFingerprintKey (replicate 32 4)) (KeyVersion 1) (SecretId (sample_from_random_bytes []))
      (OwnerUserId 5) (NormalizedAlias ''db'') (CreatedAt (0, 0)) sample_rng"

lemma sample_alias_context:
  "alias_to_stored_context sample_crates aad = Inr (CanonicalAliasAad sample_crates aad)"
  by (simp add: alias_to_stored_context_def alias_canonical_json_def sample_json_roundtrip
      del: rbind_eq_Inr)

lemma sample_alias_prepared: "\<exists>p. sample_alias_create = (Inr p, sample_rng)"
  by (simp add: sample_alias_create_def prepare_alias_create_def sbind_def smap_err_def Let_def
      SecretAliasId_generate_def encrypt_alias_def Nonce_generate_def
      alias_canonical_bytes_def alias_canonical_json_def cipher_from_alias_key_def
      sample_encrypt_def sample_tag_def Ciphertext_new_def compute_alias_fingerprint_def
      sample_alias_context)

theorem alias_create_reads_back_witness:
  "\<exists>p. sample_alias_create = (Inr p, sample_rng) \<and>
    decrypt_alias_row sample_crates (AliasEncryptionKey (replicate 32 3)) (pac_secret_alias_id p)
      (pac_secret_id p) (pac_owner_user_id p) (pac_alias_key_version p) (pac_ciphertext p)
      (pac_nonce p) (pac_aad_context p) =
    Inr \<lparr>da_secret_alias_id = pac_secret_alias_id p,
      da_secret_id = SecretId (sample_from_random_bytes []), da_alias = NormalizedAlias ''db''\<rparr>"
proof -
  obtain p where p: "sample_alias_create = (Inr p, sample_rng)"
    using sample_alias_prepared by blast
  have parse: "NormalizedAlias_parse ''db'' = Inr (NormalizedAlias ''db'')"
    using NormalizedAlias_parse_of_wf [of "NormalizedAlias ''db''"]
    by (simp add: NormalizedAlias_wf_def is_allowed_byte_def ALIAS_MAX_LENGTH_def)
  have kv: "KeyVersion_new 1 = Inr (KeyVersion 1)" by (simp add: KeyVersion_new_def)
  have v4: "uuid_is_v4 sample_crates (SecretId_uuid (SecretId (sample_from_random_bytes [])))"
    by (simp add: sample_from_random_bytes_v4)
  from alias_create_reads_back [OF sample_aead_laws sample_uuid_laws sample_json_laws
      sample_rng_simps(3) parse v4 kv p [unfolded sample_alias_create_def]] p
  show ?thesis by blast
qed

theorem fingerprint_message_inj_witness:
  "uuid_laws sample_crates \<and>
    fingerprint_message sample_crates (OwnerUserId 5) (NormalizedAlias ''db'') \<noteq>
    fingerprint_message sample_crates (OwnerUserId 5) (NormalizedAlias ''dc'')"
  using sample_uuid_laws
    fingerprint_message_inj [OF sample_uuid_laws, of "OwnerUserId 5" "NormalizedAlias ''db''"
      "OwnerUserId 5" "NormalizedAlias ''dc''"]
  by auto

end
