(* ===== verification/Text_Enums.thy ===== *)
theory Text_Enums
  imports Crates
begin

text \<open>
  Interfaces that several components share.  \<open>str_enum\<close>: an enumeration with a textual form
  (\<open>as_str\<close> and \<open>parse\<close>), as the actions, results, triggers and entry types of the audit and
  ledger code have.  \<open>key_scanner\<close>: a traversal of a JSON value that rejects the first
  forbidden key at any depth.
\<close>


section \<open>Enumerations with a textual form\<close>

locale str_enum =
  fixes print :: "'a \<Rightarrow> string"
    and parse :: "string \<Rightarrow> 'e + 'a"
  assumes parse_print: "parse (print x) = Inr x"
    and parse_sound: "parse s = Inr x \<Longrightarrow> s = print x"
begin

lemma print_inj: "print x = print y \<longleftrightarrow> x = y"
  using parse_print [of x] parse_print [of y] by (metis sum.inject(2))

lemma parse_iff: "parse s = Inr x \<longleftrightarrow> s = print x"
  using parse_print parse_sound by blast

lemma parse_rejects_iff: "(\<exists>e. parse s = Inl e) \<longleftrightarrow> s \<notin> range print"
proof (cases "parse s")
  case (Inl e)
  then have "s \<noteq> print x" for x using parse_print [of x] by auto
  with Inl show ?thesis by blast
next
  case (Inr x)
  then show ?thesis using parse_sound by auto
qed

end


section \<open>Keys at any depth\<close>

text \<open>All object keys of a JSON value, in the order a depth-first traversal meets them.\<close>

fun json_keys :: "json \<Rightarrow> string list" where
  "json_keys (JObject kvs) = concat (map (\<lambda>(k, v). k # json_keys v) kvs)"
| "json_keys (JArray vs) = concat (map json_keys vs)"
| "json_keys _ = []"

locale key_scanner =
  fixes forbidden :: "string \<Rightarrow> bool"
    and error :: "string \<Rightarrow> 'e"
    and scan :: "json \<Rightarrow> 'e + unit"
  assumes scan_object: "scan (JObject kvs) =
      try_each (\<lambda>(k, v). rbind (reject_if (forbidden k) (error k)) (\<lambda>_. scan v)) kvs"
    and scan_array: "scan (JArray vs) = try_each scan vs"
    and scan_scalar: "scan JNull = Inr ()" "scan (JBool b) = Inr ()" "scan (JNumber n) = Inr ()"
      "scan (JString s) = Inr ()"
begin

definition verdict :: "string list \<Rightarrow> 'e + unit" where
  "verdict ks = (case find forbidden ks of None \<Rightarrow> Inr () | Some k \<Rightarrow> Inl (error k))"

lemma verdict_simps:
  "verdict [] = Inr ()"
  "verdict (k # ks) = (if forbidden k then Inl (error k) else verdict ks)"
  "verdict (ks @ ls) = rbind (verdict ks) (\<lambda>_. verdict ls)"
proof -
  show "verdict [] = Inr ()" by (simp add: verdict_def)
  show "verdict (k # ks) = (if forbidden k then Inl (error k) else verdict ks)" for k ks
    by (simp add: verdict_def)
  show "verdict (ks @ ls) = rbind (verdict ks) (\<lambda>_. verdict ls)"
    by (induction ks) (simp_all add: verdict_def split: option.splits)
qed

text \<open>The traversal reports exactly the first forbidden key it meets.\<close>

lemma scan_eq_verdict: "scan v = verdict (json_keys v)"
proof (induction v)
  case (JArray vs)
  have "try_each scan vs = verdict (concat (map json_keys vs))" using JArray
    by (induction vs) (auto simp: verdict_simps)
  then show ?case by (simp add: scan_array)
next
  case (JObject kvs)
  then have ih: "\<forall>kv \<in> set kvs. scan (snd kv) = verdict (json_keys (snd kv))" by auto
  have "try_each (\<lambda>(k, v). rbind (reject_if (forbidden k) (error k)) (\<lambda>_. scan v)) kvs =
      verdict (concat (map (\<lambda>(k, v). k # json_keys v) kvs))" using ih
    by (induction kvs) (simp_all add: verdict_simps case_prod_unfold)
  then show ?case by (simp add: scan_object)
qed (simp_all add: scan_scalar verdict_simps)

lemma scan_ok_iff: "scan v = Inr () \<longleftrightarrow> (\<forall>k \<in> set (json_keys v). \<not> forbidden k)"
  unfolding scan_eq_verdict verdict_def
  by (auto simp: find_None_iff split: option.splits dest: find_SomeD)

lemma scan_error: "scan v = Inl e \<Longrightarrow> \<exists>k \<in> set (json_keys v). forbidden k \<and> e = error k"
  unfolding scan_eq_verdict verdict_def by (auto split: option.splits dest: find_SomeD)

end

end
