(* ===== verification/Audit_Base.thy ===== *)
theory Audit_Base
  imports Ids Text_Enums
begin

text \<open>
  The vocabulary of audit events that the ledger shares: \<open>src/audit/event/id.rs\<close>,
  \<open>src/audit/event/action.rs\<close>, the trigger of \<open>src/audit/event/metadata.rs\<close> and the event
  errors of \<open>src/audit/error.rs\<close>.
\<close>


section \<open>Actions, results and triggers\<close>

datatype (plugins only: code size) AuditAction =
    Action_EncryptCreate
  | Action_EncryptRotate
  | Action_Decrypt
  | Action_VersionPurge
  | Action_IntegrityCheck
  | Action_RestoreTest
  | Action_AuthFailure
  | Action_KeyRotationStart
  | Action_KeyRotationReencrypt
  | Action_KeyRotationComplete
  | Action_SignatureKeyCreated
  | Action_SignatureKeyActivated
  | Action_SignatureKeyRetired
  | Action_MonthlyDigestGenerate
  | Action_MonthlyDigestVerify
  | Action_ArchiveExport
  | Action_DigestTimestamping
  | Action_SiemForwardFailure
  | Action_AuditReportGenerate
  | Action_AuditUiRead
  | Action_SchedulerJob
  | Action_IncidentDetected
  | Action_SecretAliasCreate
  | Action_SecretAliasUpdate
  | Action_SecretAliasDelete
  | Action_SecretAliasList

datatype AuditResult = AuditSuccess | AuditFailure

datatype AuditTrigger = Trigger_Startup | Trigger_Background | Trigger_Cli

datatype (plugins only: code size) AuditEventError =
    Event_InvalidUuid string
  | Event_UnknownAction string
  | Event_UnknownResult string
  | WriteSuccessActionNotAllowed AuditAction
  | FailureOnlyActionSuccessNotAllowed AuditAction
  | AuthFailureFieldMustBeNull string
  | MetadataMustBeObject
  | ForbiddenMetadataKey string
  | UnknownMetadataKey string
  | MissingMetadataKey string
  | InvalidMetadataValue string
  | ViolationSummaryMustBeObject
  | InvalidTrigger string
  | InvalidSourceEventAt
  | MissingSourceEventAt
  | SourceEventAtUnavailable

definition AuditAction_parse :: "string \<Rightarrow> AuditEventError + AuditAction" where
  "AuditAction_parse value =
    (if value = ''encrypt_create'' then Inr Action_EncryptCreate
     else if value = ''encrypt_rotate'' then Inr Action_EncryptRotate
     else if value = ''decrypt'' then Inr Action_Decrypt
     else if value = ''version_purge'' then Inr Action_VersionPurge
     else if value = ''integrity_check'' then Inr Action_IntegrityCheck
     else if value = ''restore_test'' then Inr Action_RestoreTest
     else if value = ''auth_failure'' then Inr Action_AuthFailure
     else if value = ''key_rotation_start'' then Inr Action_KeyRotationStart
     else if value = ''key_rotation_reencrypt'' then Inr Action_KeyRotationReencrypt
     else if value = ''key_rotation_complete'' then Inr Action_KeyRotationComplete
     else if value = ''signature_key_created'' then Inr Action_SignatureKeyCreated
     else if value = ''signature_key_activated'' then Inr Action_SignatureKeyActivated
     else if value = ''signature_key_retired'' then Inr Action_SignatureKeyRetired
     else if value = ''monthly_digest_generate'' then Inr Action_MonthlyDigestGenerate
     else if value = ''monthly_digest_verify'' then Inr Action_MonthlyDigestVerify
     else if value = ''archive_export'' then Inr Action_ArchiveExport
     else if value = ''digest_timestamping'' then Inr Action_DigestTimestamping
     else if value = ''siem_forward_failure'' then Inr Action_SiemForwardFailure
     else if value = ''audit_report_generate'' then Inr Action_AuditReportGenerate
     else if value = ''audit_ui_read'' then Inr Action_AuditUiRead
     else if value = ''scheduler_job'' then Inr Action_SchedulerJob
     else if value = ''incident_detected'' then Inr Action_IncidentDetected
     else if value = ''secret_alias_create'' then Inr Action_SecretAliasCreate
     else if value = ''secret_alias_update'' then Inr Action_SecretAliasUpdate
     else if value = ''secret_alias_delete'' then Inr Action_SecretAliasDelete
     else if value = ''secret_alias_list'' then Inr Action_SecretAliasList
     else Inl (Event_UnknownAction value))"

primrec AuditAction_as_str :: "AuditAction \<Rightarrow> string" where
  "AuditAction_as_str Action_EncryptCreate = ''encrypt_create''"
| "AuditAction_as_str Action_EncryptRotate = ''encrypt_rotate''"
| "AuditAction_as_str Action_Decrypt = ''decrypt''"
| "AuditAction_as_str Action_VersionPurge = ''version_purge''"
| "AuditAction_as_str Action_IntegrityCheck = ''integrity_check''"
| "AuditAction_as_str Action_RestoreTest = ''restore_test''"
| "AuditAction_as_str Action_AuthFailure = ''auth_failure''"
| "AuditAction_as_str Action_KeyRotationStart = ''key_rotation_start''"
| "AuditAction_as_str Action_KeyRotationReencrypt = ''key_rotation_reencrypt''"
| "AuditAction_as_str Action_KeyRotationComplete = ''key_rotation_complete''"
| "AuditAction_as_str Action_SignatureKeyCreated = ''signature_key_created''"
| "AuditAction_as_str Action_SignatureKeyActivated = ''signature_key_activated''"
| "AuditAction_as_str Action_SignatureKeyRetired = ''signature_key_retired''"
| "AuditAction_as_str Action_MonthlyDigestGenerate = ''monthly_digest_generate''"
| "AuditAction_as_str Action_MonthlyDigestVerify = ''monthly_digest_verify''"
| "AuditAction_as_str Action_ArchiveExport = ''archive_export''"
| "AuditAction_as_str Action_DigestTimestamping = ''digest_timestamping''"
| "AuditAction_as_str Action_SiemForwardFailure = ''siem_forward_failure''"
| "AuditAction_as_str Action_AuditReportGenerate = ''audit_report_generate''"
| "AuditAction_as_str Action_AuditUiRead = ''audit_ui_read''"
| "AuditAction_as_str Action_SchedulerJob = ''scheduler_job''"
| "AuditAction_as_str Action_IncidentDetected = ''incident_detected''"
| "AuditAction_as_str Action_SecretAliasCreate = ''secret_alias_create''"
| "AuditAction_as_str Action_SecretAliasUpdate = ''secret_alias_update''"
| "AuditAction_as_str Action_SecretAliasDelete = ''secret_alias_delete''"
| "AuditAction_as_str Action_SecretAliasList = ''secret_alias_list''"

definition is_write_success_only :: "AuditAction \<Rightarrow> bool" where
  "is_write_success_only action \<longleftrightarrow>
    action \<in> {Action_EncryptCreate, Action_EncryptRotate, Action_VersionPurge}"

definition is_failure_only :: "AuditAction \<Rightarrow> bool" where
  "is_failure_only action \<longleftrightarrow>
    action \<in> {Action_AuthFailure, Action_SiemForwardFailure, Action_IncidentDetected}"

definition AuditResult_parse :: "string \<Rightarrow> AuditEventError + AuditResult" where
  "AuditResult_parse value =
    (if value = ''success'' then Inr AuditSuccess
     else if value = ''failure'' then Inr AuditFailure
     else Inl (Event_UnknownResult value))"

fun AuditResult_as_str :: "AuditResult \<Rightarrow> string" where
  "AuditResult_as_str AuditSuccess = ''success''"
| "AuditResult_as_str AuditFailure = ''failure''"

definition AuditTrigger_parse :: "string \<Rightarrow> AuditEventError + AuditTrigger" where
  "AuditTrigger_parse value =
    (if value = ''startup'' then Inr Trigger_Startup
     else if value = ''background'' then Inr Trigger_Background
     else if value = ''cli'' then Inr Trigger_Cli
     else Inl (InvalidTrigger value))"

fun AuditTrigger_as_str :: "AuditTrigger \<Rightarrow> string" where
  "AuditTrigger_as_str Trigger_Startup = ''startup''"
| "AuditTrigger_as_str Trigger_Background = ''background''"
| "AuditTrigger_as_str Trigger_Cli = ''cli''"

primrec AuditEventError_display :: "AuditEventError \<Rightarrow> string" where
  "AuditEventError_display (Event_InvalidUuid field) = field @ '' must be a valid UUID''"
| "AuditEventError_display (Event_UnknownAction value) = ''unknown audit action: '' @ value"
| "AuditEventError_display (Event_UnknownResult value) = ''unknown audit result: '' @ value"
| "AuditEventError_display (WriteSuccessActionNotAllowed action) =
    ''success audit for '' @ AuditAction_as_str action @ '' must be recorded by the write RPC''"
| "AuditEventError_display (FailureOnlyActionSuccessNotAllowed action) =
    ''success audit for '' @ AuditAction_as_str action @ '' is not allowed''"
| "AuditEventError_display (AuthFailureFieldMustBeNull field) =
    ''auth_failure audit field must be null: '' @ field"
| "AuditEventError_display MetadataMustBeObject = ''audit metadata must be a JSON object''"
| "AuditEventError_display (ForbiddenMetadataKey key) =
    ''audit metadata contains forbidden key: '' @ key"
| "AuditEventError_display (UnknownMetadataKey key) =
    ''audit metadata contains unknown key for action: '' @ key"
| "AuditEventError_display (MissingMetadataKey key) =
    ''audit metadata is missing required key: '' @ key"
| "AuditEventError_display (InvalidMetadataValue key) =
    ''audit metadata contains invalid value for key: '' @ key"
| "AuditEventError_display ViolationSummaryMustBeObject =
    ''integrity_check violation_summary must be a JSON object''"
| "AuditEventError_display (InvalidTrigger value) =
    ''audit metadata trigger must be startup, background, or cli: '' @ value"
| "AuditEventError_display InvalidSourceEventAt =
    ''audit metadata source_event_at must be a canonical UTC RFC3339 timestamp string''"
| "AuditEventError_display MissingSourceEventAt = ''audit metadata source_event_at is required''"
| "AuditEventError_display SourceEventAtUnavailable =
    ''failed to generate audit source_event_at''"

interpretation audit_action: str_enum AuditAction_as_str AuditAction_parse
proof unfold_locales
  show "AuditAction_parse (AuditAction_as_str x) = Inr x" for x
    by (cases x) (simp_all add: AuditAction_parse_def)
  show "s = AuditAction_as_str x" if "AuditAction_parse s = Inr x" for s x
    using that by (auto simp: AuditAction_parse_def split: if_splits)
qed

interpretation audit_result: str_enum AuditResult_as_str AuditResult_parse
proof unfold_locales
  show "AuditResult_parse (AuditResult_as_str x) = Inr x" for x
    by (cases x) (simp_all add: AuditResult_parse_def)
  show "s = AuditResult_as_str x" if "AuditResult_parse s = Inr x" for s x
    using that by (auto simp: AuditResult_parse_def split: if_splits)
qed

interpretation audit_trigger: str_enum AuditTrigger_as_str AuditTrigger_parse
proof unfold_locales
  show "AuditTrigger_parse (AuditTrigger_as_str x) = Inr x" for x
    by (cases x) (simp_all add: AuditTrigger_parse_def)
  show "s = AuditTrigger_as_str x" if "AuditTrigger_parse s = Inr x" for s x
    using that by (auto simp: AuditTrigger_parse_def split: if_splits)
qed


section \<open>Identifiers\<close>

datatype AuditEventId = AuditEventId (AuditEventId_uuid: uuid)
datatype RequestId = RequestId (RequestId_uuid: uuid)

definition AuditEventId_generate :: "crates \<Rightarrow> (rng, AuditEventError, AuditEventId) comp" where
  "AuditEventId_generate C =
    sbind (smap_err (\<lambda>_. Event_InvalidUuid ''audit_event_id'') (getrandom_fill 16)) (\<lambda>bytes.
    sret (AuditEventId (uuid_from_random_bytes C bytes)))"

definition AuditEventId_parse :: "crates \<Rightarrow> string \<Rightarrow> AuditEventError + AuditEventId" where
  "AuditEventId_parse C value =
    map_ok AuditEventId (ok_or (Event_InvalidUuid ''audit_event_id'') (uuid_parse_str C value))"

definition AuditEventId_as_canonical_string :: "crates \<Rightarrow> AuditEventId \<Rightarrow> string" where
  "AuditEventId_as_canonical_string C i = uuid_hyphenated C (AuditEventId_uuid i)"

definition RequestId_generate :: "crates \<Rightarrow> (rng, AuditEventError, RequestId) comp" where
  "RequestId_generate C =
    sbind (smap_err (\<lambda>_. Event_InvalidUuid ''request_id'') (getrandom_fill 16)) (\<lambda>bytes.
    sret (RequestId (uuid_from_random_bytes C bytes)))"

definition RequestId_nil :: RequestId where
  "RequestId_nil = RequestId 0"

definition RequestId_parse :: "crates \<Rightarrow> string \<Rightarrow> AuditEventError + RequestId" where
  "RequestId_parse C value =
    map_ok RequestId (ok_or (Event_InvalidUuid ''request_id'') (uuid_parse_str C value))"

definition RequestId_as_canonical_string :: "crates \<Rightarrow> RequestId \<Rightarrow> string" where
  "RequestId_as_canonical_string C i = uuid_hyphenated C (RequestId_uuid i)"

lemma audit_id_roundtrips:
  assumes "uuid_laws C"
  shows "AuditEventId_parse C (AuditEventId_as_canonical_string C i) = Inr i"
    and "RequestId_parse C (RequestId_as_canonical_string C r) = Inr r"
  using assms by (simp_all add: uuid_laws_def AuditEventId_parse_def
      AuditEventId_as_canonical_string_def RequestId_parse_def RequestId_as_canonical_string_def)

end
