(* ===== verification/Ledger_Types.thy ===== *)
theory Ledger_Types
  imports Audit_Base
begin

text \<open>
  The values of the ledger: \<open>constants.rs\<close>, \<open>entry_type.rs\<close>, \<open>result.rs\<close>, \<open>error.rs\<close>, \<open>ids.rs\<close>,
  \<open>hash.rs\<close>, \<open>chain.rs\<close> and \<open>signature.rs\<close> of \<open>src/ledger\<close>.
\<close>


section \<open>Constants\<close>

definition LEDGER_CANONICALIZATION_VERSION_V1 :: u8 where
  "LEDGER_CANONICALIZATION_VERSION_V1 = 1"

definition LEDGER_CANONICAL_SCHEMA_V1 :: string where
  "LEDGER_CANONICAL_SCHEMA_V1 = ''mipsorcu.ledger_entry.v1''"

definition LEDGER_HASH_ALGORITHM_SHA256 :: string where
  "LEDGER_HASH_ALGORITHM_SHA256 = ''sha-256''"

definition LEDGER_SIGNATURE_ALGORITHM_ED25519 :: string where
  "LEDGER_SIGNATURE_ALGORITHM_ED25519 = ''ed25519''"

definition LEDGER_HASH_LENGTH :: nat where "LEDGER_HASH_LENGTH = 32"
definition LEDGER_SIGNATURE_LENGTH :: nat where "LEDGER_SIGNATURE_LENGTH = 64"
definition LEDGER_ED25519_SECRET_KEY_LENGTH :: nat where "LEDGER_ED25519_SECRET_KEY_LENGTH = 32"
definition LEDGER_ED25519_PUBLIC_KEY_LENGTH :: nat where "LEDGER_ED25519_PUBLIC_KEY_LENGTH = 32"

definition LEDGER_PAYLOAD_MAX_CANONICAL_BYTES :: nat where
  "LEDGER_PAYLOAD_MAX_CANONICAL_BYTES = 8192"

definition LEDGER_I64_MAX_U64 :: u64 where
  "LEDGER_I64_MAX_U64 = 9223372036854775807"

definition FORBIDDEN_LEDGER_PAYLOAD_KEYS :: "string list" where
  "FORBIDDEN_LEDGER_PAYLOAD_KEYS =
    [''alias_decryption_key'', ''alias_encryption_key'', ''alias_fingerprint_key'',
     ''authorization'', ''authorization_header'', ''bearer_token'', ''canonical_alias_plaintext'',
     ''ciphertext'', ''data_key'', ''decrypt_result'', ''decrypted'', ''decrypted_data'',
     ''ed25519_private_key'', ''encrypted_data_key'', ''jwt'', ''jwt_full'',
     ''ledger_signing_key'', ''master_key'', ''passphrase'', ''password'', ''plain_text'',
     ''plaintext'', ''raw_jwt'', ''request_body'', ''request_body_full'', ''response_body'',
     ''response_body_full'', ''secret_body'', ''secret_key'', ''secret_value'', ''service_role'',
     ''service_role_key'', ''token'']"


section \<open>Entry types and results\<close>

datatype (plugins only: code size) LedgerEntryType =
    Entry_SecretCreated
  | Entry_SecretVersionCreated
  | Entry_SecretDecrypted
  | Entry_SecretVersionPurged
  | Entry_IntegrityCheckCompleted
  | Entry_RestoreTestCompleted
  | Entry_KeyRotationStarted
  | Entry_KeyRotationReencrypted
  | Entry_KeyRotationCompleted
  | Entry_KeyRotationAborted
  | Entry_SignatureKeyCreated
  | Entry_SignatureKeyActivated
  | Entry_SignatureKeyRetired
  | Entry_LedgerVerified
  | Entry_LedgerVerificationFailed
  | Entry_AuditFallbackResent
  | Entry_MonthlyDigest
  | Entry_ArchiveExported
  | Entry_DigestTimestamped
  | Entry_SchedulerJobCompleted
  | Entry_IncidentDetected

datatype LedgerResult = LedgerSuccess | LedgerFailure

datatype (plugins only: code size) LedgerError =
    Ledger_InvalidUuid string
  | Ledger_InvalidUuidVersion string string
  | Ledger_InvalidPositiveInteger string
  | Ledger_InvalidNonNegativeInteger string
  | SequenceOverflow
  | UnknownEntryType string
  | Ledger_UnknownResult string
  | PayloadMustBeObject
  | ForbiddenPayloadKey string
  | UnknownPayloadKey string LedgerEntryType
  | PayloadValueMustBeScalar string
  | InvalidPayloadField string string
  | PayloadTooLarge nat
  | InvalidErrorCode string
  | InvalidActorDeviceId
  | InvalidHashLength nat
  | InvalidHashEncoding
  | InvalidSignatureLength nat
  | InvalidSignatureEncoding
  | InvalidSigningKeyLength nat
  | InvalidVerificationKeyLength nat
  | InvalidVerificationKey
  | SignatureKeyVersionMismatch u32 u32
  | UnknownSignatureKey u32 u64
  | SignatureInvalid u64
  | HashMismatch u64
  | PreviousHashMismatch u64
  | SequenceGap u64 u64
  | Ledger_SerializationFailed string
  | Ledger_RandomnessUnavailable
  | InvalidMonthlyDigestPeriod
  | DigestSignatureInvalid

definition LedgerEntryType_parse :: "string \<Rightarrow> LedgerError + LedgerEntryType" where
  "LedgerEntryType_parse value =
    (if value = ''secret_created'' then Inr Entry_SecretCreated
     else if value = ''secret_version_created'' then Inr Entry_SecretVersionCreated
     else if value = ''secret_decrypted'' then Inr Entry_SecretDecrypted
     else if value = ''secret_version_purged'' then Inr Entry_SecretVersionPurged
     else if value = ''integrity_check_completed'' then Inr Entry_IntegrityCheckCompleted
     else if value = ''restore_test_completed'' then Inr Entry_RestoreTestCompleted
     else if value = ''key_rotation_started'' then Inr Entry_KeyRotationStarted
     else if value = ''key_rotation_reencrypted'' then Inr Entry_KeyRotationReencrypted
     else if value = ''key_rotation_completed'' then Inr Entry_KeyRotationCompleted
     else if value = ''key_rotation_aborted'' then Inr Entry_KeyRotationAborted
     else if value = ''signature_key_created'' then Inr Entry_SignatureKeyCreated
     else if value = ''signature_key_activated'' then Inr Entry_SignatureKeyActivated
     else if value = ''signature_key_retired'' then Inr Entry_SignatureKeyRetired
     else if value = ''ledger_verified'' then Inr Entry_LedgerVerified
     else if value = ''ledger_verification_failed'' then Inr Entry_LedgerVerificationFailed
     else if value = ''audit_fallback_resent'' then Inr Entry_AuditFallbackResent
     else if value = ''monthly_digest'' then Inr Entry_MonthlyDigest
     else if value = ''archive_exported'' then Inr Entry_ArchiveExported
     else if value = ''digest_timestamped'' then Inr Entry_DigestTimestamped
     else if value = ''scheduler_job_completed'' then Inr Entry_SchedulerJobCompleted
     else if value = ''incident_detected'' then Inr Entry_IncidentDetected
     else Inl (UnknownEntryType value))"

primrec LedgerEntryType_as_str :: "LedgerEntryType \<Rightarrow> string" where
  "LedgerEntryType_as_str Entry_SecretCreated = ''secret_created''"
| "LedgerEntryType_as_str Entry_SecretVersionCreated = ''secret_version_created''"
| "LedgerEntryType_as_str Entry_SecretDecrypted = ''secret_decrypted''"
| "LedgerEntryType_as_str Entry_SecretVersionPurged = ''secret_version_purged''"
| "LedgerEntryType_as_str Entry_IntegrityCheckCompleted = ''integrity_check_completed''"
| "LedgerEntryType_as_str Entry_RestoreTestCompleted = ''restore_test_completed''"
| "LedgerEntryType_as_str Entry_KeyRotationStarted = ''key_rotation_started''"
| "LedgerEntryType_as_str Entry_KeyRotationReencrypted = ''key_rotation_reencrypted''"
| "LedgerEntryType_as_str Entry_KeyRotationCompleted = ''key_rotation_completed''"
| "LedgerEntryType_as_str Entry_KeyRotationAborted = ''key_rotation_aborted''"
| "LedgerEntryType_as_str Entry_SignatureKeyCreated = ''signature_key_created''"
| "LedgerEntryType_as_str Entry_SignatureKeyActivated = ''signature_key_activated''"
| "LedgerEntryType_as_str Entry_SignatureKeyRetired = ''signature_key_retired''"
| "LedgerEntryType_as_str Entry_LedgerVerified = ''ledger_verified''"
| "LedgerEntryType_as_str Entry_LedgerVerificationFailed = ''ledger_verification_failed''"
| "LedgerEntryType_as_str Entry_AuditFallbackResent = ''audit_fallback_resent''"
| "LedgerEntryType_as_str Entry_MonthlyDigest = ''monthly_digest''"
| "LedgerEntryType_as_str Entry_ArchiveExported = ''archive_exported''"
| "LedgerEntryType_as_str Entry_DigestTimestamped = ''digest_timestamped''"
| "LedgerEntryType_as_str Entry_SchedulerJobCompleted = ''scheduler_job_completed''"
| "LedgerEntryType_as_str Entry_IncidentDetected = ''incident_detected''"

definition LedgerResult_parse :: "string \<Rightarrow> LedgerError + LedgerResult" where
  "LedgerResult_parse value =
    (if value = ''success'' then Inr LedgerSuccess
     else if value = ''failure'' then Inr LedgerFailure
     else Inl (Ledger_UnknownResult value))"

fun LedgerResult_as_str :: "LedgerResult \<Rightarrow> string" where
  "LedgerResult_as_str LedgerSuccess = ''success''"
| "LedgerResult_as_str LedgerFailure = ''failure''"

interpretation entry_type: str_enum LedgerEntryType_as_str LedgerEntryType_parse
proof unfold_locales
  show "LedgerEntryType_parse (LedgerEntryType_as_str x) = Inr x" for x
    by (cases x) (simp_all add: LedgerEntryType_parse_def)
  show "s = LedgerEntryType_as_str x" if "LedgerEntryType_parse s = Inr x" for s x
    using that by (auto simp: LedgerEntryType_parse_def split: if_splits)
qed

interpretation ledger_result: str_enum LedgerResult_as_str LedgerResult_parse
proof unfold_locales
  show "LedgerResult_parse (LedgerResult_as_str x) = Inr x" for x
    by (cases x) (simp_all add: LedgerResult_parse_def)
  show "s = LedgerResult_as_str x" if "LedgerResult_parse s = Inr x" for s x
    using that by (auto simp: LedgerResult_parse_def split: if_splits)
qed

primrec allowed_payload_keys :: "LedgerEntryType \<Rightarrow> string list" where
  "allowed_payload_keys Entry_SecretCreated =
    [''algorithm'', ''classification'', ''key_version'', ''version'']"
| "allowed_payload_keys Entry_SecretVersionCreated =
    [''algorithm'', ''classification'', ''key_version'', ''version'']"
| "allowed_payload_keys Entry_SecretDecrypted = [''algorithm'', ''key_version'', ''version'']"
| "allowed_payload_keys Entry_SecretVersionPurged =
    [''key_version'', ''retention_limit'', ''version'']"
| "allowed_payload_keys Entry_IntegrityCheckCompleted =
    [''checked_audit_event_count'', ''checked_secret_count'', ''checked_secret_version_count'',
     ''duration_ms'', ''violation_count'']"
| "allowed_payload_keys Entry_RestoreTestCompleted =
    [''duration_ms'', ''failure_count'', ''sample_count'', ''success_count'', ''trigger'']"
| "allowed_payload_keys Entry_KeyRotationStarted = [''new_key_version'', ''old_key_version'']"
| "allowed_payload_keys Entry_KeyRotationReencrypted =
    [''batch_size'', ''new_key_version'', ''old_key_version'', ''processed_count'',
     ''remaining_count'']"
| "allowed_payload_keys Entry_KeyRotationCompleted =
    [''new_key_version'', ''old_key_version'', ''remaining_count'']"
| "allowed_payload_keys Entry_KeyRotationAborted =
    [''new_key_version'', ''old_key_version'', ''reason_code'']"
| "allowed_payload_keys Entry_SignatureKeyCreated =
    [''created_at'', ''public_key_fingerprint'', ''signature_key_version'']"
| "allowed_payload_keys Entry_SignatureKeyActivated =
    [''activated_at'', ''public_key_fingerprint'', ''signature_key_version'']"
| "allowed_payload_keys Entry_SignatureKeyRetired =
    [''public_key_fingerprint'', ''retired_at'', ''signature_key_version'']"
| "allowed_payload_keys Entry_LedgerVerified =
    [''checked_count'', ''duration_ms'', ''end_sequence_no'', ''start_sequence_no'']"
| "allowed_payload_keys Entry_LedgerVerificationFailed =
    [''end_sequence_no'', ''error_code'', ''failed_count'', ''start_sequence_no'']"
| "allowed_payload_keys Entry_AuditFallbackResent =
    [''duration_ms'', ''failed_count'', ''resent_count'']"
| "allowed_payload_keys Entry_MonthlyDigest =
    [''digest_hash'', ''end_sequence_no'', ''entry_count'', ''start_sequence_no'',
     ''target_year_month'']"
| "allowed_payload_keys Entry_ArchiveExported =
    [''archive_key'', ''digest_hash'', ''target_year_month'']"
| "allowed_payload_keys Entry_DigestTimestamped =
    [''digest_hash'', ''target_year_month'', ''timestamp_token_hash'']"
| "allowed_payload_keys Entry_SchedulerJobCompleted =
    [''duration_ms'', ''job_name'', ''target_year_month'', ''trigger'']"
| "allowed_payload_keys Entry_IncidentDetected =
    [''dedupe_key'', ''detection_source'', ''incident_type'', ''notification_result'',
     ''notification_sink'', ''severity'', ''target_sequence_no'', ''target_year_month'']"

lemma allowed_payload_keys_distinct: "distinct (allowed_payload_keys t)"
  by (cases t) simp_all

lemma allowed_not_forbidden:
  "k \<in> set (allowed_payload_keys t) \<Longrightarrow> k \<notin> set FORBIDDEN_LEDGER_PAYLOAD_KEYS"
  by (cases t) (auto simp: FORBIDDEN_LEDGER_PAYLOAD_KEYS_def)


primrec LedgerError_display :: "LedgerError \<Rightarrow> string" where
  "LedgerError_display (Ledger_InvalidUuid field) = ''ledger '' @ field @ '' must be a UUID''"
| "LedgerError_display (Ledger_InvalidUuidVersion field expected) =
    ''ledger '' @ field @ '' must be a '' @ expected @ '' UUID''"
| "LedgerError_display (Ledger_InvalidPositiveInteger field) =
    ''ledger '' @ field @ '' must be a positive integer''"
| "LedgerError_display (Ledger_InvalidNonNegativeInteger field) =
    ''ledger '' @ field @ '' must be a non-negative integer''"
| "LedgerError_display SequenceOverflow = ''ledger sequence number overflow''"
| "LedgerError_display (UnknownEntryType value) = ''unknown ledger entry_type: '' @ value"
| "LedgerError_display (Ledger_UnknownResult value) = ''unknown ledger result: '' @ value"
| "LedgerError_display PayloadMustBeObject = ''ledger payload must be a JSON object''"
| "LedgerError_display (ForbiddenPayloadKey key) =
    ''ledger payload contains a forbidden key: '' @ key"
| "LedgerError_display (UnknownPayloadKey key entry_type) =
    ''ledger payload key '' @ key @ '' is not allowed for entry_type '' @
    LedgerEntryType_as_str entry_type"
| "LedgerError_display (PayloadValueMustBeScalar key) =
    ''ledger payload field '' @ key @ '' must be scalar''"
| "LedgerError_display (InvalidPayloadField key expected) =
    ''ledger payload field '' @ key @ '' must be '' @ expected"
| "LedgerError_display (PayloadTooLarge max_bytes) =
    ''ledger payload canonical JSON exceeds '' @ dec_digits max_bytes @ '' bytes''"
| "LedgerError_display (InvalidErrorCode field) =
    ''ledger '' @ field @ '' must be non-blank and at most 128 bytes''"
| "LedgerError_display InvalidActorDeviceId =
    ''ledger actor_device_id must be at most 128 bytes''"
| "LedgerError_display (InvalidHashLength actual) =
    ''ledger hash must be 32 bytes: actual length '' @ dec_digits actual"
| "LedgerError_display InvalidHashEncoding = ''ledger hash bytea encoding is invalid''"
| "LedgerError_display (InvalidSignatureLength actual) =
    ''ledger signature must be 64 bytes: actual length '' @ dec_digits actual"
| "LedgerError_display InvalidSignatureEncoding = ''ledger signature bytea encoding is invalid''"
| "LedgerError_display (InvalidSigningKeyLength actual) =
    ''ledger signing key must be 32 bytes: actual length '' @ dec_digits actual"
| "LedgerError_display (InvalidVerificationKeyLength actual) =
    ''ledger verification key must be 32 bytes: actual length '' @ dec_digits actual"
| "LedgerError_display InvalidVerificationKey = ''ledger verification key is invalid''"
| "LedgerError_display (SignatureKeyVersionMismatch expected actual) =
    ''ledger signature key version mismatch: expected '' @ dec_digits (unat expected) @
    '', actual '' @ dec_digits (unat actual)"
| "LedgerError_display (UnknownSignatureKey key_version sequence_no) =
    ''unknown ledger signature key version: '' @ dec_digits (unat key_version) @
    '' at sequence '' @ dec_digits (unat sequence_no)"
| "LedgerError_display (SignatureInvalid sequence_no) =
    ''ledger signature is invalid at sequence '' @ dec_digits (unat sequence_no)"
| "LedgerError_display (HashMismatch sequence_no) =
    ''ledger entry hash mismatch at sequence '' @ dec_digits (unat sequence_no)"
| "LedgerError_display (PreviousHashMismatch sequence_no) =
    ''ledger previous hash mismatch at sequence '' @ dec_digits (unat sequence_no)"
| "LedgerError_display (SequenceGap expected actual) =
    ''ledger sequence gap: expected '' @ dec_digits (unat expected) @
    '', actual '' @ dec_digits (unat actual)"
| "LedgerError_display (Ledger_SerializationFailed message) =
    ''failed to serialize canonical ledger payload: '' @ message"
| "LedgerError_display Ledger_RandomnessUnavailable = ''ledger randomness unavailable''"
| "LedgerError_display InvalidMonthlyDigestPeriod =
    ''monthly digest period must be in YYYY-MM format with a valid month (01-12)''"
| "LedgerError_display DigestSignatureInvalid = ''digest Ed25519 signature is invalid''"


section \<open>Identifiers and sequence numbers\<close>

datatype LedgerEntryId = LedgerEntryId (LedgerEntryId_uuid: uuid)
datatype LedgerTargetSecretVersionId =
  LedgerTargetSecretVersionId (LedgerTargetSecretVersionId_uuid: uuid)
datatype LedgerSequenceNo = LedgerSequenceNo (LedgerSequenceNo_get: u64)

definition ledger_parse_uuid :: "crates \<Rightarrow> string \<Rightarrow> string \<Rightarrow> LedgerError + uuid" where
  "ledger_parse_uuid C value field = ok_or (Ledger_InvalidUuid field) (uuid_parse_str C value)"

definition require_uuid_v4 :: "crates \<Rightarrow> uuid \<Rightarrow> string \<Rightarrow> LedgerError + unit" where
  "require_uuid_v4 C u field =
    reject_if (\<not> uuid_is_v4 C u) (Ledger_InvalidUuidVersion field ''v4'')"

definition LedgerEntryId_generate :: "crates \<Rightarrow> (rng, LedgerError, LedgerEntryId) comp" where
  "LedgerEntryId_generate C =
    sbind (smap_err (\<lambda>_. Ledger_RandomnessUnavailable) (getrandom_fill 16)) (\<lambda>bytes.
    sret (LedgerEntryId (uuid_from_random_bytes C bytes)))"

definition LedgerEntryId_parse :: "crates \<Rightarrow> string \<Rightarrow> LedgerError + LedgerEntryId" where
  "LedgerEntryId_parse C value =
    rbind (ledger_parse_uuid C value ''ledger_entry_id'') (\<lambda>u.
    rbind (require_uuid_v4 C u ''ledger_entry_id'') (\<lambda>_. Inr (LedgerEntryId u)))"

definition LedgerEntryId_as_canonical_string :: "crates \<Rightarrow> LedgerEntryId \<Rightarrow> string" where
  "LedgerEntryId_as_canonical_string C i = uuid_hyphenated C (LedgerEntryId_uuid i)"

definition LedgerTargetSecretVersionId_parse ::
    "crates \<Rightarrow> string \<Rightarrow> LedgerError + LedgerTargetSecretVersionId" where
  "LedgerTargetSecretVersionId_parse C value =
    map_ok LedgerTargetSecretVersionId (ledger_parse_uuid C value ''target_secret_version_id'')"

definition LedgerTargetSecretVersionId_as_canonical_string ::
    "crates \<Rightarrow> LedgerTargetSecretVersionId \<Rightarrow> string" where
  "LedgerTargetSecretVersionId_as_canonical_string C i =
    uuid_hyphenated C (LedgerTargetSecretVersionId_uuid i)"

definition LedgerTargetSecretVersionId_from_secret_version_id ::
    "crates \<Rightarrow> SecretVersionId \<Rightarrow> LedgerError + LedgerTargetSecretVersionId" where
  "LedgerTargetSecretVersionId_from_secret_version_id C value =
    LedgerTargetSecretVersionId_parse C (SecretVersionId_as_canonical_string C value)"

definition LedgerSequenceNo_new :: "u64 \<Rightarrow> LedgerError + LedgerSequenceNo" where
  "LedgerSequenceNo_new value =
    (if value = 0 \<or> value > LEDGER_I64_MAX_U64
     then Inl (Ledger_InvalidPositiveInteger ''sequence_no'')
     else Inr (LedgerSequenceNo value))"

text \<open>An \<open>i64\<close> is a 64-bit word read with \<^const>\<open>sint\<close>; \<open>u64::try_from\<close> fails on a negative one.\<close>

definition LedgerSequenceNo_from_i64 :: "64 word \<Rightarrow> LedgerError + LedgerSequenceNo" where
  "LedgerSequenceNo_from_i64 value =
    rbind (reject_if (sint value < 0) (Ledger_InvalidPositiveInteger ''sequence_no'')) (\<lambda>_.
    LedgerSequenceNo_new value)"

definition LedgerSequenceNo_as_i64 :: "LedgerSequenceNo \<Rightarrow> LedgerError + 64 word" where
  "LedgerSequenceNo_as_i64 n =
    (if unat (LedgerSequenceNo_get n) < 2 ^ 63 then Inr (LedgerSequenceNo_get n)
     else Inl (Ledger_InvalidPositiveInteger ''sequence_no''))"

definition LedgerSequenceNo_wf :: "LedgerSequenceNo \<Rightarrow> bool" where
  "LedgerSequenceNo_wf n \<longleftrightarrow>
    LedgerSequenceNo_get n \<noteq> 0 \<and> LedgerSequenceNo_get n \<le> LEDGER_I64_MAX_U64"

lemma LedgerSequenceNo_new_Inr:
  "LedgerSequenceNo_new v = Inr n \<longleftrightarrow> n = LedgerSequenceNo v \<and> LedgerSequenceNo_wf n"
  by (auto simp: LedgerSequenceNo_new_def LedgerSequenceNo_wf_def)

lemma LedgerSequenceNo_wf_unat:
  "LedgerSequenceNo_wf n \<longleftrightarrow>
    1 \<le> unat (LedgerSequenceNo_get n) \<and> unat (LedgerSequenceNo_get n) < 2 ^ 63"
  by (auto simp: LedgerSequenceNo_wf_def LEDGER_I64_MAX_U64_def word_le_nat_alt word_unat_eq_iff)


section \<open>Hashes and chain heads\<close>

datatype LedgerHash = LedgerHash (LedgerHash_bytes: bytes)
datatype LedgerCanonicalPayload = LedgerCanonicalPayload (LedgerCanonicalPayload_bytes: bytes)

definition bytea_prefix :: string where
  "bytea_prefix = [CHR 0x5C, CHR ''x'']"

definition LedgerHash_genesis :: LedgerHash where
  "LedgerHash_genesis = LedgerHash (replicate LEDGER_HASH_LENGTH 0)"

definition LedgerHash_from_bytes :: "bytes \<Rightarrow> LedgerError + LedgerHash" where
  "LedgerHash_from_bytes b =
    (if length b \<noteq> LEDGER_HASH_LENGTH then Inl (InvalidHashLength (length b))
     else Inr (LedgerHash b))"

definition LedgerHash_from_hex :: "crates \<Rightarrow> string \<Rightarrow> LedgerError + LedgerHash" where
  "LedgerHash_from_hex C value =
    rbind (ok_or InvalidHashEncoding (hex_decode C value)) LedgerHash_from_bytes"

definition LedgerHash_from_bytea_hex :: "crates \<Rightarrow> string \<Rightarrow> LedgerError + LedgerHash" where
  "LedgerHash_from_bytea_hex C value =
    rbind (ok_or InvalidHashEncoding (str_strip_prefix value bytea_prefix))
      (LedgerHash_from_hex C)"

definition LedgerHash_from_canonical_payload ::
    "crates \<Rightarrow> LedgerCanonicalPayload \<Rightarrow> LedgerHash" where
  "LedgerHash_from_canonical_payload C payload =
    LedgerHash (sha256 C (LedgerCanonicalPayload_bytes payload))"

definition LedgerHash_to_hex :: "crates \<Rightarrow> LedgerHash \<Rightarrow> string" where
  "LedgerHash_to_hex C h = hex_encode C (LedgerHash_bytes h)"

definition LedgerHash_to_bytea_hex :: "crates \<Rightarrow> LedgerHash \<Rightarrow> string" where
  "LedgerHash_to_bytea_hex C h = bytea_prefix @ LedgerHash_to_hex C h"

record LedgerChainHead =
  head_last_sequence_no :: u64
  head_last_entry_hash :: LedgerHash

definition LedgerChainHead_genesis :: LedgerChainHead where
  "LedgerChainHead_genesis =
    \<lparr>head_last_sequence_no = 0, head_last_entry_hash = LedgerHash_genesis\<rparr>"

definition LedgerChainHead_new :: "u64 \<Rightarrow> LedgerHash \<Rightarrow> LedgerError + LedgerChainHead" where
  "LedgerChainHead_new last_sequence_no last_entry_hash =
    (if last_sequence_no > LEDGER_I64_MAX_U64
     then Inl (Ledger_InvalidNonNegativeInteger ''last_sequence_no'')
     else Inr \<lparr>head_last_sequence_no = last_sequence_no,
               head_last_entry_hash = last_entry_hash\<rparr>)"

definition LedgerChainHead_from_i64 ::
    "64 word \<Rightarrow> LedgerHash \<Rightarrow> LedgerError + LedgerChainHead" where
  "LedgerChainHead_from_i64 last_sequence_no last_entry_hash =
    rbind (reject_if (sint last_sequence_no < 0)
      (Ledger_InvalidNonNegativeInteger ''last_sequence_no'')) (\<lambda>_.
    LedgerChainHead_new last_sequence_no last_entry_hash)"

definition next_sequence_no :: "LedgerChainHead \<Rightarrow> LedgerError + LedgerSequenceNo" where
  "next_sequence_no chain_head =
    rbind (ok_or SequenceOverflow (checked_add (head_last_sequence_no chain_head) 1))
      LedgerSequenceNo_new"

lemma LedgerHash_bytea_roundtrip:
  assumes "hex_laws C" "length (LedgerHash_bytes h) = LEDGER_HASH_LENGTH"
  shows "LedgerHash_from_bytea_hex C (LedgerHash_to_bytea_hex C h) = Inr h"
  using assms by (simp add: LedgerHash_from_bytea_hex_def LedgerHash_to_bytea_hex_def
      LedgerHash_from_hex_def LedgerHash_to_hex_def LedgerHash_from_bytes_def hex_laws_def)

lemma LedgerHash_to_hex_inj:
  "hex_laws C \<Longrightarrow> LedgerHash_to_hex C g = LedgerHash_to_hex C h \<longleftrightarrow> g = h"
  by (cases g; cases h) (simp add: LedgerHash_to_hex_def hex_encode_inj)

lemma next_sequence_no_Inr:
  "next_sequence_no h = Inr n \<longleftrightarrow>
    unat (LedgerSequenceNo_get n) = unat (head_last_sequence_no h) + 1 \<and> LedgerSequenceNo_wf n"
  (is "?l \<longleftrightarrow> ?r")
proof
  assume ?l
  then obtain v where v: "checked_add (head_last_sequence_no h) 1 = Some v"
    and n: "n = LedgerSequenceNo v" "LedgerSequenceNo_wf n"
    by (auto simp: next_sequence_no_def LedgerSequenceNo_new_Inr)
  with unat_checked_add [OF v] show ?r by simp
next
  assume r: ?r
  then have "unat (head_last_sequence_no h) + 1 < 2 ^ 64"
    by (simp add: LedgerSequenceNo_wf_unat)
  moreover from this r have "LedgerSequenceNo_get n = head_last_sequence_no h + 1"
    by (simp add: word_unat_eq_iff unat_word_ariths(1))
  ultimately show ?l using r
    by (cases n) (auto simp: next_sequence_no_def checked_add_def LedgerSequenceNo_new_Inr)
qed


section \<open>Signatures and signing keys\<close>

datatype LedgerSignature = LedgerSignature (LedgerSignature_bytes: bytes)
datatype LedgerSignatureKeyVersion =
  LedgerSignatureKeyVersion (LedgerSignatureKeyVersion_get: u32)

definition LedgerSignature_from_bytes :: "bytes \<Rightarrow> LedgerError + LedgerSignature" where
  "LedgerSignature_from_bytes b =
    (if length b \<noteq> LEDGER_SIGNATURE_LENGTH then Inl (InvalidSignatureLength (length b))
     else Inr (LedgerSignature b))"

definition LedgerSignature_from_bytea_hex :: "crates \<Rightarrow> string \<Rightarrow> LedgerError + LedgerSignature"
  where
  "LedgerSignature_from_bytea_hex C value =
    rbind (ok_or InvalidSignatureEncoding (str_strip_prefix value bytea_prefix)) (\<lambda>hex_value.
    rbind (ok_or InvalidSignatureEncoding (hex_decode C hex_value)) LedgerSignature_from_bytes)"

definition LedgerSignature_to_bytea_hex :: "crates \<Rightarrow> LedgerSignature \<Rightarrow> string" where
  "LedgerSignature_to_bytea_hex C s = bytea_prefix @ hex_encode C (LedgerSignature_bytes s)"

definition LedgerSignatureKeyVersion_new :: "u32 \<Rightarrow> LedgerError + LedgerSignatureKeyVersion" where
  "LedgerSignatureKeyVersion_new value =
    (if value = 0 then Inl (Ledger_InvalidPositiveInteger ''signature_key_version'')
     else Inr (LedgerSignatureKeyVersion value))"

record LedgerSigningKey =
  sk_key_version :: LedgerSignatureKeyVersion
  sk_signing_key :: bytes

record LedgerVerifyingKey =
  vk_key_version :: LedgerSignatureKeyVersion
  vk_verifying_key :: bytes

definition LedgerSigningKey_from_secret_key_bytes ::
    "LedgerSignatureKeyVersion \<Rightarrow> bytes \<Rightarrow> LedgerError + LedgerSigningKey" where
  "LedgerSigningKey_from_secret_key_bytes key_version secret_key =
    (if length secret_key \<noteq> LEDGER_ED25519_SECRET_KEY_LENGTH
     then Inl (InvalidSigningKeyLength (length secret_key))
     else Inr \<lparr>sk_key_version = key_version, sk_signing_key = secret_key\<rparr>)"

definition verification_key :: "crates \<Rightarrow> LedgerSigningKey \<Rightarrow> LedgerVerifyingKey" where
  "verification_key C k =
    \<lparr>vk_key_version = sk_key_version k,
     vk_verifying_key = ed25519_public_key C (sk_signing_key k)\<rparr>"

definition sign_raw_bytes ::
    "crates \<Rightarrow> LedgerSigningKey \<Rightarrow> LedgerSignatureKeyVersion \<Rightarrow> bytes \<Rightarrow>
      LedgerError + LedgerSignature" where
  "sign_raw_bytes C k expected_key_version b =
    (if sk_key_version k \<noteq> expected_key_version
     then Inl (SignatureKeyVersionMismatch (LedgerSignatureKeyVersion_get expected_key_version)
       (LedgerSignatureKeyVersion_get (sk_key_version k)))
     else LedgerSignature_from_bytes (ed25519_sign C (sk_signing_key k) b))"

definition sign_payload ::
    "crates \<Rightarrow> LedgerSigningKey \<Rightarrow> LedgerSignatureKeyVersion \<Rightarrow> LedgerCanonicalPayload \<Rightarrow>
      LedgerError + LedgerSignature" where
  "sign_payload C k expected_key_version payload =
    (if sk_key_version k \<noteq> expected_key_version
     then Inl (SignatureKeyVersionMismatch (LedgerSignatureKeyVersion_get expected_key_version)
       (LedgerSignatureKeyVersion_get (sk_key_version k)))
     else LedgerSignature_from_bytes
       (ed25519_sign C (sk_signing_key k) (LedgerCanonicalPayload_bytes payload)))"

definition LedgerVerifyingKey_from_public_key_bytes ::
    "crates \<Rightarrow> LedgerSignatureKeyVersion \<Rightarrow> bytes \<Rightarrow> LedgerError + LedgerVerifyingKey" where
  "LedgerVerifyingKey_from_public_key_bytes C key_version public_key =
    (if length public_key \<noteq> LEDGER_ED25519_PUBLIC_KEY_LENGTH
     then Inl (InvalidVerificationKeyLength (length public_key))
     else if \<not> ed25519_public_key_ok C public_key then Inl InvalidVerificationKey
     else Inr \<lparr>vk_key_version = key_version, vk_verifying_key = public_key\<rparr>)"

definition fingerprint_hex :: "crates \<Rightarrow> LedgerVerifyingKey \<Rightarrow> string" where
  "fingerprint_hex C k = hex_encode C (sha256 C (vk_verifying_key k))"

definition verify_payload ::
    "crates \<Rightarrow> LedgerVerifyingKey \<Rightarrow> LedgerSignatureKeyVersion \<Rightarrow> LedgerCanonicalPayload \<Rightarrow>
      LedgerSignature \<Rightarrow> LedgerError + unit" where
  "verify_payload C k expected_key_version payload signature =
    (if vk_key_version k \<noteq> expected_key_version
     then Inl (SignatureKeyVersionMismatch (LedgerSignatureKeyVersion_get expected_key_version)
       (LedgerSignatureKeyVersion_get (vk_key_version k)))
     else if ed25519_verify C (vk_verifying_key k) (LedgerCanonicalPayload_bytes payload)
       (LedgerSignature_bytes signature) then Inr ()
     else Inl (SignatureInvalid 0))"

definition verify_digest_bytes ::
    "crates \<Rightarrow> LedgerVerifyingKey \<Rightarrow> bytes \<Rightarrow> LedgerSignature \<Rightarrow> LedgerError + unit" where
  "verify_digest_bytes C k b signature =
    (if ed25519_verify C (vk_verifying_key k) b (LedgerSignature_bytes signature) then Inr ()
     else Inl DigestSignatureInvalid)"

lemma verify_sign_payload:
  assumes "ed25519_laws C" "sign_payload C k v p = Inr s"
  shows "verify_payload C (verification_key C k) v p s = Inr ()"
  using assms
  by (auto simp: ed25519_laws_def sign_payload_def verify_payload_def verification_key_def
      LedgerSignature_from_bytes_def split: if_splits)

lemma sign_payload_ok:
  assumes "ed25519_laws C"
  shows "sign_payload C k (sk_key_version k) p = Inr
    (LedgerSignature (ed25519_sign C (sk_signing_key k) (LedgerCanonicalPayload_bytes p)))"
  using assms
  by (simp add: ed25519_laws_def sign_payload_def LedgerSignature_from_bytes_def
      LEDGER_SIGNATURE_LENGTH_def)

lemma verify_sign_raw_bytes:
  assumes "ed25519_laws C" "sign_raw_bytes C k v b = Inr s"
  shows "verify_digest_bytes C (verification_key C k) b s = Inr ()"
  using assms
  by (auto simp: ed25519_laws_def sign_raw_bytes_def verify_digest_bytes_def
      verification_key_def LedgerSignature_from_bytes_def split: if_splits)

lemma LedgerSignature_bytea_roundtrip:
  assumes "hex_laws C" "length (LedgerSignature_bytes s) = LEDGER_SIGNATURE_LENGTH"
  shows "LedgerSignature_from_bytea_hex C (LedgerSignature_to_bytea_hex C s) = Inr s"
  using assms by (simp add: LedgerSignature_from_bytea_hex_def LedgerSignature_to_bytea_hex_def
      LedgerSignature_from_bytes_def hex_laws_def)

end
