(* ===== verification/Ledger_Payload.thy ===== *)
theory Ledger_Payload
  imports Ledger_Types Sample_Crates
begin

text \<open>
  Ledger payloads, \<open>src/ledger/payload.rs\<close>: the rejection of forbidden keys at any depth, the
  key allow-list of the entry type, the value of each field, and the size bound on the
  canonical form (\<open>CanonicalPayloadObject\<close> of \<open>src/ledger/canonical.rs\<close>).
\<close>


section \<open>Forbidden keys\<close>

definition is_forbidden_payload_key :: "string \<Rightarrow> bool" where
  "is_forbidden_payload_key key =
    list_ex (\<lambda>forbidden. to_ascii_lowercase (str_trim key) = forbidden)
      FORBIDDEN_LEDGER_PAYLOAD_KEYS"

fun reject_forbidden_payload_keys :: "json \<Rightarrow> LedgerError + unit" where
  "reject_forbidden_payload_keys (JObject object) =
    try_each (\<lambda>(key, nested).
      rbind (reject_if (is_forbidden_payload_key key) (ForbiddenPayloadKey key)) (\<lambda>_.
      reject_forbidden_payload_keys nested)) object"
| "reject_forbidden_payload_keys (JArray values) = try_each reject_forbidden_payload_keys values"
| "reject_forbidden_payload_keys _ = Inr ()"

interpretation payload_scan: key_scanner is_forbidden_payload_key ForbiddenPayloadKey
    reject_forbidden_payload_keys
  by unfold_locales simp_all


section \<open>Field values\<close>

definition json_as_u64 :: "json \<Rightarrow> u64 option" where
  "json_as_u64 v = (case v of JNumber n \<Rightarrow> as_u64 n | _ \<Rightarrow> None)"

definition is_ascii_digit :: "char \<Rightarrow> bool" where
  "is_ascii_digit c \<longleftrightarrow> (let n = (of_char c :: nat) in 48 \<le> n \<and> n \<le> 57)"

definition is_lower_hex :: "char \<Rightarrow> bool" where
  "is_lower_hex c \<longleftrightarrow> (let n = (of_char c :: nat) in 48 \<le> n \<and> n \<le> 57 \<or> 97 \<le> n \<and> n \<le> 102)"

definition require_json_u64 :: "string \<Rightarrow> json \<Rightarrow> string \<Rightarrow> LedgerError + u64" where
  "require_json_u64 key value expected =
    rbind (ok_or (InvalidPayloadField key expected) (json_as_u64 value)) (\<lambda>parsed.
    if parsed > LEDGER_I64_MAX_U64 then Inl (InvalidPayloadField key expected) else Inr parsed)"

definition require_positive_json_u64 :: "string \<Rightarrow> json \<Rightarrow> LedgerError + u64" where
  "require_positive_json_u64 key value =
    rbind (require_json_u64 key value ''a positive integer'') (\<lambda>parsed.
    if parsed = 0 then Inl (InvalidPayloadField key ''a positive integer'') else Inr parsed)"

definition require_non_negative_json_u64 :: "string \<Rightarrow> json \<Rightarrow> LedgerError + u64" where
  "require_non_negative_json_u64 key value =
    require_json_u64 key value ''a non-negative integer''"

definition require_string_value :: "string \<Rightarrow> json \<Rightarrow> string \<Rightarrow> LedgerError + unit" where
  "require_string_value key value expected_value =
    (if as_str value = Some expected_value then Inr ()
     else Inl (InvalidPayloadField key expected_value))"

definition validate_year_month_value :: "string \<Rightarrow> json \<Rightarrow> LedgerError + unit" where
  "validate_year_month_value key value =
    rbind (ok_or (InvalidPayloadField key ''a string in YYYY-MM format'') (as_str value)) (\<lambda>text.
    let is_valid =
      length text = 7 \<and> text ! 4 = CHR ''-'' \<and> list_all is_ascii_digit (take 4 text) \<and>
      list_all is_ascii_digit (drop 5 text) \<and>
      (let month = dec_value (drop 5 text) in 1 \<le> month \<and> month \<le> 12)
    in if \<not> is_valid then Inl (InvalidPayloadField key ''a string in YYYY-MM format'')
       else Inr ())"

definition validate_source_event_at_value :: "crates \<Rightarrow> string \<Rightarrow> json \<Rightarrow> LedgerError + unit"
  where
  "validate_source_event_at_value C key value =
    (let err = InvalidPayloadField key ''an RFC3339 UTC timestamp ending with Z'' in
     rbind (ok_or err (as_str value)) (\<lambda>text.
     rbind (map_err (\<lambda>_. err) (SourceEventAt_parse C text)) (\<lambda>_. Inr ())))"

definition validate_digest_hash_value :: "string \<Rightarrow> json \<Rightarrow> LedgerError + unit" where
  "validate_digest_hash_value key value =
    (let err = InvalidPayloadField key ''a 64-character lowercase hex string'' in
     rbind (ok_or err (as_str value)) (\<lambda>text.
     if length text \<noteq> 64 \<or> \<not> list_all is_lower_hex text then Inl err else Inr ()))"

definition validate_classification_value :: "string \<Rightarrow> json \<Rightarrow> LedgerError + unit" where
  "validate_classification_value key value =
    (let err = InvalidPayloadField key ''a non-blank string at most 128 bytes'' in
     rbind (ok_or err (as_str value)) (\<lambda>text.
     if str_trim text = [] \<or> length text > 128 then Inl err else Inr ()))"

definition invalid_trigger_payload_field :: "string \<Rightarrow> LedgerError" where
  "invalid_trigger_payload_field key =
    InvalidPayloadField key ''one of background, cli, startup''"

definition validate_trigger_value :: "string \<Rightarrow> json \<Rightarrow> LedgerError + unit" where
  "validate_trigger_value key value =
    rbind (ok_or (invalid_trigger_payload_field key) (as_str value)) (\<lambda>trigger.
    map_err (\<lambda>_. invalid_trigger_payload_field key) (map_ok (\<lambda>_. ()) (AuditTrigger_parse trigger)))"

definition validate_non_blank_short_string :: "string \<Rightarrow> json \<Rightarrow> LedgerError + unit" where
  "validate_non_blank_short_string key value =
    (let err = InvalidPayloadField key ''a non-blank string at most 128 bytes'' in
     rbind (ok_or err (as_str value)) (\<lambda>text.
     if str_trim text = [] \<or> length text > 128 then Inl err else Inr ()))"

definition validate_string_enum_value :: "string \<Rightarrow> json \<Rightarrow> string list \<Rightarrow> LedgerError + unit"
  where
  "validate_string_enum_value key value allowed =
    (let err = InvalidPayloadField key ''an allowed string value'' in
     rbind (ok_or err (as_str value)) (\<lambda>text.
     if text \<in> set allowed then Inr () else Inl err))"

definition validate_incident_type_value :: "string \<Rightarrow> json \<Rightarrow> LedgerError + unit" where
  "validate_incident_type_value key value =
    validate_string_enum_value key value
      [''hash_chain_mismatch'', ''signature_mismatch'', ''monthly_digest_mismatch'',
       ''digest_timestamping_mismatch'', ''archive_export_mismatch'', ''sequence_gap'',
       ''unknown_signature_key'', ''non_auditor_ledger_read'', ''ledger_secret_leak_suspected'',
       ''siem_long_failure'', ''audit_ui_forbidden_operation'']"

definition validate_payload_field :: "crates \<Rightarrow> string \<Rightarrow> json \<Rightarrow> LedgerError + unit" where
  "validate_payload_field C key value =
    (if key \<in> {''version'', ''key_version'', ''old_key_version'', ''new_key_version'',
        ''signature_key_version'', ''retention_limit'', ''start_sequence_no'',
        ''end_sequence_no'', ''entry_count'', ''target_sequence_no''}
     then rbind (require_positive_json_u64 key value) (\<lambda>parsed.
       if key = ''retention_limit'' \<and> parsed \<noteq> 4
       then Inl (InvalidPayloadField key ''the integer 4'') else Inr ())
     else if key \<in> {''batch_size'', ''checked_audit_event_count'', ''checked_count'',
        ''checked_secret_count'', ''checked_secret_version_count'', ''duration_ms'',
        ''failed_count'', ''failure_count'', ''processed_count'', ''remaining_count'',
        ''resent_count'', ''sample_count'', ''success_count'', ''violation_count''}
     then map_ok (\<lambda>_. ()) (require_non_negative_json_u64 key value)
     else if key = ''algorithm'' then require_string_value key value ''xchacha20-poly1305''
     else if key = ''classification'' then validate_classification_value key value
     else if key = ''trigger'' then validate_trigger_value key value
     else if key \<in> {''error_code'', ''reason_code'', ''archive_key'', ''job_name'',
        ''detection_source'', ''dedupe_key'', ''notification_sink''}
     then validate_non_blank_short_string key value
     else if key = ''incident_type'' then validate_incident_type_value key value
     else if key = ''severity'' then validate_string_enum_value key value
       [''critical'', ''high'', ''medium'', ''low'']
     else if key = ''notification_result'' then validate_string_enum_value key value
       [''sent'', ''failed'', ''suppressed'', ''not_configured'']
     else if key = ''target_year_month'' then validate_year_month_value key value
     else if key \<in> {''digest_hash'', ''timestamp_token_hash'', ''public_key_fingerprint''}
     then validate_digest_hash_value key value
     else if key \<in> {''created_at'', ''activated_at'', ''retired_at''}
     then validate_source_event_at_value C key value
     else Inl (UnknownPayloadKey key Entry_SecretCreated))"


section \<open>Payloads\<close>

record LedgerPayload =
  lp_entry_type :: LedgerEntryType
  lp_object :: "(string \<times> json) list"

definition validate_required_payload_keys ::
    "LedgerEntryType \<Rightarrow> (string \<times> json) list \<Rightarrow> LedgerError + unit" where
  "validate_required_payload_keys entry_type object =
    (if entry_type \<noteq> Entry_IncidentDetected then Inr ()
     else try_each (\<lambda>key. reject_if (bt_get object key = None)
         (InvalidPayloadField key ''a required incident_detected payload key''))
       [''incident_type'', ''severity'', ''detection_source'', ''dedupe_key'',
        ''notification_sink'', ''notification_result''])"

definition validate_old_new_key_versions :: "(string \<times> json) list \<Rightarrow> LedgerError + unit" where
  "validate_old_new_key_versions object =
    (case bt_get object ''old_key_version'' of
      None \<Rightarrow> Inr ()
    | Some old_value \<Rightarrow>
      (case bt_get object ''new_key_version'' of
        None \<Rightarrow> Inr ()
      | Some new_value \<Rightarrow>
        rbind (require_positive_json_u64 ''old_key_version'' old_value) (\<lambda>old_key_version.
        rbind (require_positive_json_u64 ''new_key_version'' new_value) (\<lambda>new_key_version.
        if old_key_version = new_key_version
        then Inl (InvalidPayloadField ''new_key_version'' ''a different value from old_key_version'')
        else Inr ()))))"

definition json_is_container :: "json \<Rightarrow> bool" where
  "json_is_container v = (case v of JObject _ \<Rightarrow> True | JArray _ \<Rightarrow> True | _ \<Rightarrow> False)"

definition validate_payload_object ::
    "crates \<Rightarrow> LedgerEntryType \<Rightarrow> (string \<times> json) list \<Rightarrow> LedgerError + unit" where
  "validate_payload_object C entry_type object =
    rbind (try_each (\<lambda>(key, value).
        rbind (reject_if (key \<notin> set (allowed_payload_keys entry_type))
          (UnknownPayloadKey key entry_type)) (\<lambda>_.
        rbind (reject_if (json_is_container value) (PayloadValueMustBeScalar key)) (\<lambda>_.
        validate_payload_field C key value))) object) (\<lambda>_.
    rbind (validate_required_payload_keys entry_type object) (\<lambda>_.
    validate_old_new_key_versions object))"

text \<open>The canonical form writes the allowed keys that are present, in the order of the
  allow-list.\<close>

definition CanonicalPayloadObject ::
    "LedgerEntryType \<Rightarrow> (string \<times> json) list \<Rightarrow> json" where
  "CanonicalPayloadObject entry_type object =
    JObject (concat (map (\<lambda>key.
      case bt_get object key of None \<Rightarrow> [] | Some value \<Rightarrow> [(key, value)])
      (allowed_payload_keys entry_type)))"

definition ensure_payload_size ::
    "crates \<Rightarrow> LedgerEntryType \<Rightarrow> (string \<times> json) list \<Rightarrow> LedgerError + unit" where
  "ensure_payload_size C entry_type object =
    rbind (map_err Ledger_SerializationFailed
      (json_to_string C (CanonicalPayloadObject entry_type object))) (\<lambda>bytes.
    if length bytes > LEDGER_PAYLOAD_MAX_CANONICAL_BYTES
    then Inl (PayloadTooLarge LEDGER_PAYLOAD_MAX_CANONICAL_BYTES) else Inr ())"

definition LedgerPayload_new :: "crates \<Rightarrow> LedgerEntryType \<Rightarrow> json \<Rightarrow> LedgerError + LedgerPayload"
  where
  "LedgerPayload_new C entry_type value =
    rbind (ok_or PayloadMustBeObject (as_object value)) (\<lambda>object.
    rbind (reject_forbidden_payload_keys (JObject object)) (\<lambda>_.
    rbind (validate_payload_object C entry_type object) (\<lambda>_.
    rbind (ensure_payload_size C entry_type object) (\<lambda>_.
    Inr \<lparr>lp_entry_type = entry_type, lp_object = object\<rparr>))))"

definition LedgerPayload_empty :: "crates \<Rightarrow> LedgerEntryType \<Rightarrow> LedgerError + LedgerPayload" where
  "LedgerPayload_empty C entry_type = LedgerPayload_new C entry_type (JObject [])"

definition LedgerPayload_as_value :: "LedgerPayload \<Rightarrow> json" where
  "LedgerPayload_as_value p = JObject (lp_object p)"



section \<open>What an accepted payload holds\<close>

text \<open>A field value is text or an unsigned integer that fits a signed 64-bit column.\<close>

definition payload_scalar :: "json \<Rightarrow> bool" where
  "payload_scalar v =
    (case v of JString _ \<Rightarrow> True | JNumber (PosInt n) \<Rightarrow> n \<le> LEDGER_I64_MAX_U64 | _ \<Rightarrow> False)"

lemmas payload_value_defs =
  require_json_u64_def require_positive_json_u64_def require_non_negative_json_u64_def
  json_as_u64_def as_u64_def require_string_value_def validate_year_month_value_def
  validate_source_event_at_value_def validate_digest_hash_value_def
  validate_classification_value_def validate_trigger_value_def
  validate_non_blank_short_string_def validate_string_enum_value_def
  validate_incident_type_value_def

lemma as_str_Some [simp]: "as_str v = Some s \<longleftrightarrow> v = JString s"
  by (auto simp: as_str_def split: json.splits)

lemma require_json_u64_Inr:
  "require_json_u64 k v e = Inr n \<longleftrightarrow> v = JNumber (PosInt n) \<and> n \<le> LEDGER_I64_MAX_U64"
  by (auto simp: require_json_u64_def json_as_u64_def as_u64_def not_less
      split: json.splits number.splits if_splits intro: exI [of _ n])

lemma require_positive_json_u64_Inr:
  "require_positive_json_u64 k v = Inr n \<longleftrightarrow>
    v = JNumber (PosInt n) \<and> n \<noteq> 0 \<and> n \<le> LEDGER_I64_MAX_U64"
  by (auto simp: require_positive_json_u64_def require_json_u64_Inr split: if_splits)

lemma string_validator_scalar:
  "require_string_value k v e = Inr () \<Longrightarrow> payload_scalar v"
  "validate_year_month_value k v = Inr () \<Longrightarrow> payload_scalar v"
  "validate_source_event_at_value C k v = Inr () \<Longrightarrow> payload_scalar v"
  "validate_digest_hash_value k v = Inr () \<Longrightarrow> payload_scalar v"
  "validate_classification_value k v = Inr () \<Longrightarrow> payload_scalar v"
  "validate_trigger_value k v = Inr () \<Longrightarrow> payload_scalar v"
  "validate_non_blank_short_string k v = Inr () \<Longrightarrow> payload_scalar v"
  "validate_string_enum_value k v allowed = Inr () \<Longrightarrow> payload_scalar v"
  "validate_incident_type_value k v = Inr () \<Longrightarrow> payload_scalar v"
  by (auto simp: payload_scalar_def payload_value_defs Let_def split: if_splits)

lemma if_valueE:
  "(if b then x else y) = z \<Longrightarrow> (x = z \<Longrightarrow> P) \<Longrightarrow> (y = z \<Longrightarrow> P) \<Longrightarrow> P"
  by (cases b) auto

lemma payload_field_scalar:
  assumes "validate_payload_field C k v = Inr ()"
  shows "payload_scalar v"
proof -
  have pos: "payload_scalar v" if "require_positive_json_u64 k v = Inr n" for n
    using that by (auto simp: require_positive_json_u64_Inr payload_scalar_def)
  have nonneg: "payload_scalar v" if "require_non_negative_json_u64 k v = Inr n" for n
    using that
    by (auto simp: require_non_negative_json_u64_def require_json_u64_Inr payload_scalar_def)
  from assms show ?thesis unfolding validate_payload_field_def
    by (elim if_valueE) (auto dest: pos nonneg string_validator_scalar)
qed

lemma payload_scalar_exact: "payload_scalar v \<Longrightarrow> json_exact v \<and> json_sorted v"
  by (auto simp: payload_scalar_def split: json.splits number.splits)

definition LedgerPayload_wf :: "crates \<Rightarrow> LedgerPayload \<Rightarrow> bool" where
  "LedgerPayload_wf C p \<longleftrightarrow>
    bt_wf (lp_object p) \<and> LedgerPayload_new C (lp_entry_type p) (LedgerPayload_as_value p) = Inr p"

lemma LedgerPayload_new_Inr:
  "LedgerPayload_new C t v = Inr p \<longleftrightarrow>
    v = JObject (lp_object p) \<and> lp_entry_type p = t \<and>
    reject_forbidden_payload_keys v = Inr () \<and>
    validate_payload_object C t (lp_object p) = Inr () \<and>
    ensure_payload_size C t (lp_object p) = Inr ()"
proof (cases v)
  case (JObject kvs)
  then show ?thesis by (cases p) (auto simp: LedgerPayload_new_def as_object_def)
qed (auto simp: LedgerPayload_new_def as_object_def)

lemma LedgerPayload_new_wf [wf_intros]:
  assumes "LedgerPayload_new C t v = Inr p" "json_sorted v"
  shows "LedgerPayload_wf C p"
  using assms unfolding LedgerPayload_wf_def LedgerPayload_as_value_def
  by (auto simp: LedgerPayload_new_Inr)

lemma LedgerPayload_new_entries:
  assumes "LedgerPayload_new C t v = Inr p" "(k, x) \<in> set (lp_object p)"
  shows "k \<in> set (allowed_payload_keys t)" and "payload_scalar x"
    and "validate_payload_field C k x = Inr ()"
proof -
  from assms have "validate_payload_object C t (lp_object p) = Inr ()"
    by (simp add: LedgerPayload_new_Inr)
  with assms(2) show *: "k \<in> set (allowed_payload_keys t)"
    "validate_payload_field C k x = Inr ()"
    by (auto simp: validate_payload_object_def try_each_eq_Inr)
  then show "payload_scalar x" by (simp add: payload_field_scalar)
qed

lemma LedgerPayload_new_size:
  assumes "LedgerPayload_new C t v = Inr p"
  shows "\<exists>s. json_to_string C (CanonicalPayloadObject t (lp_object p)) = Inr s \<and>
    length s \<le> LEDGER_PAYLOAD_MAX_CANONICAL_BYTES"
  using assms
  by (auto simp: LedgerPayload_new_Inr ensure_payload_size_def split: if_splits)

text \<open>The canonical form loses nothing: it determines the payload.\<close>

lemma map_of_canonical:
  "map_of (concat (map (\<lambda>k. case g k of None \<Rightarrow> [] | Some v \<Rightarrow> [(k, v)]) ks)) k =
    (if k \<in> set ks then g k else None)"
  by (induction ks) (auto simp: map_add_def split: option.splits)

lemma CanonicalPayloadObject_inj:
  assumes "CanonicalPayloadObject t a = CanonicalPayloadObject t b"
    and "bt_wf a" "bt_wf b"
    and "fst ` set a \<subseteq> set (allowed_payload_keys t)" "fst ` set b \<subseteq> set (allowed_payload_keys t)"
  shows "a = b"
proof (rule bt_eqI [OF assms(2,3)])
  fix k
  show "bt_get a k = bt_get b k"
  proof (cases "k \<in> set (allowed_payload_keys t)")
    case True
    from assms(1) have "map_of (case CanonicalPayloadObject t a of JObject m \<Rightarrow> m) k =
        map_of (case CanonicalPayloadObject t b of JObject m \<Rightarrow> m) k" by simp
    with True show ?thesis by (simp add: CanonicalPayloadObject_def map_of_canonical)
  next
    case False
    with assms(4,5) have "bt_get a k = None" "bt_get b k = None"
      by (auto simp: bt_get_def map_of_eq_None_iff)
    then show ?thesis by simp
  qed
qed

lemma CanonicalPayloadObject_exact:
  assumes "\<forall>(k, x) \<in> set a. payload_scalar x"
  shows "json_exact (CanonicalPayloadObject t a)"
proof -
  have "payload_scalar x" if "bt_get a k = Some x" for k x
    using that assms map_of_SomeD [of a k x] by (auto simp: bt_get_def)
  then show ?thesis
    by (auto simp: CanonicalPayloadObject_def list_all_iff payload_scalar_exact
        split: option.splits)
qed

text \<open>
  C28 --- A payload that the ledger accepts is an object whose every key is on the allow-list
  of its entry type, whose every value is a string or an unsigned integer below 2^63 (so no
  nested structure), none of whose keys equals a forbidden name after trimming and case
  folding, and whose canonical text is at most 8192 bytes long.
\<close>

theorem accepted_payload_is_safe:
  assumes "LedgerPayload_new C t v = Inr p"
  shows "v = LedgerPayload_as_value p \<and> lp_entry_type p = t \<and>
    (\<forall>(k, x) \<in> set (lp_object p). k \<in> set (allowed_payload_keys t) \<and> payload_scalar x) \<and>
    (\<forall>k \<in> set (json_keys v).
      to_ascii_lowercase (str_trim k) \<notin> set FORBIDDEN_LEDGER_PAYLOAD_KEYS) \<and>
    (\<exists>s. json_to_string C (CanonicalPayloadObject t (lp_object p)) = Inr s \<and> length s \<le> 8192)"
proof (intro conjI)
  from assms show "v = LedgerPayload_as_value p" "lp_entry_type p = t"
    by (simp_all add: LedgerPayload_new_Inr LedgerPayload_as_value_def)
  show "\<forall>(k, x) \<in> set (lp_object p). k \<in> set (allowed_payload_keys t) \<and> payload_scalar x"
    using LedgerPayload_new_entries [OF assms] by blast
  have "reject_forbidden_payload_keys v = Inr ()"
    using assms unfolding LedgerPayload_new_Inr by blast
  then show "\<forall>k \<in> set (json_keys v).
      to_ascii_lowercase (str_trim k) \<notin> set FORBIDDEN_LEDGER_PAYLOAD_KEYS"
    by (auto simp: payload_scan.scan_ok_iff is_forbidden_payload_key_def list_ex_iff)
  show "\<exists>s. json_to_string C (CanonicalPayloadObject t (lp_object p)) = Inr s \<and> length s \<le> 8192"
    using LedgerPayload_new_size [OF assms] by (simp add: LEDGER_PAYLOAD_MAX_CANONICAL_BYTES_def)
qed


definition sample_payload :: json where
  "sample_payload = JObject
    [(''new_key_version'', json_uint (2 :: u32)), (''old_key_version'', json_uint (1 :: u32))]"

lemma sample_payload_ok:
  "LedgerPayload_new sample_crates Entry_KeyRotationStarted sample_payload =
    Inr \<lparr>lp_entry_type = Entry_KeyRotationStarted, lp_object =
      [(''new_key_version'', json_uint (2 :: u32)), (''old_key_version'', json_uint (1 :: u32))]\<rparr>"
proof -
  have trim: "str_trim ''new_key_version'' = ''new_key_version''"
    "str_trim ''old_key_version'' = ''old_key_version''"
    by (rule str_trim_all_plain, simp add: plain_char_def)+
  have lower: "to_ascii_lowercase ''new_key_version'' = ''new_key_version''"
    "to_ascii_lowercase ''old_key_version'' = ''old_key_version''"
    by (simp_all add: to_ascii_lowercase_def ascii_lower_def)
  show ?thesis
    by (simp add: LedgerPayload_new_Inr sample_payload_def trim lower is_forbidden_payload_key_def
        FORBIDDEN_LEDGER_PAYLOAD_KEYS_def validate_payload_object_def json_is_container_def
        json_uint_def validate_payload_field_def require_positive_json_u64_Inr
        LEDGER_I64_MAX_U64_def validate_required_payload_keys_def validate_old_new_key_versions_def
        bt_get_def ensure_payload_size_def CanonicalPayloadObject_def unary_def
        LEDGER_PAYLOAD_MAX_CANONICAL_BYTES_def)
qed

theorem accepted_payload_is_safe_witness:
  "lp_entry_type \<lparr>lp_entry_type = Entry_KeyRotationStarted, lp_object =
      [(''new_key_version'', json_uint (2 :: u32)), (''old_key_version'', json_uint (1 :: u32))]\<rparr>
    = Entry_KeyRotationStarted \<and>
   list_all (\<lambda>k. to_ascii_lowercase (str_trim k) \<notin> set FORBIDDEN_LEDGER_PAYLOAD_KEYS)
     (json_keys sample_payload)"
  using accepted_payload_is_safe [OF sample_payload_ok] by (simp only: list_all_iff) blast

end
