(* ===== verification/Ledger_Entry.thy ===== *)
theory Ledger_Entry
  imports Ledger_Payload
begin

text \<open>
  Ledger entries: the canonical document (\<open>src/ledger/canonical.rs\<close>), drafts and signed
  entries (\<open>src/ledger/entry.rs\<close>).  The structs that share their fields are nested records:
  an append draft, extended by the place in the chain to an entry draft, by hash and
  signature to the parts of a stored entry, and by the canonical bytes to a signed entry.
\<close>


section \<open>Records\<close>

record LedgerAppendDraftParts =
  le_ledger_entry_id :: LedgerEntryId
  le_entry_type :: LedgerEntryType
  le_source_event_at :: SourceEventAt
  le_request_id :: RequestId
  le_source_event_id :: "AuditEventId option"
  le_target_secret_id :: "SecretId option"
  le_target_secret_version_id :: "LedgerTargetSecretVersionId option"
  le_actor_user_id :: "OwnerUserId option"
  le_actor_device_id :: "DeviceId option"
  le_result :: LedgerResult
  le_error_code :: "string option"
  le_payload :: LedgerPayload

record LedgerEntryDraftParts = LedgerAppendDraftParts +
  le_sequence_no :: LedgerSequenceNo
  le_previous_entry_hash :: LedgerHash
  le_signature_key_version :: LedgerSignatureKeyVersion

type_synonym LedgerEntryDraft = LedgerEntryDraftParts

record SignedLedgerEntryParts = LedgerEntryDraftParts +
  le_entry_hash :: LedgerHash
  le_signature :: LedgerSignature

record SignedLedgerEntry = SignedLedgerEntryParts +
  le_canonical_payload :: LedgerCanonicalPayload


section \<open>The canonical document\<close>

record CanonicalBuildFields =
  cb_sequence_no :: LedgerSequenceNo
  cb_entry_type :: LedgerEntryType
  cb_source_event_at :: SourceEventAt
  cb_request_id :: RequestId
  cb_source_event_id :: "AuditEventId option"
  cb_target_secret_id :: "SecretId option"
  cb_target_secret_version_id :: "LedgerTargetSecretVersionId option"
  cb_actor_user_id :: "OwnerUserId option"
  cb_actor_device_id :: "DeviceId option"
  cb_result :: LedgerResult
  cb_error_code :: "string option"
  cb_payload :: LedgerPayload
  cb_previous_entry_hash :: LedgerHash
  cb_signature_key_version :: LedgerSignatureKeyVersion

definition json_opt :: "string option \<Rightarrow> json" where
  "json_opt s = (case s of None \<Rightarrow> JNull | Some t \<Rightarrow> JString t)"

definition CanonicalLedgerDocument :: "crates \<Rightarrow> CanonicalBuildFields \<Rightarrow> json" where
  "CanonicalLedgerDocument C f = JObject
    [(''schema'', JString LEDGER_CANONICAL_SCHEMA_V1),
     (''sequence_no'', json_uint (LedgerSequenceNo_get (cb_sequence_no f))),
     (''entry_type'', JString (LedgerEntryType_as_str (cb_entry_type f))),
     (''source_event_at'', JString (SourceEventAt_str (cb_source_event_at f))),
     (''request_id'', JString (RequestId_as_canonical_string C (cb_request_id f))),
     (''source_event_id'',
       json_opt (map_option (AuditEventId_as_canonical_string C) (cb_source_event_id f))),
     (''target_secret_id'',
       json_opt (map_option (SecretId_as_canonical_string C) (cb_target_secret_id f))),
     (''target_secret_version_id'',
       json_opt (map_option (LedgerTargetSecretVersionId_as_canonical_string C)
         (cb_target_secret_version_id f))),
     (''actor_user_id'',
       json_opt (map_option (OwnerUserId_as_canonical_string C) (cb_actor_user_id f))),
     (''actor_device_id'', json_opt (map_option DeviceId_str (cb_actor_device_id f))),
     (''result'', JString (LedgerResult_as_str (cb_result f))),
     (''error_code'', json_opt (cb_error_code f)),
     (''payload'',
       CanonicalPayloadObject (lp_entry_type (cb_payload f)) (lp_object (cb_payload f))),
     (''canonicalization_version'', json_uint LEDGER_CANONICALIZATION_VERSION_V1),
     (''previous_entry_hash'', JString (LedgerHash_to_hex C (cb_previous_entry_hash f))),
     (''hash_algorithm'', JString LEDGER_HASH_ALGORITHM_SHA256),
     (''signature_algorithm'', JString LEDGER_SIGNATURE_ALGORITHM_ED25519),
     (''signature_key_version'',
       json_uint (LedgerSignatureKeyVersion_get (cb_signature_key_version f)))]"

definition build_canonical_payload ::
    "crates \<Rightarrow> CanonicalBuildFields \<Rightarrow> LedgerError + LedgerCanonicalPayload" where
  "build_canonical_payload C f =
    rbind (map_err Ledger_SerializationFailed (json_to_string C (CanonicalLedgerDocument C f)))
      (\<lambda>text. Inr (LedgerCanonicalPayload (str_bytes text)))"

definition canonical_fields :: "'a LedgerEntryDraftParts_scheme \<Rightarrow> CanonicalBuildFields" where
  "canonical_fields e =
    \<lparr>cb_sequence_no = le_sequence_no e, cb_entry_type = le_entry_type e,
     cb_source_event_at = le_source_event_at e, cb_request_id = le_request_id e,
     cb_source_event_id = le_source_event_id e, cb_target_secret_id = le_target_secret_id e,
     cb_target_secret_version_id = le_target_secret_version_id e,
     cb_actor_user_id = le_actor_user_id e, cb_actor_device_id = le_actor_device_id e,
     cb_result = le_result e, cb_error_code = le_error_code e, cb_payload = le_payload e,
     cb_previous_entry_hash = le_previous_entry_hash e,
     cb_signature_key_version = le_signature_key_version e\<rparr>"


section \<open>Drafts and signed entries\<close>

definition validate_error_code :: "LedgerResult \<Rightarrow> string option \<Rightarrow> string \<Rightarrow> LedgerError + unit"
  where
  "validate_error_code result error_code field =
    (if result = LedgerSuccess \<and> error_code \<noteq> None then Inl (InvalidErrorCode field)
     else (case error_code of
       Some value \<Rightarrow> reject_if (str_trim value = [] \<or> length value > 128) (InvalidErrorCode field)
     | None \<Rightarrow> Inr ()))"

definition validate_actor_device_id :: "DeviceId option \<Rightarrow> LedgerError + unit" where
  "validate_actor_device_id actor_device_id =
    (case actor_device_id of
      Some device_id \<Rightarrow> reject_if (length (DeviceId_str device_id) > 128) InvalidActorDeviceId
    | None \<Rightarrow> Inr ())"

definition LedgerEntryDraft_new :: "LedgerEntryDraftParts \<Rightarrow> LedgerError + LedgerEntryDraft" where
  "LedgerEntryDraft_new parts =
    (if lp_entry_type (le_payload parts) \<noteq> le_entry_type parts
     then Inl (UnknownPayloadKey ''payload.entry_type'' (le_entry_type parts))
     else rbind (validate_error_code (le_result parts) (le_error_code parts) ''error_code'') (\<lambda>_.
       rbind (validate_actor_device_id (le_actor_device_id parts)) (\<lambda>_. Inr parts)))"

definition draft_canonical_payload ::
    "crates \<Rightarrow> LedgerEntryDraft \<Rightarrow> LedgerError + LedgerCanonicalPayload" where
  "draft_canonical_payload C draft = build_canonical_payload C (canonical_fields draft)"

definition LedgerEntryDraft_sign ::
    "crates \<Rightarrow> LedgerEntryDraft \<Rightarrow> LedgerSigningKey \<Rightarrow> LedgerError + SignedLedgerEntry" where
  "LedgerEntryDraft_sign C draft signing_key =
    rbind (draft_canonical_payload C draft) (\<lambda>canonical_payload.
    let entry_hash = LedgerHash_from_canonical_payload C canonical_payload in
    rbind (sign_payload C signing_key (le_signature_key_version draft) canonical_payload)
      (\<lambda>signature.
    Inr (LedgerEntryDraftParts.extend draft
      \<lparr>le_entry_hash = entry_hash, le_signature = signature,
       le_canonical_payload = canonical_payload\<rparr>)))"

definition from_stored_parts :: "crates \<Rightarrow> SignedLedgerEntryParts \<Rightarrow> LedgerError + SignedLedgerEntry"
  where
  "from_stored_parts C parts =
    (if lp_entry_type (le_payload parts) \<noteq> le_entry_type parts
     then Inl (UnknownPayloadKey ''payload.entry_type'' (le_entry_type parts))
     else rbind (validate_error_code (le_result parts) (le_error_code parts) ''error_code'') (\<lambda>_.
       rbind (validate_actor_device_id (le_actor_device_id parts)) (\<lambda>_.
       rbind (build_canonical_payload C (canonical_fields parts)) (\<lambda>canonical_payload.
       Inr (SignedLedgerEntryParts.extend parts
         \<lparr>le_canonical_payload = canonical_payload\<rparr>)))))"

definition recompute_entry_hash :: "crates \<Rightarrow> SignedLedgerEntry \<Rightarrow> LedgerHash" where
  "recompute_entry_hash C e = LedgerHash_from_canonical_payload C (le_canonical_payload e)"

definition verify_signature ::
    "crates \<Rightarrow> SignedLedgerEntry \<Rightarrow> LedgerVerifyingKey \<Rightarrow> LedgerError + unit" where
  "verify_signature C e key =
    verify_payload C key (le_signature_key_version e) (le_canonical_payload e) (le_signature e)"



section \<open>Invariant\<close>

definition LedgerEntry_wf :: "'a LedgerEntryDraftParts_scheme \<Rightarrow> bool" where
  "LedgerEntry_wf e \<longleftrightarrow>
    lp_entry_type (le_payload e) = le_entry_type e \<and>
    validate_error_code (le_result e) (le_error_code e) ''error_code'' = Inr () \<and>
    validate_actor_device_id (le_actor_device_id e) = Inr ()"

definition SignedLedgerEntry_wf :: "crates \<Rightarrow> SignedLedgerEntry \<Rightarrow> bool" where
  "SignedLedgerEntry_wf C e \<longleftrightarrow>
    LedgerEntry_wf e \<and>
    build_canonical_payload C (canonical_fields e) = Inr (le_canonical_payload e)"

lemma canonical_fields_simps [simp]:
  "cb_sequence_no (canonical_fields e) = le_sequence_no e"
  "cb_previous_entry_hash (canonical_fields e) = le_previous_entry_hash e"
  "cb_payload (canonical_fields e) = le_payload e"
  "cb_entry_type (canonical_fields e) = le_entry_type e"
  "cb_signature_key_version (canonical_fields e) = le_signature_key_version e"
  by (simp_all add: canonical_fields_def)

lemma canonical_fields_extend [simp]:
  "canonical_fields (LedgerEntryDraftParts.extend d x) = canonical_fields d"
  "canonical_fields (SignedLedgerEntryParts.extend p y) = canonical_fields p"
  by (simp_all add: canonical_fields_def LedgerEntryDraftParts.defs SignedLedgerEntryParts.defs)

lemma LedgerEntry_wf_extend [simp]:
  "LedgerEntry_wf (LedgerEntryDraftParts.extend d x) = LedgerEntry_wf d"
  "LedgerEntry_wf (SignedLedgerEntryParts.extend p y) = LedgerEntry_wf p"
  by (simp_all add: LedgerEntry_wf_def LedgerEntryDraftParts.defs SignedLedgerEntryParts.defs)

lemma LedgerEntryDraft_new_Inr:
  "LedgerEntryDraft_new p = Inr d \<longleftrightarrow> d = p \<and> LedgerEntry_wf p"
  by (auto simp: LedgerEntryDraft_new_def LedgerEntry_wf_def)

lemma LedgerEntryDraft_sign_Inr:
  "LedgerEntryDraft_sign C d k = Inr e \<longleftrightarrow>
    (\<exists>c s. build_canonical_payload C (canonical_fields d) = Inr c \<and>
      sign_payload C k (le_signature_key_version d) c = Inr s \<and>
      e = LedgerEntryDraftParts.extend d
        \<lparr>le_entry_hash = LedgerHash_from_canonical_payload C c, le_signature = s,
         le_canonical_payload = c\<rparr>)"
  by (auto simp: LedgerEntryDraft_sign_def draft_canonical_payload_def Let_def)

lemma extend_sel [simp]:
  "le_canonical_payload (LedgerEntryDraftParts.extend d
    \<lparr>le_entry_hash = h, le_signature = s, le_canonical_payload = c\<rparr>) = c"
  "le_entry_hash (LedgerEntryDraftParts.extend d
    \<lparr>le_entry_hash = h, le_signature = s, le_canonical_payload = c\<rparr>) = h"
  "le_signature (LedgerEntryDraftParts.extend d
    \<lparr>le_entry_hash = h, le_signature = s, le_canonical_payload = c\<rparr>) = s"
  "le_canonical_payload (SignedLedgerEntryParts.extend p \<lparr>le_canonical_payload = c\<rparr>) = c"
  "le_sequence_no (LedgerEntryDraftParts.extend d x) = le_sequence_no d"
  "le_previous_entry_hash (LedgerEntryDraftParts.extend d x) = le_previous_entry_hash d"
  "le_signature_key_version (LedgerEntryDraftParts.extend d x) = le_signature_key_version d"
  "le_payload (LedgerEntryDraftParts.extend d x) = le_payload d"
  by (simp_all add: LedgerEntryDraftParts.defs SignedLedgerEntryParts.defs)

lemma sign_wf [wf_intros]:
  assumes "LedgerEntryDraft_sign C d k = Inr e" "LedgerEntry_wf d"
  shows "SignedLedgerEntry_wf C e"
  using assms by (auto simp: LedgerEntryDraft_sign_Inr SignedLedgerEntry_wf_def)

lemma from_stored_parts_wf [wf_intros]:
  assumes "from_stored_parts C p = Inr e"
  shows "SignedLedgerEntry_wf C e" and "e = SignedLedgerEntryParts.extend p
    \<lparr>le_canonical_payload = le_canonical_payload e\<rparr>"
  using assms
  by (auto simp: from_stored_parts_def SignedLedgerEntry_wf_def LedgerEntry_wf_def
      SignedLedgerEntryParts.defs canonical_fields_def split: if_splits)

text \<open>A freshly signed entry carries its own hash and a signature that verifies.\<close>

lemma sign_hash_and_signature:
  assumes "LedgerEntryDraft_sign C d k = Inr e"
  shows "recompute_entry_hash C e = le_entry_hash e"
    and "ed25519_laws C \<Longrightarrow> verify_signature C e (verification_key C k) = Inr ()"
  using assms
  by (auto simp: LedgerEntryDraft_sign_Inr recompute_entry_hash_def verify_signature_def
      intro: verify_sign_payload)


section \<open>The canonical bytes determine the entry\<close>

lemma json_opt_inj: "json_opt s = json_opt t \<longleftrightarrow> s = t"
  by (auto simp: json_opt_def split: option.splits)

lemma json_opt_exact [simp]: "json_exact (json_opt s)"
  by (simp add: json_opt_def split: option.splits)

definition payload_entries_ok :: "LedgerPayload \<Rightarrow> bool" where
  "payload_entries_ok p \<longleftrightarrow>
    bt_wf (lp_object p) \<and>
    (\<forall>(k, x) \<in> set (lp_object p). k \<in> set (allowed_payload_keys (lp_entry_type p)) \<and>
      payload_scalar x)"

lemma LedgerPayload_wf_entries: "LedgerPayload_wf C p \<Longrightarrow> payload_entries_ok p"
  unfolding LedgerPayload_wf_def payload_entries_ok_def
  using LedgerPayload_new_entries [of C "lp_entry_type p" "LedgerPayload_as_value p" p]
  by blast

lemma uuid_string_inj:
  assumes "uuid_laws C"
  shows "RequestId_as_canonical_string C r = RequestId_as_canonical_string C r' \<Longrightarrow> r = r'"
    and "map_option (AuditEventId_as_canonical_string C) a =
      map_option (AuditEventId_as_canonical_string C) a' \<Longrightarrow> a = a'"
    and "map_option (SecretId_as_canonical_string C) s =
      map_option (SecretId_as_canonical_string C) s' \<Longrightarrow> s = s'"
    and "map_option (LedgerTargetSecretVersionId_as_canonical_string C) t =
      map_option (LedgerTargetSecretVersionId_as_canonical_string C) t' \<Longrightarrow> t = t'"
    and "map_option (OwnerUserId_as_canonical_string C) u =
      map_option (OwnerUserId_as_canonical_string C) u' \<Longrightarrow> u = u'"
proof -
  have inj: "inj (uuid_hyphenated C)" using uuid_hyphenated_inj [OF assms] by (auto intro: injI)
  show "RequestId_as_canonical_string C r = RequestId_as_canonical_string C r' \<Longrightarrow> r = r'"
    by (cases r; cases r') (simp add: RequestId_as_canonical_string_def inj_eq [OF inj])
  show "map_option (AuditEventId_as_canonical_string C) a =
      map_option (AuditEventId_as_canonical_string C) a' \<Longrightarrow> a = a'"
    by (erule option.inj_map_strong [rotated])
      (simp add: AuditEventId_as_canonical_string_def inj_eq [OF inj] AuditEventId.expand)
  show "map_option (SecretId_as_canonical_string C) s =
      map_option (SecretId_as_canonical_string C) s' \<Longrightarrow> s = s'"
    by (erule option.inj_map_strong [rotated])
      (simp add: SecretId_as_canonical_string_def inj_eq [OF inj] SecretId.expand)
  show "map_option (LedgerTargetSecretVersionId_as_canonical_string C) t =
      map_option (LedgerTargetSecretVersionId_as_canonical_string C) t' \<Longrightarrow> t = t'"
    by (erule option.inj_map_strong [rotated])
      (simp add: LedgerTargetSecretVersionId_as_canonical_string_def inj_eq [OF inj]
        LedgerTargetSecretVersionId.expand)
  show "map_option (OwnerUserId_as_canonical_string C) u =
      map_option (OwnerUserId_as_canonical_string C) u' \<Longrightarrow> u = u'"
    by (erule option.inj_map_strong [rotated])
      (simp add: OwnerUserId_as_canonical_string_def inj_eq [OF inj] OwnerUserId.expand)
qed


lemma CanonicalLedgerDocument_exact:
  assumes "payload_entries_ok (cb_payload f)"
  shows "json_exact (CanonicalLedgerDocument C f)"
proof -
  have "json_exact (CanonicalPayloadObject t (lp_object (cb_payload f)))" for t
    using assms CanonicalPayloadObject_exact [of "lp_object (cb_payload f)"]
    by (auto simp: payload_entries_ok_def)
  then show ?thesis by (simp add: CanonicalLedgerDocument_def)
qed

lemma payload_eqI:
  assumes "payload_entries_ok p" "payload_entries_ok q" "lp_entry_type p = lp_entry_type q"
    and "CanonicalPayloadObject (lp_entry_type p) (lp_object p) =
      CanonicalPayloadObject (lp_entry_type q) (lp_object q)"
  shows "p = q"
proof -
  from assms have "lp_object p = lp_object q"
    by (intro CanonicalPayloadObject_inj [of "lp_entry_type q"])
      (auto simp: payload_entries_ok_def)
  with assms(3) show ?thesis by (cases p; cases q) simp
qed

lemma CanonicalLedgerDocument_inj:
  assumes laws: "uuid_laws C" "hex_laws C"
    and eq: "CanonicalLedgerDocument C f = CanonicalLedgerDocument C g"
    and f: "payload_entries_ok (cb_payload f)" "lp_entry_type (cb_payload f) = cb_entry_type f"
    and g: "payload_entries_ok (cb_payload g)" "lp_entry_type (cb_payload g) = cb_entry_type g"
  shows "f = g"
proof -
  have eqs: "cb_sequence_no f = cb_sequence_no g" "cb_entry_type f = cb_entry_type g"
    "cb_source_event_at f = cb_source_event_at g" "cb_result f = cb_result g"
    "cb_error_code f = cb_error_code g"
    "cb_signature_key_version f = cb_signature_key_version g"
    "cb_actor_device_id f = cb_actor_device_id g"
    using eq by (auto simp: CanonicalLedgerDocument_def json_uint_inj_u64 json_uint_inj_u32
        json_opt_inj entry_type.print_inj ledger_result.print_inj
        intro: LedgerSequenceNo.expand SourceEventAt.expand LedgerSignatureKeyVersion.expand
          DeviceId.expand elim: option.inj_map_strong [rotated])
  have ids: "cb_request_id f = cb_request_id g" "cb_source_event_id f = cb_source_event_id g"
    "cb_target_secret_id f = cb_target_secret_id g"
    "cb_target_secret_version_id f = cb_target_secret_version_id g"
    "cb_actor_user_id f = cb_actor_user_id g"
    "cb_previous_entry_hash f = cb_previous_entry_hash g"
    using eq uuid_string_inj [OF laws(1)] LedgerHash_to_hex_inj [OF laws(2)]
    by (auto simp: CanonicalLedgerDocument_def json_opt_inj)
  have "cb_payload f = cb_payload g"
    using eq f g eqs(2) by (intro payload_eqI) (auto simp: CanonicalLedgerDocument_def)
  with eqs ids show ?thesis by (cases f; cases g) simp
qed

definition ledger_codec_laws :: "crates \<Rightarrow> bool" where
  "ledger_codec_laws C \<longleftrightarrow> uuid_laws C \<and> hex_laws C \<and> json_laws C"

lemma build_canonical_payload_inj:
  assumes laws: "ledger_codec_laws C"
    and eq: "build_canonical_payload C f = Inr c" "build_canonical_payload C g = Inr c"
    and f: "payload_entries_ok (cb_payload f)" "lp_entry_type (cb_payload f) = cb_entry_type f"
    and g: "payload_entries_ok (cb_payload g)" "lp_entry_type (cb_payload g) = cb_entry_type g"
  shows "f = g"
proof -
  from eq obtain s where s: "json_to_string C (CanonicalLedgerDocument C f) = Inr s"
    "json_to_string C (CanonicalLedgerDocument C g) = Inr s"
    by (auto simp: build_canonical_payload_def)
  have "CanonicalLedgerDocument C f = CanonicalLedgerDocument C g"
    using laws json_lawsD(1) [OF _ CanonicalLedgerDocument_exact [OF f(1)]
      CanonicalLedgerDocument_exact [OF g(1)] s]
    by (simp add: ledger_codec_laws_def)
  with laws f g show ?thesis
    by (intro CanonicalLedgerDocument_inj [of C]) (simp_all add: ledger_codec_laws_def)
qed

end
