(* ===== verification/Supabase_Rpc.thy ===== *)
theory Supabase_Rpc
  imports Ledger_Entry
begin

text \<open>
  The boundary to the database service: \<open>src/server/supabase/error.rs\<close>, \<open>response.rs\<close> and
  \<open>ledger_rpc.rs\<close>, with the parameter and outcome structs of \<open>src/types/supabase.rs\<close>.  The
  HTTP exchange itself is a parameter; what is modelled is the request that is built and the
  checks on what comes back.
\<close>


section \<open>Errors and response markers\<close>

type_synonym u16 = "16 word"

datatype SupabaseRpcError =
    Network string
  | NonSuccessStatus u16 string
  | InvalidResponse string
  | EmptyResult

fun SupabaseRpcError_display :: "SupabaseRpcError \<Rightarrow> string" where
  "SupabaseRpcError_display (Network error) = ''supabase network error: '' @ error"
| "SupabaseRpcError_display (NonSuccessStatus status body) =
    ''supabase returned status '' @ dec_digits (unat status) @ '' with response body length '' @
    dec_digits (length body)"
| "SupabaseRpcError_display (InvalidResponse message) =
    ''supabase invalid response: '' @ message"
| "SupabaseRpcError_display EmptyResult = ''supabase RPC returned no rows''"

fun upstream_status :: "SupabaseRpcError \<Rightarrow> u16 option" where
  "upstream_status (NonSuccessStatus status _) = Some status"
| "upstream_status _ = None"

text \<open>\<open>Value::get\<close> finds a field of an object and nothing in any other value.\<close>

definition json_get :: "json \<Rightarrow> string \<Rightarrow> json option" where
  "json_get v key = (case v of JObject m \<Rightarrow> bt_get m key | _ \<Rightarrow> None)"

definition response_contains_marker :: "crates \<Rightarrow> string \<Rightarrow> string \<Rightarrow> bool" where
  "response_contains_marker C body marker =
    (case json_from_str C body of
      Inl _ \<Rightarrow> str_contains body marker
    | Inr value \<Rightarrow>
        list_ex (\<lambda>field.
          case Option.bind (json_get value field) as_str of
            None \<Rightarrow> False
          | Some text \<Rightarrow> str_contains text marker)
        [''message'', ''details'', ''hint''])"


section \<open>Ledger parameters and outcomes\<close>

record LedgerEntryRpcParams =
  p_ledger_entry_id :: string
  p_sequence_no :: u64
  p_entry_type :: string
  p_source_event_at :: string
  p_request_id :: string
  p_source_event_id :: "string option"
  p_target_secret_id :: "string option"
  p_target_secret_version_id :: "string option"
  p_actor_user_id :: "string option"
  p_actor_device_id :: "string option"
  p_result :: string
  p_error_code :: "string option"
  p_payload :: json
  p_canonicalization_version :: u8
  p_previous_entry_hash :: string
  p_entry_hash :: string
  p_hash_algorithm :: string
  p_signature :: string
  p_signature_algorithm :: string
  p_signature_key_version :: u32

definition from_signed_entry :: "crates \<Rightarrow> SignedLedgerEntry \<Rightarrow> LedgerEntryRpcParams" where
  "from_signed_entry C e =
    \<lparr>p_ledger_entry_id = LedgerEntryId_as_canonical_string C (le_ledger_entry_id e),
     p_sequence_no = LedgerSequenceNo_get (le_sequence_no e),
     p_entry_type = LedgerEntryType_as_str (le_entry_type e),
     p_source_event_at = SourceEventAt_str (le_source_event_at e),
     p_request_id = RequestId_as_canonical_string C (le_request_id e),
     p_source_event_id = map_option (AuditEventId_as_canonical_string C) (le_source_event_id e),
     p_target_secret_id = map_option (SecretId_as_canonical_string C) (le_target_secret_id e),
     p_target_secret_version_id =
       map_option (LedgerTargetSecretVersionId_as_canonical_string C)
         (le_target_secret_version_id e),
     p_actor_user_id = map_option (OwnerUserId_as_canonical_string C) (le_actor_user_id e),
     p_actor_device_id = map_option DeviceId_str (le_actor_device_id e),
     p_result = LedgerResult_as_str (le_result e),
     p_error_code = le_error_code e,
     p_payload = LedgerPayload_as_value (le_payload e),
     p_canonicalization_version = LEDGER_CANONICALIZATION_VERSION_V1,
     p_previous_entry_hash = LedgerHash_to_bytea_hex C (le_previous_entry_hash e),
     p_entry_hash = LedgerHash_to_bytea_hex C (le_entry_hash e),
     p_hash_algorithm = LEDGER_HASH_ALGORITHM_SHA256,
     p_signature = LedgerSignature_to_bytea_hex C (le_signature e),
     p_signature_algorithm = LEDGER_SIGNATURE_ALGORITHM_ED25519,
     p_signature_key_version = LedgerSignatureKeyVersion_get (le_signature_key_version e)\<rparr>"

record AppendLedgerEntryResponse =
  ar_ledger_entry_id :: string
  ar_sequence_no :: "64 word"
  ar_entry_hash :: string
  ar_chain_last_sequence_no :: "64 word"
  ar_chain_last_entry_hash :: string
  ar_replayed :: bool

record AppendLedgerEntryOutcome =
  ao_ledger_entry_id :: LedgerEntryId
  ao_sequence_no :: LedgerSequenceNo
  ao_entry_hash :: LedgerHash
  ao_chain_head :: LedgerChainHead
  ao_replayed :: bool

definition AppendLedgerEntryOutcome_try_from ::
    "crates \<Rightarrow> AppendLedgerEntryResponse \<Rightarrow> SupabaseRpcError + AppendLedgerEntryOutcome" where
  "AppendLedgerEntryOutcome_try_from C response =
    rbind (map_err (\<lambda>_. InvalidResponse ''ledger RPC returned invalid ledger_entry_id'')
      (LedgerEntryId_parse C (ar_ledger_entry_id response))) (\<lambda>ledger_entry_id.
    rbind (map_err (\<lambda>_. InvalidResponse ''ledger RPC returned invalid sequence_no'')
      (LedgerSequenceNo_from_i64 (ar_sequence_no response))) (\<lambda>sequence_no.
    rbind (map_err (\<lambda>_. InvalidResponse ''ledger RPC returned invalid entry_hash'')
      (LedgerHash_from_bytea_hex C (ar_entry_hash response))) (\<lambda>entry_hash.
    rbind (map_err (\<lambda>_. InvalidResponse ''ledger RPC returned invalid chain_last_entry_hash'')
      (LedgerHash_from_bytea_hex C (ar_chain_last_entry_hash response)))
      (\<lambda>chain_last_entry_hash.
    rbind (map_err (\<lambda>_. InvalidResponse ''ledger RPC returned invalid chain_last_sequence_no'')
      (LedgerChainHead_from_i64 (ar_chain_last_sequence_no response) chain_last_entry_hash))
      (\<lambda>chain_head.
    Inr \<lparr>ao_ledger_entry_id = ledger_entry_id, ao_sequence_no = sequence_no,
         ao_entry_hash = entry_hash, ao_chain_head = chain_head,
         ao_replayed = ar_replayed response\<rparr>)))))"

record LedgerChainStateResponse =
  cs_last_sequence_no :: "64 word"
  cs_last_entry_hash :: string

definition LedgerChainHead_try_from ::
    "crates \<Rightarrow> LedgerChainStateResponse \<Rightarrow> SupabaseRpcError + LedgerChainHead" where
  "LedgerChainHead_try_from C response =
    rbind (map_err (\<lambda>_. InvalidResponse ''ledger chain state returned invalid last_entry_hash'')
      (LedgerHash_from_bytea_hex C (cs_last_entry_hash response))) (\<lambda>last_entry_hash.
    map_err (\<lambda>_. InvalidResponse ''ledger chain state returned invalid last_sequence_no'')
      (LedgerChainHead_from_i64 (cs_last_sequence_no response) last_entry_hash))"


section \<open>Failures\<close>

datatype LedgerAppendRpcFailure =
    Rpc_EntryIdConflict
  | Rpc_EntryHashConflict
  | Rpc_SequenceMismatch
  | Rpc_PreviousHashMismatch
  | Rpc_PayloadSchemaViolation
  | Rpc_ChainStateMissing
  | Rpc_InvalidRpcInput
  | Rpc_AppendFailed

fun LedgerAppendRpcFailure_as_error_code :: "LedgerAppendRpcFailure \<Rightarrow> string" where
  "LedgerAppendRpcFailure_as_error_code Rpc_EntryIdConflict = ''ledger_entry_id_conflict''"
| "LedgerAppendRpcFailure_as_error_code Rpc_EntryHashConflict = ''ledger_entry_hash_conflict''"
| "LedgerAppendRpcFailure_as_error_code Rpc_SequenceMismatch = ''ledger_sequence_mismatch''"
| "LedgerAppendRpcFailure_as_error_code Rpc_PreviousHashMismatch =
    ''ledger_previous_hash_mismatch''"
| "LedgerAppendRpcFailure_as_error_code Rpc_PayloadSchemaViolation =
    ''ledger_payload_schema_violation''"
| "LedgerAppendRpcFailure_as_error_code Rpc_ChainStateMissing = ''ledger_chain_state_mismatch''"
| "LedgerAppendRpcFailure_as_error_code Rpc_InvalidRpcInput = ''ledger_append_failed''"
| "LedgerAppendRpcFailure_as_error_code Rpc_AppendFailed = ''ledger_append_failed''"

definition LEDGER_PAYLOAD_SCHEMA_MARKERS :: "string list" where
  "LEDGER_PAYLOAD_SCHEMA_MARKERS =
    [''ledger_payload_schema_violation'', ''ledger_entries_payload_valid'',
     ''ledger_payload_is_valid'']"

definition classify_append_ledger_error ::
    "crates \<Rightarrow> SupabaseRpcError \<Rightarrow> LedgerAppendRpcFailure" where
  "classify_append_ledger_error C error =
    (case error of
      NonSuccessStatus _ body \<Rightarrow>
        if response_contains_marker C body ''ledger_entry_id_conflict'' then Rpc_EntryIdConflict
        else if response_contains_marker C body ''ledger_entry_hash_conflict''
          then Rpc_EntryHashConflict
        else if response_contains_marker C body ''ledger_sequence_mismatch''
          then Rpc_SequenceMismatch
        else if response_contains_marker C body ''ledger_previous_hash_mismatch''
          then Rpc_PreviousHashMismatch
        else if list_ex (response_contains_marker C body) LEDGER_PAYLOAD_SCHEMA_MARKERS
          then Rpc_PayloadSchemaViolation
        else if response_contains_marker C body ''ledger_chain_state_missing''
          then Rpc_ChainStateMissing
        else if response_contains_marker C body ''invalid_rpc_input'' then Rpc_InvalidRpcInput
        else Rpc_AppendFailed
    | _ \<Rightarrow> Rpc_AppendFailed)"


section \<open>Calls\<close>

text \<open>The service as seen through HTTP: each call answers with decoded rows or an error, and
  changes the state \<^typ>\<open>'s\<close> of the outside world.\<close>

record 's ledger_service =
  svc_append_rows :: "LedgerEntryRpcParams \<Rightarrow> ('s, SupabaseRpcError, AppendLedgerEntryResponse list) comp"
  svc_chain_state_rows :: "('s, SupabaseRpcError, LedgerChainStateResponse list) comp"

definition first_row :: "'a list \<Rightarrow> SupabaseRpcError + 'a" where
  "first_row rows = (case rows of [] \<Rightarrow> Inl EmptyResult | row # _ \<Rightarrow> Inr row)"

definition call_append_ledger_entry ::
    "crates \<Rightarrow> 's ledger_service \<Rightarrow> SignedLedgerEntry \<Rightarrow>
      ('s, SupabaseRpcError, AppendLedgerEntryOutcome) comp" where
  "call_append_ledger_entry C svc entry =
    sbind (svc_append_rows svc (from_signed_entry C entry)) (\<lambda>rows.
    slift (rbind (first_row rows) (AppendLedgerEntryOutcome_try_from C)))"

definition fetch_ledger_chain_head ::
    "crates \<Rightarrow> 's ledger_service \<Rightarrow> ('s, SupabaseRpcError, LedgerChainHead) comp" where
  "fetch_ledger_chain_head C svc =
    sbind (svc_chain_state_rows svc) (\<lambda>rows.
    slift (rbind (first_row rows) (LedgerChainHead_try_from C)))"

end
