(* ===== verification/Sample_Ledger.thy ===== *)
theory Sample_Ledger
  imports Ledger_Entry
begin

text \<open>
  A concrete ledger entry and the key that signs it, over the sample crates.  They are used only
  to apply the ledger properties to concrete data.
\<close>

definition sample_ledger_payload :: LedgerPayload where
  "sample_ledger_payload = \<lparr>lp_entry_type = Entry_KeyRotationStarted, lp_object =
    [(''new_key_version'', json_uint (2 :: u32)), (''old_key_version'', json_uint (1 :: u32))]\<rparr>"

definition sample_v4 :: uuid where
  "sample_v4 = sample_from_random_bytes (replicate 16 7)"

definition sample_append_draft :: LedgerAppendDraftParts where
  "sample_append_draft =
    \<lparr>le_ledger_entry_id = LedgerEntryId sample_v4, le_entry_type = Entry_KeyRotationStarted,
     le_source_event_at = SourceEventAt ''7Z'', le_request_id = RequestId 9,
     le_source_event_id = Some (AuditEventId 10), le_target_secret_id = Some (SecretId sample_v4),
     le_target_secret_version_id = None, le_actor_user_id = Some (OwnerUserId 11),
     le_actor_device_id = Some (DeviceId ''d''), le_result = LedgerSuccess,
     le_error_code = None, le_payload = sample_ledger_payload\<rparr>"

definition sample_signing_key :: LedgerSigningKey where
  "sample_signing_key = \<lparr>sk_key_version = LedgerSignatureKeyVersion 1,
    sk_signing_key = replicate 32 5\<rparr>"

definition sample_entry_draft :: LedgerEntryDraftParts where
  "sample_entry_draft = LedgerAppendDraftParts.extend sample_append_draft
    \<lparr>le_sequence_no = LedgerSequenceNo 1, le_previous_entry_hash = LedgerHash_genesis,
     le_signature_key_version = sk_key_version sample_signing_key\<rparr>"

definition sample_canonical :: LedgerCanonicalPayload where
  "sample_canonical = LedgerCanonicalPayload
    (str_bytes (jenc (CanonicalLedgerDocument sample_crates
      (canonical_fields sample_entry_draft))))"

definition sample_entry :: SignedLedgerEntry where
  "sample_entry = LedgerEntryDraftParts.extend sample_entry_draft
    \<lparr>le_entry_hash = LedgerHash_from_canonical_payload sample_crates sample_canonical,
     le_signature = LedgerSignature (sample_sign (sk_signing_key sample_signing_key)
       (LedgerCanonicalPayload_bytes sample_canonical)),
     le_canonical_payload = sample_canonical\<rparr>"

lemma sample_ledger_payload_wf: "LedgerPayload_wf sample_crates sample_ledger_payload"
proof -
  have "bt_wf [(''new_key_version'', x), (''old_key_version'', y)]" for x y :: json
    unfolding bt_wf_def list.map fst_conv by code_simp
  with sample_payload_ok show ?thesis
    by (simp add: LedgerPayload_wf_def sample_ledger_payload_def LedgerPayload_as_value_def
        sample_payload_def)
qed

lemma sample_entry_draft_wf: "LedgerEntry_wf sample_entry_draft"
  by (simp add: LedgerEntry_wf_def sample_entry_draft_def sample_append_draft_def
      LedgerAppendDraftParts.defs sample_ledger_payload_def validate_error_code_def
      validate_actor_device_id_def)

lemma sample_entry_sign:
  "LedgerEntryDraft_sign sample_crates sample_entry_draft sample_signing_key = Inr sample_entry"
proof -
  have "build_canonical_payload sample_crates (canonical_fields sample_entry_draft) =
      Inr sample_canonical"
    by (simp add: build_canonical_payload_def sample_canonical_def)
  moreover have "le_signature_key_version sample_entry_draft = sk_key_version sample_signing_key"
    by (simp add: sample_entry_draft_def LedgerAppendDraftParts.defs)
  ultimately show ?thesis
    by (simp add: LedgerEntryDraft_sign_Inr sample_entry_def sign_payload_def
        LedgerSignature_from_bytes_def LEDGER_SIGNATURE_LENGTH_def)
qed

lemma sample_v4: "sample_is_v4 sample_v4"
  by (simp add: sample_v4_def sample_from_random_bytes_v4)

lemma sample_entry_id: "le_ledger_entry_id sample_entry = LedgerEntryId sample_v4"
  by (simp add: sample_entry_def sample_entry_draft_def sample_append_draft_def
      LedgerAppendDraftParts.defs LedgerEntryDraftParts.defs)

lemma sample_entry_fields [simp]:
  "le_sequence_no sample_entry = LedgerSequenceNo 1"
  "le_previous_entry_hash sample_entry = LedgerHash_genesis"
  "le_signature_key_version sample_entry = LedgerSignatureKeyVersion 1"
  "le_payload sample_entry = sample_ledger_payload"
  by (simp_all add: sample_entry_def sample_entry_draft_def sample_append_draft_def
      LedgerAppendDraftParts.defs LedgerEntryDraftParts.defs sample_signing_key_def)

lemma sample_entry_digests:
  "le_entry_hash sample_entry = LedgerHash_from_canonical_payload sample_crates sample_canonical"
  "le_signature sample_entry = LedgerSignature
    (sample_sign (sk_signing_key sample_signing_key) (LedgerCanonicalPayload_bytes sample_canonical))"
  by (simp_all add: sample_entry_def)

lemma sample_entry_wf: "SignedLedgerEntry_wf sample_crates sample_entry"
  using sample_entry_sign sample_entry_draft_wf by (rule sign_wf)

lemma sample_entry_authentic:
  "recompute_entry_hash sample_crates sample_entry = le_entry_hash sample_entry"
  "verify_signature sample_crates sample_entry
    (verification_key sample_crates sample_signing_key) = Inr ()"
  using sign_hash_and_signature [OF sample_entry_sign] sample_ed25519_laws by simp_all

lemma sample_ledger_codec_laws: "ledger_codec_laws sample_crates"
  by (simp add: ledger_codec_laws_def sample_laws)

end
