(* ===== verification/Ledger_Export.thy ===== *)
theory Ledger_Export
  imports Supabase_Rpc Sample_Ledger
begin

text \<open>
  Reading the ledger back for verification, \<open>src/server/supabase/ledger_export_rpc.rs\<close>: the
  rows of the export call, their conversion to typed rows, and the restoration of signed
  entries and verification keys.  An \<open>i32\<close> column is a 32-bit word read with \<^const>\<open>sint\<close>; the
  cast \<open>as u32\<close> keeps the bits.
\<close>

record LedgerVerificationMaterialResponse =
  lr_ledger_entry_id :: string
  lr_sequence_no :: "64 word"
  lr_entry_hash :: "string option"
  lr_previous_entry_hash :: "string option"
  lr_signature :: "string option"
  lr_signature_key_version :: "32 word option"
  lr_entry_type :: "string option"
  lr_source_event_at :: "string option"
  lr_request_id :: "string option"
  lr_source_event_id :: "string option"
  lr_target_secret_id :: "string option"
  lr_target_secret_version_id :: "string option"
  lr_actor_user_id :: "string option"
  lr_actor_device_id :: "string option"
  lr_result :: "string option"
  lr_error_code :: "string option"
  lr_payload :: "json option"
  lr_canonicalization_version :: "32 word option"
  lr_hash_algorithm :: "string option"
  lr_signature_algorithm :: "string option"
  lr_pk_key_version :: "32 word option"
  lr_pk_public_key :: "string option"
  lr_pk_algorithm :: "string option"
  lr_pk_status :: "string option"
  lr_pk_created_at :: "string option"
  lr_pk_activated_at :: "string option"
  lr_pk_retired_at :: "string option"

record LedgerVerificationMaterialRow =
  row_ledger_entry_id :: LedgerEntryId
  row_sequence_no :: LedgerSequenceNo
  row_entry_hash :: LedgerHash
  row_previous_entry_hash :: LedgerHash
  row_signature :: LedgerSignature
  row_signature_key_version :: LedgerSignatureKeyVersion
  row_entry_type :: string
  row_source_event_at :: string
  row_request_id :: string
  row_source_event_id :: "string option"
  row_target_secret_id :: "string option"
  row_target_secret_version_id :: "string option"
  row_actor_user_id :: "string option"
  row_actor_device_id :: "string option"
  row_result :: string
  row_error_code :: "string option"
  row_payload :: json
  row_canonicalization_version :: "32 word"
  row_hash_algorithm :: string
  row_signature_algorithm :: string
  row_pk_key_version :: "32 word option"
  row_pk_public_key :: "string option"
  row_pk_algorithm :: "string option"
  row_pk_status :: "string option"

definition export_error :: "string \<Rightarrow> string \<Rightarrow> SupabaseRpcError" where
  "export_error kind field = InvalidResponse
    (''export ledger verification materials RPC returned '' @ kind @ '' '' @ field)"

definition export_required :: "string \<Rightarrow> 'a option \<Rightarrow> SupabaseRpcError + 'a" where
  "export_required field value = ok_or (export_error ''null'' field) value"

definition export_parsed :: "string \<Rightarrow> LedgerError + 'a \<Rightarrow> SupabaseRpcError + 'a" where
  "export_parsed field result = map_err (\<lambda>_. export_error ''invalid'' field) result"

definition LedgerVerificationMaterialRow_try_from ::
    "crates \<Rightarrow> LedgerVerificationMaterialResponse \<Rightarrow>
      SupabaseRpcError + LedgerVerificationMaterialRow" where
  "LedgerVerificationMaterialRow_try_from C response =
    rbind (export_parsed ''ledger_entry_id''
      (LedgerEntryId_parse C (lr_ledger_entry_id response))) (\<lambda>ledger_entry_id.
    rbind (export_parsed ''sequence_no''
      (LedgerSequenceNo_from_i64 (lr_sequence_no response))) (\<lambda>sequence_no.
    rbind (export_required ''entry_hash'' (lr_entry_hash response)) (\<lambda>entry_hash_raw.
    rbind (export_parsed ''entry_hash''
      (LedgerHash_from_bytea_hex C entry_hash_raw)) (\<lambda>entry_hash.
    rbind (export_required ''previous_entry_hash'' (lr_previous_entry_hash response))
      (\<lambda>previous_entry_hash_raw.
    rbind (export_parsed ''previous_entry_hash''
      (LedgerHash_from_bytea_hex C previous_entry_hash_raw)) (\<lambda>previous_entry_hash.
    rbind (export_required ''signature'' (lr_signature response)) (\<lambda>signature_raw.
    rbind (export_parsed ''signature''
      (LedgerSignature_from_bytea_hex C signature_raw)) (\<lambda>signature.
    rbind (export_required ''signature_key_version'' (lr_signature_key_version response))
      (\<lambda>signature_key_version_raw.
    rbind (export_parsed ''signature_key_version''
      (LedgerSignatureKeyVersion_new signature_key_version_raw)) (\<lambda>signature_key_version.
    rbind (export_required ''entry_type'' (lr_entry_type response)) (\<lambda>entry_type.
    rbind (export_required ''source_event_at'' (lr_source_event_at response)) (\<lambda>source_event_at.
    rbind (export_required ''request_id'' (lr_request_id response)) (\<lambda>request_id.
    rbind (export_required ''result'' (lr_result response)) (\<lambda>result.
    rbind (export_required ''payload'' (lr_payload response)) (\<lambda>payload.
    rbind (export_required ''canonicalization_version'' (lr_canonicalization_version response))
      (\<lambda>canonicalization_version.
    rbind (export_required ''hash_algorithm'' (lr_hash_algorithm response)) (\<lambda>hash_algorithm.
    rbind (export_required ''signature_algorithm'' (lr_signature_algorithm response))
      (\<lambda>signature_algorithm.
    rbind (reject_if (lr_pk_public_key response \<noteq> None \<and> lr_pk_key_version response = None)
      (export_error ''pk_public_key'' ''without pk_key_version'')) (\<lambda>_.
    Inr \<lparr>row_ledger_entry_id = ledger_entry_id, row_sequence_no = sequence_no,
      row_entry_hash = entry_hash, row_previous_entry_hash = previous_entry_hash,
      row_signature = signature, row_signature_key_version = signature_key_version,
      row_entry_type = entry_type, row_source_event_at = source_event_at,
      row_request_id = request_id, row_source_event_id = lr_source_event_id response,
      row_target_secret_id = lr_target_secret_id response,
      row_target_secret_version_id = lr_target_secret_version_id response,
      row_actor_user_id = lr_actor_user_id response,
      row_actor_device_id = lr_actor_device_id response,
      row_result = result, row_error_code = lr_error_code response, row_payload = payload,
      row_canonicalization_version = canonicalization_version,
      row_hash_algorithm = hash_algorithm, row_signature_algorithm = signature_algorithm,
      row_pk_key_version = lr_pk_key_version response,
      row_pk_public_key = lr_pk_public_key response,
      row_pk_algorithm = lr_pk_algorithm response, row_pk_status = lr_pk_status response\<rparr>
    )))))))))))))))))))"

definition decode_bytea_hex :: "crates \<Rightarrow> string \<Rightarrow> unit + bytes" where
  "decode_bytea_hex C value =
    rbind (ok_or () (str_strip_prefix value bytea_prefix)) (\<lambda>hex_value.
    ok_or () (hex_decode C hex_value))"

definition try_restore_verifying_key ::
    "crates \<Rightarrow> LedgerVerificationMaterialRow \<Rightarrow> LedgerError + LedgerVerifyingKey option" where
  "try_restore_verifying_key C row =
    (case row_pk_key_version row of None \<Rightarrow> Inr None | Some pk_key_version \<Rightarrow>
    (case row_pk_public_key row of None \<Rightarrow> Inr None | Some pk_public_key \<Rightarrow>
    rbind (ok_or InvalidVerificationKey (row_pk_algorithm row)) (\<lambda>pk_algorithm.
    rbind (ok_or InvalidVerificationKey (row_pk_status row)) (\<lambda>pk_status.
    rbind (reject_if (pk_algorithm \<noteq> ''ed25519'') InvalidVerificationKey) (\<lambda>_.
    rbind (reject_if (pk_status \<noteq> ''created'' \<and> pk_status \<noteq> ''active'' \<and> pk_status \<noteq> ''retired'')
      InvalidVerificationKey) (\<lambda>_.
    rbind (LedgerSignatureKeyVersion_new pk_key_version) (\<lambda>key_version.
    if key_version \<noteq> row_signature_key_version row
    then Inl (SignatureKeyVersionMismatch
      (LedgerSignatureKeyVersion_get (row_signature_key_version row))
      (LedgerSignatureKeyVersion_get key_version))
    else
      rbind (map_err (\<lambda>_. InvalidVerificationKey) (decode_bytea_hex C pk_public_key))
        (\<lambda>public_key_bytes.
      map_ok Some (LedgerVerifyingKey_from_public_key_bytes C key_version public_key_bytes)))))))))"

text \<open>\<open>Option::map\<close> of a fallible parser followed by \<open>transpose\<close>.\<close>

definition parse_optional :: "('a \<Rightarrow> 'e + 'b) \<Rightarrow> 'e' \<Rightarrow> 'a option \<Rightarrow> 'e' + 'b option" where
  "parse_optional parse e value =
    (case value of None \<Rightarrow> Inr None | Some raw \<Rightarrow> map_err (\<lambda>_. e) (map_ok Some (parse raw)))"

definition try_restore_signed_ledger_entry ::
    "crates \<Rightarrow> LedgerVerificationMaterialRow \<Rightarrow> LedgerError + SignedLedgerEntry" where
  "try_restore_signed_ledger_entry C row =
    rbind (map_err (\<lambda>_. UnknownEntryType (row_entry_type row))
      (LedgerEntryType_parse (row_entry_type row))) (\<lambda>entry_type.
    rbind (map_err (\<lambda>_. Ledger_SerializationFailed ''invalid source_event_at'')
      (SourceEventAt_parse C (row_source_event_at row))) (\<lambda>source_event_at.
    rbind (map_err (\<lambda>_. Ledger_InvalidUuid ''request_id'')
      (RequestId_parse C (row_request_id row))) (\<lambda>request_id.
    rbind (parse_optional (AuditEventId_parse C) (Ledger_InvalidUuid ''source_event_id'')
      (row_source_event_id row)) (\<lambda>source_event_id.
    rbind (parse_optional (SecretId_parse C) (Ledger_InvalidUuid ''target_secret_id'')
      (row_target_secret_id row)) (\<lambda>target_secret_id.
    rbind (parse_optional (LedgerTargetSecretVersionId_parse C)
      (Ledger_InvalidUuid ''target_secret_version_id'')
      (row_target_secret_version_id row)) (\<lambda>target_secret_version_id.
    rbind (parse_optional (OwnerUserId_parse C) (Ledger_InvalidUuid ''actor_user_id'')
      (row_actor_user_id row)) (\<lambda>actor_user_id.
    rbind (parse_optional DeviceId_new InvalidActorDeviceId
      (row_actor_device_id row)) (\<lambda>actor_device_id.
    rbind (LedgerResult_parse (row_result row)) (\<lambda>result.
    rbind (LedgerPayload_new C entry_type (row_payload row)) (\<lambda>payload.
    from_stored_parts C
      \<lparr>le_ledger_entry_id = row_ledger_entry_id row, le_entry_type = entry_type,
       le_source_event_at = source_event_at, le_request_id = request_id,
       le_source_event_id = source_event_id, le_target_secret_id = target_secret_id,
       le_target_secret_version_id = target_secret_version_id,
       le_actor_user_id = actor_user_id, le_actor_device_id = actor_device_id,
       le_result = result, le_error_code = row_error_code row, le_payload = payload,
       le_sequence_no = row_sequence_no row,
       le_previous_entry_hash = row_previous_entry_hash row,
       le_signature_key_version = row_signature_key_version row,
       le_entry_hash = row_entry_hash row, le_signature = row_signature row\<rparr>))))))))))"

datatype ExportLedgerError = Export_InvalidRpcInput | Export_ExportFailed

fun ExportLedgerError_as_error_code :: "ExportLedgerError \<Rightarrow> string" where
  "ExportLedgerError_as_error_code Export_InvalidRpcInput = ''ledger_export_invalid_rpc_input''"
| "ExportLedgerError_as_error_code Export_ExportFailed = ''ledger_export_failed''"

definition classify_export_ledger_error :: "crates \<Rightarrow> SupabaseRpcError \<Rightarrow> ExportLedgerError" where
  "classify_export_ledger_error C error =
    (case error of
      NonSuccessStatus _ body \<Rightarrow>
        if response_contains_marker C body ''invalid_rpc_input'' then Export_InvalidRpcInput
        else Export_ExportFailed
    | _ \<Rightarrow> Export_ExportFailed)"



section \<open>Stored entries read back\<close>

text \<open>A row of the table of registered signing keys, and the export row for an entry written
  with the given parameters, joined with the row of its signature key.\<close>

record signing_public_key_row =
  spk_key_version :: "32 word"
  spk_public_key :: bytes
  spk_algorithm :: string
  spk_status :: string
  spk_created_at :: string
  spk_activated_at :: "string option"
  spk_retired_at :: "string option"

definition stored_response ::
    "crates \<Rightarrow> LedgerEntryRpcParams \<Rightarrow> signing_public_key_row option \<Rightarrow>
      LedgerVerificationMaterialResponse" where
  "stored_response C p pk =
    \<lparr>lr_ledger_entry_id = p_ledger_entry_id p, lr_sequence_no = p_sequence_no p,
     lr_entry_hash = Some (p_entry_hash p),
     lr_previous_entry_hash = Some (p_previous_entry_hash p),
     lr_signature = Some (p_signature p),
     lr_signature_key_version = Some (p_signature_key_version p),
     lr_entry_type = Some (p_entry_type p), lr_source_event_at = Some (p_source_event_at p),
     lr_request_id = Some (p_request_id p), lr_source_event_id = p_source_event_id p,
     lr_target_secret_id = p_target_secret_id p,
     lr_target_secret_version_id = p_target_secret_version_id p,
     lr_actor_user_id = p_actor_user_id p, lr_actor_device_id = p_actor_device_id p,
     lr_result = Some (p_result p), lr_error_code = p_error_code p,
     lr_payload = Some (p_payload p),
     lr_canonicalization_version = Some (ucast (p_canonicalization_version p)),
     lr_hash_algorithm = Some (p_hash_algorithm p),
     lr_signature_algorithm = Some (p_signature_algorithm p),
     lr_pk_key_version = map_option spk_key_version pk,
     lr_pk_public_key = map_option (\<lambda>r. bytea_prefix @ hex_encode C (spk_public_key r)) pk,
     lr_pk_algorithm = map_option spk_algorithm pk, lr_pk_status = map_option spk_status pk,
     lr_pk_created_at = map_option spk_created_at pk,
     lr_pk_activated_at = Option.bind pk spk_activated_at,
     lr_pk_retired_at = Option.bind pk spk_retired_at\<rparr>"

definition stored_material_row ::
    "crates \<Rightarrow> SignedLedgerEntry \<Rightarrow> signing_public_key_row option \<Rightarrow> LedgerVerificationMaterialRow"
  where
  "stored_material_row C e pk =
    \<lparr>row_ledger_entry_id = le_ledger_entry_id e, row_sequence_no = le_sequence_no e,
     row_entry_hash = le_entry_hash e, row_previous_entry_hash = le_previous_entry_hash e,
     row_signature = le_signature e, row_signature_key_version = le_signature_key_version e,
     row_entry_type = LedgerEntryType_as_str (le_entry_type e),
     row_source_event_at = SourceEventAt_str (le_source_event_at e),
     row_request_id = RequestId_as_canonical_string C (le_request_id e),
     row_source_event_id = map_option (AuditEventId_as_canonical_string C) (le_source_event_id e),
     row_target_secret_id = map_option (SecretId_as_canonical_string C) (le_target_secret_id e),
     row_target_secret_version_id =
       map_option (LedgerTargetSecretVersionId_as_canonical_string C)
         (le_target_secret_version_id e),
     row_actor_user_id = map_option (OwnerUserId_as_canonical_string C) (le_actor_user_id e),
     row_actor_device_id = map_option DeviceId_str (le_actor_device_id e),
     row_result = LedgerResult_as_str (le_result e), row_error_code = le_error_code e,
     row_payload = LedgerPayload_as_value (le_payload e),
     row_canonicalization_version = ucast LEDGER_CANONICALIZATION_VERSION_V1,
     row_hash_algorithm = LEDGER_HASH_ALGORITHM_SHA256,
     row_signature_algorithm = LEDGER_SIGNATURE_ALGORITHM_ED25519,
     row_pk_key_version = map_option spk_key_version pk,
     row_pk_public_key = map_option (\<lambda>r. bytea_prefix @ hex_encode C (spk_public_key r)) pk,
     row_pk_algorithm = map_option spk_algorithm pk,
     row_pk_status = map_option spk_status pk\<rparr>"

text \<open>The invariants of the newtypes in an entry, which their constructors establish.\<close>

definition entry_fields_wf :: "crates \<Rightarrow> 'a LedgerAppendDraftParts_scheme \<Rightarrow> bool" where
  "entry_fields_wf C e \<longleftrightarrow>
    uuid_is_v4 C (LedgerEntryId_uuid (le_ledger_entry_id e)) \<and>
    SourceEventAt_parse C (SourceEventAt_str (le_source_event_at e)) = Inr (le_source_event_at e) \<and>
    (\<forall>i. le_target_secret_id e = Some i \<longrightarrow> uuid_is_v4 C (SecretId_uuid i)) \<and>
    (\<forall>d. le_actor_device_id e = Some d \<longrightarrow> str_trim (DeviceId_str d) \<noteq> []) \<and>
    LedgerPayload_wf C (le_payload e)"

definition signed_fields_wf :: "SignedLedgerEntry \<Rightarrow> bool" where
  "signed_fields_wf e \<longleftrightarrow>
    LedgerSequenceNo_wf (le_sequence_no e) \<and>
    LedgerSignatureKeyVersion_get (le_signature_key_version e) \<noteq> 0 \<and>
    length (LedgerHash_bytes (le_previous_entry_hash e)) = LEDGER_HASH_LENGTH \<and>
    length (LedgerHash_bytes (le_entry_hash e)) = LEDGER_HASH_LENGTH \<and>
    length (LedgerSignature_bytes (le_signature e)) = LEDGER_SIGNATURE_LENGTH"

lemma parse_optional_map:
  assumes "\<And>x. v = Some x \<Longrightarrow> parse (show x) = Inr x"
  shows "parse_optional parse e (map_option show v) = Inr v"
  using assms by (auto simp: parse_optional_def split: option.splits)

lemma LedgerSequenceNo_from_i64_wf:
  "LedgerSequenceNo_wf n \<Longrightarrow> LedgerSequenceNo_from_i64 (LedgerSequenceNo_get n) = Inr n"
  using sint_nonneg_of_small [of "LedgerSequenceNo_get n"]
  by (cases n) (simp add: LedgerSequenceNo_from_i64_def LedgerSequenceNo_new_Inr
      LedgerSequenceNo_wf_unat)

lemma ledger_uuid_roundtrips:
  assumes "uuid_laws C"
  shows "uuid_is_v4 C (LedgerEntryId_uuid i) \<Longrightarrow>
      LedgerEntryId_parse C (LedgerEntryId_as_canonical_string C i) = Inr i"
    and "LedgerTargetSecretVersionId_parse C
      (LedgerTargetSecretVersionId_as_canonical_string C t) = Inr t"
  using assms
  by (simp_all add: uuid_laws_def LedgerEntryId_parse_def LedgerEntryId_as_canonical_string_def
      ledger_parse_uuid_def require_uuid_v4_def LedgerTargetSecretVersionId_parse_def
      LedgerTargetSecretVersionId_as_canonical_string_def)

lemma stored_row:
  assumes "uuid_laws C" "hex_laws C" "signed_fields_wf e"
    and "uuid_is_v4 C (LedgerEntryId_uuid (le_ledger_entry_id e))"
  shows "LedgerVerificationMaterialRow_try_from C
      (stored_response C (from_signed_entry C e) pk) = Inr (stored_material_row C e pk)"
proof -
  have hashes: "LedgerHash_from_bytea_hex C (LedgerHash_to_bytea_hex C (le_entry_hash e)) =
      Inr (le_entry_hash e)"
    "LedgerHash_from_bytea_hex C (LedgerHash_to_bytea_hex C (le_previous_entry_hash e)) =
      Inr (le_previous_entry_hash e)"
    "LedgerSignature_from_bytea_hex C (LedgerSignature_to_bytea_hex C (le_signature e)) =
      Inr (le_signature e)"
    using assms(2,3)
    by (simp_all add: signed_fields_wf_def LedgerHash_bytea_roundtrip
        LedgerSignature_bytea_roundtrip)
  have version: "LedgerSignatureKeyVersion_new
      (LedgerSignatureKeyVersion_get (le_signature_key_version e)) =
      Inr (le_signature_key_version e)"
    using assms(3) by (cases "le_signature_key_version e")
      (simp add: signed_fields_wf_def LedgerSignatureKeyVersion_new_def)
  have seq: "LedgerSequenceNo_from_i64 (LedgerSequenceNo_get (le_sequence_no e)) =
      Inr (le_sequence_no e)"
    using assms(3) by (simp add: signed_fields_wf_def LedgerSequenceNo_from_i64_wf)
  show ?thesis
    by (cases pk) (simp_all add: LedgerVerificationMaterialRow_try_from_def stored_response_def
        stored_material_row_def from_signed_entry_def export_parsed_def export_required_def seq hashes version
        ledger_uuid_roundtrips(1) [OF assms(1,4)] reject_if_def del: rbind_eq_Inr)
qed

lemma from_stored_parts_of_entry:
  assumes "SignedLedgerEntry_wf C e"
  shows "from_stored_parts C
    \<lparr>le_ledger_entry_id = le_ledger_entry_id e, le_entry_type = le_entry_type e,
     le_source_event_at = le_source_event_at e, le_request_id = le_request_id e,
     le_source_event_id = le_source_event_id e, le_target_secret_id = le_target_secret_id e,
     le_target_secret_version_id = le_target_secret_version_id e,
     le_actor_user_id = le_actor_user_id e, le_actor_device_id = le_actor_device_id e,
     le_result = le_result e, le_error_code = le_error_code e, le_payload = le_payload e,
     le_sequence_no = le_sequence_no e, le_previous_entry_hash = le_previous_entry_hash e,
     le_signature_key_version = le_signature_key_version e,
     le_entry_hash = le_entry_hash e, le_signature = le_signature e\<rparr> = Inr e"
  using assms
  by (cases e) (simp add: SignedLedgerEntry_wf_def LedgerEntry_wf_def from_stored_parts_def
      canonical_fields_def SignedLedgerEntryParts.defs del: rbind_eq_Inr)

lemma restore_stored_row:
  assumes "uuid_laws C" "SignedLedgerEntry_wf C e" "entry_fields_wf C e"
  shows "try_restore_signed_ledger_entry C (stored_material_row C e pk) = Inr e"
proof -
  have v4: "uuid_is_v4 C (LedgerEntryId_uuid (le_ledger_entry_id e))"
    using assms(3) by (simp add: entry_fields_wf_def)
  have opts: "parse_optional (AuditEventId_parse C) x
      (map_option (AuditEventId_as_canonical_string C) (le_source_event_id e)) =
        Inr (le_source_event_id e)"
    "parse_optional (SecretId_parse C) x
      (map_option (SecretId_as_canonical_string C) (le_target_secret_id e)) =
        Inr (le_target_secret_id e)"
    "parse_optional (LedgerTargetSecretVersionId_parse C) x
      (map_option (LedgerTargetSecretVersionId_as_canonical_string C)
        (le_target_secret_version_id e)) = Inr (le_target_secret_version_id e)"
    "parse_optional (OwnerUserId_parse C) x
      (map_option (OwnerUserId_as_canonical_string C) (le_actor_user_id e)) =
        Inr (le_actor_user_id e)"
    "parse_optional DeviceId_new x (map_option DeviceId_str (le_actor_device_id e)) =
        Inr (le_actor_device_id e)" for x
    using assms(3) uuid_id_roundtrips [OF assms(1)] audit_id_roundtrips [OF assms(1)]
      ledger_uuid_roundtrips [OF assms(1)]
    by (auto intro!: parse_optional_map simp: entry_fields_wf_def DeviceId_new_def)
  have payload: "LedgerPayload_new C (le_entry_type e) (LedgerPayload_as_value (le_payload e)) =
      Inr (le_payload e)"
    using assms(2,3)
    by (simp add: entry_fields_wf_def LedgerPayload_wf_def SignedLedgerEntry_wf_def
        LedgerEntry_wf_def)
  have source: "SourceEventAt_parse C (SourceEventAt_str (le_source_event_at e)) =
      Inr (le_source_event_at e)"
    using assms(3) by (simp add: entry_fields_wf_def)
  show ?thesis
    by (simp add: stored_material_row_def try_restore_signed_ledger_entry_def
        entry_type.parse_print ledger_result.parse_print source opts
        audit_id_roundtrips(2) [OF assms(1)] payload from_stored_parts_of_entry [OF assms(2)]
        del: rbind_eq_Inr)
qed

text \<open>
  C14 --- An entry written to the ledger reads back as itself: converting the export row of the
  parameters that were sent and restoring the entry returns the signed entry, canonical bytes
  included, for every entry whose fields satisfy the invariants of their types and whichever
  registered key the row is joined with.
\<close>

theorem stored_entry_restores:
  assumes "uuid_laws C" "hex_laws C"
    and "SignedLedgerEntry_wf C e" "entry_fields_wf C e" "signed_fields_wf e"
  shows "rbind (map_err (\<lambda>_. ()) (LedgerVerificationMaterialRow_try_from C
      (stored_response C (from_signed_entry C e) pk))) (\<lambda>row.
    map_err (\<lambda>_. ()) (try_restore_signed_ledger_entry C row)) = Inr e"
  using assms restore_stored_row [OF assms(1,3,4)] stored_row [OF assms(1,2,5)]
  by (simp add: entry_fields_wf_def)

lemma sample_entry_stored_wf:
  "entry_fields_wf sample_crates sample_entry" "signed_fields_wf sample_entry"
proof -
  have parse: "SourceEventAt_parse sample_crates ''7Z'' = Inr (SourceEventAt ''7Z'')"
    by (simp add: SourceEventAt_parse_def sample_rfc3339_parse_def str_ends_with_def)
  have trim: "str_trim ''d'' = ''d''"
    by (rule str_trim_all_plain) (simp add: plain_char_def)
  from parse show "entry_fields_wf sample_crates sample_entry"
    using trim sample_v4 sample_ledger_payload_wf
    by (simp add: entry_fields_wf_def sample_entry_def sample_entry_draft_def
        sample_append_draft_def LedgerAppendDraftParts.defs LedgerEntryDraftParts.defs)
  show "signed_fields_wf sample_entry"
    by (simp add: signed_fields_wf_def LedgerSequenceNo_wf_def LedgerHash_genesis_def
        LEDGER_HASH_LENGTH_def LEDGER_SIGNATURE_LENGTH_def sample_entry_digests
        LedgerHash_from_canonical_payload_def sample_sha256_def LEDGER_I64_MAX_U64_def)
qed

theorem stored_entry_restores_witness:
  "rbind (map_err (\<lambda>_. ()) (LedgerVerificationMaterialRow_try_from sample_crates
      (stored_response sample_crates (from_signed_entry sample_crates sample_entry) None))) (\<lambda>row.
    map_err (\<lambda>_. ()) (try_restore_signed_ledger_entry sample_crates row)) = Inr sample_entry"
  by (rule stored_entry_restores [OF sample_uuid_laws sample_hex_laws sample_entry_wf
        sample_entry_stored_wf])

end
