(* ===== verification/Ledger_Digest.thy ===== *)
theory Ledger_Digest
  imports Ledger_Export
begin

text \<open>
  Monthly digests of the ledger: periods, the canonical form and its hash
  (\<open>src/ledger/digest.rs\<close>), and the rows exchanged with the database
  (\<open>src/server/supabase/digest_rpc.rs\<close>, \<open>verify_digest_rpc.rs\<close>).
\<close>


section \<open>Periods and the canonical form\<close>

definition DIGEST_SCHEMA_VERSION_V1 :: u32 where "DIGEST_SCHEMA_VERSION_V1 = 1"
definition DIGEST_GENERATED_BY :: string where "DIGEST_GENERATED_BY = ''mipsorcu-sbc''"

datatype MonthlyDigestPeriod = MonthlyDigestPeriod (MonthlyDigestPeriod_str: string)

definition validate_year_month_format :: "string \<Rightarrow> LedgerError + unit" where
  "validate_year_month_format value =
    (if length value \<noteq> 7 \<or> value ! 4 \<noteq> CHR ''-'' then Inl InvalidMonthlyDigestPeriod
     else if \<not> list_all is_ascii_digit (take 4 value) then Inl InvalidMonthlyDigestPeriod
     else if \<not> list_all is_ascii_digit (drop 5 value) then Inl InvalidMonthlyDigestPeriod
     else let month = dec_value (drop 5 value) in
       if month = 0 \<or> month > 12 then Inl InvalidMonthlyDigestPeriod else Inr ())"

definition MonthlyDigestPeriod_parse :: "string \<Rightarrow> LedgerError + MonthlyDigestPeriod" where
  "MonthlyDigestPeriod_parse value =
    rbind (validate_year_month_format value) (\<lambda>_. Inr (MonthlyDigestPeriod value))"

datatype DigestCanonicalBytes = DigestCanonicalBytes (DigestCanonicalBytes_bytes: bytes)
datatype DigestHash = DigestHash (DigestHash_bytes: bytes)

definition DigestHash_from_canonical_bytes :: "crates \<Rightarrow> DigestCanonicalBytes \<Rightarrow> DigestHash" where
  "DigestHash_from_canonical_bytes C b = DigestHash (sha256 C (DigestCanonicalBytes_bytes b))"

definition DigestHash_to_hex :: "crates \<Rightarrow> DigestHash \<Rightarrow> string" where
  "DigestHash_to_hex C h = hex_encode C (DigestHash_bytes h)"

text \<open>The fields that the caller decides, and the digest with hash and signature.\<close>

record digest_fields =
  dg_period :: MonthlyDigestPeriod
  dg_start_sequence_no :: LedgerSequenceNo
  dg_end_sequence_no :: LedgerSequenceNo
  dg_start_entry_hash :: LedgerHash
  dg_end_entry_hash :: LedgerHash
  dg_entry_count :: u64
  dg_digest_generated_at :: SourceEventAt
  dg_signature_key_version :: LedgerSignatureKeyVersion

record SignedMonthlyDigest = digest_fields +
  dg_canonical_bytes :: DigestCanonicalBytes
  dg_digest_hash :: DigestHash
  dg_sbc_signature :: LedgerSignature

definition DigestCanonicalDocument :: "crates \<Rightarrow> 'a digest_fields_scheme \<Rightarrow> json" where
  "DigestCanonicalDocument C d = JObject
    [(''digest_generated_at'', JString (SourceEventAt_str (dg_digest_generated_at d))),
     (''digest_schema_version'', json_uint DIGEST_SCHEMA_VERSION_V1),
     (''end_entry_hash'', JString (LedgerHash_to_hex C (dg_end_entry_hash d))),
     (''end_sequence_no'', json_uint (LedgerSequenceNo_get (dg_end_sequence_no d))),
     (''entry_count'', json_uint (dg_entry_count d)),
     (''generated_by'', JString DIGEST_GENERATED_BY),
     (''hash_algorithm'', JString LEDGER_HASH_ALGORITHM_SHA256),
     (''signature_algorithm'', JString LEDGER_SIGNATURE_ALGORITHM_ED25519),
     (''signature_key_version'',
       json_uint (LedgerSignatureKeyVersion_get (dg_signature_key_version d))),
     (''start_entry_hash'', JString (LedgerHash_to_hex C (dg_start_entry_hash d))),
     (''start_sequence_no'', json_uint (LedgerSequenceNo_get (dg_start_sequence_no d))),
     (''target_year_month'', JString (MonthlyDigestPeriod_str (dg_period d)))]"

definition build_monthly_digest_canonical_form ::
    "crates \<Rightarrow> 'a digest_fields_scheme \<Rightarrow> LedgerError + DigestCanonicalBytes" where
  "build_monthly_digest_canonical_form C d =
    rbind (map_err Ledger_SerializationFailed (json_to_string C (DigestCanonicalDocument C d)))
      (\<lambda>text. Inr (DigestCanonicalBytes (str_bytes text)))"


section \<open>Rows\<close>

record LedgerRangeResponse =
  rr_start_sequence_no :: "64 word"
  rr_end_sequence_no :: "64 word"
  rr_start_entry_hash :: string
  rr_end_entry_hash :: string
  rr_entry_count :: "64 word"

record LedgerRangeForMonth =
  range_start_sequence_no :: LedgerSequenceNo
  range_end_sequence_no :: LedgerSequenceNo
  range_start_entry_hash :: LedgerHash
  range_end_entry_hash :: LedgerHash
  range_entry_count :: u64

definition range_invalid :: "string \<Rightarrow> SupabaseRpcError" where
  "range_invalid what = InvalidResponse (''ledger range RPC returned '' @ what)"

definition LedgerRangeForMonth_try_from ::
    "crates \<Rightarrow> LedgerRangeResponse \<Rightarrow> SupabaseRpcError + LedgerRangeForMonth" where
  "LedgerRangeForMonth_try_from C response =
    rbind (map_err (\<lambda>_. range_invalid ''invalid start_sequence_no'')
      (LedgerSequenceNo_from_i64 (rr_start_sequence_no response))) (\<lambda>start_sequence_no.
    rbind (map_err (\<lambda>_. range_invalid ''invalid end_sequence_no'')
      (LedgerSequenceNo_from_i64 (rr_end_sequence_no response))) (\<lambda>end_sequence_no.
    rbind (map_err (\<lambda>_. range_invalid ''invalid start_entry_hash'')
      (LedgerHash_from_bytea_hex C (rr_start_entry_hash response))) (\<lambda>start_entry_hash.
    rbind (map_err (\<lambda>_. range_invalid ''invalid end_entry_hash'')
      (LedgerHash_from_bytea_hex C (rr_end_entry_hash response))) (\<lambda>end_entry_hash.
    rbind (reject_if (sint (rr_entry_count response) < 0)
      (range_invalid ''negative entry_count'')) (\<lambda>_.
    let entry_count = rr_entry_count response in
    if entry_count = 0
    then Inl (range_invalid ''entry_count=0 but a row was present'')
    else Inr \<lparr>range_start_sequence_no = start_sequence_no,
      range_end_sequence_no = end_sequence_no, range_start_entry_hash = start_entry_hash,
      range_end_entry_hash = end_entry_hash, range_entry_count = entry_count\<rparr>)))))"

record DigestForVerificationResponse =
  dv_start_sequence_no :: "64 word"
  dv_end_sequence_no :: "64 word"
  dv_stored_entry_count :: "64 word"
  dv_stored_digest_hash :: string
  dv_target_year_month :: string
  dv_digest_generated_at :: string
  dv_signature :: string
  dv_signature_key_version :: "32 word"
  dv_public_key :: "string option"
  dv_start_entry_hash :: string
  dv_end_entry_hash :: string

record MonthlyDigestVerificationMaterials =
  vm_start_sequence_no :: LedgerSequenceNo
  vm_end_sequence_no :: LedgerSequenceNo
  vm_stored_entry_count :: u64
  vm_stored_digest_hash :: string
  vm_target_year_month :: MonthlyDigestPeriod
  vm_digest_generated_at :: SourceEventAt
  vm_signature :: LedgerSignature
  vm_signature_key_version :: LedgerSignatureKeyVersion
  vm_public_key :: "LedgerVerifyingKey option"
  vm_start_entry_hash :: LedgerHash
  vm_end_entry_hash :: LedgerHash

definition verification_invalid :: "string \<Rightarrow> SupabaseRpcError" where
  "verification_invalid what = InvalidResponse (''digest verification RPC returned '' @ what)"

definition decode_public_key_bytes ::
    "crates \<Rightarrow> string \<Rightarrow> LedgerSignatureKeyVersion \<Rightarrow> SupabaseRpcError + LedgerVerifyingKey" where
  "decode_public_key_bytes C text key_version =
    rbind (rbind (ok_or (verification_invalid (''public_key without '' @ bytea_prefix @ '' prefix''))
        (str_strip_prefix text bytea_prefix)) (\<lambda>h.
      ok_or (verification_invalid ''invalid public_key hex'') (hex_decode C h))) (\<lambda>raw.
    map_err (\<lambda>_. verification_invalid ''invalid Ed25519 public_key'')
      (LedgerVerifyingKey_from_public_key_bytes C key_version raw))"

definition MonthlyDigestVerificationMaterials_try_from ::
    "crates \<Rightarrow> DigestForVerificationResponse \<Rightarrow>
      SupabaseRpcError + MonthlyDigestVerificationMaterials" where
  "MonthlyDigestVerificationMaterials_try_from C r =
    rbind (map_err (\<lambda>_. verification_invalid ''invalid start_sequence_no'')
      (LedgerSequenceNo_from_i64 (dv_start_sequence_no r))) (\<lambda>start_sequence_no.
    rbind (map_err (\<lambda>_. verification_invalid ''invalid end_sequence_no'')
      (LedgerSequenceNo_from_i64 (dv_end_sequence_no r))) (\<lambda>end_sequence_no.
    rbind (reject_if (sint (dv_stored_entry_count r) < 0)
      (verification_invalid ''negative stored_entry_count'')) (\<lambda>_.
    rbind (reject_if (dv_stored_entry_count r = 0)
      (verification_invalid ''stored_entry_count=0'')) (\<lambda>_.
    rbind (map_err (\<lambda>_. verification_invalid ''invalid target_year_month'')
      (MonthlyDigestPeriod_parse (dv_target_year_month r))) (\<lambda>target_year_month.
    rbind (map_err (\<lambda>_. verification_invalid ''invalid digest_generated_at'')
      (SourceEventAt_parse C (dv_digest_generated_at r))) (\<lambda>digest_generated_at.
    rbind (map_err (\<lambda>_. verification_invalid ''invalid signature'')
      (LedgerSignature_from_bytea_hex C (dv_signature r))) (\<lambda>signature.
    rbind (map_err (\<lambda>_. verification_invalid ''invalid signature_key_version'')
      (LedgerSignatureKeyVersion_new (dv_signature_key_version r))) (\<lambda>signature_key_version.
    rbind (case dv_public_key r of
        None \<Rightarrow> Inr None
      | Some text \<Rightarrow> map_ok Some (decode_public_key_bytes C text signature_key_version))
      (\<lambda>public_key.
    rbind (map_err (\<lambda>_. verification_invalid ''invalid start_entry_hash'')
      (LedgerHash_from_bytea_hex C (dv_start_entry_hash r))) (\<lambda>start_entry_hash.
    rbind (map_err (\<lambda>_. verification_invalid ''invalid end_entry_hash'')
      (LedgerHash_from_bytea_hex C (dv_end_entry_hash r))) (\<lambda>end_entry_hash.
    Inr \<lparr>vm_start_sequence_no = start_sequence_no, vm_end_sequence_no = end_sequence_no,
      vm_stored_entry_count = dv_stored_entry_count r,
      vm_stored_digest_hash = dv_stored_digest_hash r,
      vm_target_year_month = target_year_month, vm_digest_generated_at = digest_generated_at,
      vm_signature = signature, vm_signature_key_version = signature_key_version,
      vm_public_key = public_key, vm_start_entry_hash = start_entry_hash,
      vm_end_entry_hash = end_entry_hash\<rparr>)))))))))))"


section \<open>Failures\<close>

datatype DigestRpcError = DigestRpc_InvalidRpcInput | DigestRpc_DuplicateDigest | DigestRpc_FetchFailed

fun DigestRpcError_as_error_code :: "DigestRpcError \<Rightarrow> string" where
  "DigestRpcError_as_error_code DigestRpc_InvalidRpcInput = ''monthly_digest_invalid_rpc_input''"
| "DigestRpcError_as_error_code DigestRpc_DuplicateDigest = ''monthly_digest_already_exists''"
| "DigestRpcError_as_error_code DigestRpc_FetchFailed = ''monthly_digest_fetch_failed''"

definition classify_digest_rpc_error :: "crates \<Rightarrow> SupabaseRpcError \<Rightarrow> DigestRpcError" where
  "classify_digest_rpc_error C error =
    (case error of
      NonSuccessStatus _ body \<Rightarrow>
        if response_contains_marker C body ''monthly_digest_already_exists''
        then DigestRpc_DuplicateDigest
        else if response_contains_marker C body ''invalid_rpc_input'' \<or>
          response_contains_marker C body ''invalid_year_month_format''
        then DigestRpc_InvalidRpcInput
        else DigestRpc_FetchFailed
    | _ \<Rightarrow> DigestRpc_FetchFailed)"

datatype VerifyDigestRpcError = VerifyDigestRpc_InvalidRpcInput | VerifyDigestRpc_FetchFailed

fun VerifyDigestRpcError_as_error_code :: "VerifyDigestRpcError \<Rightarrow> string" where
  "VerifyDigestRpcError_as_error_code VerifyDigestRpc_InvalidRpcInput =
    ''monthly_digest_verify_invalid_rpc_input''"
| "VerifyDigestRpcError_as_error_code VerifyDigestRpc_FetchFailed =
    ''monthly_digest_verify_fetch_failed''"

definition classify_verify_digest_rpc_error :: "crates \<Rightarrow> SupabaseRpcError \<Rightarrow> VerifyDigestRpcError"
  where
  "classify_verify_digest_rpc_error C error =
    (case error of
      NonSuccessStatus _ body \<Rightarrow>
        if response_contains_marker C body ''invalid_rpc_input'' then VerifyDigestRpc_InvalidRpcInput
        else VerifyDigestRpc_FetchFailed
    | _ \<Rightarrow> VerifyDigestRpc_FetchFailed)"

end
