(* ===== verification/Ledger_Verify.thy ===== *)
theory Ledger_Verify
  imports Sample_Ledger
begin

text \<open>
  Verification of the hash chain, \<open>src/ledger/verification.rs\<close>: what an accepted chain
  satisfies, and that its last hash pins down the content of every entry before it.
\<close>


section \<open>Verification\<close>

definition find_verification_key_with_seq ::
    "LedgerVerifyingKey list \<Rightarrow> LedgerSignatureKeyVersion \<Rightarrow> u64 \<Rightarrow>
      LedgerError + LedgerVerifyingKey" where
  "find_verification_key_with_seq verification_keys key_version sequence_no =
    ok_or (UnknownSignatureKey (LedgerSignatureKeyVersion_get key_version) sequence_no)
      (find (\<lambda>key. vk_key_version key = key_version) verification_keys)"

fun verify_chain_loop ::
    "crates \<Rightarrow> LedgerVerifyingKey list \<Rightarrow> u64 \<Rightarrow> LedgerHash \<Rightarrow> SignedLedgerEntry list \<Rightarrow>
      LedgerError + LedgerChainHead" where
  "verify_chain_loop C keys previous_sequence_no previous_hash [] =
    LedgerChainHead_new previous_sequence_no previous_hash"
| "verify_chain_loop C keys previous_sequence_no previous_hash (entry # entries) =
    rbind (ok_or SequenceOverflow (checked_add previous_sequence_no 1)) (\<lambda>expected_sequence_no.
    let actual_sequence_no = LedgerSequenceNo_get (le_sequence_no entry) in
    rbind (reject_if (actual_sequence_no \<noteq> expected_sequence_no)
      (SequenceGap expected_sequence_no actual_sequence_no)) (\<lambda>_.
    rbind (reject_if (le_previous_entry_hash entry \<noteq> previous_hash)
      (PreviousHashMismatch actual_sequence_no)) (\<lambda>_.
    rbind (reject_if (recompute_entry_hash C entry \<noteq> le_entry_hash entry)
      (HashMismatch actual_sequence_no)) (\<lambda>_.
    rbind (find_verification_key_with_seq keys (le_signature_key_version entry)
      actual_sequence_no) (\<lambda>verification_key.
    rbind (map_err (\<lambda>_. SignatureInvalid actual_sequence_no)
      (verify_signature C entry verification_key)) (\<lambda>_.
    verify_chain_loop C keys actual_sequence_no (le_entry_hash entry) entries))))))"

definition verify_ledger_chain ::
    "crates \<Rightarrow> SignedLedgerEntry list \<Rightarrow> LedgerChainHead \<Rightarrow> LedgerVerifyingKey list \<Rightarrow>
      LedgerError + LedgerChainHead" where
  "verify_ledger_chain C entries initial_head verification_keys =
    verify_chain_loop C verification_keys (head_last_sequence_no initial_head)
      (head_last_entry_hash initial_head) entries"


section \<open>Specification\<close>

text \<open>One entry on its own: its hash is that of its canonical bytes, and the key registered
  for its key version accepts its signature.\<close>

definition entry_authentic ::
    "crates \<Rightarrow> LedgerVerifyingKey list \<Rightarrow> SignedLedgerEntry \<Rightarrow> bool" where
  "entry_authentic C keys e \<longleftrightarrow>
    le_entry_hash e = recompute_entry_hash C e \<and>
    (\<exists>key. find (\<lambda>k. vk_key_version k = le_signature_key_version e) keys = Some key \<and>
      ed25519_verify C (vk_verifying_key key)
        (LedgerCanonicalPayload_bytes (le_canonical_payload e))
        (LedgerSignature_bytes (le_signature e)))"

text \<open>The hash an entry at a position must link to.\<close>

definition hash_before :: "LedgerHash \<Rightarrow> SignedLedgerEntry list \<Rightarrow> nat \<Rightarrow> LedgerHash" where
  "hash_before h es i = (if i = 0 then h else le_entry_hash (es ! (i - 1)))"

definition chain_valid ::
    "crates \<Rightarrow> LedgerVerifyingKey list \<Rightarrow> nat \<Rightarrow> LedgerHash \<Rightarrow> SignedLedgerEntry list \<Rightarrow> bool" where
  "chain_valid C keys n h es \<longleftrightarrow>
    n + length es < 2 ^ 63 \<and>
    (\<forall>i < length es.
      unat (LedgerSequenceNo_get (le_sequence_no (es ! i))) = n + i + 1 \<and>
      le_previous_entry_hash (es ! i) = hash_before h es i \<and>
      entry_authentic C keys (es ! i))"

definition chain_end :: "nat \<Rightarrow> LedgerHash \<Rightarrow> SignedLedgerEntry list \<Rightarrow> LedgerChainHead" where
  "chain_end n h es =
    \<lparr>head_last_sequence_no = of_nat (n + length es),
     head_last_entry_hash = hash_before h es (length es)\<rparr>"

lemma chain_valid_Nil: "chain_valid C keys n h [] \<longleftrightarrow> n < 2 ^ 63"
  by (simp add: chain_valid_def)

lemma hash_before_Cons: "hash_before h (e # es) (Suc i) = hash_before (le_entry_hash e) es i"
  by (cases i) (simp_all add: hash_before_def)

lemma all_less_Suc_length:
  "(\<forall>i < Suc m. P i) \<longleftrightarrow> P 0 \<and> (\<forall>i < m. P (Suc i))"
  using less_Suc_eq_0_disj by auto

lemma chain_valid_Cons:
  "chain_valid C keys n h (e # es) \<longleftrightarrow>
    unat (LedgerSequenceNo_get (le_sequence_no e)) = n + 1 \<and> le_previous_entry_hash e = h \<and>
    entry_authentic C keys e \<and> chain_valid C keys (n + 1) (le_entry_hash e) es"
  by (auto simp: chain_valid_def all_less_Suc_length hash_before_Cons)
    (simp_all add: hash_before_def)

lemma chain_end_Cons:
  "chain_end n h (e # es) = chain_end (n + 1) (le_entry_hash e) es"
  by (simp add: chain_end_def hash_before_Cons)

lemma verify_signature_Inr:
  "vk_key_version key = le_signature_key_version e \<Longrightarrow>
    verify_signature C e key = Inr () \<longleftrightarrow>
      ed25519_verify C (vk_verifying_key key)
        (LedgerCanonicalPayload_bytes (le_canonical_payload e))
        (LedgerSignature_bytes (le_signature e))"
  by (simp add: verify_signature_def verify_payload_def)

lemma entry_authentic_iff:
  "entry_authentic C keys e \<longleftrightarrow>
    recompute_entry_hash C e = le_entry_hash e \<and>
    (\<exists>key. find_verification_key_with_seq keys (le_signature_key_version e) s = Inr key \<and>
      verify_signature C e key = Inr ())"
proof -
  have "vk_key_version key = le_signature_key_version e"
    if "find (\<lambda>k. vk_key_version k = le_signature_key_version e) keys = Some key" for key
    using find_SomeD [OF that] by simp
  then show ?thesis
    unfolding entry_authentic_def find_verification_key_with_seq_def
    by (auto simp: verify_signature_Inr)
qed

lemma chain_valid_bound: "chain_valid C keys n h es \<Longrightarrow> n + length es < 2 ^ 63"
  by (simp add: chain_valid_def)

lemma LedgerChainHead_new_Inr:
  "LedgerChainHead_new n h = Inr head \<longleftrightarrow> unat n < 2 ^ 63 \<and> head = chain_end (unat n) h []"
  by (auto simp: LedgerChainHead_new_def LEDGER_I64_MAX_U64_def word_less_nat_alt chain_end_def
      hash_before_def)

lemma verify_chain_loop_iff:
  "verify_chain_loop C keys n h es = Inr head \<longleftrightarrow>
    chain_valid C keys (unat n) h es \<and> head = chain_end (unat n) h es"
proof (induction es arbitrary: n h)
  case Nil
  then show ?case by (simp add: LedgerChainHead_new_Inr chain_valid_Nil)
next
  case (Cons e es)
  let ?s = "LedgerSequenceNo_get (le_sequence_no e)"
  have step: "(\<exists>m. checked_add n 1 = Some m \<and> ?s = m) \<longleftrightarrow> unat ?s = unat n + 1"
  proof -
    have "unat ?s < 2 ^ 64" using unsigned_less [of ?s] by simp
    then show ?thesis
      by (auto simp: checked_add_eq_Some word_unat_eq_iff unat_word_ariths(1))
  qed
  have "verify_chain_loop C keys n h (e # es) = Inr head \<longleftrightarrow>
      (\<exists>m. checked_add n 1 = Some m \<and> ?s = m) \<and> le_previous_entry_hash e = h \<and>
      entry_authentic C keys e \<and> verify_chain_loop C keys ?s (le_entry_hash e) es = Inr head"
    by (auto simp: Let_def entry_authentic_iff [of C keys e ?s])
  also have "\<dots> \<longleftrightarrow> chain_valid C keys (unat n) h (e # es) \<and> head = chain_end (unat n) h (e # es)"
    unfolding step Cons.IH by (auto simp: chain_valid_Cons chain_end_Cons)
  finally show ?case .
qed

text \<open>
  C1 --- Verification accepts a chain exactly when it should: the sequence numbers continue the
  initial head without gap and stay below 2^63, every entry links to the hash of the entry
  before it (the first one to the head), carries the SHA-256 of its own canonical bytes, and
  has a signature that the key registered for its key version accepts.  The head returned is
  the position and hash of the last entry.
\<close>

theorem verify_ledger_chain_correct:
  "verify_ledger_chain C entries initial_head keys = Inr final_head \<longleftrightarrow>
    chain_valid C keys (unat (head_last_sequence_no initial_head))
      (head_last_entry_hash initial_head) entries \<and>
    final_head = chain_end (unat (head_last_sequence_no initial_head))
      (head_last_entry_hash initial_head) entries"
  unfolding verify_ledger_chain_def by (rule verify_chain_loop_iff)


section \<open>Tamper evidence\<close>

text \<open>What makes a hash chain tamper-evident: equal digests mean equal content, and the
  content of an element includes the digest it links to.\<close>

locale linked_chain =
  fixes good :: "'e \<Rightarrow> bool"
    and digest :: "'e \<Rightarrow> 'h"
    and prev :: "'e \<Rightarrow> 'h"
    and content :: "'e \<Rightarrow> 'c"
  assumes digest_content:
      "good e \<Longrightarrow> good e' \<Longrightarrow> digest e = digest e' \<Longrightarrow> content e = content e'"
    and content_prev: "content e = content e' \<Longrightarrow> prev e = prev e'"
begin

lemma contents_unique:
  assumes "length es = length fs"
    and "\<forall>e \<in> set es. good e" "\<forall>f \<in> set fs. good f"
    and "\<And>i. i < length es \<Longrightarrow> prev (es ! i) = (if i = 0 then h else digest (es ! (i - 1)))"
    and "\<And>i. i < length fs \<Longrightarrow> prev (fs ! i) = (if i = 0 then h' else digest (fs ! (i - 1)))"
    and "es \<noteq> [] \<Longrightarrow> digest (last es) = digest (last fs)"
  shows "map content es = map content fs"
  using assms
proof (induction es fs rule: rev_induct2)
  case (4 e es f fs)
  have len: "length es = length fs" using 4(2) by simp
  have ef: "content e = content f" using 4(3,4,7) digest_content by simp
  have link: "prev (es ! i) = (if i = 0 then h else digest (es ! (i - 1)))"
    if "i < length es" for i
    using 4(5) [of i] that by (auto simp: nth_append)
  have link': "prev (fs ! i) = (if i = 0 then h' else digest (fs ! (i - 1)))"
    if "i < length fs" for i
    using 4(6) [of i] that by (auto simp: nth_append)
  have "digest (last es) = digest (last fs)" if "es \<noteq> []"
    using 4(5) [of "length es"] 4(6) [of "length fs"] content_prev [OF ef] that len
    by (simp add: nth_append last_conv_nth split: if_splits)
  with 4(1) 4(3,4) len link link' have "map content es = map content fs" by simp
  with ef show ?case by simp
qed simp_all

end


text \<open>Entries whose canonical bytes lie in a set on which SHA-256 has no collision.\<close>

definition pinned_entry :: "crates \<Rightarrow> bytes set \<Rightarrow> SignedLedgerEntry \<Rightarrow> bool" where
  "pinned_entry C S e \<longleftrightarrow>
    ledger_codec_laws C \<and> inj_on (sha256 C) S \<and>
    LedgerCanonicalPayload_bytes (le_canonical_payload e) \<in> S \<and>
    SignedLedgerEntry_wf C e \<and> LedgerPayload_wf C (le_payload e)"

lemma pinned_entry_content:
  assumes "pinned_entry C S e" "pinned_entry C S f"
    and "recompute_entry_hash C e = recompute_entry_hash C f"
  shows "canonical_fields e = canonical_fields f"
proof -
  have bytes: "LedgerCanonicalPayload_bytes (le_canonical_payload e) =
      LedgerCanonicalPayload_bytes (le_canonical_payload f)"
    using assms inj_onD [of "sha256 C" S]
    by (simp add: pinned_entry_def recompute_entry_hash_def LedgerHash_from_canonical_payload_def)
  then have "le_canonical_payload e = le_canonical_payload f"
    by (rule LedgerCanonicalPayload.expand)
  with assms(1,2) show ?thesis
    by (intro build_canonical_payload_inj [of C _ "le_canonical_payload f"])
      (auto simp: pinned_entry_def SignedLedgerEntry_wf_def LedgerEntry_wf_def
        intro: LedgerPayload_wf_entries)
qed

interpretation ledger_chain: linked_chain "pinned_entry C S" "recompute_entry_hash C"
    le_previous_entry_hash "canonical_fields :: SignedLedgerEntry \<Rightarrow> CanonicalBuildFields"
proof unfold_locales
  show "canonical_fields e = canonical_fields e'"
    if "pinned_entry C S e" "pinned_entry C S e'"
      "recompute_entry_hash C e = recompute_entry_hash C e'" for e e'
    using that by (rule pinned_entry_content)
  show "le_previous_entry_hash e = le_previous_entry_hash e'"
    if "canonical_fields e = canonical_fields e'" for e e' :: SignedLedgerEntry
    using that by (metis canonical_fields_simps(2))
qed

lemma chain_valid_links:
  assumes "chain_valid C keys n h es" "i < length es"
  shows "le_previous_entry_hash (es ! i) =
    (if i = 0 then h else recompute_entry_hash C (es ! (i - 1)))"
  using assms by (auto simp: chain_valid_def hash_before_def entry_authentic_def)

lemma chain_end_digest:
  assumes "chain_valid C keys n h es" "es \<noteq> []"
  shows "head_last_entry_hash (chain_end n h es) = recompute_entry_hash C (last es)"
  using assms
  by (auto simp: chain_valid_def chain_end_def hash_before_def entry_authentic_def last_conv_nth)

lemma chain_end_length:
  assumes "chain_valid C keys n h es" "chain_valid C keys' n h' fs"
    and "head_last_sequence_no (chain_end n h es) = head_last_sequence_no (chain_end n h' fs)"
  shows "length es = length fs"
proof -
  have "unat (of_nat (n + length xs) :: u64) = n + length xs" if "n + length xs < 2 ^ 63"
    for xs :: "SignedLedgerEntry list"
    using that by (simp add: unat_of_nat del: of_nat_add)
  from this [OF chain_valid_bound [OF assms(1)]] this [OF chain_valid_bound [OF assms(2)]]
  show ?thesis using arg_cong [OF assms(3), of unat] by (simp add: chain_end_def del: of_nat_add)
qed

text \<open>
  C2 --- A verified head pins down the history: if two lists of well-formed entries both
  verify from heads with the same sequence number, whatever the keys, and yield the same head, then they
  agree entry by entry on every field that the canonical document covers (sequence number, type,
  time, request, target, actor, result, error code, payload, previous hash and key version).
  The hypotheses are that the serialisation crates behave as documented and that SHA-256 has
  no collision among the canonical bytes at hand.
\<close>

theorem verified_head_pins_history:
  assumes "verify_ledger_chain C es h keys = Inr final_head"
    and "verify_ledger_chain C fs h' keys' = Inr final_head"
    and "head_last_sequence_no h = head_last_sequence_no h'"
    and "\<forall>e \<in> set es \<union> set fs. SignedLedgerEntry_wf C e \<and> LedgerPayload_wf C (le_payload e)"
    and "ledger_codec_laws C"
    and "inj_on (sha256 C)
      ((\<lambda>e. LedgerCanonicalPayload_bytes (le_canonical_payload e)) ` (set es \<union> set fs))"
  shows "map canonical_fields es = map canonical_fields fs"
proof -
  let ?n = "unat (head_last_sequence_no h)" and ?g = "head_last_entry_hash h"
    and ?g' = "head_last_entry_hash h'"
  let ?S = "(\<lambda>e. LedgerCanonicalPayload_bytes (le_canonical_payload e)) ` (set es \<union> set fs)"
  from assms(1-3) have es: "chain_valid C keys ?n ?g es"
    and fs: "chain_valid C keys' ?n ?g' fs"
    and ends: "chain_end ?n ?g es = chain_end ?n ?g' fs"
    by (auto simp: verify_ledger_chain_def verify_chain_loop_iff)
  have len: "length es = length fs" using chain_end_length [OF es fs] ends by simp
  have pin: "\<forall>e \<in> set es. pinned_entry C ?S e" "\<forall>e \<in> set fs. pinned_entry C ?S e"
    using assms(4-6) by (simp_all add: pinned_entry_def)
  have "recompute_entry_hash C (last es) = recompute_entry_hash C (last fs)" if "es \<noteq> []"
  proof -
    from that len have "fs \<noteq> []" by auto
    with that chain_end_digest [OF es] chain_end_digest [OF fs] ends show ?thesis by simp
  qed
  with len pin chain_valid_links [OF es] chain_valid_links [OF fs] show ?thesis
    by (intro ledger_chain.contents_unique) simp_all
qed

text \<open>Two copies of the sample entry that differ in the identifier, which the canonical
  document does not cover.\<close>

definition sample_twin :: SignedLedgerEntry where
  "sample_twin = sample_entry\<lparr>le_ledger_entry_id := LedgerEntryId 0\<rparr>"

lemma sample_twin_simps [simp]:
  "canonical_fields sample_twin = canonical_fields sample_entry"
  "le_payload sample_twin = sample_ledger_payload"
  "le_entry_hash sample_twin = le_entry_hash sample_entry"
  "le_canonical_payload sample_twin = le_canonical_payload sample_entry"
  "le_sequence_no sample_twin = LedgerSequenceNo 1"
  "le_previous_entry_hash sample_twin = LedgerHash_genesis"
  "entry_authentic C keys sample_twin = entry_authentic C keys sample_entry"
  "SignedLedgerEntry_wf C sample_twin = SignedLedgerEntry_wf C sample_entry"
  by (simp_all add: sample_twin_def canonical_fields_def entry_authentic_def
      recompute_entry_hash_def SignedLedgerEntry_wf_def LedgerEntry_wf_def)

lemma sample_entry_verifies:
  assumes "e \<in> {sample_entry, sample_twin}"
  shows "verify_ledger_chain sample_crates [e] LedgerChainHead_genesis
    (verification_key sample_crates sample_signing_key # keys) =
    Inr \<lparr>head_last_sequence_no = 1, head_last_entry_hash = le_entry_hash sample_entry\<rparr>"
proof -
  have "find_verification_key_with_seq (verification_key sample_crates sample_signing_key # keys)
      (LedgerSignatureKeyVersion 1) n = Inr (verification_key sample_crates sample_signing_key)"
    for n
    by (simp add: find_verification_key_with_seq_def verification_key_def sample_signing_key_def)
  then have "entry_authentic sample_crates
      (verification_key sample_crates sample_signing_key # keys) sample_entry"
    by (simp add: entry_authentic_iff [where s = 0] sample_entry_authentic)
  with assms show ?thesis
    by (auto simp: verify_ledger_chain_def verify_chain_loop_iff LedgerChainHead_genesis_def
        chain_valid_Cons chain_valid_Nil chain_end_def hash_before_def
        simp del: verify_chain_loop.simps)
qed

theorem verified_head_pins_history_witness:
  "sample_entry \<noteq> sample_twin \<and> map canonical_fields [sample_entry] = map canonical_fields [sample_twin]"
proof
  have "\<not> sample_is_v4 0" by (simp add: sample_is_v4_def)
  then have "LedgerEntryId_uuid (le_ledger_entry_id sample_entry) \<noteq> 0"
    using sample_v4 by (auto simp: sample_entry_id)
  moreover have "LedgerEntryId_uuid (le_ledger_entry_id sample_twin) = 0"
    by (simp add: sample_twin_def)
  ultimately show "sample_entry \<noteq> sample_twin" by auto
  show "map canonical_fields [sample_entry] = map canonical_fields [sample_twin]"
    by (rule verified_head_pins_history [OF sample_entry_verifies [of sample_entry "[]"]
          sample_entry_verifies [of sample_twin]])
      (simp_all add: sample_entry_wf sample_ledger_payload_wf sample_ledger_codec_laws)
qed

end
