(* ===== verification/Ledger_Appender.thy ===== *)
theory Ledger_Appender
  imports Supabase_Rpc Ledger_Verify
begin

text \<open>
  Appending to the ledger, \<open>src/server/ledger_appender.rs\<close>: signing drafts from a chain head
  and the optimistic append that fetches the head again when another writer got there first.
\<close>


section \<open>Configuration and drafts\<close>

definition DEFAULT_MAX_CONFLICT_RETRIES :: u8 where "DEFAULT_MAX_CONFLICT_RETRIES = 1"
definition MAX_CONFLICT_RETRIES :: u8 where "MAX_CONFLICT_RETRIES = 3"

datatype LedgerAppenderConfig = LedgerAppenderConfig (max_conflict_retries: u8)

definition LedgerAppenderConfig_new :: "u8 \<Rightarrow> LedgerAppenderConfig" where
  "LedgerAppenderConfig_new n = LedgerAppenderConfig (min n MAX_CONFLICT_RETRIES)"

definition LedgerAppenderConfig_default :: LedgerAppenderConfig where
  "LedgerAppenderConfig_default = LedgerAppenderConfig DEFAULT_MAX_CONFLICT_RETRIES"

type_synonym LedgerAppendDraft = LedgerAppendDraftParts

definition LedgerAppendDraft_new :: "LedgerAppendDraftParts \<Rightarrow> LedgerError + LedgerAppendDraft" where
  "LedgerAppendDraft_new parts =
    (if lp_entry_type (le_payload parts) \<noteq> le_entry_type parts
     then Inl (UnknownPayloadKey ''payload.entry_type'' (le_entry_type parts))
     else Inr parts)"

definition sign_with_sequence ::
    "crates \<Rightarrow> LedgerAppendDraft \<Rightarrow> LedgerSequenceNo \<Rightarrow> LedgerHash \<Rightarrow> LedgerSigningKey \<Rightarrow>
      LedgerError + SignedLedgerEntry" where
  "sign_with_sequence C d sequence_no previous_entry_hash signing_key =
    rbind (LedgerEntryDraft_new (LedgerAppendDraftParts.extend d
      \<lparr>le_sequence_no = sequence_no, le_previous_entry_hash = previous_entry_hash,
       le_signature_key_version = sk_key_version signing_key\<rparr>)) (\<lambda>draft.
    LedgerEntryDraft_sign C draft signing_key)"

definition sign_with_chain_head ::
    "crates \<Rightarrow> LedgerAppendDraft \<Rightarrow> LedgerChainHead \<Rightarrow> LedgerSigningKey \<Rightarrow>
      LedgerError + SignedLedgerEntry" where
  "sign_with_chain_head C d chain_head signing_key =
    rbind (next_sequence_no chain_head) (\<lambda>n.
    sign_with_sequence C d n (head_last_entry_hash chain_head) signing_key)"


section \<open>Errors\<close>

datatype LedgerAppendError =
    Append_Conflict LedgerAppendRpcFailure u32
  | Append_InvalidEntry string
  | Append_ExternalDependencyFailed string "u16 option" u32

fun LedgerAppendError_as_error_code :: "LedgerAppendError \<Rightarrow> string" where
  "LedgerAppendError_as_error_code (Append_Conflict failure _) =
    LedgerAppendRpcFailure_as_error_code failure"
| "LedgerAppendError_as_error_code (Append_InvalidEntry code) = code"
| "LedgerAppendError_as_error_code (Append_ExternalDependencyFailed code _ _) = code"

fun LedgerAppendError_attempts :: "LedgerAppendError \<Rightarrow> u32 option" where
  "LedgerAppendError_attempts (Append_Conflict _ attempts) = Some attempts"
| "LedgerAppendError_attempts (Append_InvalidEntry _) = None"
| "LedgerAppendError_attempts (Append_ExternalDependencyFailed _ _ attempts) = Some attempts"

fun LedgerAppendError_upstream_status :: "LedgerAppendError \<Rightarrow> u16 option" where
  "LedgerAppendError_upstream_status (Append_ExternalDependencyFailed _ status _) = status"
| "LedgerAppendError_upstream_status _ = None"

fun LedgerAppendError_display :: "LedgerAppendError \<Rightarrow> string" where
  "LedgerAppendError_display (Append_Conflict failure attempts) =
    ''ledger append conflict after '' @ dec_digits (unat attempts) @ '' attempt(s): '' @
    LedgerAppendRpcFailure_as_error_code failure"
| "LedgerAppendError_display (Append_InvalidEntry code) =
    ''ledger append invalid entry: '' @ code"
| "LedgerAppendError_display (Append_ExternalDependencyFailed code status attempts) =
    ''ledger append external dependency failed after '' @ dec_digits (unat attempts) @
    '' attempt(s): '' @ code @
    (case status of Some s \<Rightarrow> '', upstream status '' @ dec_digits (unat s) | None \<Rightarrow> [])"

definition is_retryable_conflict :: "LedgerAppendRpcFailure \<Rightarrow> bool" where
  "is_retryable_conflict failure \<longleftrightarrow>
    failure = Rpc_SequenceMismatch \<or> failure = Rpc_PreviousHashMismatch"

fun classify_appender_error ::
    "LedgerAppendRpcFailure \<Rightarrow> SupabaseRpcError \<Rightarrow> u32 \<Rightarrow> LedgerAppendError" where
  "classify_appender_error failure upstream attempts =
    (if failure \<in> {Rpc_EntryIdConflict, Rpc_EntryHashConflict, Rpc_SequenceMismatch,
        Rpc_PreviousHashMismatch}
     then Append_Conflict failure attempts
     else if failure \<in> {Rpc_PayloadSchemaViolation, Rpc_InvalidRpcInput}
     then Append_InvalidEntry (LedgerAppendRpcFailure_as_error_code failure)
     else Append_ExternalDependencyFailed (LedgerAppendRpcFailure_as_error_code failure)
       (upstream_status upstream) attempts)"


section \<open>Operations\<close>

record 's LedgerAppender =
  la_client :: "'s ledger_service"
  la_signing_key :: LedgerSigningKey
  la_config :: LedgerAppenderConfig

definition sign_digest_bytes ::
    "crates \<Rightarrow> 's LedgerAppender \<Rightarrow> bytes \<Rightarrow> LedgerError + LedgerSignature" where
  "sign_digest_bytes C a b =
    sign_raw_bytes C (la_signing_key a) (sk_key_version (la_signing_key a)) b"

definition fetch_chain_head ::
    "crates \<Rightarrow> 's LedgerAppender \<Rightarrow> u32 \<Rightarrow> ('s, LedgerAppendError, LedgerChainHead) comp" where
  "fetch_chain_head C a attempts =
    smap_err (\<lambda>error. Append_ExternalDependencyFailed ''ledger_chain_head_fetch_failed''
      (upstream_status error) attempts) (fetch_ledger_chain_head C (la_client a))"

fun append_loop ::
    "crates \<Rightarrow> 's LedgerAppender \<Rightarrow> LedgerAppendDraft \<Rightarrow> nat \<Rightarrow> nat list \<Rightarrow>
      ('s, LedgerAppendError, AppendLedgerEntryOutcome) comp" where
  "append_loop C a draft retries [] s =
    (Inl (Append_ExternalDependencyFailed ''ledger_append_retry_exhausted'' None
      (of_nat retries + 1)), s)"
| "append_loop C a draft retries (retry_index # rest) s =
    (let attempts = of_nat retry_index + 1 in
     sbind (fetch_chain_head C a attempts) (\<lambda>chain_head.
     sbind (slift (map_err (\<lambda>_. Append_InvalidEntry ''ledger_entry_build_failed'')
       (sign_with_chain_head C draft chain_head (la_signing_key a)))) (\<lambda>signed_entry s1.
     case call_append_ledger_entry C (la_client a) signed_entry s1 of
       (Inr outcome, s2) \<Rightarrow> (Inr outcome, s2)
     | (Inl error, s2) \<Rightarrow>
         let failure = classify_append_ledger_error C error in
         if is_retryable_conflict failure \<and> retry_index < retries
         then append_loop C a draft retries rest s2
         else (Inl (classify_appender_error failure error attempts), s2))) s)"

definition ledger_append ::
    "crates \<Rightarrow> 's LedgerAppender \<Rightarrow> LedgerAppendDraft \<Rightarrow>
      ('s, LedgerAppendError, AppendLedgerEntryOutcome) comp" where
  "ledger_append C a draft =
    (let retries = unat (max_conflict_retries (la_config a)) in
     append_loop C a draft retries [0..<Suc retries])"

fun sign_entries_loop ::
    "crates \<Rightarrow> LedgerSigningKey \<Rightarrow> u64 \<Rightarrow> LedgerHash \<Rightarrow> LedgerAppendDraft list \<Rightarrow>
      LedgerAppendError + SignedLedgerEntry list" where
  "sign_entries_loop C key previous_sequence_no previous_hash [] = Inr []"
| "sign_entries_loop C key previous_sequence_no previous_hash (draft # drafts) =
    rbind (ok_or (Append_InvalidEntry ''ledger_sequence_overflow'')
      (checked_add previous_sequence_no 1)) (\<lambda>n.
    rbind (map_err (\<lambda>_. Append_InvalidEntry ''ledger_entry_build_failed'')
      (LedgerSequenceNo_new n)) (\<lambda>sequence_no.
    rbind (map_err (\<lambda>_. Append_InvalidEntry ''ledger_entry_build_failed'')
      (sign_with_sequence C draft sequence_no previous_hash key)) (\<lambda>signed_entry.
    rbind (sign_entries_loop C key (LedgerSequenceNo_get (le_sequence_no signed_entry))
      (le_entry_hash signed_entry) drafts) (\<lambda>signed_entries.
    Inr (signed_entry # signed_entries)))))"

definition sign_entries_from_head ::
    "crates \<Rightarrow> 's LedgerAppender \<Rightarrow> LedgerAppendDraft list \<Rightarrow> LedgerChainHead \<Rightarrow>
      LedgerAppendError + SignedLedgerEntry list" where
  "sign_entries_from_head C a drafts chain_head =
    sign_entries_loop C (la_signing_key a) (head_last_sequence_no chain_head)
      (head_last_entry_hash chain_head) drafts"

definition sign_entries ::
    "crates \<Rightarrow> 's LedgerAppender \<Rightarrow> LedgerAppendDraft list \<Rightarrow>
      ('s, LedgerAppendError, SignedLedgerEntry list) comp" where
  "sign_entries C a drafts =
    sbind (fetch_chain_head C a 1) (\<lambda>chain_head.
    slift (sign_entries_from_head C a drafts chain_head))"



section \<open>Signed entries form a chain\<close>

definition key_registered :: "crates \<Rightarrow> LedgerSigningKey \<Rightarrow> LedgerVerifyingKey list \<Rightarrow> bool" where
  "key_registered C key keys \<longleftrightarrow>
    find (\<lambda>k. vk_key_version k = sk_key_version key) keys = Some (verification_key C key)"

lemma sign_with_sequence_Inr:
  assumes "sign_with_sequence C d n h key = Inr e"
  shows "le_sequence_no e = n" "le_previous_entry_hash e = h"
    "le_signature_key_version e = sk_key_version key"
    "le_ledger_entry_id e = le_ledger_entry_id d" "le_payload e = le_payload d"
    "SignedLedgerEntry_wf C e" "recompute_entry_hash C e = le_entry_hash e"
    "ed25519_laws C \<Longrightarrow> verify_signature C e (verification_key C key) = Inr ()"
proof -
  let ?d = "LedgerAppendDraftParts.extend d
      \<lparr>le_sequence_no = n, le_previous_entry_hash = h,
       le_signature_key_version = sk_key_version key\<rparr>"
  from assms have wf: "LedgerEntry_wf ?d" and sign: "LedgerEntryDraft_sign C ?d key = Inr e"
    by (auto simp: sign_with_sequence_def LedgerEntryDraft_new_Inr)
  from sign show "le_sequence_no e = n" "le_previous_entry_hash e = h"
    "le_signature_key_version e = sk_key_version key"
    "le_ledger_entry_id e = le_ledger_entry_id d" "le_payload e = le_payload d"
    by (auto simp: LedgerEntryDraft_sign_Inr LedgerEntryDraftParts.defs
        LedgerAppendDraftParts.defs)
  show "SignedLedgerEntry_wf C e" using sign wf by (rule sign_wf)
  show "recompute_entry_hash C e = le_entry_hash e"
    "ed25519_laws C \<Longrightarrow> verify_signature C e (verification_key C key) = Inr ()"
    using sign_hash_and_signature [OF sign] by simp_all
qed

lemma sign_with_sequence_authentic:
  assumes "sign_with_sequence C d n h key = Inr e" "ed25519_laws C" "key_registered C key keys"
  shows "entry_authentic C keys e"
  using sign_with_sequence_Inr [OF assms(1)] assms(2,3)
  by (auto simp: entry_authentic_iff [of C keys e 0] find_verification_key_with_seq_def
      key_registered_def)

lemma sign_entries_loop_valid:
  assumes "ed25519_laws C" "key_registered C key keys"
    and "sign_entries_loop C key n h drafts = Inr es" "unat n < 2 ^ 63"
  shows "chain_valid C keys (unat n) h es \<and> list_all (SignedLedgerEntry_wf C) es \<and>
    map le_ledger_entry_id es = map le_ledger_entry_id drafts"
  using assms(3,4)
proof (induction drafts arbitrary: n h es)
  case Nil
  then show ?case by (simp add: chain_valid_Nil)
next
  case (Cons d drafts)
  from Cons.prems obtain m e fs where m: "checked_add n 1 = Some m"
    and wf: "LedgerSequenceNo_wf (LedgerSequenceNo m)"
    and e: "sign_with_sequence C d (LedgerSequenceNo m) h key = Inr e"
    and fs: "sign_entries_loop C key (LedgerSequenceNo_get (le_sequence_no e))
      (le_entry_hash e) drafts = Inr fs" and es: "es = e # fs"
    by (auto simp: LedgerSequenceNo_new_Inr)
  note facts = sign_with_sequence_Inr [OF e]
  have seq: "unat (LedgerSequenceNo_get (le_sequence_no e)) = unat n + 1"
    using unat_checked_add [OF m] facts(1) by simp
  moreover have "unat (LedgerSequenceNo_get (le_sequence_no e)) < 2 ^ 63"
    using wf facts(1) by (simp add: LedgerSequenceNo_wf_unat)
  ultimately show ?case
    using Cons.IH [OF fs] facts sign_with_sequence_authentic [OF e assms(1,2)]
    by (simp add: es chain_valid_Cons)
qed

text \<open>
  C13 --- A batch of entries signed from a chain head verifies: the entries, in order and one
  per draft, continue the head, and verification with a key list in which the signer's public
  key is registered under its version accepts them and returns the head after the last one.
\<close>

theorem signed_batch_verifies:
  assumes "ed25519_laws C" and "key_registered C (la_signing_key a) keys"
    and "LedgerChainHead_new n h = Inr chain_head"
    and "sign_entries_from_head C a drafts chain_head = Inr entries"
  shows "verify_ledger_chain C entries chain_head keys =
      Inr (chain_end (unat n) h entries) \<and>
    map le_ledger_entry_id entries = map le_ledger_entry_id drafts"
proof -
  from assms(3) have head: "unat n < 2 ^ 63" "chain_head = chain_end (unat n) h []"
    by (simp_all add: LedgerChainHead_new_Inr)
  then have sel: "head_last_sequence_no chain_head = n" "head_last_entry_hash chain_head = h"
    by (simp_all add: chain_end_def hash_before_def)
  from assms(4) have "sign_entries_loop C (la_signing_key a) n h drafts = Inr entries"
    by (simp add: sign_entries_from_head_def sel)
  from sign_entries_loop_valid [OF assms(1,2) this head(1)] show ?thesis
    unfolding verify_ledger_chain_def sel by (simp add: verify_chain_loop_iff)
qed


section \<open>The append loop\<close>

lemma fetch_chain_head_error:
  assumes "fetch_chain_head C a k s = (Inl e, t)"
  shows "\<exists>status. e = Append_ExternalDependencyFailed ''ledger_chain_head_fetch_failed'' status k"
  using assms by (auto simp: fetch_chain_head_def smap_err_def map_err_eq_Inl split: prod.splits)

lemma classify_appender_error_attempts:
  "LedgerAppendError_attempts (classify_appender_error f u k) \<in> {None, Some k}"
  "LedgerAppendError_as_error_code (classify_appender_error f u k) =
    LedgerAppendRpcFailure_as_error_code f"
  by (cases f; simp)+

lemma failure_code_not_exhausted:
  "LedgerAppendRpcFailure_as_error_code f \<noteq> ''ledger_append_retry_exhausted''"
  by (cases f) simp_all

lemma append_loop_error_cases:
  assumes "append_loop C a d r (i # rest) s = (Inl e, t)"
  obtains (fetch) "fetch_chain_head C a (of_nat i + 1) s = (Inl e, t)"
  | (build) "e = Append_InvalidEntry ''ledger_entry_build_failed''"
  | (final) f u where "e = classify_appender_error f u (of_nat i + 1)"
  | (retry) s' where "i < r" "append_loop C a d r rest s' = (Inl e, t)"
  using assms
  by (auto simp: sbind_def Let_def map_err_eq_Inl split: prod.splits sum.splits if_splits
      simp del: classify_appender_error.simps)

lemma append_loop_error:
  assumes "append_loop C a d r [i..<Suc r] s = (Inl e, t)" "i \<le> r" "r < 2 ^ 8"
  shows "LedgerAppendError_as_error_code e \<noteq> ''ledger_append_retry_exhausted'' \<and>
    (\<forall>k. LedgerAppendError_attempts e = Some k \<longrightarrow> 1 \<le> unat k \<and> unat k \<le> r + 1)"
  using assms(1,2)
proof (induction "r - i" arbitrary: i s rule: less_induct)
  case less
  have k: "unat (of_nat i + 1 :: u32) = i + 1"
  proof -
    have "of_nat i + 1 = (of_nat (i + 1) :: u32)" by simp
    then show ?thesis using less.prems(2) assms(3) by (simp only: unat_of_nat) simp
  qed
  have "[i..<Suc r] = i # [Suc i..<Suc r]"
    using less.prems(2) by (intro upt_conv_Cons) simp
  with less.prems(1) have "append_loop C a d r (i # [Suc i..<Suc r]) s = (Inl e, t)"
    by (simp only:)
  then show ?case
  proof (cases rule: append_loop_error_cases)
    case fetch
    with k less.prems(2) show ?thesis by (auto dest!: fetch_chain_head_error)
  next
    case build
    then show ?thesis by simp
  next
    case (final f u)
    with k less.prems(2) show ?thesis
      using classify_appender_error_attempts [of f u "of_nat i + 1"]
        failure_code_not_exhausted [of f]
      by (auto simp del: classify_appender_error.simps)
  next
    case (retry s')
    then show ?thesis using less.hyps [of "Suc i" s'] by simp
  qed
qed



section \<open>Concrete runs\<close>

text \<open>A service that counts the calls it gets; its chain is at genesis and every append loses
  the race for the next sequence number.\<close>

definition racing_service :: "nat ledger_service" where
  "racing_service =
    \<lparr>svc_append_rows = (\<lambda>_ s. (Inl (NonSuccessStatus 409 ''ledger_sequence_mismatch''), s + 1)),
     svc_chain_state_rows = (\<lambda>s. (Inr [\<lparr>cs_last_sequence_no = 0,
       cs_last_entry_hash = LedgerHash_to_bytea_hex sample_crates LedgerHash_genesis\<rparr>], s))\<rparr>"

definition racing_appender :: "nat LedgerAppender" where
  "racing_appender = \<lparr>la_client = racing_service, la_signing_key = sample_signing_key,
    la_config = LedgerAppenderConfig_new 9\<rparr>"

lemma sample_sign_with_sequence:
  "sign_with_sequence sample_crates sample_append_draft (LedgerSequenceNo 1) LedgerHash_genesis
    sample_signing_key = Inr sample_entry"
  using sample_entry_sign sample_entry_draft_wf
  by (simp add: sign_with_sequence_def LedgerEntryDraft_new_Inr sample_entry_draft_def)

theorem signed_batch_verifies_witness:
  "verify_ledger_chain sample_crates [sample_entry] LedgerChainHead_genesis
      [verification_key sample_crates sample_signing_key] =
    Inr (chain_end 0 LedgerHash_genesis [sample_entry])"
proof -
  have "checked_add (0 :: u64) 1 = Some 1" by (simp add: checked_add_eq_Some)
  then have "sign_entries_from_head sample_crates racing_appender [sample_append_draft]
      LedgerChainHead_genesis = Inr [sample_entry]"
    by (simp add: sign_entries_from_head_def LedgerChainHead_genesis_def racing_appender_def
        LedgerSequenceNo_new_def LEDGER_I64_MAX_U64_def sample_sign_with_sequence
        del: rbind_eq_Inr)
  moreover have "key_registered sample_crates (la_signing_key racing_appender)
      [verification_key sample_crates sample_signing_key]"
    by (simp add: key_registered_def racing_appender_def verification_key_def)
  moreover have "LedgerChainHead_new 0 LedgerHash_genesis = Inr LedgerChainHead_genesis"
    by (simp add: LedgerChainHead_new_def LedgerChainHead_genesis_def LEDGER_I64_MAX_U64_def)
  ultimately show ?thesis
    using signed_batch_verifies [OF sample_ed25519_laws, of racing_appender
        "[verification_key sample_crates sample_signing_key]" 0 LedgerHash_genesis
        LedgerChainHead_genesis "[sample_append_draft]" "[sample_entry]"]
    by simp
qed

lemma racing_classify:
  "classify_append_ledger_error sample_crates (NonSuccessStatus 409 ''ledger_sequence_mismatch'') =
    Rpc_SequenceMismatch"
proof -
  have marker: "response_contains_marker sample_crates ''ledger_sequence_mismatch'' m =
      str_contains ''ledger_sequence_mismatch'' m" for m
    by (simp add: response_contains_marker_def sample_json_from_str_def)
  have "\<not> str_contains ''ledger_sequence_mismatch'' ''ledger_entry_id_conflict''"
    "\<not> str_contains ''ledger_sequence_mismatch'' ''ledger_entry_hash_conflict''"
    "str_contains ''ledger_sequence_mismatch'' ''ledger_sequence_mismatch''"
    by code_simp+
  then show ?thesis by (simp add: classify_append_ledger_error_def marker)
qed

lemma racing_fetch:
  "fetch_chain_head sample_crates racing_appender k s = (Inr LedgerChainHead_genesis, s)"
proof -
  have "LedgerHash_from_bytea_hex sample_crates
      (LedgerHash_to_bytea_hex sample_crates LedgerHash_genesis) = Inr LedgerHash_genesis"
    by (rule LedgerHash_bytea_roundtrip [OF sample_hex_laws])
      (simp add: LedgerHash_genesis_def LEDGER_HASH_LENGTH_def)
  then show ?thesis
    by (simp add: fetch_chain_head_def fetch_ledger_chain_head_def racing_appender_def
        racing_service_def smap_err_def sbind_def slift_def first_row_def
        LedgerChainHead_try_from_def LedgerChainHead_from_i64_def LedgerChainHead_new_def
        LedgerChainHead_genesis_def LEDGER_I64_MAX_U64_def del: rbind_eq_Inr)
qed

lemma racing_sign:
  "sign_with_chain_head sample_crates sample_append_draft LedgerChainHead_genesis
    sample_signing_key = Inr sample_entry"
proof -
  have "checked_add (0 :: u64) 1 = Some 1" by (simp add: checked_add_eq_Some)
  then show ?thesis
    by (simp add: sign_with_chain_head_def next_sequence_no_def LedgerChainHead_genesis_def
        LedgerSequenceNo_new_def LEDGER_I64_MAX_U64_def sample_sign_with_sequence
        del: rbind_eq_Inr)
qed

lemma racing_step:
  "append_loop sample_crates racing_appender sample_append_draft r (i # rest) s =
    (if i < r then append_loop sample_crates racing_appender sample_append_draft r rest (s + 1)
     else (Inl (Append_Conflict Rpc_SequenceMismatch (of_nat i + 1)), s + 1))"
proof -
  have key: "la_signing_key racing_appender = sample_signing_key"
    by (simp add: racing_appender_def)
  have call: "call_append_ledger_entry sample_crates (la_client racing_appender) e t =
      (Inl (NonSuccessStatus 409 ''ledger_sequence_mismatch''), t + 1)" for e t
    by (simp add: call_append_ledger_entry_def racing_appender_def racing_service_def sbind_def)
  show ?thesis
    by (simp add: sbind_def racing_fetch slift_def key call racing_sign racing_classify
        is_retryable_conflict_def Let_def)
qed

lemma racing_append:
  "ledger_append sample_crates racing_appender sample_append_draft 0 =
    (Inl (Append_Conflict Rpc_SequenceMismatch 4), 4)"
proof -
  have "unat (max_conflict_retries (la_config racing_appender)) = 3"
    by (simp add: racing_appender_def LedgerAppenderConfig_new_def MAX_CONFLICT_RETRIES_def
        min_def word_le_nat_alt)
  moreover have "[0..<Suc 3] = [0, 1, 2, 3]" by (simp add: upt_rec)
  ultimately show ?thesis
    by (simp add: ledger_append_def racing_step del: append_loop.simps upt_Suc)
qed


end
