(* ===== verification/Ledger_Database.thy ===== *)
theory Ledger_Database
  imports Ledger_Appender Ledger_Export
begin

text \<open>
  The ledger tables and their stored procedures
  (\<open>supabase/migrations/0900_create_integrity_check_rpc_and_service_role_comments.sql\<close> and
  \<open>1000_add_scheduler_job_audit_and_ledger.sql\<close>), and what the appender and the tables
  guarantee together.  A column of type \<open>uuid\<close> or \<open>bytea\<close> is kept in the text form in which it
  travels; \<open>bigint\<close> and \<open>integer\<close> are words read with \<^const>\<open>sint\<close>.  The three check functions
  of the schema that inspect the content of a row are arguments, so what is shown here holds
  whatever they accept.
\<close>


section \<open>Tables\<close>

record ledger_checks =
  ledger_entry_type_allowed :: "string \<Rightarrow> bool"
  ledger_source_event_at_is_valid :: "string \<Rightarrow> bool"
  ledger_payload_is_valid :: "string \<Rightarrow> json \<Rightarrow> bool"

record ledger_db =
  db_ledger_entries :: "LedgerEntryRpcParams list"
  db_chain_state :: "LedgerChainStateResponse option"
  db_public_keys :: "signing_public_key_row list"

definition ledger_db_initial :: "crates \<Rightarrow> ledger_db" where
  "ledger_db_initial C =
    \<lparr>db_ledger_entries = [],
     db_chain_state = Some \<lparr>cs_last_sequence_no = 0,
       cs_last_entry_hash = bytea_prefix @ hex_encode C (replicate 32 0)\<rparr>,
     db_public_keys = []\<rparr>"

text \<open>\<open>length\<close> counts characters, \<open>btrim\<close> strips spaces.\<close>

definition sql_length :: "string \<Rightarrow> nat" where
  "sql_length s = length (filter (\<lambda>c. \<not> (128 \<le> (of_char c :: nat) \<and> (of_char c :: nat) < 192)) s)"

definition sql_btrim :: "string \<Rightarrow> string" where
  "sql_btrim s = rev (dropWhile (\<lambda>c. c = CHR '' '') (rev (dropWhile (\<lambda>c. c = CHR '' '') s)))"

definition octet_length :: "crates \<Rightarrow> string \<Rightarrow> nat option" where
  "octet_length C s = map_option length (ok (decode_bytea_hex C s))"


section \<open>Appending\<close>

definition row_content_rejected :: "ledger_checks \<Rightarrow> LedgerEntryRpcParams \<Rightarrow> bool" where
  "row_content_rejected K p \<longleftrightarrow>
    \<not> ledger_entry_type_allowed K (p_entry_type p)
    \<or> sql_length (p_entry_type p) > 64
    \<or> \<not> ledger_source_event_at_is_valid K (p_source_event_at p)
    \<or> p_result p \<notin> {''success'', ''failure''}
    \<or> (case p_error_code p of None \<Rightarrow> False
        | Some c \<Rightarrow> sql_btrim c = [] \<or> sql_length c > 128)
    \<or> (p_result p = ''success'' \<and> p_error_code p \<noteq> None)
    \<or> (case p_actor_device_id p of None \<Rightarrow> False
        | Some d \<Rightarrow> sql_btrim d = [] \<or> sql_length d > 128)
    \<or> p_canonicalization_version p \<noteq> 1
    \<or> p_hash_algorithm p \<noteq> ''sha-256''
    \<or> p_signature_algorithm p \<noteq> ''ed25519''
    \<or> sint (p_signature_key_version p) \<le> 0
    \<or> \<not> ledger_payload_is_valid K (p_entry_type p) (p_payload p)"

definition append_response ::
    "LedgerEntryRpcParams \<Rightarrow> LedgerChainStateResponse \<Rightarrow> bool \<Rightarrow> AppendLedgerEntryResponse" where
  "append_response p st is_replay =
    \<lparr>ar_ledger_entry_id = p_ledger_entry_id p, ar_sequence_no = p_sequence_no p,
     ar_entry_hash = p_entry_hash p, ar_chain_last_sequence_no = cs_last_sequence_no st,
     ar_chain_last_entry_hash = cs_last_entry_hash st, ar_replayed = is_replay\<rparr>"

definition insert_ledger_entry ::
    "LedgerEntryRpcParams \<Rightarrow> ledger_db \<Rightarrow> string + ledger_db" where
  "insert_ledger_entry p db =
    (if list_ex (\<lambda>r. p_sequence_no r = p_sequence_no p) (db_ledger_entries db)
     then Inl ''ledger_entry_id_conflict''
     else if list_ex (\<lambda>r. p_entry_hash r = p_entry_hash p) (db_ledger_entries db)
     then Inl ''ledger_entry_hash_conflict''
     else Inr (db\<lparr>db_ledger_entries := db_ledger_entries db @ [p]\<rparr>))"

definition rpc_append_ledger_entry ::
    "crates \<Rightarrow> ledger_checks \<Rightarrow> LedgerEntryRpcParams \<Rightarrow> ledger_db \<Rightarrow>
      string + AppendLedgerEntryResponse \<times> ledger_db" where
  "rpc_append_ledger_entry C K p db =
    (if sint (p_sequence_no p) \<le> 0 \<or> octet_length C (p_previous_entry_hash p) \<noteq> Some 32
       \<or> octet_length C (p_entry_hash p) \<noteq> Some 32 \<or> octet_length C (p_signature p) \<noteq> Some 64
     then Inl ''invalid_rpc_input''
     else
     case find (\<lambda>r. p_ledger_entry_id r = p_ledger_entry_id p) (db_ledger_entries db) of
       Some v_existing \<Rightarrow>
         if v_existing \<noteq> p then Inl ''ledger_entry_id_conflict''
         else (case db_chain_state db of
           None \<Rightarrow> Inl ''ledger_chain_state_missing''
         | Some st \<Rightarrow> Inr (append_response v_existing st True, db))
     | None \<Rightarrow>
         if row_content_rejected K p then Inl ''invalid_rpc_input''
         else (case db_chain_state db of
           None \<Rightarrow> Inl ''ledger_chain_state_missing''
         | Some st \<Rightarrow>
             if sint (p_sequence_no p) \<noteq> sint (cs_last_sequence_no st) + 1
             then Inl ''ledger_sequence_mismatch''
             else if p_previous_entry_hash p \<noteq> cs_last_entry_hash st
             then Inl ''ledger_previous_hash_mismatch''
             else rbind (insert_ledger_entry p db) (\<lambda>db'.
               let st' = \<lparr>cs_last_sequence_no = p_sequence_no p,
                 cs_last_entry_hash = p_entry_hash p\<rparr> in
               Inr (append_response p st' False, db'\<lparr>db_chain_state := Some st'\<rparr>))))"


section \<open>Reading\<close>

text \<open>The left join with the key registry.\<close>

definition registered_key ::
    "ledger_db \<Rightarrow> LedgerEntryRpcParams \<Rightarrow> signing_public_key_row option" where
  "registered_key db p =
    find (\<lambda>k. spk_key_version k = p_signature_key_version p) (db_public_keys db)"

definition rpc_export_ledger_verification_materials ::
    "crates \<Rightarrow> 64 word \<Rightarrow> 64 word \<Rightarrow> ledger_db \<Rightarrow>
      string + LedgerVerificationMaterialResponse list" where
  "rpc_export_ledger_verification_materials C start_no end_no db =
    (if sint start_no \<le> 0 \<or> sint end_no \<le> 0 \<or> sint start_no > sint end_no then Inl ''invalid_rpc_input''
     else Inr (map (\<lambda>p. stored_response C p (registered_key db p))
       (sort_key (\<lambda>p. sint (p_sequence_no p))
         (filter (\<lambda>p. sint start_no \<le> sint (p_sequence_no p) \<and> sint (p_sequence_no p) \<le> sint end_no)
           (db_ledger_entries db)))))"

text \<open>Restoring exported rows, as the verifier of monthly digests does
  (\<open>src/server/use_cases/verify_monthly_digest.rs\<close>): the entries in order, and the keys without
  repeated versions.\<close>

fun restore_keys ::
    "crates \<Rightarrow> LedgerVerifyingKey list \<Rightarrow> LedgerVerificationMaterialRow list \<Rightarrow>
      LedgerError + LedgerVerifyingKey list" where
  "restore_keys C verification_keys [] = Inr verification_keys"
| "restore_keys C verification_keys (row # rows) =
    rbind (try_restore_verifying_key C row) (\<lambda>restored.
    case restored of
      None \<Rightarrow> restore_keys C verification_keys rows
    | Some key \<Rightarrow>
        if list_ex (\<lambda>k. vk_key_version k = vk_key_version key) verification_keys
        then restore_keys C verification_keys rows
        else restore_keys C (verification_keys @ [key]) rows)"

definition restore_entries ::
    "crates \<Rightarrow> LedgerVerificationMaterialRow list \<Rightarrow> LedgerError + SignedLedgerEntry list" where
  "restore_entries C rows = try_map (try_restore_signed_ledger_entry C) rows"


section \<open>The key registry\<close>

definition rpc_register_ledger_signing_public_key ::
    "32 word \<Rightarrow> bytes \<Rightarrow> string \<Rightarrow> ledger_db \<Rightarrow> string + ledger_db" where
  "rpc_register_ledger_signing_public_key key_version public_key now db =
    (if sint key_version \<le> 0 \<or> length public_key \<noteq> 32 then Inl ''invalid_rpc_input''
     else
     case find (\<lambda>k. spk_key_version k = key_version) (db_public_keys db) of
       Some v_existing \<Rightarrow>
         if spk_status v_existing = ''retired'' then Inl ''ledger_signing_public_key_retired''
         else if spk_public_key v_existing = public_key \<and>
           spk_status v_existing \<in> {''created'', ''active''} then Inr db
         else Inl ''ledger_signing_public_key_conflict''
     | None \<Rightarrow> Inr (db\<lparr>db_public_keys := db_public_keys db @
         [\<lparr>spk_key_version = key_version, spk_public_key = public_key,
           spk_algorithm = ''ed25519'', spk_status = ''active'', spk_created_at = now,
           spk_activated_at = Some now, spk_retired_at = None\<rparr>]\<rparr>))"

definition ledger_signing_public_keys_check_mutation ::
    "signing_public_key_row \<Rightarrow> signing_public_key_row \<Rightarrow> string + unit" where
  "ledger_signing_public_keys_check_mutation old new =
    (if spk_key_version old \<noteq> spk_key_version new \<or> spk_public_key old \<noteq> spk_public_key new \<or>
        spk_algorithm old \<noteq> spk_algorithm new \<or> spk_created_at old \<noteq> spk_created_at new
     then Inl ''ledger_signing_public_keys_immutable''
     else if spk_status old = ''created'' \<and> spk_status new = ''active'' \<and>
        spk_activated_at old = None \<and> spk_activated_at new \<noteq> None \<and>
        spk_retired_at old = None \<and> spk_retired_at new = None
     then Inr ()
     else if spk_status old = ''active'' \<and> spk_status new = ''retired'' \<and>
        spk_activated_at old \<noteq> None \<and> spk_activated_at old = spk_activated_at new \<and>
        spk_retired_at old = None \<and> spk_retired_at new \<noteq> None
     then Inr ()
     else Inl ''ledger_signing_public_key_lifecycle_invalid_transition on ledger_signing_public_keys'')"

text \<open>An update of one row that the trigger lets through.\<close>

definition update_public_key ::
    "nat \<Rightarrow> signing_public_key_row \<Rightarrow> ledger_db \<Rightarrow> string + ledger_db" where
  "update_public_key i new db =
    rbind (ledger_signing_public_keys_check_mutation (db_public_keys db ! i) new) (\<lambda>_.
    Inr (db\<lparr>db_public_keys := (db_public_keys db)[i := new]\<rparr>))"

end
