(* ===== verification/Ledger_System.thy ===== *)
theory Ledger_System
  imports Ledger_Database
begin

text \<open>
  The ledger as a whole: signers with possibly stale chain heads, the append procedure and the key
  registry.  Whatever the interleaving, the stored rows are a chain that verifies from genesis.
\<close>


section \<open>Reachable databases\<close>

text \<open>A draft whose fields satisfy the invariants of their types, a signing key whose version
  is a \<open>NonZeroU32\<close>, and a chain head, perhaps out of date, with a hash of the right length.\<close>

definition signer_ok :: "crates \<Rightarrow> LedgerAppendDraft \<Rightarrow> LedgerChainHead \<Rightarrow> LedgerSigningKey \<Rightarrow> bool" where
  "signer_ok C draft chain_head key \<longleftrightarrow>
    entry_fields_wf C draft \<and>
    length (LedgerHash_bytes (head_last_entry_hash chain_head)) = LEDGER_HASH_LENGTH \<and>
    LedgerSignatureKeyVersion_get (sk_key_version key) \<noteq> 0"

definition registry_keys :: "ledger_db \<Rightarrow> LedgerVerifyingKey list" where
  "registry_keys db =
    map (\<lambda>k. \<lparr>vk_key_version = LedgerSignatureKeyVersion (spk_key_version k),
      vk_verifying_key = spk_public_key k\<rparr>) (db_public_keys db)"

inductive ledger_run :: "crates \<Rightarrow> ledger_checks \<Rightarrow> ledger_db \<Rightarrow> bool" for C K where
  initial: "ledger_run C K (ledger_db_initial C)"
| register: "ledger_run C K db \<Longrightarrow> ed25519_public_key_ok C public_key \<Longrightarrow>
    rpc_register_ledger_signing_public_key version public_key now db = Inr db' \<Longrightarrow>
    ledger_run C K db'"
| lifecycle: "ledger_run C K db \<Longrightarrow> i < length (db_public_keys db) \<Longrightarrow>
    update_public_key i new db = Inr db' \<Longrightarrow> ledger_run C K db'"
| append: "ledger_run C K db \<Longrightarrow> signer_ok C draft chain_head key \<Longrightarrow>
    key_registered C key (registry_keys db) \<Longrightarrow>
    sign_with_chain_head C draft chain_head key = Inr entry \<Longrightarrow>
    rpc_append_ledger_entry C K (from_signed_entry C entry) db = Inr (response, db') \<Longrightarrow>
    ledger_run C K db'"

definition public_key_row_ok :: "crates \<Rightarrow> signing_public_key_row \<Rightarrow> bool" where
  "public_key_row_ok C k \<longleftrightarrow>
    spk_key_version k \<noteq> 0 \<and> length (spk_public_key k) = 32 \<and>
    ed25519_public_key_ok C (spk_public_key k) \<and> spk_algorithm k = ''ed25519'' \<and>
    spk_status k \<in> {''created'', ''active'', ''retired''}"

definition stored_entry_ok :: "crates \<Rightarrow> SignedLedgerEntry \<Rightarrow> bool" where
  "stored_entry_ok C e \<longleftrightarrow>
    SignedLedgerEntry_wf C e \<and> entry_fields_wf C e \<and> signed_fields_wf e"

definition ledger_db_ok :: "crates \<Rightarrow> ledger_db \<Rightarrow> SignedLedgerEntry list \<Rightarrow> bool" where
  "ledger_db_ok C db es \<longleftrightarrow>
    db_ledger_entries db = map (from_signed_entry C) es \<and>
    list_all (stored_entry_ok C) es \<and>
    chain_valid C (registry_keys db) 0 LedgerHash_genesis es \<and>
    db_chain_state db = Some \<lparr>cs_last_sequence_no = of_nat (length es),
      cs_last_entry_hash = LedgerHash_to_bytea_hex C (hash_before LedgerHash_genesis es (length es))\<rparr> \<and>
    list_all (public_key_row_ok C) (db_public_keys db) \<and>
    distinct (map spk_key_version (db_public_keys db))"


section \<open>Preservation\<close>

lemma chain_valid_snoc:
  "chain_valid C keys n h (es @ [e]) \<longleftrightarrow>
    chain_valid C keys n h es \<and> n + length es + 1 < 2 ^ 63 \<and>
    unat (LedgerSequenceNo_get (le_sequence_no e)) = n + length es + 1 \<and>
    le_previous_entry_hash e = hash_before h es (length es) \<and> entry_authentic C keys e"
proof (induction es arbitrary: n h)
  case Nil
  then show ?case by (auto simp: chain_valid_Cons chain_valid_Nil hash_before_def)
next
  case (Cons a es)
  then show ?case by (auto simp: chain_valid_Cons hash_before_Cons)
qed

lemma chain_valid_keys_mono:
  assumes "chain_valid C keys n h es"
    and "\<And>e. e \<in> set es \<Longrightarrow> entry_authentic C keys e \<Longrightarrow> entry_authentic C keys' e"
  shows "chain_valid C keys' n h es"
  using assms by (simp add: chain_valid_def)

lemma entry_authentic_append: "entry_authentic C keys e \<Longrightarrow> entry_authentic C (keys @ ks) e"
  unfolding entry_authentic_def using find_append_Some by fast

lemma register_ok:
  assumes "ledger_db_ok C db es" "ed25519_public_key_ok C pk"
    and "rpc_register_ledger_signing_public_key v pk now db = Inr db'"
  shows "ledger_db_ok C db' es"
proof (cases "find (\<lambda>k. spk_key_version k = v) (db_public_keys db)")
  case (Some k)
  with assms show ?thesis
    by (auto simp: rpc_register_ledger_signing_public_key_def split: if_splits)
next
  case None
  let ?new = "\<lparr>spk_key_version = v, spk_public_key = pk, spk_algorithm = ''ed25519'',
    spk_status = ''active'', spk_created_at = now, spk_activated_at = Some now,
    spk_retired_at = None\<rparr>"
  from None assms(3) have db': "db' = db\<lparr>db_public_keys := db_public_keys db @ [?new]\<rparr>"
    and v: "sint v > 0" "length pk = 32"
    by (auto simp: rpc_register_ledger_signing_public_key_def split: if_splits)
  from v(1) have "v \<noteq> 0" by auto
  with v assms(2) have "public_key_row_ok C ?new" by (simp add: public_key_row_ok_def)
  moreover have "v \<notin> spk_key_version ` set (db_public_keys db)"
    using None by (auto simp: find_None_iff)
  moreover have "registry_keys db' = registry_keys db @
      [\<lparr>vk_key_version = LedgerSignatureKeyVersion v, vk_verifying_key = pk\<rparr>]"
    by (simp add: db' registry_keys_def)
  ultimately show ?thesis
    using assms(1) chain_valid_keys_mono [OF _ entry_authentic_append, of C "registry_keys db"]
    by (auto simp: ledger_db_ok_def db')
qed

lemma lifecycle_ok:
  assumes "ledger_db_ok C db es" "i < length (db_public_keys db)"
    and "update_public_key i new db = Inr db'"
  shows "ledger_db_ok C db' es"
proof -
  let ?old = "db_public_keys db ! i"
  from assms(3) have db': "db' = db\<lparr>db_public_keys := (db_public_keys db)[i := new]\<rparr>"
    and same: "spk_key_version new = spk_key_version ?old" "spk_public_key new = spk_public_key ?old"
      "spk_algorithm new = spk_algorithm ?old" "spk_status new \<in> {''active'', ''retired''}"
    by (auto simp: update_public_key_def ledger_signing_public_keys_check_mutation_def
        split: if_splits)
  have old: "public_key_row_ok C ?old"
    using assms(1,2) by (simp add: ledger_db_ok_def list_all_length)
  then have new: "public_key_row_ok C new" using same by (auto simp: public_key_row_ok_def)
  have maps: "map spk_key_version ((db_public_keys db)[i := new]) =
      map spk_key_version (db_public_keys db)"
    "registry_keys db' = registry_keys db"
    using assms(2) same by (simp_all add: registry_keys_def db' map_update list_update_same_conv)
  show ?thesis
    using assms(1,2) new maps
    by (simp add: ledger_db_ok_def db' list_all_length nth_list_update)
qed

lemma entry_fields_wf_extend [simp]:
  "entry_fields_wf C (LedgerEntryDraftParts.extend d x) = entry_fields_wf C d"
  "entry_fields_wf C (LedgerAppendDraftParts.extend a y) = entry_fields_wf C a"
  by (simp_all add: entry_fields_wf_def LedgerEntryDraftParts.defs LedgerAppendDraftParts.defs)

lemma sign_with_sequence_stored_ok:
  assumes "sign_with_sequence C d n h key = Inr e" "sha256_laws C"
    and "entry_fields_wf C d" "LedgerSequenceNo_wf n"
    and "length (LedgerHash_bytes h) = LEDGER_HASH_LENGTH"
    and "LedgerSignatureKeyVersion_get (sk_key_version key) \<noteq> 0"
  shows "stored_entry_ok C e"
proof -
  note facts = sign_with_sequence_Inr [OF assms(1)]
  from assms(1) obtain x c s where e: "e = LedgerEntryDraftParts.extend
      (LedgerAppendDraftParts.extend d x) \<lparr>le_entry_hash = LedgerHash_from_canonical_payload C c,
        le_signature = s, le_canonical_payload = c\<rparr>"
    and s: "\<exists>b. LedgerSignature_from_bytes b = Inr s"
    by (auto simp: sign_with_sequence_def LedgerEntryDraft_new_Inr LedgerEntryDraft_sign_Inr
        sign_payload_def split: if_splits)
  have "length (LedgerHash_bytes (le_entry_hash e)) = LEDGER_HASH_LENGTH"
    using assms(2) by (simp add: e LedgerHash_from_canonical_payload_def sha256_laws_def
        LEDGER_HASH_LENGTH_def)
  moreover have "length (LedgerSignature_bytes (le_signature e)) = LEDGER_SIGNATURE_LENGTH"
    using s by (auto simp: e LedgerSignature_from_bytes_def split: if_splits)
  moreover have "entry_fields_wf C e" using assms(3) by (simp add: e)
  ultimately show ?thesis
    using assms(4-6) facts by (simp add: stored_entry_ok_def signed_fields_wf_def)
qed

lemma sign_with_chain_head_stored_ok:
  assumes "sign_with_chain_head C d head key = Inr e" "sha256_laws C" "signer_ok C d head key"
  shows "stored_entry_ok C e" and "ed25519_laws C \<Longrightarrow> key_registered C key keys \<Longrightarrow>
    entry_authentic C keys e"
proof -
  from assms(1) obtain n where n: "next_sequence_no head = Inr n"
    and sign: "sign_with_sequence C d n (head_last_entry_hash head) key = Inr e"
    by (auto simp: sign_with_chain_head_def)
  from n have "LedgerSequenceNo_wf n"
    by (auto simp: next_sequence_no_def LedgerSequenceNo_new_Inr)
  with assms(2,3) sign show "stored_entry_ok C e"
    unfolding signer_ok_def by (auto intro: sign_with_sequence_stored_ok)
  show "ed25519_laws C \<Longrightarrow> key_registered C key keys \<Longrightarrow> entry_authentic C keys e"
    using sign by (rule sign_with_sequence_authentic)
qed

lemma LedgerHash_to_bytea_hex_inj:
  assumes "hex_laws C" shows "LedgerHash_to_bytea_hex C h = LedgerHash_to_bytea_hex C h' \<longleftrightarrow> h = h'"
  using LedgerHash_to_hex_inj [OF assms] by (auto simp: LedgerHash_to_bytea_hex_def)

text \<open>An accepted new row continues the stored chain.\<close>

lemma append_ok:
  assumes laws: "hex_laws C" "sha256_laws C" "ed25519_laws C"
    and ok: "ledger_db_ok C db es" and signer: "signer_ok C d head key"
    and key: "key_registered C key (registry_keys db)"
    and sign: "sign_with_chain_head C d head key = Inr e"
    and app: "rpc_append_ledger_entry C K (from_signed_entry C e) db = Inr (r, db')"
  shows "ledger_db_ok C db' es \<or> ledger_db_ok C db' (es @ [e])"
proof (cases "find (\<lambda>r. p_ledger_entry_id r = p_ledger_entry_id (from_signed_entry C e))
    (db_ledger_entries db)")
  case (Some old)
  with app ok show ?thesis
    by (auto simp: rpc_append_ledger_entry_def split: if_splits option.splits)
next
  case None
  let ?p = "from_signed_entry C e"
  let ?st = "\<lparr>cs_last_sequence_no = p_sequence_no ?p, cs_last_entry_hash = p_entry_hash ?p\<rparr>"
  note stored = sign_with_chain_head_stored_ok [OF sign laws(2) signer]
  from ok have bound: "length es < 2 ^ 63"
    using chain_valid_bound [of C "registry_keys db" 0 LedgerHash_genesis es]
    by (simp add: ledger_db_ok_def)
  from None app ok have seq: "sint (p_sequence_no ?p) = sint (of_nat (length es) :: 64 word) + 1"
    and prev: "p_previous_entry_hash ?p =
      LedgerHash_to_bytea_hex C (hash_before LedgerHash_genesis es (length es))"
    and db': "db' = db\<lparr>db_ledger_entries := db_ledger_entries db @ [?p], db_chain_state := Some ?st\<rparr>"
    by (auto simp: rpc_append_ledger_entry_def insert_ledger_entry_def ledger_db_ok_def Let_def
        split: if_splits)
  have n: "unat (of_nat (length es) :: 64 word) = length es"
    using bound by (simp add: unat_of_nat)
  have small: "unat (p_sequence_no ?p) < 2 ^ 63"
    using stored(1) by (simp add: stored_entry_ok_def signed_fields_wf_def from_signed_entry_def
        LedgerSequenceNo_wf_unat)
  have num: "unat (p_sequence_no ?p) = length es + 1"
    using seq sint_small [OF small] sint_small [of "of_nat (length es)"] n bound by linarith
  have link: "le_previous_entry_hash e = hash_before LedgerHash_genesis es (length es)"
    using prev by (simp add: from_signed_entry_def LedgerHash_to_bytea_hex_inj [OF laws(1)])
  have "chain_valid C (registry_keys db) 0 LedgerHash_genesis (es @ [e])"
    using ok num small link stored(2) [OF laws(3) key]
    by (simp add: chain_valid_snoc ledger_db_ok_def from_signed_entry_def)
  moreover have "p_sequence_no ?p = of_nat (length (es @ [e]))"
  proof -
    have "p_sequence_no ?p = of_nat (unat (p_sequence_no ?p))" by simp
    also have "\<dots> = of_nat (length (es @ [e]))" unfolding num by simp
    finally show ?thesis .
  qed
  moreover have "registry_keys db' = registry_keys db" by (simp add: db' registry_keys_def)
  ultimately have "ledger_db_ok C db' (es @ [e])"
    using ok stored(1)
    by (simp add: ledger_db_ok_def db' hash_before_def from_signed_entry_def nth_append)
  then show ?thesis ..
qed

definition ledger_laws :: "crates \<Rightarrow> bool" where
  "ledger_laws C \<longleftrightarrow> uuid_laws C \<and> hex_laws C \<and> sha256_laws C \<and> ed25519_laws C"

lemma ledger_db_initial_ok: "ledger_db_ok C (ledger_db_initial C) []"
  by (simp add: ledger_db_ok_def ledger_db_initial_def chain_valid_Nil hash_before_def
      LedgerHash_to_bytea_hex_def LedgerHash_to_hex_def LedgerHash_genesis_def
      LEDGER_HASH_LENGTH_def)

lemma ledger_run_ok:
  assumes "ledger_run C K db" "ledger_laws C"
  shows "\<exists>es. ledger_db_ok C db es"
  using assms(1)
proof (induction rule: ledger_run.induct)
  case initial
  show ?case using ledger_db_initial_ok by blast
next
  case (register db pk v now db')
  then show ?case using register_ok by blast
next
  case (lifecycle db i new db')
  then show ?case using lifecycle_ok by blast
next
  case (append db draft head key e r db')
  then show ?case
    using append_ok [of C db _ draft head key e K r db'] assms(2) unfolding ledger_laws_def by blast
qed


section \<open>Reading the database back\<close>

text \<open>A list of restored keys that agrees with the registry.\<close>

definition keys_agree :: "LedgerVerifyingKey list \<Rightarrow> LedgerVerifyingKey list \<Rightarrow> bool" where
  "keys_agree R L \<longleftrightarrow>
    (\<forall>k \<in> set L. find (\<lambda>k'. vk_key_version k' = vk_key_version k) R = Some k)"

lemma restore_keys_agree:
  assumes "\<forall>row \<in> set rows. \<exists>k. try_restore_verifying_key C row = Inr (Some k) \<and>
      find (\<lambda>k'. vk_key_version k' = vk_key_version k) R = Some k"
    and "keys_agree R acc"
  shows "\<exists>L. restore_keys C acc rows = Inr L \<and> keys_agree R L \<and>
    vk_key_version ` set acc \<subseteq> vk_key_version ` set L \<and>
    (\<forall>row \<in> set rows. \<forall>k. try_restore_verifying_key C row = Inr (Some k) \<longrightarrow>
      vk_key_version k \<in> vk_key_version ` set L)"
  using assms
proof (induction rows arbitrary: acc)
  case Nil
  then show ?case by simp
next
  case (Cons row rows)
  then obtain k where k: "try_restore_verifying_key C row = Inr (Some k)"
    "find (\<lambda>k'. vk_key_version k' = vk_key_version k) R = Some k" by auto
  show ?case
  proof (cases "list_ex (\<lambda>k'. vk_key_version k' = vk_key_version k) acc")
    case True
    then have "vk_key_version k \<in> vk_key_version ` set acc" by (auto simp: list_ex_iff image_iff) (metis)
    with Cons.IH [of acc] Cons.prems k True show ?thesis by fastforce
  next
    case False
    from Cons.prems k have "keys_agree R (acc @ [k])" by (auto simp: keys_agree_def)
    with Cons.IH [of "acc @ [k]"] Cons.prems k False show ?thesis by fastforce
  qed
qed

lemma keys_agree_find:
  assumes "keys_agree R L" "v \<in> vk_key_version ` set L"
  shows "find (\<lambda>k. vk_key_version k = v) L = find (\<lambda>k. vk_key_version k = v) R"
proof -
  from assms(2) obtain k where k: "find (\<lambda>k. vk_key_version k = v) L = Some k"
    by (cases "find (\<lambda>k. vk_key_version k = v) L") (auto simp: find_None_iff)
  from find_SomeD [OF k] assms(1) show ?thesis unfolding k keys_agree_def by metis
qed

lemma decode_bytea_roundtrip:
  "hex_laws C \<Longrightarrow> decode_bytea_hex C (bytea_prefix @ hex_encode C b) = Inr b"
  by (simp add: decode_bytea_hex_def hex_laws_def)

lemma restore_key_of_stored_row:
  assumes "hex_laws C" "public_key_row_ok C k"
    and "spk_key_version k = LedgerSignatureKeyVersion_get (le_signature_key_version e)"
  shows "try_restore_verifying_key C (stored_material_row C e (Some k)) = Inr (Some
    \<lparr>vk_key_version = le_signature_key_version e, vk_verifying_key = spk_public_key k\<rparr>)"
proof -
  have "LedgerSignatureKeyVersion_new (spk_key_version k) = Inr (le_signature_key_version e)"
    using assms(2,3) by (cases "le_signature_key_version e")
      (simp add: LedgerSignatureKeyVersion_new_def public_key_row_ok_def)
  then show ?thesis
    using assms(1,2)
    by (auto simp: try_restore_verifying_key_def stored_material_row_def public_key_row_ok_def
        decode_bytea_roundtrip LedgerVerifyingKey_from_public_key_bytes_def
        LEDGER_ED25519_PUBLIC_KEY_LENGTH_def simp del: rbind_eq_Inr)
qed

lemma ledger_db_ok_authentic:
  "ledger_db_ok C db es \<Longrightarrow> e \<in> set es \<Longrightarrow> entry_authentic C (registry_keys db) e"
  by (auto simp: ledger_db_ok_def chain_valid_def in_set_conv_nth)

lemma registered_key_of_entry:
  assumes "ledger_db_ok C db es" "e \<in> set es"
  obtains k where "registered_key db (from_signed_entry C e) = Some k" "public_key_row_ok C k"
    "spk_key_version k = LedgerSignatureKeyVersion_get (le_signature_key_version e)"
    "find (\<lambda>k'. vk_key_version k' = le_signature_key_version e) (registry_keys db) =
      Some \<lparr>vk_key_version = le_signature_key_version e, vk_verifying_key = spk_public_key k\<rparr>"
proof -
  let ?v = "le_signature_key_version e"
  have find_map: "find (\<lambda>k'. vk_key_version k' = ?v) (registry_keys db) =
      map_option (\<lambda>k. \<lparr>vk_key_version = LedgerSignatureKeyVersion (spk_key_version k),
        vk_verifying_key = spk_public_key k\<rparr>) (registered_key db (from_signed_entry C e))"
    by (cases ?v) (simp add: registry_keys_def registered_key_def from_signed_entry_def
        find_map_conv comp_def)
  have "entry_authentic C (registry_keys db) e"
    using assms by (rule ledger_db_ok_authentic)
  then obtain k where k: "registered_key db (from_signed_entry C e) = Some k"
    unfolding entry_authentic_def find_map by auto
  moreover have "public_key_row_ok C k"
    using assms(1) find_SomeD [OF k [unfolded registered_key_def]]
    by (simp add: ledger_db_ok_def list_all_iff)
  moreover have "spk_key_version k = LedgerSignatureKeyVersion_get ?v"
    using find_SomeD [OF k [unfolded registered_key_def]] by (simp add: from_signed_entry_def)
  ultimately show thesis
    using that [of k] find_map by (cases ?v) simp
qed

lemma sequence_sorted:
  assumes "chain_valid C keys 0 h es" "i < length es"
  shows "sint (p_sequence_no (from_signed_entry C (es ! i))) = int (i + 1)"
  using assms sint_small [of "LedgerSequenceNo_get (le_sequence_no (es ! i))"]
  by (simp add: chain_valid_def from_signed_entry_def)

lemma export_all:
  assumes "ledger_db_ok C db es" "es \<noteq> []"
  shows "rpc_export_ledger_verification_materials C 1 (of_nat (length es)) db =
    Inr (map (\<lambda>e. stored_response C (from_signed_entry C e)
      (registered_key db (from_signed_entry C e))) es)"
proof -
  let ?f = "\<lambda>p. sint (p_sequence_no p)"
  from assms(1) have valid: "chain_valid C (registry_keys db) 0 LedgerHash_genesis es"
    and rows: "db_ledger_entries db = map (from_signed_entry C) es"
    by (simp_all add: ledger_db_ok_def)
  have n: "unat (of_nat (length es) :: 64 word) = length es"
    using chain_valid_bound [OF valid] by (simp add: unat_of_nat)
  have last_no: "sint (of_nat (length es) :: 64 word) = int (length es)"
    using sint_small [of "of_nat (length es)"] n chain_valid_bound [OF valid] by simp
  have "filter (\<lambda>p. 1 \<le> ?f p \<and> ?f p \<le> int (length es)) (map (from_signed_entry C) es) =
      map (from_signed_entry C) es"
    using sequence_sorted [OF valid] by (auto simp: filter_id_conv in_set_conv_nth)
  moreover have "sorted (map ?f (map (from_signed_entry C) es))"
    using sequence_sorted [OF valid] by (auto simp: sorted_iff_nth_mono)
  moreover have "0 < int (length es)" using assms(2) by simp
  ultimately show ?thesis
    by (simp add: rpc_export_ledger_verification_materials_def rows last_no
        sort_key_id_if_sorted comp_def del: filter_map)
qed

lemma chain_state_head:
  assumes "chain_valid C keys 0 LedgerHash_genesis es" "hex_laws C"
    and "\<And>e. e \<in> set es \<Longrightarrow> length (LedgerHash_bytes (le_entry_hash e)) = LEDGER_HASH_LENGTH"
  shows "LedgerChainHead_try_from C \<lparr>cs_last_sequence_no = of_nat (length es), cs_last_entry_hash =
      LedgerHash_to_bytea_hex C (hash_before LedgerHash_genesis es (length es))\<rparr> =
    Inr (chain_end 0 LedgerHash_genesis es)"
proof -
  let ?h = "hash_before LedgerHash_genesis es (length es)" and ?n = "of_nat (length es) :: 64 word"
  have "length (LedgerHash_bytes ?h) = LEDGER_HASH_LENGTH"
    using assms(3) by (auto simp: hash_before_def LedgerHash_genesis_def)
  then have h: "LedgerHash_from_bytea_hex C (LedgerHash_to_bytea_hex C ?h) = Inr ?h"
    using LedgerHash_bytea_roundtrip [OF assms(2)] by simp
  have n: "unat ?n = length es" "length es < 2 ^ 63"
    using chain_valid_bound [OF assms(1)] by (simp_all add: unat_of_nat)
  have "LedgerChainHead_new ?n ?h = Inr (chain_end 0 LedgerHash_genesis es)"
    using n by (simp add: LedgerChainHead_new_Inr chain_end_def hash_before_def)
  with h n show ?thesis
    using sint_small [of ?n]
    by (simp add: LedgerChainHead_try_from_def LedgerChainHead_from_i64_def del: rbind_eq_Inr)
qed

lemma restored_keys_authentic:
  assumes ok: "ledger_db_ok C db es" and "hex_laws C" and xs: "set xs \<subseteq> set es"
  shows "\<exists>keys. restore_keys C [] (map (\<lambda>e. stored_material_row C e
      (registered_key db (from_signed_entry C e))) xs) = Inr keys \<and>
    (\<forall>e \<in> set xs. entry_authentic C keys e)"
proof -
  let ?row = "\<lambda>e. stored_material_row C e (registered_key db (from_signed_entry C e))"
  let ?R = "registry_keys db"
  have key: "\<exists>k. try_restore_verifying_key C (?row e) = Inr (Some k) \<and>
      vk_key_version k = le_signature_key_version e \<and>
      find (\<lambda>k'. vk_key_version k' = vk_key_version k) ?R = Some k" if "e \<in> set xs" for e
  proof -
    from that xs have "e \<in> set es" by blast
    from registered_key_of_entry [OF ok this] restore_key_of_stored_row [OF assms(2)] show ?thesis
      by (metis LedgerVerifyingKey.select_convs(1))
  qed
  then have rows: "\<forall>row \<in> set (map ?row xs). \<exists>k. try_restore_verifying_key C row = Inr (Some k) \<and>
      find (\<lambda>k'. vk_key_version k' = vk_key_version k) ?R = Some k" by auto
  have "keys_agree ?R []" by (simp add: keys_agree_def)
  from restore_keys_agree [OF rows this] obtain L where L: "restore_keys C [] (map ?row xs) = Inr L"
    "keys_agree ?R L" and cov: "\<And>e k. e \<in> set xs \<Longrightarrow>
      try_restore_verifying_key C (?row e) = Inr (Some k) \<Longrightarrow> vk_key_version k \<in> vk_key_version ` set L"
    by auto
  have "entry_authentic C L e" if "e \<in> set xs" for e
  proof -
    from key [OF that] cov [OF that] have "le_signature_key_version e \<in> vk_key_version ` set L"
      by metis
    from keys_agree_find [OF L(2) this] have "entry_authentic C L e = entry_authentic C ?R e"
      by (simp add: entry_authentic_def)
    moreover have "entry_authentic C ?R e"
      using ledger_db_ok_authentic [OF ok] that xs by blast
    ultimately show ?thesis by simp
  qed
  with L(1) show ?thesis by blast
qed

text \<open>
  C3 --- The stored ledger always verifies.  Take any database reached from the initial one by
  registering keys, moving them through their lifecycle, and appending entries that signers with
  registered keys built on chain heads of their own, fresh or stale, in any interleaving and with
  any of the appends refused.  Then exporting all entries, restoring them and the keys, and
  verifying them from genesis succeeds, and yields exactly the chain head that the database
  hands to the next signer.
\<close>

theorem stored_ledger_verifies:
  assumes "ledger_run C K db" "ledger_laws C" and "db_ledger_entries db \<noteq> []"
  shows "\<exists>responses rows entries keys st chain_head.
    rpc_export_ledger_verification_materials C 1 (of_nat (length (db_ledger_entries db))) db =
      Inr responses \<and>
    try_map (LedgerVerificationMaterialRow_try_from C) responses = Inr rows \<and>
    restore_entries C rows = Inr entries \<and> restore_keys C [] rows = Inr keys \<and>
    verify_ledger_chain C entries LedgerChainHead_genesis keys = Inr chain_head \<and>
    db_chain_state db = Some st \<and> LedgerChainHead_try_from C st = Inr chain_head"
proof -
  obtain es where ok: "ledger_db_ok C db es" using ledger_run_ok [OF assms(1,2)] by blast
  let ?rk = "\<lambda>e. registered_key db (from_signed_entry C e)"
  let ?rows = "map (\<lambda>e. stored_material_row C e (?rk e)) es"
  from ok assms(3) have es: "es \<noteq> []" "length (db_ledger_entries db) = length es"
    and entry: "\<And>e. e \<in> set es \<Longrightarrow> stored_entry_ok C e"
    and valid: "chain_valid C (registry_keys db) 0 LedgerHash_genesis es"
    by (auto simp: ledger_db_ok_def list_all_iff)
  have rows: "try_map (LedgerVerificationMaterialRow_try_from C)
      (map (\<lambda>e. stored_response C (from_signed_entry C e) (?rk e)) es) = Inr ?rows"
    using entry assms(2) by (auto simp: try_map_eq_Inr list_all2_map1 list_all2_map2
        list_all2_same stored_entry_ok_def entry_fields_wf_def ledger_laws_def intro!: stored_row)
  have entries: "restore_entries C ?rows = Inr es"
    using entry assms(2) by (auto simp: restore_entries_def try_map_eq_Inr list_all2_map1
        list_all2_same stored_entry_ok_def ledger_laws_def intro!: restore_stored_row)
  obtain keys where keys: "restore_keys C [] ?rows = Inr keys" "\<forall>e \<in> set es. entry_authentic C keys e"
    using restored_keys_authentic [OF ok _ subset_refl] assms(2) by (auto simp: ledger_laws_def)
  let ?st = "\<lparr>cs_last_sequence_no = of_nat (length es), cs_last_entry_hash =
    LedgerHash_to_bytea_hex C (hash_before LedgerHash_genesis es (length es))\<rparr>"
  have "chain_valid C keys 0 LedgerHash_genesis es"
    using chain_valid_keys_mono [OF valid] keys(2) by blast
  then have "verify_ledger_chain C es LedgerChainHead_genesis keys =
      Inr (chain_end 0 LedgerHash_genesis es)"
    by (simp add: verify_ledger_chain_def verify_chain_loop_iff LedgerChainHead_genesis_def
        del: verify_chain_loop.simps)
  moreover have "LedgerChainHead_try_from C ?st = Inr (chain_end 0 LedgerHash_genesis es)"
    using chain_state_head [OF valid] assms(2) entry
    by (simp add: ledger_laws_def stored_entry_ok_def signed_fields_wf_def)
  ultimately show ?thesis
    using export_all [OF ok es(1)] rows entries keys(1) ok es(2) by (auto simp: ledger_db_ok_def)
qed


section \<open>The appender over the database\<close>

text \<open>The gateway in front of the database turns a raised exception into an error response
  whose message is the exception's.\<close>

definition renders_exceptions :: "crates \<Rightarrow> (string \<Rightarrow> SupabaseRpcError) \<Rightarrow> bool" where
  "renders_exceptions C render \<longleftrightarrow>
    (\<forall>m. \<exists>status body. render m = NonSuccessStatus status body \<and>
      (\<forall>marker. response_contains_marker C body marker \<longleftrightarrow> str_contains m marker))"

definition db_ledger_service ::
    "crates \<Rightarrow> ledger_checks \<Rightarrow> (string \<Rightarrow> SupabaseRpcError) \<Rightarrow> ledger_db ledger_service" where
  "db_ledger_service C K render =
    \<lparr>svc_append_rows = (\<lambda>p db. case rpc_append_ledger_entry C K p db of
       Inl m \<Rightarrow> (Inl (render m), db)
     | Inr (response, db') \<Rightarrow> (Inr [response], db')),
     svc_chain_state_rows = (\<lambda>db. (Inr (case db_chain_state db of None \<Rightarrow> [] | Some st \<Rightarrow> [st]), db))\<rparr>"

lemma db_fetch_chain_head:
  assumes "ledger_laws C" "ledger_db_ok C db es" "la_client a = db_ledger_service C K render"
  shows "fetch_chain_head C a k db = (Inr (chain_end 0 LedgerHash_genesis es), db)"
proof -
  have "LedgerChainHead_try_from C \<lparr>cs_last_sequence_no = of_nat (length es), cs_last_entry_hash =
      LedgerHash_to_bytea_hex C (hash_before LedgerHash_genesis es (length es))\<rparr> =
    Inr (chain_end 0 LedgerHash_genesis es)"
    using assms(1,2)
    by (intro chain_state_head [of C "registry_keys db"])
      (auto simp: ledger_laws_def ledger_db_ok_def list_all_iff stored_entry_ok_def
        signed_fields_wf_def)
  then show ?thesis
    using assms(2,3)
    by (simp add: fetch_chain_head_def fetch_ledger_chain_head_def db_ledger_service_def
        ledger_db_ok_def smap_err_def sbind_def first_row_def)
qed

lemma octet_length_bytea:
  "hex_laws C \<Longrightarrow> octet_length C (bytea_prefix @ hex_encode C b) = Some (length b)"
  by (simp add: octet_length_def decode_bytea_roundtrip)

lemma row_shape_ok:
  assumes "ledger_laws C" "stored_entry_ok C e"
  defines "p \<equiv> from_signed_entry C e"
  shows "0 < sint (p_sequence_no p)" "octet_length C (p_previous_entry_hash p) = Some 32"
    "octet_length C (p_entry_hash p) = Some 32" "octet_length C (p_signature p) = Some 64"
proof -
  from assms(2) have "1 \<le> unat (p_sequence_no p)" "unat (p_sequence_no p) < 2 ^ 63"
    by (simp_all add: p_def stored_entry_ok_def signed_fields_wf_def from_signed_entry_def
        LedgerSequenceNo_wf_unat)
  then show "0 < sint (p_sequence_no p)" using sint_small [of "p_sequence_no p"] by linarith
  show "octet_length C (p_previous_entry_hash p) = Some 32"
    "octet_length C (p_entry_hash p) = Some 32" "octet_length C (p_signature p) = Some 64"
    using assms(1,2) octet_length_bytea [of C]
    by (simp_all add: p_def from_signed_entry_def LedgerHash_to_bytea_hex_def LedgerHash_to_hex_def
        LedgerSignature_to_bytea_hex_def stored_entry_ok_def signed_fields_wf_def ledger_laws_def
        LEDGER_HASH_LENGTH_def LEDGER_SIGNATURE_LENGTH_def)
qed

lemma db_append_accepted:
  assumes "ledger_laws C" "stored_entry_ok C e" "db_chain_state db = Some st"
    and "\<not> row_content_rejected K (from_signed_entry C e)"
    and "p_ledger_entry_id (from_signed_entry C e) \<notin> p_ledger_entry_id ` set (db_ledger_entries db)"
    and "p_sequence_no (from_signed_entry C e) \<notin> p_sequence_no ` set (db_ledger_entries db)"
    and "p_entry_hash (from_signed_entry C e) \<notin> p_entry_hash ` set (db_ledger_entries db)"
    and "sint (p_sequence_no (from_signed_entry C e)) = sint (cs_last_sequence_no st) + 1"
    and "p_previous_entry_hash (from_signed_entry C e) = cs_last_entry_hash st"
  defines "p \<equiv> from_signed_entry C e"
  defines "st' \<equiv> \<lparr>cs_last_sequence_no = p_sequence_no p, cs_last_entry_hash = p_entry_hash p\<rparr>"
  shows "rpc_append_ledger_entry C K p db = Inr (append_response p st' False,
    db\<lparr>db_ledger_entries := db_ledger_entries db @ [p], db_chain_state := Some st'\<rparr>)"
proof -
  have "find (\<lambda>r. p_ledger_entry_id r = p_ledger_entry_id p) (db_ledger_entries db) = None"
    "\<not> list_ex (\<lambda>r. p_sequence_no r = p_sequence_no p) (db_ledger_entries db)"
    "\<not> list_ex (\<lambda>r. p_entry_hash r = p_entry_hash p) (db_ledger_entries db)"
    using assms(5-7) unfolding find_None_iff list_ex_iff p_def by (metis image_eqI)+
  then show ?thesis
    using assms(3,4,8,9) row_shape_ok [OF assms(1,2)]
    by (simp add: rpc_append_ledger_entry_def insert_ledger_entry_def Let_def p_def st'_def)
qed

text \<open>What the appender makes of the response to an accepted row.\<close>

lemma append_outcome:
  assumes "ledger_laws C" "stored_entry_ok C e"
  defines "p \<equiv> from_signed_entry C e"
  shows "AppendLedgerEntryOutcome_try_from C (append_response p
      \<lparr>cs_last_sequence_no = p_sequence_no p, cs_last_entry_hash = p_entry_hash p\<rparr> rep) = Inr
    \<lparr>ao_ledger_entry_id = le_ledger_entry_id e, ao_sequence_no = le_sequence_no e,
     ao_entry_hash = le_entry_hash e, ao_chain_head =
       \<lparr>head_last_sequence_no = LedgerSequenceNo_get (le_sequence_no e),
        head_last_entry_hash = le_entry_hash e\<rparr>, ao_replayed = rep\<rparr>"
proof -
  let ?n = "LedgerSequenceNo_get (le_sequence_no e)"
  from assms(2) have wf: "LedgerSequenceNo_wf (le_sequence_no e)"
    "length (LedgerHash_bytes (le_entry_hash e)) = LEDGER_HASH_LENGTH"
    "uuid_is_v4 C (LedgerEntryId_uuid (le_ledger_entry_id e))"
    by (simp_all add: stored_entry_ok_def signed_fields_wf_def entry_fields_wf_def)
  then have "unat ?n < 2 ^ 63" by (simp add: LedgerSequenceNo_wf_unat)
  then have "LedgerChainHead_from_i64 ?n h = Inr \<lparr>head_last_sequence_no = ?n,
      head_last_entry_hash = h\<rparr>" for h
    using sint_nonneg_of_small [of ?n]
    by (simp add: LedgerChainHead_from_i64_def LedgerChainHead_new_Inr chain_end_def hash_before_def
        del: rbind_eq_Inr)
  then show ?thesis
    using assms(1) wf ledger_uuid_roundtrips(1) [of C] LedgerHash_bytea_roundtrip [of C]
    by (simp add: AppendLedgerEntryOutcome_try_from_def append_response_def p_def
        from_signed_entry_def ledger_laws_def LedgerSequenceNo_from_i64_wf del: rbind_eq_Inr)
qed

text \<open>A chain never holds the next sequence number.\<close>

lemma next_number_fresh:
  assumes "chain_valid C keys 0 h es" "unat n = length es + 1"
  shows "n \<notin> p_sequence_no ` set (map (from_signed_entry C) es)"
proof
  assume "n \<in> p_sequence_no ` set (map (from_signed_entry C) es)"
  then obtain i where i: "i < length es" "p_sequence_no (from_signed_entry C (es ! i)) = n"
    by (auto simp: in_set_conv_nth)
  with assms(1) have "unat n = i + 1" by (auto simp: chain_valid_def from_signed_entry_def)
  with i(1) assms(2) show False by simp
qed

lemma sign_on_chain_end:
  assumes "sign_with_chain_head C d (chain_end 0 h es) key = Inr e" "chain_valid C keys 0 h es"
  shows "unat (LedgerSequenceNo_get (le_sequence_no e)) = length es + 1"
    and "le_previous_entry_hash e = hash_before h es (length es)"
    and "le_ledger_entry_id e = le_ledger_entry_id d"
proof -
  from assms(1) obtain m where m: "checked_add (of_nat (length es) :: u64) 1 = Some m"
    and sign: "sign_with_sequence C d (LedgerSequenceNo m) (hash_before h es (length es)) key = Inr e"
    by (auto simp: sign_with_chain_head_def next_sequence_no_def chain_end_def LedgerSequenceNo_new_Inr)
  have "unat (of_nat (length es) :: u64) = length es"
    using chain_valid_bound [OF assms(2)] by (simp add: unat_of_nat)
  with unat_checked_add [OF m] sign_with_sequence_Inr [OF sign]
  show "unat (LedgerSequenceNo_get (le_sequence_no e)) = length es + 1"
    "le_previous_entry_hash e = hash_before h es (length es)"
    "le_ledger_entry_id e = le_ledger_entry_id d" by simp_all
qed

lemma first_attempt:
  assumes "fetch_chain_head C a 1 s = (Inr chain_head, s)"
    and "sign_with_chain_head C draft chain_head (la_signing_key a) = Inr e"
  shows "ledger_append C a draft s =
    (case call_append_ledger_entry C (la_client a) e s of
      (Inr outcome, s') \<Rightarrow> (Inr outcome, s')
    | (Inl error, s') \<Rightarrow>
        let failure = classify_append_ledger_error C error;
          retries = unat (max_conflict_retries (la_config a)) in
        if is_retryable_conflict failure \<and> 0 < retries
        then append_loop C a draft retries [1..<Suc retries] s'
        else (Inl (classify_appender_error failure error 1), s'))"
proof -
  have "[0..<Suc r] = 0 # [1..<Suc r]" for r by (simp add: upt_conv_Cons del: upt_Suc)
  then show ?thesis
    using assms
    by (simp add: ledger_append_def Let_def sbind_def
        del: upt_Suc classify_appender_error.simps split: prod.splits sum.splits)
qed


lemma id_conflict_classified:
  assumes "renders_exceptions C render"
  shows "classify_append_ledger_error C (render ''ledger_entry_id_conflict'') = Rpc_EntryIdConflict"
proof -
  have "str_contains ''ledger_entry_id_conflict'' ''ledger_entry_id_conflict''" by code_simp
  moreover obtain status body where "render ''ledger_entry_id_conflict'' = NonSuccessStatus status body"
    "\<And>m. response_contains_marker C body m \<longleftrightarrow> str_contains ''ledger_entry_id_conflict'' m"
    using assms unfolding renders_exceptions_def by blast
  ultimately show ?thesis by (simp add: classify_append_ledger_error_def)
qed

text \<open>
  C16 --- A draft enters the ledger at most once.  If a row with the identifier of a draft is
  already stored, for instance because the response to an earlier append was lost, appending
  the draft again reports a conflict of identifiers at the first attempt and leaves the database
  as it was, on every reachable database.
\<close>

theorem stored_draft_is_refused:
  assumes "ledger_laws C" "ledger_run C K db" "la_client a = db_ledger_service C K render"
    and "renders_exceptions C render"
    and "fetch_ledger_chain_head C (la_client a) db = (Inr chain_head, db)"
    and "signer_ok C draft chain_head (la_signing_key a)"
    and "sign_with_chain_head C draft chain_head (la_signing_key a) = Inr e"
    and "LedgerEntryId_as_canonical_string C (le_ledger_entry_id draft) \<in>
      p_ledger_entry_id ` set (db_ledger_entries db)"
  shows "ledger_append C a draft db = (Inl (Append_Conflict Rpc_EntryIdConflict 1), db)"
proof -
  let ?p = "from_signed_entry C e"
  obtain es where ok: "ledger_db_ok C db es" using ledger_run_ok [OF assms(2,1)] by blast
  then have valid: "chain_valid C (registry_keys db) 0 LedgerHash_genesis es"
    and rows: "db_ledger_entries db = map (from_signed_entry C) es"
    by (simp_all add: ledger_db_ok_def)
  note fetch = db_fetch_chain_head [OF assms(1) ok assms(3)]
  from fetch [of 1] assms(5) have head: "chain_head = chain_end 0 LedgerHash_genesis es"
    by (simp add: fetch_chain_head_def smap_err_def)
  note signed = sign_on_chain_end [OF assms(7) [unfolded head] valid]
  from assms(1) have "sha256_laws C" by (simp add: ledger_laws_def)
  from sign_with_chain_head_stored_ok(1) [OF assms(7) this assms(6)] have e: "stored_entry_ok C e" .
  have p: "unat (p_sequence_no ?p) = length es + 1" using signed by (simp add: from_signed_entry_def)
  obtain old where old: "find (\<lambda>r. p_ledger_entry_id r = p_ledger_entry_id ?p)
      (db_ledger_entries db) = Some old"
    using assms(8) signed(3)
    by (cases "find (\<lambda>r. p_ledger_entry_id r = p_ledger_entry_id ?p) (db_ledger_entries db)")
      (auto simp: find_None_iff from_signed_entry_def)
  have "p_sequence_no ?p \<notin> p_sequence_no ` set (db_ledger_entries db)"
    unfolding rows using next_number_fresh [OF valid p] .
  with find_SomeD [OF old] have "old \<noteq> ?p" by auto
  with old row_shape_ok [OF assms(1) e]
  have "rpc_append_ledger_entry C K ?p db = Inl ''ledger_entry_id_conflict''"
    by (simp add: rpc_append_ledger_entry_def)
  then have "call_append_ledger_entry C (la_client a) e db =
      (Inl (render ''ledger_entry_id_conflict''), db)"
    by (simp add: call_append_ledger_entry_def assms(3) db_ledger_service_def sbind_def)
  then show ?thesis
    using first_attempt [OF fetch [folded head] assms(7)] id_conflict_classified [OF assms(4)]
    by (simp add: is_retryable_conflict_def)
qed


section \<open>A concrete run\<close>

definition permissive_checks :: ledger_checks where
  "permissive_checks = \<lparr>ledger_entry_type_allowed = (\<lambda>_. True),
    ledger_source_event_at_is_valid = (\<lambda>_. True), ledger_payload_is_valid = (\<lambda>_ _. True)\<rparr>"

definition sample_key_row :: signing_public_key_row where
  "sample_key_row = \<lparr>spk_key_version = 1, spk_public_key = replicate 32 5,
    spk_algorithm = ''ed25519'', spk_status = ''active'', spk_created_at = ''7Z'',
    spk_activated_at = Some ''7Z'', spk_retired_at = None\<rparr>"

definition sample_keyed_db :: ledger_db where
  "sample_keyed_db = (ledger_db_initial sample_crates)\<lparr>db_public_keys := [sample_key_row]\<rparr>"

definition sample_ledger_db :: ledger_db where
  "sample_ledger_db = sample_keyed_db\<lparr>
    db_ledger_entries := [from_signed_entry sample_crates sample_entry],
    db_chain_state := Some \<lparr>cs_last_sequence_no = 1,
      cs_last_entry_hash = LedgerHash_to_bytea_hex sample_crates (le_entry_hash sample_entry)\<rparr>\<rparr>"

lemma sample_keyed_run: "ledger_run sample_crates permissive_checks sample_keyed_db"
proof -
  have "sint (1 :: 32 word) = 1" by simp
  then have "rpc_register_ledger_signing_public_key 1 (replicate 32 5) ''7Z''
      (ledger_db_initial sample_crates) = Inr sample_keyed_db"
    by (simp add: rpc_register_ledger_signing_public_key_def sample_keyed_db_def
        ledger_db_initial_def sample_key_row_def)
  then show ?thesis by (intro ledger_run.register [OF ledger_run.initial]) simp_all
qed

lemma sample_content_accepted:
  "\<not> row_content_rejected permissive_checks (from_signed_entry sample_crates sample_entry)"
  by (simp add: row_content_rejected_def permissive_checks_def from_signed_entry_def
      sample_entry_def sample_entry_draft_def sample_append_draft_def
      LedgerAppendDraftParts.defs LedgerEntryDraftParts.defs sql_length_def sql_btrim_def
      LEDGER_CANONICALIZATION_VERSION_V1_def LEDGER_HASH_ALGORITHM_SHA256_def
      LEDGER_SIGNATURE_ALGORITHM_ED25519_def sample_signing_key_def)

lemma sample_append:
  "\<exists>r. rpc_append_ledger_entry sample_crates permissive_checks
    (from_signed_entry sample_crates sample_entry) sample_keyed_db = Inr (r, sample_ledger_db)"
  using sample_entry_stored_wf(2) octet_length_bytea [OF sample_hex_laws] sample_content_accepted
  by (simp add: rpc_append_ledger_entry_def sample_keyed_db_def ledger_db_initial_def
      sample_ledger_db_def insert_ledger_entry_def from_signed_entry_def signed_fields_wf_def
      LEDGER_HASH_LENGTH_def LEDGER_SIGNATURE_LENGTH_def LedgerHash_to_bytea_hex_def
      LedgerHash_to_hex_def LedgerSignature_to_bytea_hex_def LedgerHash_genesis_def Let_def)

lemma sample_ledger_run: "ledger_run sample_crates permissive_checks sample_ledger_db"
proof -
  obtain r where r: "rpc_append_ledger_entry sample_crates permissive_checks
      (from_signed_entry sample_crates sample_entry) sample_keyed_db = Inr (r, sample_ledger_db)"
    using sample_append by blast
  have "signer_ok sample_crates sample_append_draft LedgerChainHead_genesis sample_signing_key"
    using sample_entry_stored_wf(1)
    by (simp add: signer_ok_def sample_entry_def sample_entry_draft_def LedgerChainHead_genesis_def
        LedgerHash_genesis_def sample_signing_key_def)
  moreover have "key_registered sample_crates sample_signing_key (registry_keys sample_keyed_db)"
    by (simp add: key_registered_def registry_keys_def sample_keyed_db_def ledger_db_initial_def
        sample_key_row_def sample_signing_key_def verification_key_def)
  ultimately show ?thesis
    by (rule ledger_run.append [OF sample_keyed_run _ _ racing_sign r])
qed

theorem stored_ledger_verifies_witness:
  "\<exists>entries keys chain_head.
    verify_ledger_chain sample_crates entries LedgerChainHead_genesis keys = Inr chain_head \<and>
    LedgerChainHead_try_from sample_crates \<lparr>cs_last_sequence_no = 1, cs_last_entry_hash =
      LedgerHash_to_bytea_hex sample_crates (le_entry_hash sample_entry)\<rparr> = Inr chain_head"
proof -
  have laws: "ledger_laws sample_crates" by (simp add: ledger_laws_def sample_laws)
  have "db_ledger_entries sample_ledger_db \<noteq> []" by (simp add: sample_ledger_db_def)
  from stored_ledger_verifies [OF sample_ledger_run laws this] show ?thesis
    by (auto simp: sample_ledger_db_def)
qed

text \<open>An appender on the sample database, behind a gateway that answers as documented.\<close>

definition sample_render :: "string \<Rightarrow> SupabaseRpcError" where
  "sample_render m = NonSuccessStatus 400 (jenc (JObject [(''message'', JString m)]))"

lemma sample_renders: "renders_exceptions sample_crates sample_render"
proof -
  have "response_contains_marker sample_crates (jenc (JObject [(''message'', JString m)])) marker =
      str_contains m marker" for m marker
    by (simp add: response_contains_marker_def sample_json_roundtrip json_get_def bt_get_def as_str_def
        del: jenc.simps)
  then show ?thesis by (simp add: renders_exceptions_def sample_render_def)
qed

definition sample_appender :: "ledger_db LedgerAppender" where
  "sample_appender =
    \<lparr>la_client = db_ledger_service sample_crates permissive_checks sample_render,
     la_signing_key = sample_signing_key, la_config = LedgerAppenderConfig_default\<rparr>"

lemma sample_appender_simps [simp]:
  "la_client sample_appender = db_ledger_service sample_crates permissive_checks sample_render"
  "la_signing_key sample_appender = sample_signing_key"
  by (simp_all add: sample_appender_def)

lemma sample_signer_ok:
  "length (LedgerHash_bytes (head_last_entry_hash h)) = LEDGER_HASH_LENGTH \<Longrightarrow>
    signer_ok sample_crates sample_append_draft h sample_signing_key"
  using sample_entry_stored_wf(1)
  by (simp add: signer_ok_def sample_entry_def sample_entry_draft_def sample_signing_key_def)

lemma sample_sign_total:
  "\<exists>e. sign_with_sequence sample_crates sample_append_draft n h sample_signing_key = Inr e"
  by (simp add: sign_with_sequence_def LedgerEntryDraft_new_Inr LedgerEntryDraft_sign_Inr
      LedgerEntry_wf_def sample_append_draft_def sample_ledger_payload_def validate_error_code_def
      validate_actor_device_id_def LedgerAppendDraftParts.defs build_canonical_payload_def
      sign_payload_def LedgerSignature_from_bytes_def LEDGER_SIGNATURE_LENGTH_def)

lemma sample_fetch:
  assumes "ledger_db_ok sample_crates db es"
  shows "fetch_ledger_chain_head sample_crates (la_client sample_appender) db =
    (Inr (chain_end 0 LedgerHash_genesis es), db)"
proof -
  have "ledger_laws sample_crates" by (simp add: ledger_laws_def sample_laws)
  from db_fetch_chain_head [OF this assms, of sample_appender permissive_checks sample_render 1]
  show ?thesis
    by (auto simp: fetch_chain_head_def smap_err_def split: prod.splits)
qed


theorem stored_draft_is_refused_witness:
  "ledger_append sample_crates sample_appender sample_append_draft sample_ledger_db =
    (Inl (Append_Conflict Rpc_EntryIdConflict 1), sample_ledger_db)"
proof -
  have laws: "ledger_laws sample_crates" by (simp add: ledger_laws_def sample_laws)
  obtain es where ok: "ledger_db_ok sample_crates sample_ledger_db es"
    using ledger_run_ok [OF sample_ledger_run laws] by blast
  let ?h = "chain_end 0 LedgerHash_genesis es"
  from ok have es: "length es = 1" and e: "list_all (stored_entry_ok sample_crates) es"
    by (auto simp: ledger_db_ok_def sample_ledger_db_def dest: arg_cong [of _ _ length])
  have "checked_add (1 :: u64) 1 = Some 2" by (simp add: checked_add_eq_Some)
  then have "next_sequence_no ?h = Inr (LedgerSequenceNo 2)"
    using es by (simp add: next_sequence_no_def chain_end_def LedgerSequenceNo_new_Inr
        LedgerSequenceNo_wf_def LEDGER_I64_MAX_U64_def)
  then obtain e2 where sign: "sign_with_chain_head sample_crates sample_append_draft ?h
      (la_signing_key sample_appender) = Inr e2"
    using sample_sign_total by (auto simp: sign_with_chain_head_def)
  have signer: "signer_ok sample_crates sample_append_draft ?h (la_signing_key sample_appender)"
    using es e by (cases es) (simp_all add: sample_signer_ok chain_end_def hash_before_def
        stored_entry_ok_def signed_fields_wf_def)
  have "LedgerEntryId_as_canonical_string sample_crates (le_ledger_entry_id sample_append_draft) \<in>
      p_ledger_entry_id ` set (db_ledger_entries sample_ledger_db)"
    by (simp add: sample_ledger_db_def from_signed_entry_def sample_entry_id
        sample_append_draft_def)
  from stored_draft_is_refused [OF laws sample_ledger_run sample_appender_simps(1) sample_renders
      sample_fetch [OF ok] signer sign this] show ?thesis .
qed

end
