(* ===== verification/Monthly_Digest.thy ===== *)
theory Monthly_Digest
  imports Ledger_Digest Ledger_System
begin

text \<open>
  Generating and verifying monthly digests
  (\<open>src/server/use_cases/generate_monthly_digest.rs\<close>, \<open>verify_monthly_digest.rs\<close>), over the
  stored procedures that serve them (migration \<open>0900\<close>).
\<close>


section \<open>Client calls\<close>

text \<open>The calls as seen through HTTP, like \<^typ>\<open>'s ledger_service\<close>.\<close>

record 's digest_client =
  dc_range_rows :: "string \<Rightarrow> ('s, SupabaseRpcError, LedgerRangeResponse list) comp"
  dc_exists_rows :: "string \<Rightarrow> ('s, SupabaseRpcError, bool list) comp"
  dc_verification_rows ::
    "string \<Rightarrow> ('s, SupabaseRpcError, DigestForVerificationResponse list) comp"
  dc_export_rows :: "64 word \<Rightarrow> 64 word \<Rightarrow>
    ('s, SupabaseRpcError, LedgerVerificationMaterialResponse list) comp"

text \<open>\<open>rows.into_iter().next().map(convert).transpose()\<close>\<close>

definition first_row_optional :: "('a \<Rightarrow> 'e + 'b) \<Rightarrow> 'a list \<Rightarrow> 'e + 'b option" where
  "first_row_optional convert rows =
    (case rows of [] \<Rightarrow> Inr None | row # _ \<Rightarrow> map_ok Some (convert row))"

definition fetch_ledger_range_for_month ::
    "crates \<Rightarrow> 's digest_client \<Rightarrow> string \<Rightarrow> ('s, SupabaseRpcError, LedgerRangeForMonth option) comp"
  where
  "fetch_ledger_range_for_month C client year_month =
    sbind (dc_range_rows client year_month) (\<lambda>rows.
    slift (first_row_optional (LedgerRangeForMonth_try_from C) rows))"

definition check_monthly_digest_exists ::
    "'s digest_client \<Rightarrow> string \<Rightarrow> ('s, SupabaseRpcError, bool) comp" where
  "check_monthly_digest_exists client year_month =
    sbind (dc_exists_rows client year_month) (\<lambda>rows.
    sret (case rows of [] \<Rightarrow> False | r # _ \<Rightarrow> r))"

definition fetch_monthly_digest_for_verification ::
    "crates \<Rightarrow> 's digest_client \<Rightarrow> string \<Rightarrow>
      ('s, SupabaseRpcError, MonthlyDigestVerificationMaterials option) comp" where
  "fetch_monthly_digest_for_verification C client year_month =
    sbind (dc_verification_rows client year_month) (\<lambda>rows.
    slift (first_row_optional (MonthlyDigestVerificationMaterials_try_from C) rows))"

definition export_ledger_verification_materials ::
    "crates \<Rightarrow> 's digest_client \<Rightarrow> LedgerSequenceNo \<Rightarrow> LedgerSequenceNo \<Rightarrow>
      ('s, SupabaseRpcError, LedgerVerificationMaterialRow list) comp" where
  "export_ledger_verification_materials C client start_sequence_no end_sequence_no =
    sbind (dc_export_rows client (LedgerSequenceNo_get start_sequence_no)
      (LedgerSequenceNo_get end_sequence_no)) (\<lambda>rows.
    slift (try_map (LedgerVerificationMaterialRow_try_from C) rows))"


section \<open>Generation\<close>

record GenerateMonthlyDigestInput =
  gi_period :: MonthlyDigestPeriod
  gi_generated_at :: SourceEventAt
  gi_request_id :: RequestId

datatype GenerateMonthlyDigestError =
    Generate_DuplicateDigest
  | Generate_NoEntriesForPeriod
  | Generate_FetchFailed string
  | Generate_BuildFailed string
  | Generate_AppendFailed string

fun GenerateMonthlyDigestError_as_error_code :: "GenerateMonthlyDigestError \<Rightarrow> string" where
  "GenerateMonthlyDigestError_as_error_code Generate_DuplicateDigest = ''monthly_digest_duplicate''"
| "GenerateMonthlyDigestError_as_error_code Generate_NoEntriesForPeriod =
    ''monthly_digest_no_entries''"
| "GenerateMonthlyDigestError_as_error_code (Generate_FetchFailed code) = code"
| "GenerateMonthlyDigestError_as_error_code (Generate_BuildFailed code) = code"
| "GenerateMonthlyDigestError_as_error_code (Generate_AppendFailed code) = code"

fun GenerateMonthlyDigestError_display :: "GenerateMonthlyDigestError \<Rightarrow> string" where
  "GenerateMonthlyDigestError_display Generate_DuplicateDigest =
    ''monthly digest already exists for this period''"
| "GenerateMonthlyDigestError_display Generate_NoEntriesForPeriod =
    ''no ledger entries found for the target period''"
| "GenerateMonthlyDigestError_display (Generate_FetchFailed code) =
    ''monthly digest fetch failed: '' @ code"
| "GenerateMonthlyDigestError_display (Generate_BuildFailed code) =
    ''monthly digest build failed: '' @ code"
| "GenerateMonthlyDigestError_display (Generate_AppendFailed code) =
    ''monthly digest ledger append failed: '' @ code"

definition build_failed :: "LedgerError \<Rightarrow> GenerateMonthlyDigestError" where
  "build_failed error = Generate_BuildFailed (LedgerError_display error)"

definition fetch_ledger_range ::
    "crates \<Rightarrow> 's digest_client \<Rightarrow> GenerateMonthlyDigestInput \<Rightarrow>
      ('s, GenerateMonthlyDigestError, LedgerRangeForMonth) comp" where
  "fetch_ledger_range C client input s =
    (case fetch_ledger_range_for_month C client (MonthlyDigestPeriod_str (gi_period input)) s of
      (Inr (Some month_range), s') \<Rightarrow> (Inr month_range, s')
    | (Inr None, s') \<Rightarrow> (Inl Generate_NoEntriesForPeriod, s')
    | (Inl error, s') \<Rightarrow> (Inl (Generate_FetchFailed ''monthly_digest_range_fetch_failed''), s'))"

definition digest_payload :: "crates \<Rightarrow> SignedMonthlyDigest \<Rightarrow> json" where
  "digest_payload C d = JObject
    [(''digest_hash'', JString (DigestHash_to_hex C (dg_digest_hash d))),
     (''end_sequence_no'', json_uint (LedgerSequenceNo_get (dg_end_sequence_no d))),
     (''entry_count'', json_uint (dg_entry_count d)),
     (''start_sequence_no'', json_uint (LedgerSequenceNo_get (dg_start_sequence_no d))),
     (''target_year_month'', JString (MonthlyDigestPeriod_str (dg_period d)))]"

definition append_digest_ledger_entry ::
    "crates \<Rightarrow> 's LedgerAppender \<Rightarrow> SignedMonthlyDigest \<Rightarrow> GenerateMonthlyDigestInput \<Rightarrow>
      ('s \<times> rng, GenerateMonthlyDigestError, unit) comp" where
  "append_digest_ledger_entry C ledger_appender signed_digest input =
    sbind (slift (map_err build_failed
      (LedgerPayload_new C Entry_MonthlyDigest (digest_payload C signed_digest)))) (\<lambda>payload.
    sbind (on_snd (smap_err build_failed (LedgerEntryId_generate C))) (\<lambda>ledger_entry_id.
    sbind (slift (map_err build_failed (LedgerAppendDraft_new
      \<lparr>le_ledger_entry_id = ledger_entry_id, le_entry_type = Entry_MonthlyDigest,
       le_source_event_at = gi_generated_at input, le_request_id = gi_request_id input,
       le_source_event_id = None, le_target_secret_id = None, le_target_secret_version_id = None,
       le_actor_user_id = None, le_actor_device_id = None, le_result = LedgerSuccess,
       le_error_code = None, le_payload = payload\<rparr>))) (\<lambda>draft.
    sbind (on_fst (smap_err (\<lambda>error. Generate_AppendFailed (LedgerAppendError_as_error_code error))
      (ledger_append C ledger_appender draft))) (\<lambda>_.
    sret ()))))"

definition generate_monthly_digest ::
    "crates \<Rightarrow> 's digest_client \<Rightarrow> 's LedgerAppender \<Rightarrow> GenerateMonthlyDigestInput \<Rightarrow>
      ('s \<times> rng, GenerateMonthlyDigestError, SignedMonthlyDigest) comp" where
  "generate_monthly_digest C client ledger_appender input =
    sbind (on_fst (smap_err (\<lambda>_. Generate_FetchFailed ''monthly_digest_duplicate_check_failed'')
      (check_monthly_digest_exists client (MonthlyDigestPeriod_str (gi_period input)))))
      (\<lambda>already_exists.
    if already_exists then slift (Inl Generate_DuplicateDigest)
    else
    sbind (on_fst (fetch_ledger_range C client input)) (\<lambda>month_range.
    let fields = \<lparr>dg_period = gi_period input,
      dg_start_sequence_no = range_start_sequence_no month_range,
      dg_end_sequence_no = range_end_sequence_no month_range,
      dg_start_entry_hash = range_start_entry_hash month_range,
      dg_end_entry_hash = range_end_entry_hash month_range,
      dg_entry_count = range_entry_count month_range,
      dg_digest_generated_at = gi_generated_at input,
      dg_signature_key_version = sk_key_version (la_signing_key ledger_appender)\<rparr> in
    sbind (slift (map_err build_failed (build_monthly_digest_canonical_form C fields)))
      (\<lambda>canonical_bytes.
    let digest_hash = DigestHash_from_canonical_bytes C canonical_bytes in
    sbind (slift (map_err build_failed
      (sign_digest_bytes C ledger_appender (DigestCanonicalBytes_bytes canonical_bytes))))
      (\<lambda>sbc_signature.
    let signed_digest = digest_fields.extend fields
      \<lparr>dg_canonical_bytes = canonical_bytes, dg_digest_hash = digest_hash,
       dg_sbc_signature = sbc_signature\<rparr> in
    sbind (append_digest_ledger_entry C ledger_appender signed_digest input) (\<lambda>_.
    sret signed_digest)))))"


section \<open>Verification\<close>

record VerifyMonthlyDigestInput =
  vi_period :: MonthlyDigestPeriod
  vi_request_id :: RequestId

datatype VerifyMonthlyDigestError =
    Verify_DigestNotFound
  | Verify_FetchFailed string
  | Verify_ChainContinuityError string
  | Verify_EndHashMismatch
  | Verify_UnknownSignatureKey
  | Verify_DigestHashMismatch
  | Verify_DigestSignatureInvalid
  | Verify_RangeModifiedAfterDigest

fun VerifyMonthlyDigestError_as_error_code :: "VerifyMonthlyDigestError \<Rightarrow> string" where
  "VerifyMonthlyDigestError_as_error_code Verify_DigestNotFound = ''monthly_digest_not_found''"
| "VerifyMonthlyDigestError_as_error_code (Verify_FetchFailed code) = code"
| "VerifyMonthlyDigestError_as_error_code (Verify_ChainContinuityError _) =
    ''monthly_digest_chain_continuity_error''"
| "VerifyMonthlyDigestError_as_error_code Verify_EndHashMismatch =
    ''monthly_digest_end_hash_mismatch''"
| "VerifyMonthlyDigestError_as_error_code Verify_UnknownSignatureKey =
    ''monthly_digest_unknown_signature_key''"
| "VerifyMonthlyDigestError_as_error_code Verify_DigestHashMismatch =
    ''monthly_digest_hash_mismatch''"
| "VerifyMonthlyDigestError_as_error_code Verify_DigestSignatureInvalid =
    ''monthly_digest_signature_invalid''"
| "VerifyMonthlyDigestError_as_error_code Verify_RangeModifiedAfterDigest =
    ''monthly_digest_range_modified''"

fun VerifyMonthlyDigestError_display :: "VerifyMonthlyDigestError \<Rightarrow> string" where
  "VerifyMonthlyDigestError_display Verify_DigestNotFound =
    ''monthly digest not found for this period''"
| "VerifyMonthlyDigestError_display (Verify_FetchFailed code) = ''fetch failed: '' @ code"
| "VerifyMonthlyDigestError_display (Verify_ChainContinuityError ledger_error_code) =
    ''chain continuity error: '' @ ledger_error_code"
| "VerifyMonthlyDigestError_display Verify_EndHashMismatch =
    ''chain end hash does not match digest end_entry_hash''"
| "VerifyMonthlyDigestError_display Verify_UnknownSignatureKey =
    ''signing public key not registered for this key version''"
| "VerifyMonthlyDigestError_display Verify_DigestHashMismatch =
    ''recomputed digest hash does not match stored hash''"
| "VerifyMonthlyDigestError_display Verify_DigestSignatureInvalid =
    ''digest Ed25519 signature is invalid''"
| "VerifyMonthlyDigestError_display Verify_RangeModifiedAfterDigest =
    ''ledger range was modified after digest was generated''"

definition map_ledger_error_to_code :: "LedgerError \<Rightarrow> string" where
  "map_ledger_error_to_code error =
    (case error of
      SequenceGap _ _ \<Rightarrow> ''chain_sequence_gap''
    | PreviousHashMismatch _ \<Rightarrow> ''chain_previous_hash_mismatch''
    | HashMismatch _ \<Rightarrow> ''chain_entry_hash_mismatch''
    | SignatureInvalid _ \<Rightarrow> ''chain_signature_invalid''
    | UnknownSignatureKey _ _ \<Rightarrow> ''chain_unknown_signature_key''
    | _ \<Rightarrow> ''chain_verification_error'')"

record VerifiedMonthlyDigestInfo =
  info_start_sequence_no :: LedgerSequenceNo
  info_end_sequence_no :: LedgerSequenceNo
  info_entry_count :: u64

definition materials_fields ::
    "MonthlyDigestPeriod \<Rightarrow> MonthlyDigestVerificationMaterials \<Rightarrow> digest_fields" where
  "materials_fields period m =
    \<lparr>dg_period = period, dg_start_sequence_no = vm_start_sequence_no m,
     dg_end_sequence_no = vm_end_sequence_no m, dg_start_entry_hash = vm_start_entry_hash m,
     dg_end_entry_hash = vm_end_entry_hash m, dg_entry_count = vm_stored_entry_count m,
     dg_digest_generated_at = vm_digest_generated_at m,
     dg_signature_key_version = vm_signature_key_version m\<rparr>"

text \<open>Steps 3 to 9: everything that is checked on the fetched materials and rows.\<close>

definition check_digest_materials ::
    "crates \<Rightarrow> MonthlyDigestPeriod \<Rightarrow> MonthlyDigestVerificationMaterials \<Rightarrow>
      LedgerVerificationMaterialRow list \<Rightarrow> VerifyMonthlyDigestError + unit" where
  "check_digest_materials C period materials rows =
    (case rows of
      [] \<Rightarrow> Inl (Verify_FetchFailed ''monthly_digest_chain_empty'')
    | row0 # _ \<Rightarrow>
    rbind (map_err (\<lambda>_. Verify_FetchFailed ''monthly_digest_chain_entry_restore_failed'')
      (restore_entries C rows)) (\<lambda>entries.
    rbind (map_err (\<lambda>_. Verify_FetchFailed ''monthly_digest_chain_key_restore_failed'')
      (restore_keys C [] rows)) (\<lambda>verification_keys.
    rbind (map_err (\<lambda>_. Verify_FetchFailed ''monthly_digest_chain_head_build_failed'')
      (LedgerChainHead_new (LedgerSequenceNo_get (vm_start_sequence_no materials) - 1)
        (row_previous_entry_hash row0))) (\<lambda>initial_head.
    rbind (map_err (\<lambda>error. Verify_ChainContinuityError (map_ledger_error_to_code error))
      (verify_ledger_chain C entries initial_head verification_keys)) (\<lambda>final_head.
    rbind (reject_if (head_last_entry_hash final_head \<noteq> vm_end_entry_hash materials)
      Verify_EndHashMismatch) (\<lambda>_.
    rbind (ok_or Verify_UnknownSignatureKey (vm_public_key materials)) (\<lambda>public_key.
    rbind (map_err (\<lambda>_. Verify_FetchFailed ''monthly_digest_canonical_rebuild_failed'')
      (build_monthly_digest_canonical_form C (materials_fields period materials)))
      (\<lambda>canonical_bytes.
    let computed_hash = DigestHash_to_hex C (DigestHash_from_canonical_bytes C canonical_bytes) in
    rbind (reject_if (computed_hash \<noteq> vm_stored_digest_hash materials) Verify_DigestHashMismatch)
      (\<lambda>_.
    map_err (\<lambda>_. Verify_DigestSignatureInvalid)
      (verify_digest_bytes C public_key (DigestCanonicalBytes_bytes canonical_bytes)
        (vm_signature materials)))))))))))"

definition verify_monthly_digest ::
    "crates \<Rightarrow> 's digest_client \<Rightarrow> VerifyMonthlyDigestInput \<Rightarrow>
      ('s, VerifyMonthlyDigestError, VerifiedMonthlyDigestInfo) comp" where
  "verify_monthly_digest C client input =
    (let period = vi_period input in
    sbind (smap_err (\<lambda>_. Verify_FetchFailed ''monthly_digest_verify_materials_fetch_failed'')
      (fetch_monthly_digest_for_verification C client (MonthlyDigestPeriod_str period)))
      (\<lambda>found.
    sbind (slift (ok_or Verify_DigestNotFound found)) (\<lambda>materials.
    sbind (smap_err (\<lambda>_. Verify_FetchFailed ''monthly_digest_chain_export_failed'')
      (export_ledger_verification_materials C client (vm_start_sequence_no materials)
        (vm_end_sequence_no materials))) (\<lambda>rows.
    sbind (slift (check_digest_materials C period materials rows)) (\<lambda>_.
    sbind (smap_err (\<lambda>_. Verify_FetchFailed ''monthly_digest_range_fetch_failed'')
      (fetch_ledger_range_for_month C client (MonthlyDigestPeriod_str period))) (\<lambda>current.
    slift (
      rbind (ok_or (Verify_FetchFailed ''monthly_digest_range_fetch_empty'') current)
        (\<lambda>current_range.
      rbind (reject_if (range_entry_count current_range > vm_stored_entry_count materials \<or>
          LedgerSequenceNo_get (range_end_sequence_no current_range) >
            LedgerSequenceNo_get (vm_end_sequence_no materials))
        Verify_RangeModifiedAfterDigest) (\<lambda>_.
      Inr \<lparr>info_start_sequence_no = vm_start_sequence_no materials,
        info_end_sequence_no = vm_end_sequence_no materials,
        info_entry_count = vm_stored_entry_count materials\<rparr>)))))))))"


section \<open>Stored procedures\<close>

text \<open>\<open>payload->>'key'\<close> for a text field, and its cast to \<open>bigint\<close> for a number.\<close>

definition payload_text :: "json \<Rightarrow> string \<Rightarrow> string option" where
  "payload_text payload key = Option.bind (json_get payload key) as_str"

definition payload_bigint :: "json \<Rightarrow> string \<Rightarrow> 64 word option" where
  "payload_bigint payload key = Option.bind (json_get payload key) json_as_u64"

definition rpc_check_monthly_digest_exists :: "string \<Rightarrow> ledger_db \<Rightarrow> string + bool list" where
  "rpc_check_monthly_digest_exists year_month db =
    (if \<not> is_ok (validate_year_month_format year_month)
     then Inl ''invalid_year_month_format: p_year_month must be YYYY-MM''
     else Inr [list_ex (\<lambda>p. p_entry_type p = ''monthly_digest'' \<and>
       payload_text (p_payload p) ''target_year_month'' = Some year_month) (db_ledger_entries db)])"

text \<open>Whether a timestamp falls into a month is decided by the database's \<open>timestamptz\<close> cast,
  an argument here.\<close>

definition rpc_fetch_ledger_range_for_month ::
    "(string \<Rightarrow> string \<Rightarrow> bool) \<Rightarrow> string \<Rightarrow> ledger_db \<Rightarrow> string + LedgerRangeResponse list" where
  "rpc_fetch_ledger_range_for_month in_month year_month db =
    (if \<not> is_ok (validate_year_month_format year_month)
     then Inl ''invalid_year_month_format: p_year_month must be YYYY-MM''
     else let rows = sort_key (\<lambda>p. sint (p_sequence_no p))
       (filter (\<lambda>p. in_month year_month (p_source_event_at p)) (db_ledger_entries db)) in
     Inr (if rows = [] then [] else
       [\<lparr>rr_start_sequence_no = p_sequence_no (hd rows),
         rr_end_sequence_no = p_sequence_no (last rows),
         rr_start_entry_hash = p_entry_hash (hd rows), rr_end_entry_hash = p_entry_hash (last rows),
         rr_entry_count = of_nat (length rows)\<rparr>]))"

text \<open>The rows of one digest entry joined with its first and last entry and its key.  The
  schema check on payloads makes the columns taken from the payload present.\<close>

definition digest_verification_rows ::
    "crates \<Rightarrow> string \<Rightarrow> ledger_db \<Rightarrow> LedgerEntryRpcParams \<Rightarrow> DigestForVerificationResponse list" where
  "digest_verification_rows C year_month db le =
    (case (payload_bigint (p_payload le) ''start_sequence_no'',
        payload_bigint (p_payload le) ''end_sequence_no'',
        payload_bigint (p_payload le) ''entry_count'', payload_text (p_payload le) ''digest_hash'') of
      (Some start_no, Some end_no, Some entry_count, Some digest_hash) \<Rightarrow>
        [\<lparr>dv_start_sequence_no = start_no, dv_end_sequence_no = end_no,
          dv_stored_entry_count = entry_count, dv_stored_digest_hash = digest_hash,
          dv_target_year_month = year_month, dv_digest_generated_at = p_source_event_at le,
          dv_signature = p_signature le,
          dv_signature_key_version = p_signature_key_version le,
          dv_public_key = map_option (\<lambda>k. bytea_prefix @ hex_encode C (spk_public_key k))
            (registered_key db le),
          dv_start_entry_hash = p_entry_hash le_start, dv_end_entry_hash = p_entry_hash le_end\<rparr>.
         le_start \<leftarrow> db_ledger_entries db, p_sequence_no le_start = start_no,
         le_end \<leftarrow> db_ledger_entries db, p_sequence_no le_end = end_no]
    | _ \<Rightarrow> [])"

definition rpc_fetch_monthly_digest_for_verification ::
    "crates \<Rightarrow> string \<Rightarrow> ledger_db \<Rightarrow> string + DigestForVerificationResponse list" where
  "rpc_fetch_monthly_digest_for_verification C year_month db =
    (if \<not> is_ok (validate_year_month_format year_month) then Inl ''invalid_rpc_input''
     else Inr (concat (map (digest_verification_rows C year_month db)
       (filter (\<lambda>p. p_entry_type p = ''monthly_digest'' \<and>
         payload_text (p_payload p) ''target_year_month'' = Some year_month)
         (db_ledger_entries db)))))"

definition db_digest_client ::
    "crates \<Rightarrow> (string \<Rightarrow> SupabaseRpcError) \<Rightarrow> (string \<Rightarrow> string \<Rightarrow> bool) \<Rightarrow> ledger_db digest_client" where
  "db_digest_client C render in_month =
    \<lparr>dc_range_rows = (\<lambda>ym db. (map_err render (rpc_fetch_ledger_range_for_month in_month ym db), db)),
     dc_exists_rows = (\<lambda>ym db. (map_err render (rpc_check_monthly_digest_exists ym db), db)),
     dc_verification_rows = (\<lambda>ym db.
       (map_err render (rpc_fetch_monthly_digest_for_verification C ym db), db)),
     dc_export_rows = (\<lambda>start_no end_no db.
       (map_err render (rpc_export_ledger_verification_materials C start_no end_no db), db))\<rparr>"


section \<open>What verification establishes\<close>

lemma check_digest_materialsE:
  assumes "check_digest_materials C period m rows = Inr ()"
  obtains row0 rest entries keys public_key b where
    "rows = row0 # rest" "restore_entries C rows = Inr entries" "restore_keys C [] rows = Inr keys"
    "chain_valid C keys (unat (LedgerSequenceNo_get (vm_start_sequence_no m) - 1))
      (row_previous_entry_hash row0) entries"
    "hash_before (row_previous_entry_hash row0) entries (length entries) = vm_end_entry_hash m"
    "vm_public_key m = Some public_key"
    "build_monthly_digest_canonical_form C (materials_fields period m) = Inr b"
    "DigestHash_to_hex C (DigestHash_from_canonical_bytes C b) = vm_stored_digest_hash m"
    "verify_digest_bytes C public_key (DigestCanonicalBytes_bytes b) (vm_signature m) = Inr ()"
proof (cases rows)
  case Nil
  with assms show ?thesis by (simp add: check_digest_materials_def)
next
  case (Cons row0 rest)
  from assms obtain entries keys h final public_key b where
    parts: "restore_entries C rows = Inr entries" "restore_keys C [] rows = Inr keys"
      "LedgerChainHead_new (LedgerSequenceNo_get (vm_start_sequence_no m) - 1)
        (row_previous_entry_hash row0) = Inr h"
      "verify_ledger_chain C entries h keys = Inr final"
      "head_last_entry_hash final = vm_end_entry_hash m" "vm_public_key m = Some public_key"
      "build_monthly_digest_canonical_form C (materials_fields period m) = Inr b"
      "DigestHash_to_hex C (DigestHash_from_canonical_bytes C b) = vm_stored_digest_hash m"
      "verify_digest_bytes C public_key (DigestCanonicalBytes_bytes b) (vm_signature m) = Inr ()"
    by (auto simp: check_digest_materials_def Cons Let_def simp del: restore_keys.simps)
  from parts(3) have "head_last_sequence_no h = LedgerSequenceNo_get (vm_start_sequence_no m) - 1"
    "head_last_entry_hash h = row_previous_entry_hash row0"
    by (simp_all add: LedgerChainHead_new_Inr chain_end_def hash_before_def)
  with parts(4) have "chain_valid C keys (unat (LedgerSequenceNo_get (vm_start_sequence_no m) - 1))
      (row_previous_entry_hash row0) entries"
    "final = chain_end (unat (LedgerSequenceNo_get (vm_start_sequence_no m) - 1))
      (row_previous_entry_hash row0) entries"
    by (simp_all add: verify_ledger_chain_def verify_chain_loop_iff del: verify_chain_loop.simps)
  with parts Cons show ?thesis by (intro that) (simp_all add: chain_end_def)
qed

lemma verify_monthly_digestE:
  assumes "verify_monthly_digest C client input s = (Inr info, s')"
  obtains m s1 rows s2 current where
    "fetch_monthly_digest_for_verification C client (MonthlyDigestPeriod_str (vi_period input)) s =
      (Inr (Some m), s1)"
    "export_ledger_verification_materials C client (vm_start_sequence_no m)
      (vm_end_sequence_no m) s1 = (Inr rows, s2)"
    "check_digest_materials C (vi_period input) m rows = Inr ()"
    "fetch_ledger_range_for_month C client (MonthlyDigestPeriod_str (vi_period input)) s2 =
      (Inr (Some current), s')"
    "range_entry_count current \<le> vm_stored_entry_count m"
    "LedgerSequenceNo_get (range_end_sequence_no current) \<le>
      LedgerSequenceNo_get (vm_end_sequence_no m)"
    "info = \<lparr>info_start_sequence_no = vm_start_sequence_no m,
      info_end_sequence_no = vm_end_sequence_no m, info_entry_count = vm_stored_entry_count m\<rparr>"
  using assms by (auto simp: verify_monthly_digest_def Let_def sbind_eq_Inr)

text \<open>
  C11 --- A monthly digest verifies only if all it claims holds: the exported rows restore to
  entries that form a gap-free, linked, hashed and signed chain from its first sequence number and
  end in its last entry hash, the hash over the rebuilt canonical form of all its fields is the
  stored one, the registered key accepts the stored signature over that form, and the month has
  neither more entries now nor entries beyond the last one.
\<close>

theorem verify_monthly_digest_sound:
  assumes "verify_monthly_digest C client input s = (Inr info, s')"
  shows "\<exists>m rows row0 entries keys public_key b s1 s2 current.
    fetch_monthly_digest_for_verification C client (MonthlyDigestPeriod_str (vi_period input)) s =
      (Inr (Some m), s1) \<and>
    export_ledger_verification_materials C client (info_start_sequence_no info)
      (info_end_sequence_no info) s1 = (Inr rows, s2) \<and>
    rows \<noteq> [] \<and> row0 = hd rows \<and>
    restore_entries C rows = Inr entries \<and> restore_keys C [] rows = Inr keys \<and>
    chain_valid C keys (unat (LedgerSequenceNo_get (info_start_sequence_no info) - 1))
      (row_previous_entry_hash row0) entries \<and>
    hash_before (row_previous_entry_hash row0) entries (length entries) = vm_end_entry_hash m \<and>
    build_monthly_digest_canonical_form C (materials_fields (vi_period input) m) = Inr b \<and>
    DigestHash_to_hex C (DigestHash_from_canonical_bytes C b) = vm_stored_digest_hash m \<and>
    vm_public_key m = Some public_key \<and>
    ed25519_verify C (vk_verifying_key public_key) (DigestCanonicalBytes_bytes b)
      (LedgerSignature_bytes (vm_signature m)) \<and>
    fetch_ledger_range_for_month C client (MonthlyDigestPeriod_str (vi_period input)) s2 =
      (Inr (Some current), s') \<and>
    range_entry_count current \<le> info_entry_count info \<and>
    LedgerSequenceNo_get (range_end_sequence_no current) \<le>
      LedgerSequenceNo_get (info_end_sequence_no info)"
  using assms
proof (elim verify_monthly_digestE check_digest_materialsE)
  fix m s1 rows s2 current row0 rest entries keys public_key b
  assume sig: "verify_digest_bytes C public_key (DigestCanonicalBytes_bytes b) (vm_signature m) =
      Inr ()" and rows: "rows = row0 # rest"
    and rest: "fetch_monthly_digest_for_verification C client
      (MonthlyDigestPeriod_str (vi_period input)) s = (Inr (Some m), s1)"
    "export_ledger_verification_materials C client (vm_start_sequence_no m)
      (vm_end_sequence_no m) s1 = (Inr rows, s2)"
    "restore_entries C rows = Inr entries" "restore_keys C [] rows = Inr keys"
    "chain_valid C keys (unat (LedgerSequenceNo_get (vm_start_sequence_no m) - 1))
      (row_previous_entry_hash row0) entries"
    "hash_before (row_previous_entry_hash row0) entries (length entries) = vm_end_entry_hash m"
    "vm_public_key m = Some public_key"
    "build_monthly_digest_canonical_form C (materials_fields (vi_period input) m) = Inr b"
    "DigestHash_to_hex C (DigestHash_from_canonical_bytes C b) = vm_stored_digest_hash m"
    "fetch_ledger_range_for_month C client (MonthlyDigestPeriod_str (vi_period input)) s2 =
      (Inr (Some current), s')" "range_entry_count current \<le> vm_stored_entry_count m"
    "LedgerSequenceNo_get (range_end_sequence_no current) \<le>
      LedgerSequenceNo_get (vm_end_sequence_no m)"
    "info = \<lparr>info_start_sequence_no = vm_start_sequence_no m,
      info_end_sequence_no = vm_end_sequence_no m, info_entry_count = vm_stored_entry_count m\<rparr>"
  from sig have "ed25519_verify C (vk_verifying_key public_key) (DigestCanonicalBytes_bytes b)
      (LedgerSignature_bytes (vm_signature m))"
    by (simp add: verify_digest_bytes_def split: if_splits)
  then show ?thesis
    using rows rest by (intro exI [of _ m] exI [of _ rows] exI [of _ row0] exI [of _ entries]
        exI [of _ keys] exI [of _ public_key] exI [of _ b] exI [of _ s1] exI [of _ s2]
        exI [of _ current]) simp
qed


section \<open>Digests read from the database\<close>

text \<open>No signature is accepted for both of two different messages.\<close>

definition message_bound :: "crates \<Rightarrow> bytes \<Rightarrow> bytes \<Rightarrow> bool" where
  "message_bound C m m' \<longleftrightarrow>
    (\<forall>pk s. ed25519_verify C pk m s \<and> ed25519_verify C pk m' s \<longrightarrow> m = m')"

lemma digest_form_is_no_entry:
  assumes "json_laws C" "SignedLedgerEntry_wf C e" "LedgerPayload_wf C (le_payload e)"
    and "build_monthly_digest_canonical_form C d = Inr b"
  shows "LedgerCanonicalPayload_bytes (le_canonical_payload e) \<noteq> DigestCanonicalBytes_bytes b"
proof
  assume eq: "LedgerCanonicalPayload_bytes (le_canonical_payload e) = DigestCanonicalBytes_bytes b"
  from assms(2) obtain t where
    t: "json_to_string C (CanonicalLedgerDocument C (canonical_fields e)) = Inr t"
    "le_canonical_payload e = LedgerCanonicalPayload (str_bytes t)"
    by (auto simp: SignedLedgerEntry_wf_def build_canonical_payload_def)
  from assms(4) obtain u where u: "json_to_string C (DigestCanonicalDocument C d) = Inr u"
    "DigestCanonicalBytes_bytes b = str_bytes u"
    by (auto simp: build_monthly_digest_canonical_form_def)
  from eq t u have "t = u" by simp
  moreover have "json_exact (DigestCanonicalDocument C d)"
    by (simp add: DigestCanonicalDocument_def)
  moreover have "json_exact (CanonicalLedgerDocument C (canonical_fields e))"
    by (rule CanonicalLedgerDocument_exact) (simp add: LedgerPayload_wf_entries [OF assms(3)])
  ultimately have "CanonicalLedgerDocument C (canonical_fields e) = DigestCanonicalDocument C d"
    using json_lawsD(1) [OF assms(1)] t(1) u(1) by blast
  then show False by (simp add: CanonicalLedgerDocument_def DigestCanonicalDocument_def)
qed

text \<open>The materials of a stored digest carry the signature and key of its ledger entry.\<close>

lemma digest_row_entry:
  assumes "rpc_fetch_monthly_digest_for_verification C year_month db = Inr rows" "row \<in> set rows"
  obtains le where "le \<in> set (db_ledger_entries db)" "dv_signature row = p_signature le"
    "dv_signature_key_version row = p_signature_key_version le"
    "dv_public_key row = map_option (\<lambda>k. bytea_prefix @ hex_encode C (spk_public_key k))
      (registered_key db le)"
  using assms
  by (auto simp: rpc_fetch_monthly_digest_for_verification_def digest_verification_rows_def
      split: if_splits option.splits)

lemma stored_digest_materials:
  assumes laws: "hex_laws C" and ok: "ledger_db_ok C db es"
    and fetch: "rpc_fetch_monthly_digest_for_verification C year_month db = Inr rows" "row \<in> set rows"
    and m: "MonthlyDigestVerificationMaterials_try_from C row = Inr m"
  obtains e k where "e \<in> set es" "vm_signature m = le_signature e"
    "registered_key db (from_signed_entry C e) = Some k"
    "map_option vk_verifying_key (vm_public_key m) = Some (spk_public_key k)"
    "ed25519_verify C (spk_public_key k) (LedgerCanonicalPayload_bytes (le_canonical_payload e))
      (LedgerSignature_bytes (le_signature e))"
proof -
  obtain le where le: "le \<in> set (db_ledger_entries db)" "dv_signature row = p_signature le"
    "dv_public_key row = map_option (\<lambda>k. bytea_prefix @ hex_encode C (spk_public_key k))
      (registered_key db le)"
    using digest_row_entry [OF fetch] by blast
  with ok obtain e where e: "e \<in> set es" "le = from_signed_entry C e"
    by (auto simp: ledger_db_ok_def)
  obtain k where k: "registered_key db (from_signed_entry C e) = Some k" "public_key_row_ok C k"
    "find (\<lambda>k'. vk_key_version k' = le_signature_key_version e) (registry_keys db) =
      Some \<lparr>vk_key_version = le_signature_key_version e, vk_verifying_key = spk_public_key k\<rparr>"
    by (rule registered_key_of_entry [OF ok e(1)])
  from ok e(1) have "signed_fields_wf e" by (auto simp: ledger_db_ok_def list_all_iff stored_entry_ok_def)
  then have "LedgerSignature_from_bytea_hex C (p_signature le) = Inr (le_signature e)"
    using LedgerSignature_bytea_roundtrip [OF laws]
    by (simp add: e(2) from_signed_entry_def signed_fields_wf_def)
  with m le k(1) laws have "vm_signature m = le_signature e"
    "map_option vk_verifying_key (vm_public_key m) = Some (spk_public_key k)"
    by (auto simp: MonthlyDigestVerificationMaterials_try_from_def e(2) decode_public_key_bytes_def
        LedgerVerifyingKey_from_public_key_bytes_def hex_laws_def split: if_splits)
  moreover have "ed25519_verify C (spk_public_key k)
      (LedgerCanonicalPayload_bytes (le_canonical_payload e)) (LedgerSignature_bytes (le_signature e))"
    using ledger_db_ok_authentic [OF ok e(1)] k(3) by (simp add: entry_authentic_def)
  ultimately show thesis using that e(1) k(1) by blast
qed



section \<open>Concrete digests\<close>

text \<open>A digest of the sample entry with its own signature, as a client would have to hand it out.\<close>

definition sample_period :: MonthlyDigestPeriod where
  "sample_period = MonthlyDigestPeriod ''2026-01''"

definition sample_digest_fields :: digest_fields where
  "sample_digest_fields = \<lparr>dg_period = sample_period, dg_start_sequence_no = LedgerSequenceNo 1,
    dg_end_sequence_no = LedgerSequenceNo 1, dg_start_entry_hash = le_entry_hash sample_entry,
    dg_end_entry_hash = le_entry_hash sample_entry, dg_entry_count = 1,
    dg_digest_generated_at = SourceEventAt ''7Z'',
    dg_signature_key_version = LedgerSignatureKeyVersion 1\<rparr>"

definition sample_digest_bytes :: bytes where
  "sample_digest_bytes = str_bytes (jenc (DigestCanonicalDocument sample_crates sample_digest_fields))"

definition sample_digest_row :: DigestForVerificationResponse where
  "sample_digest_row = \<lparr>dv_start_sequence_no = 1, dv_end_sequence_no = 1, dv_stored_entry_count = 1,
    dv_stored_digest_hash = sample_hex_encode (sample_sha256 sample_digest_bytes),
    dv_target_year_month = ''2026-01'', dv_digest_generated_at = ''7Z'',
    dv_signature = LedgerSignature_to_bytea_hex sample_crates
      (LedgerSignature (sample_sign (replicate 32 5) sample_digest_bytes)),
    dv_signature_key_version = 1,
    dv_public_key = Some (bytea_prefix @ sample_hex_encode (replicate 32 5)),
    dv_start_entry_hash = LedgerHash_to_bytea_hex sample_crates (le_entry_hash sample_entry),
    dv_end_entry_hash = LedgerHash_to_bytea_hex sample_crates (le_entry_hash sample_entry)\<rparr>"

definition sample_digest_client :: "ledger_db digest_client" where
  "sample_digest_client = (db_digest_client sample_crates sample_render (\<lambda>_ _. True))
    \<lparr>dc_verification_rows := (\<lambda>_ db. (Inr [sample_digest_row], db))\<rparr>"

definition sample_materials :: MonthlyDigestVerificationMaterials where
  "sample_materials = \<lparr>vm_start_sequence_no = LedgerSequenceNo 1,
    vm_end_sequence_no = LedgerSequenceNo 1, vm_stored_entry_count = 1,
    vm_stored_digest_hash = sample_hex_encode (sample_sha256 sample_digest_bytes),
    vm_target_year_month = sample_period, vm_digest_generated_at = SourceEventAt ''7Z'',
    vm_signature = LedgerSignature (sample_sign (replicate 32 5) sample_digest_bytes),
    vm_signature_key_version = LedgerSignatureKeyVersion 1,
    vm_public_key = Some (verification_key sample_crates sample_signing_key),
    vm_start_entry_hash = le_entry_hash sample_entry, vm_end_entry_hash = le_entry_hash sample_entry\<rparr>"

lemma sample_digest_simps [simp]:
  "MonthlyDigestPeriod_str sample_period = ''2026-01''"
  "vm_start_sequence_no sample_materials = LedgerSequenceNo 1"
  "vm_end_sequence_no sample_materials = LedgerSequenceNo 1"
  "vm_stored_entry_count sample_materials = 1"
  by (simp_all add: sample_period_def sample_materials_def)

lemma sample_period_ok: "MonthlyDigestPeriod_parse ''2026-01'' = Inr sample_period"
proof -
  have "dec_value ''01'' = 1" by code_simp
  then show ?thesis
    by (simp add: MonthlyDigestPeriod_parse_def validate_year_month_format_def sample_period_def
        is_ascii_digit_def)
qed

lemma sample_row_columns:
  "LedgerSignatureKeyVersion_new 1 = Inr (LedgerSignatureKeyVersion 1)"
  "LedgerSequenceNo_from_i64 1 = Inr (LedgerSequenceNo 1)"
  "SourceEventAt_parse sample_crates ''7Z'' = Inr (SourceEventAt ''7Z'')"
  "decode_public_key_bytes sample_crates
    (bytea_prefix @ sample_hex_encode (replicate 32 5)) (LedgerSignatureKeyVersion 1) =
    Inr (verification_key sample_crates sample_signing_key)"
proof -
  show "LedgerSignatureKeyVersion_new 1 = Inr (LedgerSignatureKeyVersion 1)"
    "LedgerSequenceNo_from_i64 1 = Inr (LedgerSequenceNo 1)"
    by (simp_all add: LedgerSignatureKeyVersion_new_def LedgerSequenceNo_from_i64_def
        LedgerSequenceNo_new_def LEDGER_I64_MAX_U64_def)
  show "SourceEventAt_parse sample_crates ''7Z'' = Inr (SourceEventAt ''7Z'')"
    by (simp add: SourceEventAt_parse_def sample_rfc3339_parse_def str_ends_with_def)
  show "decode_public_key_bytes sample_crates
      (bytea_prefix @ sample_hex_encode (replicate 32 5)) (LedgerSignatureKeyVersion 1) =
      Inr (verification_key sample_crates sample_signing_key)"
    using sample_hex_laws
    by (simp add: decode_public_key_bytes_def hex_laws_def verification_key_def sample_signing_key_def
        LedgerVerifyingKey_from_public_key_bytes_def LEDGER_ED25519_PUBLIC_KEY_LENGTH_def
        del: rbind_eq_Inr)
qed

lemma sample_materials_ok:
  "MonthlyDigestVerificationMaterials_try_from sample_crates sample_digest_row = Inr sample_materials"
  using LedgerSignature_bytea_roundtrip [OF sample_hex_laws]
    LedgerHash_bytea_roundtrip [OF sample_hex_laws] sample_entry_stored_wf(2)
  by (simp add: MonthlyDigestVerificationMaterials_try_from_def sample_digest_row_def
      sample_row_columns sample_period_ok sample_materials_def signed_fields_wf_def
      LEDGER_SIGNATURE_LENGTH_def del: rbind_eq_Inr)

lemma sample_ledger_laws: "ledger_laws sample_crates"
  by (simp add: ledger_laws_def sample_laws)

lemma sample_ledger_db_ok: "ledger_db_ok sample_crates sample_ledger_db [sample_entry]"
proof -
  have "le_canonical_payload sample_entry = sample_canonical" by (simp add: sample_entry_def)
  then have "entry_authentic sample_crates (registry_keys sample_ledger_db) sample_entry"
    using sample_entry_authentic(1) sample_entry_digests(2)
    by (simp add: entry_authentic_def registry_keys_def sample_ledger_db_def sample_keyed_db_def
        sample_key_row_def sample_signing_key_def verification_key_def)
  then show ?thesis
    using sample_entry_stored_wf sample_entry_wf
    by (simp add: ledger_db_ok_def sample_ledger_db_def sample_keyed_db_def stored_entry_ok_def
        chain_valid_def hash_before_def public_key_row_ok_def sample_key_row_def)
qed

lemma sample_chain_checks:
  defines "rows \<equiv> [stored_material_row sample_crates sample_entry
    (registered_key sample_ledger_db (from_signed_entry sample_crates sample_entry))]"
  shows "export_ledger_verification_materials sample_crates sample_digest_client
      (LedgerSequenceNo 1) (LedgerSequenceNo 1) sample_ledger_db = (Inr rows, sample_ledger_db)"
    and "check_digest_materials sample_crates sample_period sample_materials rows = Inr ()"
proof -
  let ?k = "registered_key sample_ledger_db (from_signed_entry sample_crates sample_entry)"
  have row: "LedgerVerificationMaterialRow_try_from sample_crates
      (stored_response sample_crates (from_signed_entry sample_crates sample_entry) ?k) =
      Inr (stored_material_row sample_crates sample_entry ?k)"
    by (rule stored_row) (use sample_laws sample_entry_stored_wf in \<open>simp_all add: entry_fields_wf_def\<close>)
  then show "export_ledger_verification_materials sample_crates sample_digest_client
      (LedgerSequenceNo 1) (LedgerSequenceNo 1) sample_ledger_db = (Inr rows, sample_ledger_db)"
    using export_all [OF sample_ledger_db_ok]
    by (simp add: export_ledger_verification_materials_def sample_digest_client_def
        db_digest_client_def sbind_def slift_def rows_def)
  have entries: "restore_entries sample_crates rows = Inr [sample_entry]"
    using sample_laws sample_entry_wf sample_entry_stored_wf restore_stored_row
    by (simp add: restore_entries_def rows_def)
  obtain keys where keys: "restore_keys sample_crates [] rows = Inr keys"
    "entry_authentic sample_crates keys sample_entry"
    using restored_keys_authentic [OF sample_ledger_db_ok _ subset_refl] sample_laws
    by (auto simp: rows_def simp del: restore_keys.simps)
  have "chain_valid sample_crates keys 0 LedgerHash_genesis [sample_entry]"
    using keys(2) by (simp add: chain_valid_def hash_before_def)
  then have chain: "verify_ledger_chain sample_crates [sample_entry]
      \<lparr>head_last_sequence_no = 0, head_last_entry_hash = LedgerHash_genesis\<rparr> keys =
      Inr (chain_end 0 LedgerHash_genesis [sample_entry])"
    by (simp add: verify_ledger_chain_def verify_chain_loop_iff del: verify_chain_loop.simps)
  have "materials_fields sample_period sample_materials = sample_digest_fields"
    by (simp add: materials_fields_def sample_materials_def sample_digest_fields_def)
  then have form: "build_monthly_digest_canonical_form sample_crates
      (materials_fields sample_period sample_materials) = Inr (DigestCanonicalBytes sample_digest_bytes)"
    by (simp add: build_monthly_digest_canonical_form_def sample_digest_bytes_def)
  have "LedgerChainHead_new 0 LedgerHash_genesis =
      Inr \<lparr>head_last_sequence_no = 0, head_last_entry_hash = LedgerHash_genesis\<rparr>"
    by (simp add: LedgerChainHead_new_def LEDGER_I64_MAX_U64_def)
  moreover have "row_previous_entry_hash (hd rows) = LedgerHash_genesis"
    by (simp add: rows_def stored_material_row_def)
  moreover have "rows = hd rows # []" by (simp add: rows_def)
  ultimately show "check_digest_materials sample_crates sample_period sample_materials rows = Inr ()"
    using entries keys(1) chain form
    by (cases rows) (simp_all add: check_digest_materials_def sample_materials_def chain_end_def
        hash_before_def DigestHash_to_hex_def DigestHash_from_canonical_bytes_def
        verify_digest_bytes_def sample_signing_key_def verification_key_def del: restore_keys.simps)
qed

theorem verify_monthly_digest_sound_witness:
  "\<exists>m b. fetch_monthly_digest_for_verification sample_crates sample_digest_client ''2026-01''
      sample_ledger_db = (Inr (Some m), sample_ledger_db) \<and>
    build_monthly_digest_canonical_form sample_crates (materials_fields sample_period m) = Inr b \<and>
    DigestHash_to_hex sample_crates (DigestHash_from_canonical_bytes sample_crates b) =
      vm_stored_digest_hash m"
proof -
  have "fetch_ledger_range_for_month sample_crates sample_digest_client ''2026-01'' sample_ledger_db =
      (Inr (Some \<lparr>range_start_sequence_no = LedgerSequenceNo 1,
        range_end_sequence_no = LedgerSequenceNo 1,
        range_start_entry_hash = le_entry_hash sample_entry,
        range_end_entry_hash = le_entry_hash sample_entry, range_entry_count = 1\<rparr>), sample_ledger_db)"
    using sample_period_ok LedgerHash_bytea_roundtrip [OF sample_hex_laws] sample_entry_stored_wf(2)
    by (simp add: fetch_ledger_range_for_month_def sample_digest_client_def db_digest_client_def
        sbind_def slift_def first_row_optional_def rpc_fetch_ledger_range_for_month_def
        sample_ledger_db_def LedgerRangeForMonth_try_from_def from_signed_entry_def
        LedgerSequenceNo_from_i64_def LedgerSequenceNo_new_def LEDGER_I64_MAX_U64_def
        signed_fields_wf_def MonthlyDigestPeriod_parse_def Let_def)
  moreover have fetch: "fetch_monthly_digest_for_verification sample_crates sample_digest_client
      ''2026-01'' sample_ledger_db = (Inr (Some sample_materials), sample_ledger_db)"
    by (simp add: fetch_monthly_digest_for_verification_def sample_digest_client_def sbind_def
        slift_def first_row_optional_def sample_materials_ok)
  ultimately have "verify_monthly_digest sample_crates sample_digest_client
      \<lparr>vi_period = sample_period, vi_request_id = RequestId 9\<rparr> sample_ledger_db =
      (Inr \<lparr>info_start_sequence_no = LedgerSequenceNo 1, info_end_sequence_no = LedgerSequenceNo 1,
        info_entry_count = 1\<rparr>, sample_ledger_db)"
    using sample_chain_checks
    by (simp add: verify_monthly_digest_def sbind_def slift_def smap_err_def Let_def)
  from verify_monthly_digest_sound [OF this] fetch show ?thesis by auto
qed

text \<open>A database whose only entry records a digest over itself.\<close>

definition sample_digest_payload :: LedgerPayload where
  "sample_digest_payload = \<lparr>lp_entry_type = Entry_MonthlyDigest, lp_object =
    [(''digest_hash'', JString (replicate 64 CHR ''0'')), (''end_sequence_no'', json_uint (1 :: u64)),
     (''entry_count'', json_uint (1 :: u64)), (''start_sequence_no'', json_uint (1 :: u64)),
     (''target_year_month'', JString ''2026-01'')]\<rparr>"

definition sample_digest_draft :: LedgerAppendDraftParts where
  "sample_digest_draft = sample_append_draft
    \<lparr>le_entry_type := Entry_MonthlyDigest, le_payload := sample_digest_payload\<rparr>"

lemma sample_digest_payload_wf: "LedgerPayload_wf sample_crates sample_digest_payload"
proof -
  have "bt_wf (lp_object sample_digest_payload)"
    unfolding sample_digest_payload_def LedgerPayload.select_convs bt_wf_def list.map fst_conv
    by code_simp
  moreover have trim: "str_trim ''digest_hash'' = ''digest_hash''"
    "str_trim ''end_sequence_no'' = ''end_sequence_no''" "str_trim ''entry_count'' = ''entry_count''"
    "str_trim ''start_sequence_no'' = ''start_sequence_no''"
    "str_trim ''target_year_month'' = ''target_year_month''"
    by (rule str_trim_all_plain, simp add: plain_char_def)+
  moreover have "to_ascii_lowercase ''digest_hash'' = ''digest_hash''"
    "to_ascii_lowercase ''end_sequence_no'' = ''end_sequence_no''"
    "to_ascii_lowercase ''entry_count'' = ''entry_count''"
    "to_ascii_lowercase ''start_sequence_no'' = ''start_sequence_no''"
    "to_ascii_lowercase ''target_year_month'' = ''target_year_month''"
    by (simp_all add: to_ascii_lowercase_def ascii_lower_def)
  moreover have "validate_digest_hash_value ''digest_hash'' (JString (replicate 64 CHR ''0'')) = Inr ()"
    by (simp add: validate_digest_hash_value_def is_lower_hex_def Let_def
        list_all_iff)
  moreover have "validate_year_month_value ''target_year_month'' (JString ''2026-01'') = Inr ()"
    using sample_period_ok by (simp add: validate_year_month_value_def MonthlyDigestPeriod_parse_def
        validate_year_month_format_def Let_def split: if_splits)
  ultimately show ?thesis
    by (simp add: LedgerPayload_wf_def LedgerPayload_as_value_def
        LedgerPayload_new_Inr sample_digest_payload_def is_forbidden_payload_key_def
        FORBIDDEN_LEDGER_PAYLOAD_KEYS_def validate_payload_object_def json_is_container_def
        json_uint_def validate_payload_field_def require_positive_json_u64_Inr
        LEDGER_I64_MAX_U64_def validate_required_payload_keys_def validate_old_new_key_versions_def
        bt_get_def ensure_payload_size_def CanonicalPayloadObject_def unary_def
        LEDGER_PAYLOAD_MAX_CANONICAL_BYTES_def)
qed

lemma sample_digest_sign:
  obtains e where "sign_with_chain_head sample_crates sample_digest_draft LedgerChainHead_genesis
      sample_signing_key = Inr e" "le_sequence_no e = LedgerSequenceNo 1"
    "le_previous_entry_hash e = LedgerHash_genesis" "le_payload e = sample_digest_payload"
    "le_signature_key_version e = LedgerSignatureKeyVersion 1"
    "le_source_event_at e = SourceEventAt ''7Z''" "le_entry_type e = Entry_MonthlyDigest"
    "\<not> row_content_rejected permissive_checks (from_signed_entry sample_crates e)"
proof -
  have "checked_add (0 :: u64) 1 = Some 1" by (simp add: checked_add_eq_Some)
  then have "\<exists>e. sign_with_chain_head sample_crates sample_digest_draft LedgerChainHead_genesis
      sample_signing_key = Inr e \<and> le_sequence_no e = LedgerSequenceNo 1 \<and>
    le_previous_entry_hash e = LedgerHash_genesis \<and> le_payload e = sample_digest_payload \<and>
    le_signature_key_version e = LedgerSignatureKeyVersion 1 \<and>
    le_source_event_at e = SourceEventAt ''7Z'' \<and> le_entry_type e = Entry_MonthlyDigest \<and>
    \<not> row_content_rejected permissive_checks (from_signed_entry sample_crates e)"
    by (simp add: sign_with_chain_head_def next_sequence_no_def LedgerChainHead_genesis_def
        LedgerSequenceNo_new_Inr LedgerSequenceNo_wf_def LEDGER_I64_MAX_U64_def sign_with_sequence_def
        LedgerEntryDraft_new_Inr LedgerEntryDraft_sign_Inr LedgerEntry_wf_def sample_digest_draft_def
        sample_append_draft_def sample_digest_payload_def validate_error_code_def
        validate_actor_device_id_def LedgerAppendDraftParts.defs LedgerEntryDraftParts.defs
        build_canonical_payload_def sign_payload_def LedgerSignature_from_bytes_def
        LEDGER_SIGNATURE_LENGTH_def sample_signing_key_def row_content_rejected_def
        permissive_checks_def from_signed_entry_def sql_length_def sql_btrim_def
        LEDGER_CANONICALIZATION_VERSION_V1_def LEDGER_HASH_ALGORITHM_SHA256_def
        LEDGER_SIGNATURE_ALGORITHM_ED25519_def)
  then show thesis using that by blast
qed

lemma sample_digest_run:
  obtains e db where "ledger_run sample_crates permissive_checks db"
    "db_ledger_entries db = [from_signed_entry sample_crates e]"
    "db_public_keys db = [sample_key_row]" "stored_entry_ok sample_crates e"
    "le_sequence_no e = LedgerSequenceNo 1" "le_payload e = sample_digest_payload"
    "le_signature_key_version e = LedgerSignatureKeyVersion 1"
    "le_source_event_at e = SourceEventAt ''7Z''" "le_entry_type e = Entry_MonthlyDigest"
proof -
  obtain e where sign: "sign_with_chain_head sample_crates sample_digest_draft LedgerChainHead_genesis
      sample_signing_key = Inr e" and e: "le_sequence_no e = LedgerSequenceNo 1"
    "le_previous_entry_hash e = LedgerHash_genesis" "le_payload e = sample_digest_payload"
    "le_signature_key_version e = LedgerSignatureKeyVersion 1"
    "le_source_event_at e = SourceEventAt ''7Z''" "le_entry_type e = Entry_MonthlyDigest"
    "\<not> row_content_rejected permissive_checks (from_signed_entry sample_crates e)"
    by (rule sample_digest_sign)
  have "entry_fields_wf sample_crates sample_digest_draft"
    using sample_entry_stored_wf(1) sample_digest_payload_wf
    by (simp add: entry_fields_wf_def sample_digest_draft_def sample_entry_def sample_entry_draft_def
        LedgerAppendDraftParts.defs LedgerEntryDraftParts.defs)
  then have signer: "signer_ok sample_crates sample_digest_draft LedgerChainHead_genesis
      sample_signing_key"
    by (simp add: signer_ok_def LedgerChainHead_genesis_def LedgerHash_genesis_def
        sample_signing_key_def)
  then have ok: "stored_entry_ok sample_crates e"
    by (rule sign_with_chain_head_stored_ok(1) [OF sign sample_sha256_laws])
  have key: "key_registered sample_crates sample_signing_key (registry_keys sample_keyed_db)"
    by (simp add: key_registered_def registry_keys_def sample_keyed_db_def ledger_db_initial_def
        sample_key_row_def sample_signing_key_def verification_key_def)
  have keyed: "db_chain_state sample_keyed_db = Some \<lparr>cs_last_sequence_no = 0,
      cs_last_entry_hash = LedgerHash_to_bytea_hex sample_crates LedgerHash_genesis\<rparr>"
    "db_ledger_entries sample_keyed_db = []" "db_public_keys sample_keyed_db = [sample_key_row]"
    by (simp_all add: sample_keyed_db_def ledger_db_initial_def LedgerHash_to_bytea_hex_def
        LedgerHash_to_hex_def LedgerHash_genesis_def LEDGER_HASH_LENGTH_def)
  obtain r db where app: "rpc_append_ledger_entry sample_crates permissive_checks
      (from_signed_entry sample_crates e) sample_keyed_db = Inr (r, db)"
    and db: "db_ledger_entries db = [from_signed_entry sample_crates e]"
      "db_public_keys db = [sample_key_row]"
    using db_append_accepted [OF sample_ledger_laws ok keyed(1) e(7)] keyed e(1,2)
    by (simp add: from_signed_entry_def)
  from ledger_run.append [OF sample_keyed_run signer key sign app] db ok e show thesis
    by (intro that)
qed

text \<open>Signatures of the sample scheme show the first bytes of the message, so they tell a digest
  from a ledger entry.\<close>

lemma sample_message_bound:
  assumes "SignedLedgerEntry_wf sample_crates e"
    and "build_monthly_digest_canonical_form sample_crates d = Inr b"
  shows "message_bound sample_crates (LedgerCanonicalPayload_bytes (le_canonical_payload e))
    (DigestCanonicalBytes_bytes b)"
proof -
  have "take 32 (str_bytes (jenc (JObject kvs)) @ z) ! 13 \<noteq>
      take 32 (str_bytes (jenc (JObject kvs')) @ z') ! 13"
    if "length kvs = 18" "length kvs' = 12" for kvs kvs' z z'
    using that by (simp add: unary_def nth_append str_bytes_def numeral_eq_Suc)
  then have "sample_sign pk (str_bytes (jenc (JObject kvs))) \<noteq>
      sample_sign pk' (str_bytes (jenc (JObject kvs')))"
    if "length kvs = 18" "length kvs' = 12" for pk pk' kvs kvs'
    using that unfolding sample_sign_def by (metis append_eq_append_conv length_replicate)
  moreover obtain kvs where kvs: "CanonicalLedgerDocument sample_crates (canonical_fields e) =
      JObject kvs" "length kvs = 18"
    by (simp add: CanonicalLedgerDocument_def)
  from kvs(1) assms(1) have "le_canonical_payload e =
      LedgerCanonicalPayload (str_bytes (jenc (JObject kvs)))"
    by (simp add: SignedLedgerEntry_wf_def build_canonical_payload_def del: jenc.simps)
  moreover obtain kvs' where kvs': "DigestCanonicalDocument sample_crates d = JObject kvs'"
      "length kvs' = 12"
    by (simp add: DigestCanonicalDocument_def)
  from kvs'(1) assms(2) have "b = DigestCanonicalBytes (str_bytes (jenc (JObject kvs')))"
    by (simp add: build_monthly_digest_canonical_form_def del: jenc.simps)
  ultimately show ?thesis
    using kvs(2) kvs'(2) by (auto simp: message_bound_def simp del: jenc.simps)
qed

end
