(* ===== verification/Audit_Event.thy ===== *)
theory Audit_Event
  imports Ledger_Digest
begin

text \<open>
  Audit events (\<open>src/audit/event/metadata.rs\<close>, \<open>model.rs\<close>, \<open>validation.rs\<close>): the metadata object
  with its per-action lists of allowed and required keys and the checks on values, and the
  construction of events.  A \<open>Map\<close> is an ordered map as in \<open>Ordered_Maps\<close>; a \<open>HashSet\<close> of allowed
  keys is the list it is built from.
\<close>


section \<open>Metadata\<close>

definition SOURCE_EVENT_AT_KEY :: string where "SOURCE_EVENT_AT_KEY = ''source_event_at''"
definition TRIGGER_KEY :: string where "TRIGGER_KEY = ''trigger''"

definition FORBIDDEN_AUDIT_METADATA_KEYS :: "string list" where
  "FORBIDDEN_AUDIT_METADATA_KEYS =
    [''alias_decryption_key'', ''alias_encryption_key'', ''alias_fingerprint_key'',
     ''authorization'', ''authorization_header'', ''bearer_token'', ''canonical_alias_plaintext'',
     ''ciphertext'', ''data_key'', ''decrypt_result'', ''decrypted'', ''decrypted_data'',
     ''ed25519_private_key'', ''encrypted_data_key'', ''jwt'', ''jwt_full'', ''ledger_signing_key'',
     ''master_key'', ''passphrase'', ''password'', ''plain_text'', ''plaintext'', ''raw_jwt'',
     ''request_body'', ''request_body_full'', ''response_body'', ''response_body_full'',
     ''secret_body'', ''secret_key'', ''secret_value'', ''service_role'', ''service_role_key'',
     ''token'']"

definition INTEGRITY_CHECK_VIOLATION_SUMMARY_ALLOWLIST :: "string list" where
  "INTEGRITY_CHECK_VIOLATION_SUMMARY_ALLOWLIST =
    [''current_version_invalid'', ''version_invalid'', ''retention_exceeded'', ''ciphertext_empty'',
     ''encrypted_data_key_empty'', ''nonce_length_invalid'', ''algorithm_invalid'',
     ''nonce_duplicate'', ''aad_keys_invalid'', ''aad_row_mismatch'', ''created_at_mismatch'',
     ''audit_action_invalid'', ''audit_result_invalid'', ''audit_metadata_not_object'',
     ''audit_metadata_forbidden_key'', ''audit_source_event_at_invalid'']"

datatype AuditMetadata = AuditMetadata (AuditMetadata_as_value: json)

definition is_forbidden_metadata_key :: "string \<Rightarrow> bool" where
  "is_forbidden_metadata_key key \<longleftrightarrow>
    list_ex (\<lambda>forbidden. to_ascii_lowercase (str_trim key) = forbidden)
      FORBIDDEN_AUDIT_METADATA_KEYS"

fun reject_forbidden_metadata_keys :: "json \<Rightarrow> AuditEventError + unit" where
  "reject_forbidden_metadata_keys (JObject object) =
    try_each (\<lambda>(key, nested).
      rbind (reject_if (is_forbidden_metadata_key key) (ForbiddenMetadataKey key)) (\<lambda>_.
      reject_forbidden_metadata_keys nested)) object"
| "reject_forbidden_metadata_keys (JArray values) = try_each reject_forbidden_metadata_keys values"
| "reject_forbidden_metadata_keys _ = Inr ()"

interpretation metadata_scan: key_scanner is_forbidden_metadata_key ForbiddenMetadataKey
    reject_forbidden_metadata_keys
  by unfold_locales simp_all

text \<open>\<open>Value::to_string\<close>\<close>

definition json_display :: "crates \<Rightarrow> json \<Rightarrow> string" where
  "json_display C v = (case json_to_string C v of Inr text \<Rightarrow> text | Inl _ \<Rightarrow> [])"

definition validate_trigger :: "crates \<Rightarrow> (string \<times> json) list \<Rightarrow> AuditEventError + unit" where
  "validate_trigger C object =
    (case bt_get object TRIGGER_KEY of
      None \<Rightarrow> Inr ()
    | Some value \<Rightarrow>
        rbind (ok_or (InvalidTrigger (json_display C value)) (as_str value)) (\<lambda>text.
        map_ok (\<lambda>_. ()) (AuditTrigger_parse text)))"

definition canonicalize_source_event_at ::
    "crates \<Rightarrow> (string \<times> json) list \<Rightarrow> AuditEventError + (string \<times> json) list" where
  "canonicalize_source_event_at C object =
    (case bt_get object SOURCE_EVENT_AT_KEY of
      None \<Rightarrow> Inr object
    | Some value \<Rightarrow>
        rbind (ok_or InvalidSourceEventAt (as_str value)) (\<lambda>text.
        rbind (map_err (\<lambda>_. InvalidSourceEventAt) (SourceEventAt_parse C text)) (\<lambda>canonical.
        Inr (bt_insert SOURCE_EVENT_AT_KEY (JString (SourceEventAt_str canonical)) object))))"

definition AuditMetadata_from_object ::
    "crates \<Rightarrow> (string \<times> json) list \<Rightarrow> AuditEventError + AuditMetadata" where
  "AuditMetadata_from_object C object =
    rbind (reject_forbidden_metadata_keys (JObject object)) (\<lambda>_.
    rbind (validate_trigger C object) (\<lambda>_.
    rbind (canonicalize_source_event_at C object) (\<lambda>object.
    Inr (AuditMetadata (JObject object)))))"

definition AuditMetadata_new :: "crates \<Rightarrow> json \<Rightarrow> AuditEventError + AuditMetadata" where
  "AuditMetadata_new C value =
    rbind (ok_or MetadataMustBeObject (as_object value)) (AuditMetadata_from_object C)"

definition AuditMetadata_empty :: AuditMetadata where
  "AuditMetadata_empty = AuditMetadata (JObject [])"

definition AuditMetadata_insert ::
    "crates \<Rightarrow> string \<Rightarrow> string \<Rightarrow> AuditMetadata \<Rightarrow> AuditEventError + AuditMetadata" where
  "AuditMetadata_insert C key text m =
    rbind (ok_or MetadataMustBeObject (as_object (AuditMetadata_as_value m))) (\<lambda>object.
    AuditMetadata_new C (JObject (bt_insert key (JString text) object)))"

definition with_trigger :: "crates \<Rightarrow> AuditTrigger \<Rightarrow> AuditMetadata \<Rightarrow> AuditEventError + AuditMetadata"
  where
  "with_trigger C trigger m = AuditMetadata_insert C TRIGGER_KEY (AuditTrigger_as_str trigger) m"

definition with_attempted_secret_id ::
    "crates \<Rightarrow> SecretId \<Rightarrow> AuditMetadata \<Rightarrow> AuditEventError + AuditMetadata" where
  "with_attempted_secret_id C secret_id m =
    AuditMetadata_insert C ''attempted_secret_id'' (SecretId_as_canonical_string C secret_id) m"

definition with_source_event_at ::
    "crates \<Rightarrow> SourceEventAt \<Rightarrow> AuditMetadata \<Rightarrow> AuditEventError + AuditMetadata" where
  "with_source_event_at C source_event_at m =
    AuditMetadata_insert C SOURCE_EVENT_AT_KEY (SourceEventAt_str source_event_at) m"

definition metadata_source_event_at ::
    "crates \<Rightarrow> AuditMetadata \<Rightarrow> AuditEventError + SourceEventAt option" where
  "metadata_source_event_at C m =
    rbind (ok_or MetadataMustBeObject (as_object (AuditMetadata_as_value m))) (\<lambda>object.
    case bt_get object SOURCE_EVENT_AT_KEY of
      None \<Rightarrow> Inr None
    | Some value \<Rightarrow>
        rbind (ok_or InvalidSourceEventAt (as_str value)) (\<lambda>text.
        map_err (\<lambda>_. InvalidSourceEventAt) (map_ok Some (SourceEventAt_parse C text))))"

definition require_source_event_at :: "crates \<Rightarrow> AuditMetadata \<Rightarrow> AuditEventError + SourceEventAt" where
  "require_source_event_at C m =
    rbind (metadata_source_event_at C m) (ok_or MissingSourceEventAt)"

text \<open>The clock reading of \<open>SourceEventAt::now_utc\<close> is an argument.\<close>

definition with_current_source_event_at ::
    "crates \<Rightarrow> datetime \<Rightarrow> AuditMetadata \<Rightarrow> AuditEventError + AuditMetadata" where
  "with_current_source_event_at C now m =
    rbind (metadata_source_event_at C m) (\<lambda>present.
    if present \<noteq> None then Inr m
    else
    rbind (map_err (\<lambda>_. SourceEventAtUnavailable) (SourceEventAt_now_utc C now)) (\<lambda>source_event_at.
    with_source_event_at C source_event_at m))"


section \<open>Keys by action\<close>

primrec allowed_metadata_keys :: "AuditAction \<Rightarrow> AuditResult \<Rightarrow> string list" where
  "allowed_metadata_keys Action_EncryptCreate r =
    [''version'', ''secret_version_id'', SOURCE_EVENT_AT_KEY]"
| "allowed_metadata_keys Action_EncryptRotate r =
    [''version'', ''secret_version_id'', SOURCE_EVENT_AT_KEY]"
| "allowed_metadata_keys Action_VersionPurge r =
    [''version'', ''secret_version_id'', SOURCE_EVENT_AT_KEY]"
| "allowed_metadata_keys Action_Decrypt r =
    (if r = AuditFailure then [''attempted_secret_id'', SOURCE_EVENT_AT_KEY]
     else [SOURCE_EVENT_AT_KEY])"
| "allowed_metadata_keys Action_IntegrityCheck r =
    [''check_name'', ''checked_secret_count'', ''checked_secret_version_count'',
     ''checked_audit_event_count'', ''duration_ms'', ''violation_count'', ''violation_summary'',
     TRIGGER_KEY, ''error_code'', SOURCE_EVENT_AT_KEY]"
| "allowed_metadata_keys Action_RestoreTest r =
    [''phase'', ''sample_count'', TRIGGER_KEY, ''duration_ms'', ''error_code'', ''failed_version'',
     ''reason'', SOURCE_EVENT_AT_KEY]"
| "allowed_metadata_keys Action_AuthFailure r = [''error_code'', SOURCE_EVENT_AT_KEY]"
| "allowed_metadata_keys Action_KeyRotationStart r =
    [''old_key_version'', ''new_key_version'', SOURCE_EVENT_AT_KEY]"
| "allowed_metadata_keys Action_KeyRotationReencrypt r =
    [''old_key_version'', ''new_key_version'', ''batch_size'', ''processed_count'',
     ''remaining_count'', SOURCE_EVENT_AT_KEY]"
| "allowed_metadata_keys Action_KeyRotationComplete r =
    [''old_key_version'', ''new_key_version'', ''remaining_count'', SOURCE_EVENT_AT_KEY]"
| "allowed_metadata_keys Action_SignatureKeyCreated r =
    [''created_at'', ''public_key_fingerprint'', ''signature_key_version'', SOURCE_EVENT_AT_KEY]"
| "allowed_metadata_keys Action_SignatureKeyActivated r =
    [''activated_at'', ''public_key_fingerprint'', ''signature_key_version'', SOURCE_EVENT_AT_KEY]"
| "allowed_metadata_keys Action_SignatureKeyRetired r =
    [''public_key_fingerprint'', ''retired_at'', ''signature_key_version'', SOURCE_EVENT_AT_KEY]"
| "allowed_metadata_keys Action_MonthlyDigestGenerate r =
    [''error_code'', ''target_year_month'', SOURCE_EVENT_AT_KEY]"
| "allowed_metadata_keys Action_MonthlyDigestVerify r =
    [''error_code'', ''target_year_month'', SOURCE_EVENT_AT_KEY]"
| "allowed_metadata_keys Action_ArchiveExport r =
    [''archive_key'', ''digest_hash'', ''target_year_month'', ''error_code'', SOURCE_EVENT_AT_KEY]"
| "allowed_metadata_keys Action_DigestTimestamping r =
    [''digest_hash'', ''error_code'', ''target_year_month'', ''timestamp_token_hash'',
     SOURCE_EVENT_AT_KEY]"
| "allowed_metadata_keys Action_SiemForwardFailure r =
    [''error_code'', ''event_type'', ''event_count'', SOURCE_EVENT_AT_KEY]"
| "allowed_metadata_keys Action_AuditReportGenerate r =
    [''format'', ''period_end'', ''period_start'', ''error_code'', SOURCE_EVENT_AT_KEY]"
| "allowed_metadata_keys Action_AuditUiRead r =
    [''endpoint'', ''method'', ''resource'', ''result_count'', ''period_start'', ''period_end'',
     ''start_sequence_no'', ''end_sequence_no'', ''target_year_month'', ''error_code'',
     SOURCE_EVENT_AT_KEY]"
| "allowed_metadata_keys Action_SchedulerJob r =
    [''duration_ms'', ''error_code'', ''job_name'', ''target_year_month'', TRIGGER_KEY,
     SOURCE_EVENT_AT_KEY]"
| "allowed_metadata_keys Action_IncidentDetected r =
    [''incident_type'', ''severity'', ''detection_source'', ''dedupe_key'', ''notification_sink'',
     ''notification_result'', ''error_code'', SOURCE_EVENT_AT_KEY, ''source_event_id'',
     ''target_sequence_no'', ''target_year_month'']"
| "allowed_metadata_keys Action_SecretAliasCreate r =
    [''alias_fingerprint'', ''alias_fingerprint_key_version'', ''alias_fingerprint_schema_version'',
     ''error_code'', SOURCE_EVENT_AT_KEY]"
| "allowed_metadata_keys Action_SecretAliasUpdate r =
    [''old_alias_fingerprint'', ''new_alias_fingerprint'', ''alias_fingerprint_key_version'',
     ''alias_fingerprint_schema_version'', ''error_code'', SOURCE_EVENT_AT_KEY]"
| "allowed_metadata_keys Action_SecretAliasDelete r =
    [''alias_fingerprint'', ''alias_fingerprint_key_version'', ''alias_fingerprint_schema_version'',
     ''error_code'', SOURCE_EVENT_AT_KEY]"
| "allowed_metadata_keys Action_SecretAliasList r =
    [''result_count'', ''error_code'', SOURCE_EVENT_AT_KEY]"

primrec required_metadata_keys :: "AuditAction \<Rightarrow> AuditResult \<Rightarrow> string list" where
  "required_metadata_keys Action_EncryptCreate r = [''version'', ''secret_version_id'']"
| "required_metadata_keys Action_EncryptRotate r = [''version'', ''secret_version_id'']"
| "required_metadata_keys Action_VersionPurge r = [''version'', ''secret_version_id'']"
| "required_metadata_keys Action_Decrypt r = []"
| "required_metadata_keys Action_IntegrityCheck r =
    [''check_name'', ''checked_secret_count'', ''checked_secret_version_count'',
     ''checked_audit_event_count'', ''duration_ms'', ''violation_count'', ''violation_summary'',
     TRIGGER_KEY]"
| "required_metadata_keys Action_RestoreTest r =
    [''phase'', ''sample_count'', TRIGGER_KEY, ''duration_ms'']"
| "required_metadata_keys Action_AuthFailure r = [''error_code'']"
| "required_metadata_keys Action_KeyRotationStart r = [''old_key_version'', ''new_key_version'']"
| "required_metadata_keys Action_KeyRotationReencrypt r =
    [''old_key_version'', ''new_key_version'', ''batch_size'', ''processed_count'',
     ''remaining_count'']"
| "required_metadata_keys Action_KeyRotationComplete r =
    [''old_key_version'', ''new_key_version'', ''remaining_count'']"
| "required_metadata_keys Action_SignatureKeyCreated r =
    [''signature_key_version'', ''public_key_fingerprint'', ''created_at'']"
| "required_metadata_keys Action_SignatureKeyActivated r =
    [''signature_key_version'', ''public_key_fingerprint'', ''activated_at'']"
| "required_metadata_keys Action_SignatureKeyRetired r =
    [''signature_key_version'', ''public_key_fingerprint'', ''retired_at'']"
| "required_metadata_keys Action_MonthlyDigestGenerate r = []"
| "required_metadata_keys Action_MonthlyDigestVerify r = []"
| "required_metadata_keys Action_ArchiveExport r = [''target_year_month'']"
| "required_metadata_keys Action_DigestTimestamping r = [''target_year_month'']"
| "required_metadata_keys Action_SiemForwardFailure r = [''error_code'']"
| "required_metadata_keys Action_AuditReportGenerate r =
    [''format'', ''period_end'', ''period_start'']"
| "required_metadata_keys Action_AuditUiRead r = [''endpoint'', ''method'', ''resource'']"
| "required_metadata_keys Action_SchedulerJob r = [''job_name'', TRIGGER_KEY, ''duration_ms'']"
| "required_metadata_keys Action_IncidentDetected r =
    [''incident_type'', ''severity'', ''detection_source'', ''dedupe_key'', ''notification_sink'',
     ''notification_result'', ''error_code'']"
| "required_metadata_keys Action_SecretAliasCreate r =
    (if r = AuditSuccess then [''alias_fingerprint'', ''alias_fingerprint_key_version'',
       ''alias_fingerprint_schema_version''] else [])"
| "required_metadata_keys Action_SecretAliasUpdate r =
    (if r = AuditSuccess then [''old_alias_fingerprint'', ''new_alias_fingerprint'',
       ''alias_fingerprint_key_version'', ''alias_fingerprint_schema_version''] else [])"
| "required_metadata_keys Action_SecretAliasDelete r =
    (if r = AuditSuccess then [''alias_fingerprint'', ''alias_fingerprint_key_version'',
       ''alias_fingerprint_schema_version''] else [])"
| "required_metadata_keys Action_SecretAliasList r =
    (if r = AuditSuccess then [''result_count''] else [])"


section \<open>Values\<close>

definition validate_u64_value :: "string \<Rightarrow> json \<Rightarrow> AuditEventError + unit" where
  "validate_u64_value key value =
    map_ok (\<lambda>_. ()) (ok_or (InvalidMetadataValue key) (json_as_u64 value))"

definition validate_positive_u64_value :: "string \<Rightarrow> json \<Rightarrow> AuditEventError + unit" where
  "validate_positive_u64_value key value =
    rbind (ok_or (InvalidMetadataValue key) (json_as_u64 value)) (\<lambda>parsed.
    reject_if (parsed = 0) (InvalidMetadataValue key))"

definition metadata_text :: "string \<Rightarrow> (string \<Rightarrow> bool) \<Rightarrow> json \<Rightarrow> AuditEventError + unit" where
  "metadata_text key acceptable value =
    rbind (ok_or (InvalidMetadataValue key) (as_str value)) (\<lambda>text.
    reject_if (\<not> acceptable text) (InvalidMetadataValue key))"

definition short_string :: "nat \<Rightarrow> string \<Rightarrow> bool" where
  "short_string max_len text \<longleftrightarrow> \<not> (str_trim text = [] \<or> length text > max_len)"

definition hex_string :: "nat \<Rightarrow> string \<Rightarrow> bool" where
  "hex_string expected_len text \<longleftrightarrow>
    \<not> (length text \<noteq> expected_len \<or> \<not> list_all is_lower_hex text)"

definition incident_type_allowed :: "string \<Rightarrow> bool" where
  "incident_type_allowed value \<longleftrightarrow>
    value \<in> {''hash_chain_mismatch'', ''signature_mismatch'', ''monthly_digest_mismatch'',
      ''digest_timestamping_mismatch'', ''archive_export_mismatch'', ''sequence_gap'',
      ''unknown_signature_key'', ''non_auditor_ledger_read'', ''ledger_secret_leak_suspected'',
      ''siem_long_failure'', ''audit_ui_forbidden_operation''}"

text \<open>\<open>if let Some(value) = object.get(key) { .. }\<close>\<close>

definition if_present ::
    "(string \<times> json) list \<Rightarrow> string \<Rightarrow> (json \<Rightarrow> AuditEventError + unit) \<Rightarrow> AuditEventError + unit" where
  "if_present object key check = (case bt_get object key of None \<Rightarrow> Inr () | Some value \<Rightarrow> check value)"

definition validate_required_metadata_keys ::
    "AuditAction \<Rightarrow> AuditResult \<Rightarrow> (string \<times> json) list \<Rightarrow> bool \<Rightarrow> AuditEventError + unit" where
  "validate_required_metadata_keys action result object with_source_event =
    rbind (try_each (\<lambda>key. reject_if (bt_get object key = None) (MissingMetadataKey key))
      (required_metadata_keys action result @
        (if with_source_event then [SOURCE_EVENT_AT_KEY] else []))) (\<lambda>_.
    if action = Action_IntegrityCheck
    then
      rbind (ok_or ViolationSummaryMustBeObject
        (Option.bind (bt_get object ''violation_summary'') as_object)) (\<lambda>summary.
      try_each (\<lambda>key. reject_if (bt_get summary key = None) (MissingMetadataKey key))
        INTEGRITY_CHECK_VIOLATION_SUMMARY_ALLOWLIST)
    else Inr ())"

definition validate_metadata_values ::
    "crates \<Rightarrow> AuditAction \<Rightarrow> AuditResult \<Rightarrow> (string \<times> json) list \<Rightarrow> AuditEventError + unit" where
  "validate_metadata_values C action result object =
    (let has = (\<lambda>key. bt_get object key \<noteq> None);
      texts = (\<lambda>acceptable. try_each (\<lambda>key. if_present object key (metadata_text key acceptable))) in
    rbind (try_each (\<lambda>key. if_present object key (validate_u64_value key))
      [''checked_secret_count'', ''checked_secret_version_count'', ''checked_audit_event_count'',
       ''duration_ms'', ''violation_count'', ''sample_count'', ''processed_count'',
       ''remaining_count'', ''result_count'']) (\<lambda>_.
    rbind (try_each (\<lambda>key. if_present object key (validate_positive_u64_value key))
      [''version'', ''old_key_version'', ''new_key_version'', ''signature_key_version'',
       ''batch_size'', ''target_sequence_no'', ''start_sequence_no'', ''end_sequence_no'',
       ''alias_fingerprint_key_version'', ''alias_fingerprint_schema_version'']) (\<lambda>_.
    rbind (if_present object ''failed_version'' (\<lambda>value.
      rbind (if value \<noteq> JNull then validate_positive_u64_value ''failed_version'' value else Inr ())
        (\<lambda>_. reject_if (result = AuditSuccess) (InvalidMetadataValue ''failed_version'')))) (\<lambda>_.
    rbind (texts (\<lambda>text. is_ok (SecretVersionId_parse C text))
      [''secret_version_id'', ''attempted_secret_id'']) (\<lambda>_.
    rbind (texts (\<lambda>text. is_ok (AuditEventId_parse C text)) [''source_event_id'']) (\<lambda>_.
    rbind (reject_if (has ''source_event_id'' \<and> action \<noteq> Action_IncidentDetected)
      (InvalidMetadataValue ''source_event_id'')) (\<lambda>_.
    rbind (reject_if (has ''attempted_secret_id'' \<and>
        \<not> (action = Action_Decrypt \<and> result = AuditFailure))
      (InvalidMetadataValue ''attempted_secret_id'')) (\<lambda>_.
    rbind (reject_if (has ''error_code'' \<and> result \<noteq> AuditFailure)
      (InvalidMetadataValue ''error_code'')) (\<lambda>_.
    rbind (texts (short_string 64) [''error_code'']) (\<lambda>_.
    rbind (texts (short_string 96) [''job_name'']) (\<lambda>_.
    rbind (texts (short_string 128) [''endpoint'', ''resource'']) (\<lambda>_.
    rbind (texts (\<lambda>text. text = ''GET'') [''method'']) (\<lambda>_.
    rbind (texts (hex_string 64) [''public_key_fingerprint'']) (\<lambda>_.
    rbind (texts (hex_string 64)
      [''alias_fingerprint'', ''old_alias_fingerprint'', ''new_alias_fingerprint'']) (\<lambda>_.
    rbind (texts (\<lambda>text. is_ok (SourceEventAt_parse C text))
      [''created_at'', ''activated_at'', ''retired_at'']) (\<lambda>_.
    rbind (texts (short_string 128) [''detection_source'', ''dedupe_key'', ''notification_sink''])
      (\<lambda>_.
    rbind (texts incident_type_allowed [''incident_type'']) (\<lambda>_.
    rbind (texts (\<lambda>text. text \<in> {''critical'', ''high'', ''medium'', ''low''}) [''severity'']) (\<lambda>_.
    rbind (texts (\<lambda>text. text \<in> {''sent'', ''failed'', ''suppressed'', ''not_configured''})
      [''notification_result'']) (\<lambda>_.
    rbind (texts (\<lambda>text. is_ok (MonthlyDigestPeriod_parse text)) [''target_year_month'']) (\<lambda>_.
    rbind (texts (\<lambda>text. text = ''json'' \<or> text = ''markdown'') [''format'']) (\<lambda>_.
    rbind (texts (\<lambda>text. is_ok (SourceEventAt_parse C text)) [''period_start'', ''period_end'']) (\<lambda>_.
    rbind (reject_if (has ''archive_key'' \<and> result = AuditFailure)
      (InvalidMetadataValue ''archive_key'')) (\<lambda>_.
    rbind (texts (short_string 256) [''archive_key'']) (\<lambda>_.
    rbind (texts (\<lambda>text. text = ''mvp_integrity_check'') [''check_name'']) (\<lambda>_.
    rbind (texts (\<lambda>text. text = ''verify'') [''phase'']) (\<lambda>_.
    rbind (texts (\<lambda>text. text = ''no_current_secret_versions'') [''reason'']) (\<lambda>_.
    if action = Action_IntegrityCheck
    then if_present object ''violation_summary'' (\<lambda>summary_value.
      rbind (ok_or ViolationSummaryMustBeObject (as_object summary_value)) (\<lambda>summary.
      try_each (\<lambda>(key, value). validate_u64_value
        (case find (\<lambda>allowed. allowed = key) INTEGRITY_CHECK_VIOLATION_SUMMARY_ALLOWLIST of
          None \<Rightarrow> ''violation_summary'' | Some allowed \<Rightarrow> allowed) value) summary))
    else Inr ()))))))))))))))))))))))))))))"

definition violation_summary_keys_allowed ::
    "(string \<times> json) list \<Rightarrow> AuditEventError + unit" where
  "violation_summary_keys_allowed object =
    if_present object ''violation_summary'' (\<lambda>summary.
      case as_object summary of
        Some summary_obj \<Rightarrow> try_each (\<lambda>key. reject_if
          (key \<notin> set INTEGRITY_CHECK_VIOLATION_SUMMARY_ALLOWLIST) (UnknownMetadataKey key))
          (bt_keys summary_obj)
      | None \<Rightarrow> Inl ViolationSummaryMustBeObject)"

definition validate_allowlist_for_action ::
    "crates \<Rightarrow> AuditMetadata \<Rightarrow> AuditAction \<Rightarrow> AuditResult \<Rightarrow> AuditEventError + unit" where
  "validate_allowlist_for_action C m action result =
    rbind (ok_or MetadataMustBeObject (as_object (AuditMetadata_as_value m))) (\<lambda>object.
    rbind (if action = Action_IntegrityCheck then violation_summary_keys_allowed object else Inr ())
      (\<lambda>_.
    rbind (try_each (\<lambda>key. reject_if (key \<notin> set (allowed_metadata_keys action result))
      (UnknownMetadataKey key)) (bt_keys object)) (\<lambda>_.
    rbind (validate_required_metadata_keys action result object True) (\<lambda>_.
    validate_metadata_values C action result object))))"


section \<open>Events\<close>

record AuditEventParts =
  ev_audit_event_id :: AuditEventId
  ev_request_id :: RequestId
  ev_actor_user_id :: "OwnerUserId option"
  ev_actor_device_id :: "DeviceId option"
  ev_action :: AuditAction
  ev_target_secret_id :: "SecretId option"
  ev_result :: AuditResult
  ev_key_version :: "KeyVersion option"
  ev_metadata_json :: AuditMetadata

type_synonym AuditEvent = AuditEventParts

definition validate_auth_failure_parts :: "AuditEventParts \<Rightarrow> AuditEventError + unit" where
  "validate_auth_failure_parts parts =
    rbind (reject_if (ev_actor_user_id parts \<noteq> None) (AuthFailureFieldMustBeNull ''actor_user_id''))
      (\<lambda>_.
    rbind (reject_if (ev_actor_device_id parts \<noteq> None)
      (AuthFailureFieldMustBeNull ''actor_device_id'')) (\<lambda>_.
    rbind (reject_if (ev_target_secret_id parts \<noteq> None)
      (AuthFailureFieldMustBeNull ''target_secret_id'')) (\<lambda>_.
    reject_if (ev_key_version parts \<noteq> None) (AuthFailureFieldMustBeNull ''key_version''))))"

definition validate_event_parts :: "crates \<Rightarrow> AuditEventParts \<Rightarrow> AuditEventError + unit" where
  "validate_event_parts C parts =
    rbind (reject_if (ev_result parts = AuditSuccess \<and> is_write_success_only (ev_action parts))
      (WriteSuccessActionNotAllowed (ev_action parts))) (\<lambda>_.
    rbind (reject_if (ev_result parts = AuditSuccess \<and> is_failure_only (ev_action parts))
      (FailureOnlyActionSuccessNotAllowed (ev_action parts))) (\<lambda>_.
    rbind (if ev_action parts = Action_AuthFailure then validate_auth_failure_parts parts else Inr ())
      (\<lambda>_.
    rbind (require_source_event_at C (ev_metadata_json parts)) (\<lambda>_.
    validate_allowlist_for_action C (ev_metadata_json parts) (ev_action parts) (ev_result parts)))))"

definition AuditEvent_new :: "crates \<Rightarrow> AuditEventParts \<Rightarrow> AuditEventError + AuditEvent" where
  "AuditEvent_new C parts = rbind (validate_event_parts C parts) (\<lambda>_. Inr parts)"

definition build_with_current_source_event_at ::
    "crates \<Rightarrow> datetime \<Rightarrow> RequestId \<Rightarrow> OwnerUserId option \<Rightarrow> DeviceId option \<Rightarrow> AuditAction \<Rightarrow>
      SecretId option \<Rightarrow> AuditResult \<Rightarrow> KeyVersion option \<Rightarrow> AuditMetadata \<Rightarrow>
      (rng, AuditEventError, AuditEvent) comp" where
  "build_with_current_source_event_at C now request_id actor_user_id actor_device_id action
      target_secret_id result key_version metadata_json =
    sbind (slift (with_current_source_event_at C now metadata_json)) (\<lambda>metadata_json.
    sbind (AuditEventId_generate C) (\<lambda>audit_event_id.
    slift (AuditEvent_new C
      \<lparr>ev_audit_event_id = audit_event_id, ev_request_id = request_id,
       ev_actor_user_id = actor_user_id, ev_actor_device_id = actor_device_id, ev_action = action,
       ev_target_secret_id = target_secret_id, ev_result = result, ev_key_version = key_version,
       ev_metadata_json = metadata_json\<rparr>)))"

definition event_source_event_at :: "crates \<Rightarrow> AuditEvent \<Rightarrow> AuditEventError + SourceEventAt" where
  "event_source_event_at C event = require_source_event_at C (ev_metadata_json event)"



section \<open>Accepted metadata\<close>

text \<open>The invariant of metadata: what the constructor accepts, over an ordered map.\<close>

definition AuditMetadata_wf :: "crates \<Rightarrow> AuditMetadata \<Rightarrow> bool" where
  "AuditMetadata_wf C m \<longleftrightarrow>
    (\<exists>object. m = AuditMetadata (JObject object) \<and> bt_wf object \<and>
      AuditMetadata_from_object C object = Inr m)"

lemma canonicalize_source_event_at_id:
  assumes "canonicalize_source_event_at C object = Inr object'" "bt_wf object"
  shows "object' = object"
proof (cases "bt_get object SOURCE_EVENT_AT_KEY")
  case None
  with assms show ?thesis by (simp add: canonicalize_source_event_at_def)
next
  case (Some v)
  with assms(1) obtain t at where "v = JString t" "SourceEventAt_parse C t = Inr at"
    and object': "object' = bt_insert SOURCE_EVENT_AT_KEY (JString (SourceEventAt_str at)) object"
    by (auto simp: canonicalize_source_event_at_def as_str_def split: json.splits)
  then have "v = JString (SourceEventAt_str at)"
    by (auto simp: SourceEventAt_parse_def split: if_splits)
  with Some object' assms(2) show ?thesis
    by (intro bt_eqI) (auto simp: bt_wf_insert bt_get_insert)
qed

lemma AuditMetadata_from_object_Inr:
  assumes "AuditMetadata_from_object C object = Inr m" "bt_wf object"
  shows "m = AuditMetadata (JObject object)" and "AuditMetadata_wf C m"
    and "reject_forbidden_metadata_keys (JObject object) = Inr ()"
proof -
  show m: "m = AuditMetadata (JObject object)"
    using assms by (auto simp: AuditMetadata_from_object_def dest: canonicalize_source_event_at_id)
  with assms show "AuditMetadata_wf C m" by (auto simp: AuditMetadata_wf_def)
  show "reject_forbidden_metadata_keys (JObject object) = Inr ()"
    using assms(1) by (auto simp: AuditMetadata_from_object_def)
qed

lemma AuditMetadata_new_wf:
  "AuditMetadata_new C (JObject object) = Inr m \<Longrightarrow> bt_wf object \<Longrightarrow> AuditMetadata_wf C m"
  by (auto simp: AuditMetadata_new_def as_object_def dest: AuditMetadata_from_object_Inr(2))

lemma AuditMetadata_empty_wf [simp]: "AuditMetadata_wf C AuditMetadata_empty"
  by (simp add: AuditMetadata_wf_def AuditMetadata_empty_def AuditMetadata_from_object_def
      validate_trigger_def canonicalize_source_event_at_def bt_get_def)

lemma AuditMetadata_insert_wf:
  assumes "AuditMetadata_wf C m" "AuditMetadata_insert C key text m = Inr m'"
  shows "AuditMetadata_wf C m'"
  using assms
  by (auto simp: AuditMetadata_wf_def AuditMetadata_insert_def as_object_def
      intro!: bt_wf_insert AuditMetadata_new_wf [unfolded AuditMetadata_wf_def])

lemma with_current_source_event_at_wf:
  assumes "AuditMetadata_wf C m" "with_current_source_event_at C now m = Inr m'"
  shows "AuditMetadata_wf C m'"
  using assms AuditMetadata_insert_wf [OF assms(1)]
  by (auto simp: with_current_source_event_at_def with_source_event_at_def split: if_splits)

lemma built_event_valid:
  assumes "build_with_current_source_event_at C now request_id actor device action target result
      key_version metadata r = (Inr event, r')" "AuditMetadata_wf C metadata"
  shows "validate_event_parts C event = Inr () \<and> AuditMetadata_wf C (ev_metadata_json event)"
  using assms
  by (auto simp: build_with_current_source_event_at_def sbind_eq_Inr AuditEvent_new_def
      dest: with_current_source_event_at_wf)

lemma validate_event_parts_Inr:
  assumes "validate_event_parts C parts = Inr ()"
  obtains object at where
    "AuditMetadata_as_value (ev_metadata_json parts) = JObject object"
    "require_source_event_at C (ev_metadata_json parts) = Inr at"
    "\<forall>key \<in> set (bt_keys object). key \<in> set (allowed_metadata_keys (ev_action parts) (ev_result parts))"
    "validate_required_metadata_keys (ev_action parts) (ev_result parts) object True = Inr ()"
    "validate_metadata_values C (ev_action parts) (ev_result parts) object = Inr ()"
  using assms
  by (auto simp: validate_event_parts_def validate_allowlist_for_action_def try_each_eq_Inr
      as_object_def split: json.splits)

lemma validate_required_metadata_keys_Inr:
  assumes "validate_required_metadata_keys action result object True = Inr ()"
  shows "set (required_metadata_keys action result) \<subseteq> set (bt_keys object)"
proof
  fix key assume "key \<in> set (required_metadata_keys action result)"
  with assms have "bt_get object key \<noteq> None"
    by (auto simp: validate_required_metadata_keys_def try_each_eq_Inr)
  then show "key \<in> set (bt_keys object)"
    by (force simp: bt_get_def bt_keys_def dest: map_of_SomeD)
qed

lemma error_code_only_on_failure:
  assumes "validate_metadata_values C action result object = Inr ()" "bt_get object ''error_code'' = Some v"
  shows "result = AuditFailure \<and> (\<exists>text. v = JString text \<and> short_string 64 text)"
proof -
  have "if_present object ''error_code'' (metadata_text ''error_code'' (short_string 64)) = Inr ()"
    "result = AuditFailure"
    using assms by (simp_all add: validate_metadata_values_def Let_def)
  with assms(2) show ?thesis
    by (auto simp: if_present_def metadata_text_def as_str_def split: json.splits)
qed

text \<open>
  C29 --- An audit event built with the clock's time is safe to store.  Whatever metadata it was
  given, its keys are among those allowed for its action and result, the required ones are all
  there, no key at any depth is, up to case and surrounding blanks, one of the forbidden names,
  the event carries a valid time, successes are reported only for actions that allow them here,
  an error code appears only on failures, and an authentication failure names no actor, device,
  secret or key version.
\<close>

theorem built_audit_event_is_safe:
  assumes "AuditMetadata_wf C metadata"
    and "build_with_current_source_event_at C now request_id actor device action target result
      key_version metadata r = (Inr event, r')"
  shows "\<exists>object at. AuditMetadata_as_value (ev_metadata_json event) = JObject object \<and>
    event_source_event_at C event = Inr at \<and>
    ev_action event = action \<and> ev_result event = result \<and>
    set (bt_keys object) \<subseteq> set (allowed_metadata_keys action result) \<and>
    set (required_metadata_keys action result) \<subseteq> set (bt_keys object) \<and>
    (\<forall>k \<in> set (json_keys (JObject object)).
      to_ascii_lowercase (str_trim k) \<notin> set FORBIDDEN_AUDIT_METADATA_KEYS) \<and>
    (result = AuditSuccess \<longrightarrow> \<not> is_write_success_only action \<and> \<not> is_failure_only action \<and>
      bt_get object ''error_code'' = None) \<and>
    (action = Action_AuthFailure \<longrightarrow> actor = None \<and> device = None \<and> target = None \<and>
      key_version = None)"
proof -
  from assms(2) obtain m where m: "with_current_source_event_at C now metadata = Inr m"
    and parts: "validate_event_parts C event = Inr ()"
    and event: "ev_action event = action" "ev_result event = result" "ev_actor_user_id event = actor"
      "ev_actor_device_id event = device" "ev_target_secret_id event = target"
      "ev_key_version event = key_version" "ev_metadata_json event = m"
    by (auto simp: build_with_current_source_event_at_def sbind_eq_Inr AuditEvent_new_def)
  from with_current_source_event_at_wf [OF assms(1) m] obtain object where
    object: "m = AuditMetadata (JObject object)" "bt_wf object"
      "AuditMetadata_from_object C object = Inr m"
    by (auto simp: AuditMetadata_wf_def)
  have keys: "\<forall>k \<in> set (json_keys (JObject object)).
      to_ascii_lowercase (str_trim k) \<notin> set FORBIDDEN_AUDIT_METADATA_KEYS"
    using AuditMetadata_from_object_Inr(3) [OF object(3,2)]
    by (auto simp: metadata_scan.scan_ok_iff is_forbidden_metadata_key_def list_ex_iff
        simp del: reject_forbidden_metadata_keys.simps json_keys.simps)
  from parts obtain at where at: "event_source_event_at C event = Inr at"
    and allowed: "set (bt_keys object) \<subseteq> set (allowed_metadata_keys action result)"
    and required: "set (required_metadata_keys action result) \<subseteq> set (bt_keys object)"
    and "values": "validate_metadata_values C action result object = Inr ()"
    by (rule validate_event_parts_Inr)
      (auto simp: event object(1) event_source_event_at_def dest!: validate_required_metadata_keys_Inr)
  have "bt_get object ''error_code'' = None" if "result = AuditSuccess"
    using error_code_only_on_failure [OF "values"] that by (cases "bt_get object ''error_code''") auto
  moreover have "result = AuditSuccess \<longrightarrow> \<not> is_write_success_only action \<and> \<not> is_failure_only action"
    "action = Action_AuthFailure \<longrightarrow> actor = None \<and> device = None \<and> target = None \<and> key_version = None"
    using parts by (auto simp: validate_event_parts_def event validate_auth_failure_parts_def)
  ultimately show ?thesis
    using keys at allowed required event object(1)
    by (intro exI [of _ object] exI [of _ at]) (simp del: json_keys.simps)
qed


text \<open>Metadata that holds nothing but the time.\<close>

definition timed_metadata :: "SourceEventAt \<Rightarrow> AuditMetadata" where
  "timed_metadata at = AuditMetadata (JObject [(SOURCE_EVENT_AT_KEY, JString (SourceEventAt_str at))])"

lemma timed_metadata_time:
  "SourceEventAt_parse C (SourceEventAt_str at) = Inr at \<Longrightarrow>
    require_source_event_at C (timed_metadata at) = Inr at"
  by (simp add: require_source_event_at_def metadata_source_event_at_def timed_metadata_def
      as_object_def as_str_def bt_get_def)

lemma empty_with_current_source_event_at:
  assumes "SourceEventAt_now_utc C now = Inr at" "SourceEventAt_parse C (SourceEventAt_str at) = Inr at"
  shows "with_current_source_event_at C now AuditMetadata_empty = Inr (timed_metadata at)"
proof -
  have "str_trim ''source_event_at'' = ''source_event_at''"
    by (rule str_trim_all_plain) (simp add: plain_char_def)
  then have "\<not> is_forbidden_metadata_key SOURCE_EVENT_AT_KEY"
    by (simp add: is_forbidden_metadata_key_def SOURCE_EVENT_AT_KEY_def
        FORBIDDEN_AUDIT_METADATA_KEYS_def to_ascii_lowercase_def ascii_lower_def)
  with assms show ?thesis
    by (simp add: with_current_source_event_at_def metadata_source_event_at_def as_object_def
        AuditMetadata_empty_def bt_get_def with_source_event_at_def AuditMetadata_insert_def
        AuditMetadata_new_def AuditMetadata_from_object_def validate_trigger_def as_str_def
        canonicalize_source_event_at_def timed_metadata_def SOURCE_EVENT_AT_KEY_def TRIGGER_KEY_def)
qed

lemma time_only_values:
  "validate_metadata_values C action result [(SOURCE_EVENT_AT_KEY, v)] = Inr ()"
  by (simp add: validate_metadata_values_def if_present_def bt_get_def SOURCE_EVENT_AT_KEY_def Let_def)

lemma timed_metadata_ok:
  assumes "SourceEventAt_parse C (SourceEventAt_str at) = Inr at"
    and "required_metadata_keys action result = []" "action \<noteq> Action_IntegrityCheck"
    and "\<not> is_write_success_only action" "\<not> is_failure_only action"
  shows "validate_event_parts C \<lparr>ev_audit_event_id = i, ev_request_id = request_id,
    ev_actor_user_id = actor, ev_actor_device_id = device, ev_action = action,
    ev_target_secret_id = target, ev_result = result, ev_key_version = key_version,
    ev_metadata_json = timed_metadata at\<rparr> = Inr ()"
proof -
  have "action \<noteq> Action_AuthFailure" using assms(2) by auto
  moreover have "SOURCE_EVENT_AT_KEY \<in> set (allowed_metadata_keys action result)"
    by (cases action) simp_all
  ultimately show ?thesis
    using assms timed_metadata_time [OF assms(1)]
    by (simp add: validate_event_parts_def validate_allowlist_for_action_def timed_metadata_def
        as_object_def bt_keys_def validate_required_metadata_keys_def bt_get_def time_only_values)
qed

lemma timed_event_builds:
  assumes "SourceEventAt_now_utc C now = Inr at" "SourceEventAt_parse C (SourceEventAt_str at) = Inr at"
    and "required_metadata_keys action result = []" "action \<noteq> Action_IntegrityCheck"
    and "\<not> is_write_success_only action" "\<not> is_failure_only action"
    and "AuditEventId_generate C r = (Inr i, r')"
  shows "build_with_current_source_event_at C now request_id actor device action target result
      key_version AuditMetadata_empty r =
    (Inr \<lparr>ev_audit_event_id = i, ev_request_id = request_id, ev_actor_user_id = actor,
      ev_actor_device_id = device, ev_action = action, ev_target_secret_id = target,
      ev_result = result, ev_key_version = key_version, ev_metadata_json = timed_metadata at\<rparr>, r')"
  using assms(7) empty_with_current_source_event_at [OF assms(1,2)] timed_metadata_ok [OF assms(2-6)]
  by (simp add: build_with_current_source_event_at_def sbind_def slift_def AuditEvent_new_def)

lemma now_utc_parses:
  assumes "time_laws C" "SourceEventAt_now_utc C now = Inr at"
  shows "SourceEventAt_parse C (SourceEventAt_str at) = Inr at"
proof -
  from assms(2) have f: "rfc3339_format C (dt_to_utc C now) = Inr (SourceEventAt_str at)"
    by (auto simp: SourceEventAt_now_utc_def format_utc_rfc3339_def)
  note utc = time_lawsD(1) [OF assms(1), of now]
  from time_lawsD(3,4) [OF assms(1) utc f] utc show ?thesis
    by (auto simp: SourceEventAt_parse_def rfc3339_text_def str_ends_with_def)
qed

lemma sample_now: "SourceEventAt_now_utc sample_crates (7, 0) = Inr (SourceEventAt ''7Z'')"
proof -
  have "sample_rfc3339_format (7, 0) = Inr ''7Z''" by code_simp
  then show ?thesis by (simp add: SourceEventAt_now_utc_def format_utc_rfc3339_def)
qed

lemma sample_event_id:
  "AuditEventId_generate sample_crates sample_rng = (Inr (AuditEventId sample_v4), sample_rng)"
  by (simp add: AuditEventId_generate_def sbind_def smap_err_def sret_def sample_v4_def)

definition sample_audit_event :: AuditEvent where
  "sample_audit_event = \<lparr>ev_audit_event_id = AuditEventId sample_v4, ev_request_id = RequestId 9,
    ev_actor_user_id = Some (OwnerUserId 11), ev_actor_device_id = None, ev_action = Action_Decrypt,
    ev_target_secret_id = Some (SecretId sample_v4), ev_result = AuditSuccess,
    ev_key_version = None, ev_metadata_json = timed_metadata (SourceEventAt ''7Z'')\<rparr>"

lemma sample_audit_event_built:
  "build_with_current_source_event_at sample_crates (7, 0) (RequestId 9) (Some (OwnerUserId 11)) None
    Action_Decrypt (Some (SecretId sample_v4)) AuditSuccess None AuditMetadata_empty sample_rng =
    (Inr sample_audit_event, sample_rng)"
  using timed_event_builds [OF sample_now now_utc_parses [OF sample_time_laws sample_now] _ _ _ _
      sample_event_id, of Action_Decrypt AuditSuccess]
  by (simp add: sample_audit_event_def is_write_success_only_def is_failure_only_def)

theorem built_audit_event_is_safe_witness:
  "\<exists>object. AuditMetadata_as_value (ev_metadata_json sample_audit_event) = JObject object \<and>
    set (bt_keys object) \<subseteq> set (allowed_metadata_keys Action_Decrypt AuditSuccess) \<and>
    list_all (\<lambda>k. to_ascii_lowercase (str_trim k) \<notin> set FORBIDDEN_AUDIT_METADATA_KEYS)
      (json_keys (JObject object))"
  using built_audit_event_is_safe [OF AuditMetadata_empty_wf sample_audit_event_built]
  unfolding list_all_iff by blast

end
