(* ===== verification/Audit_Builders.thy ===== *)
theory Audit_Builders
  imports Audit_Event Alias
begin

text \<open>
  The typed builders of audit metadata (\<open>src/audit/event/metadata/builders.rs\<close>), one function per
  builder: its arguments are the fields of the builder's struct, which \<open>new\<close> and the \<open>with_\<close>
  methods set, and it is the \<open>build\<close> method.  A table of the values accepted for each key is the
  reference against which the checks of \<open>metadata.rs\<close> are proved.
\<close>


section \<open>Violation summaries\<close>

record IntegrityCheckViolationSummary =
  vs_current_version_invalid :: u64
  vs_version_invalid :: u64
  vs_retention_exceeded :: u64
  vs_ciphertext_empty :: u64
  vs_encrypted_data_key_empty :: u64
  vs_nonce_length_invalid :: u64
  vs_algorithm_invalid :: u64
  vs_nonce_duplicate :: u64
  vs_aad_keys_invalid :: u64
  vs_aad_row_mismatch :: u64
  vs_created_at_mismatch :: u64
  vs_audit_action_invalid :: u64
  vs_audit_result_invalid :: u64
  vs_audit_metadata_not_object :: u64
  vs_audit_metadata_forbidden_key :: u64
  vs_audit_source_event_at_invalid :: u64

definition violation_summary_value :: "IntegrityCheckViolationSummary \<Rightarrow> json" where
  "violation_summary_value s = json_object
    [(''current_version_invalid'', json_uint (vs_current_version_invalid s)),
     (''version_invalid'', json_uint (vs_version_invalid s)),
     (''retention_exceeded'', json_uint (vs_retention_exceeded s)),
     (''ciphertext_empty'', json_uint (vs_ciphertext_empty s)),
     (''encrypted_data_key_empty'', json_uint (vs_encrypted_data_key_empty s)),
     (''nonce_length_invalid'', json_uint (vs_nonce_length_invalid s)),
     (''algorithm_invalid'', json_uint (vs_algorithm_invalid s)),
     (''nonce_duplicate'', json_uint (vs_nonce_duplicate s)),
     (''aad_keys_invalid'', json_uint (vs_aad_keys_invalid s)),
     (''aad_row_mismatch'', json_uint (vs_aad_row_mismatch s)),
     (''created_at_mismatch'', json_uint (vs_created_at_mismatch s)),
     (''audit_action_invalid'', json_uint (vs_audit_action_invalid s)),
     (''audit_result_invalid'', json_uint (vs_audit_result_invalid s)),
     (''audit_metadata_not_object'', json_uint (vs_audit_metadata_not_object s)),
     (''audit_metadata_forbidden_key'', json_uint (vs_audit_metadata_forbidden_key s)),
     (''audit_source_event_at_invalid'', json_uint (vs_audit_source_event_at_invalid s))]"

definition IntegrityCheckViolationSummary_zero :: IntegrityCheckViolationSummary where
  "IntegrityCheckViolationSummary_zero =
    \<lparr>vs_current_version_invalid = 0,
     vs_version_invalid = 0,
     vs_retention_exceeded = 0,
     vs_ciphertext_empty = 0,
     vs_encrypted_data_key_empty = 0,
     vs_nonce_length_invalid = 0,
     vs_algorithm_invalid = 0,
     vs_nonce_duplicate = 0,
     vs_aad_keys_invalid = 0,
     vs_aad_row_mismatch = 0,
     vs_created_at_mismatch = 0,
     vs_audit_action_invalid = 0,
     vs_audit_result_invalid = 0,
     vs_audit_metadata_not_object = 0,
     vs_audit_metadata_forbidden_key = 0,
     vs_audit_source_event_at_invalid = 0\<rparr>"


section \<open>Builders\<close>

text \<open>The insertions a builder makes, in order: always, or only for a field that is set.\<close>

definition optional :: "string \<Rightarrow> ('a \<Rightarrow> json) \<Rightarrow> 'a option \<Rightarrow> (string \<times> json) list" where
  "optional key encode field = (case field of None \<Rightarrow> [] | Some v \<Rightarrow> [(key, encode v)])"

definition time_value :: "SourceEventAt \<Rightarrow> json" where
  "time_value at = JString (SourceEventAt_str at)"

definition metadata_of :: "crates \<Rightarrow> (string \<times> json) list \<Rightarrow> AuditEventError + AuditMetadata" where
  "metadata_of C entries = AuditMetadata_new C (json_object entries)"

definition EncryptCreateMetadata_build ::
    "crates \<Rightarrow> SecretVersion \<Rightarrow> SecretVersionId \<Rightarrow>
      SourceEventAt option \<Rightarrow> AuditEventError + AuditMetadata" where
  "EncryptCreateMetadata_build C version secret_version_id source_event_at =
    metadata_of C ([(''version'', json_uint (SecretVersion_get version))] @
      [(''secret_version_id'', JString (SecretVersionId_as_canonical_string C secret_version_id))] @
      optional SOURCE_EVENT_AT_KEY time_value source_event_at)"

definition EncryptRotateMetadata_build ::
    "crates \<Rightarrow> SecretVersion \<Rightarrow> SecretVersionId \<Rightarrow>
      SourceEventAt option \<Rightarrow> AuditEventError + AuditMetadata" where
  "EncryptRotateMetadata_build C version secret_version_id source_event_at =
    metadata_of C ([(''version'', json_uint (SecretVersion_get version))] @
      [(''secret_version_id'', JString (SecretVersionId_as_canonical_string C secret_version_id))] @
      optional SOURCE_EVENT_AT_KEY time_value source_event_at)"

definition VersionPurgeMetadata_build ::
    "crates \<Rightarrow> SecretVersion \<Rightarrow> SecretVersionId \<Rightarrow>
      SourceEventAt option \<Rightarrow> AuditEventError + AuditMetadata" where
  "VersionPurgeMetadata_build C version secret_version_id source_event_at =
    metadata_of C ([(''version'', json_uint (SecretVersion_get version))] @
      [(''secret_version_id'', JString (SecretVersionId_as_canonical_string C secret_version_id))] @
      optional SOURCE_EVENT_AT_KEY time_value source_event_at)"

definition DecryptMetadata_build ::
    "crates \<Rightarrow> SecretId option \<Rightarrow> SourceEventAt option \<Rightarrow>
      AuditEventError + AuditMetadata" where
  "DecryptMetadata_build C attempted_secret_id source_event_at =
    metadata_of C (optional ''attempted_secret_id'' (\<lambda>i. JString (SecretId_as_canonical_string C i))
        attempted_secret_id @
      optional SOURCE_EVENT_AT_KEY time_value source_event_at)"

definition AuthFailureMetadata_build ::
    "crates \<Rightarrow> string \<Rightarrow> SourceEventAt option \<Rightarrow>
      AuditEventError + AuditMetadata" where
  "AuthFailureMetadata_build C error_code source_event_at =
    metadata_of C ([(''error_code'', JString error_code)] @
      optional SOURCE_EVENT_AT_KEY time_value source_event_at)"

definition IntegrityCheckMetadata_build ::
    "crates \<Rightarrow> u64 \<Rightarrow> u64 \<Rightarrow>
      u64 \<Rightarrow> u64 \<Rightarrow> u64 \<Rightarrow>
      IntegrityCheckViolationSummary \<Rightarrow> AuditTrigger \<Rightarrow>
      string option \<Rightarrow> SourceEventAt option \<Rightarrow>
      AuditEventError + AuditMetadata" where
  "IntegrityCheckMetadata_build C checked_secret_count
      checked_secret_version_count checked_audit_event_count duration_ms violation_count
      violation_summary trigger error_code source_event_at =
    metadata_of C ([(''check_name'', JString ''mvp_integrity_check'')] @
      [(''checked_secret_count'', json_uint checked_secret_count)] @
      [(''checked_secret_version_count'', json_uint checked_secret_version_count)] @
      [(''checked_audit_event_count'', json_uint checked_audit_event_count)] @
      [(''duration_ms'', json_uint duration_ms)] @
      [(''violation_count'', json_uint violation_count)] @
      [(''violation_summary'', violation_summary_value violation_summary)] @
      [(TRIGGER_KEY, JString (AuditTrigger_as_str trigger))] @
      optional ''error_code'' JString error_code @
      optional SOURCE_EVENT_AT_KEY time_value source_event_at)"

definition RestoreTestMetadata_build ::
    "crates \<Rightarrow> u64 \<Rightarrow> AuditTrigger \<Rightarrow>
      u64 \<Rightarrow> string option \<Rightarrow> SecretVersion option \<Rightarrow>
      string option \<Rightarrow> SourceEventAt option \<Rightarrow>
      AuditEventError + AuditMetadata" where
  "RestoreTestMetadata_build C sample_count trigger duration_ms error_code
      failed_version reason source_event_at =
    metadata_of C ([(''phase'', JString ''verify'')] @ [(''sample_count'', json_uint sample_count)] @
      [(TRIGGER_KEY, JString (AuditTrigger_as_str trigger))] @
      [(''duration_ms'', json_uint duration_ms)] @ optional ''error_code'' JString error_code @
      optional ''failed_version'' (\<lambda>v. json_uint (SecretVersion_get v)) failed_version @
      optional ''reason'' JString reason @
      optional SOURCE_EVENT_AT_KEY time_value source_event_at)"

definition SchedulerJobMetadata_build ::
    "crates \<Rightarrow> string \<Rightarrow> AuditTrigger \<Rightarrow> u64 \<Rightarrow>
      string option \<Rightarrow> string option \<Rightarrow> SourceEventAt \<Rightarrow>
      AuditEventError + AuditMetadata" where
  "SchedulerJobMetadata_build C job_name trigger duration_ms error_code target_year_month
      source_event_at =
    metadata_of C ([(''job_name'', JString job_name)] @
      [(TRIGGER_KEY, JString (AuditTrigger_as_str trigger))] @
      [(''duration_ms'', json_uint duration_ms)] @ optional ''error_code'' JString error_code @
      optional ''target_year_month'' JString target_year_month @
      [(SOURCE_EVENT_AT_KEY, time_value source_event_at)])"

definition KeyRotationStartMetadata_build ::
    "crates \<Rightarrow> KeyVersion \<Rightarrow> KeyVersion \<Rightarrow>
      SourceEventAt option \<Rightarrow> AuditEventError + AuditMetadata" where
  "KeyRotationStartMetadata_build C old_key_version new_key_version source_event_at =
    metadata_of C ([(''old_key_version'', json_uint (KeyVersion_get old_key_version))] @
      [(''new_key_version'', json_uint (KeyVersion_get new_key_version))] @
      optional SOURCE_EVENT_AT_KEY time_value source_event_at)"

definition KeyRotationReencryptMetadata_build ::
    "crates \<Rightarrow> KeyVersion \<Rightarrow> KeyVersion \<Rightarrow> u64 \<Rightarrow>
      u64 \<Rightarrow> u64 \<Rightarrow> SourceEventAt option \<Rightarrow>
      AuditEventError + AuditMetadata" where
  "KeyRotationReencryptMetadata_build C old_key_version new_key_version batch_size
      processed_count remaining_count source_event_at =
    metadata_of C ([(''old_key_version'', json_uint (KeyVersion_get old_key_version))] @
      [(''new_key_version'', json_uint (KeyVersion_get new_key_version))] @
      [(''batch_size'', json_uint batch_size)] @
      [(''processed_count'', json_uint processed_count)] @
      [(''remaining_count'', json_uint remaining_count)] @
      optional SOURCE_EVENT_AT_KEY time_value source_event_at)"

definition KeyRotationCompleteMetadata_build ::
    "crates \<Rightarrow> KeyVersion \<Rightarrow> KeyVersion \<Rightarrow> u64 \<Rightarrow>
      SourceEventAt option \<Rightarrow> AuditEventError + AuditMetadata" where
  "KeyRotationCompleteMetadata_build C old_key_version new_key_version remaining_count
      source_event_at =
    metadata_of C ([(''old_key_version'', json_uint (KeyVersion_get old_key_version))] @
      [(''new_key_version'', json_uint (KeyVersion_get new_key_version))] @
      [(''remaining_count'', json_uint remaining_count)] @
      optional SOURCE_EVENT_AT_KEY time_value source_event_at)"

definition SignatureKeyCreatedMetadata_build ::
    "crates \<Rightarrow> LedgerSignatureKeyVersion \<Rightarrow> string \<Rightarrow>
      SourceEventAt \<Rightarrow> AuditEventError + AuditMetadata" where
  "SignatureKeyCreatedMetadata_build C signature_key_version public_key_fingerprint
      source_event_at =
    metadata_of C ([(''signature_key_version'',
        json_uint (LedgerSignatureKeyVersion_get signature_key_version))] @
      [(''public_key_fingerprint'', JString public_key_fingerprint)] @
      [(''created_at'', time_value source_event_at)] @
      [(SOURCE_EVENT_AT_KEY, time_value source_event_at)])"

definition SignatureKeyActivatedMetadata_build ::
    "crates \<Rightarrow> LedgerSignatureKeyVersion \<Rightarrow> string \<Rightarrow>
      SourceEventAt \<Rightarrow> AuditEventError + AuditMetadata" where
  "SignatureKeyActivatedMetadata_build C signature_key_version public_key_fingerprint
      source_event_at =
    metadata_of C ([(''signature_key_version'',
        json_uint (LedgerSignatureKeyVersion_get signature_key_version))] @
      [(''public_key_fingerprint'', JString public_key_fingerprint)] @
      [(''activated_at'', time_value source_event_at)] @
      [(SOURCE_EVENT_AT_KEY, time_value source_event_at)])"

definition SignatureKeyRetiredMetadata_build ::
    "crates \<Rightarrow> LedgerSignatureKeyVersion \<Rightarrow> string \<Rightarrow>
      SourceEventAt \<Rightarrow> AuditEventError + AuditMetadata" where
  "SignatureKeyRetiredMetadata_build C signature_key_version public_key_fingerprint
      source_event_at =
    metadata_of C ([(''signature_key_version'',
        json_uint (LedgerSignatureKeyVersion_get signature_key_version))] @
      [(''public_key_fingerprint'', JString public_key_fingerprint)] @
      [(''retired_at'', time_value source_event_at)] @
      [(SOURCE_EVENT_AT_KEY, time_value source_event_at)])"

definition MonthlyDigestGenerateMetadata_build ::
    "crates \<Rightarrow> MonthlyDigestPeriod \<Rightarrow> string \<Rightarrow>
      SourceEventAt \<Rightarrow> AuditEventError + AuditMetadata" where
  "MonthlyDigestGenerateMetadata_build C period error_code source_event_at =
    metadata_of C ([(''error_code'', JString error_code)] @
      [(''target_year_month'', JString (MonthlyDigestPeriod_str period))] @
      [(SOURCE_EVENT_AT_KEY, time_value source_event_at)])"

definition MonthlyDigestVerifyMetadata_build ::
    "crates \<Rightarrow> MonthlyDigestPeriod \<Rightarrow> string \<Rightarrow>
      SourceEventAt \<Rightarrow> AuditEventError + AuditMetadata" where
  "MonthlyDigestVerifyMetadata_build C period error_code source_event_at =
    metadata_of C ([(''error_code'', JString error_code)] @
      [(''target_year_month'', JString (MonthlyDigestPeriod_str period))] @
      [(SOURCE_EVENT_AT_KEY, time_value source_event_at)])"

definition ArchiveExportMetadata_build ::
    "crates \<Rightarrow> MonthlyDigestPeriod \<Rightarrow> string option \<Rightarrow>
      string option \<Rightarrow> string option \<Rightarrow> SourceEventAt \<Rightarrow>
      AuditEventError + AuditMetadata" where
  "ArchiveExportMetadata_build C period archive_key digest_hash error_code source_event_at =
    metadata_of C ([(''target_year_month'', JString (MonthlyDigestPeriod_str period))] @
      [(SOURCE_EVENT_AT_KEY, time_value source_event_at)] @
      optional ''archive_key'' JString archive_key @
      optional ''digest_hash'' JString digest_hash @ optional ''error_code'' JString error_code)"

definition DigestTimestampingMetadata_build ::
    "crates \<Rightarrow> MonthlyDigestPeriod \<Rightarrow> string option \<Rightarrow>
      string option \<Rightarrow> string option \<Rightarrow> SourceEventAt \<Rightarrow>
      AuditEventError + AuditMetadata" where
  "DigestTimestampingMetadata_build C period digest_hash timestamp_token_hash error_code
      source_event_at =
    metadata_of C ([(''target_year_month'', JString (MonthlyDigestPeriod_str period))] @
      [(SOURCE_EVENT_AT_KEY, time_value source_event_at)] @
      optional ''digest_hash'' JString digest_hash @
      optional ''timestamp_token_hash'' JString timestamp_token_hash @
      optional ''error_code'' JString error_code)"

definition AuditReportGenerateMetadata_build ::
    "crates \<Rightarrow> string \<Rightarrow> SourceEventAt \<Rightarrow>
      SourceEventAt \<Rightarrow> string option \<Rightarrow> SourceEventAt \<Rightarrow>
      AuditEventError + AuditMetadata" where
  "AuditReportGenerateMetadata_build C format period_end period_start error_code
      source_event_at =
    metadata_of C ([(''format'', JString format)] @ [(''period_end'', time_value period_end)] @
      [(''period_start'', time_value period_start)] @
      optional ''error_code'' JString error_code @
      [(SOURCE_EVENT_AT_KEY, time_value source_event_at)])"

definition SecretAliasCreateMetadata_build ::
    "crates \<Rightarrow> AliasFingerprint option \<Rightarrow> KeyVersion option \<Rightarrow>
      AliasFingerprintSchemaVersion option \<Rightarrow> string option \<Rightarrow>
      SourceEventAt \<Rightarrow> AuditEventError + AuditMetadata" where
  "SecretAliasCreateMetadata_build C alias_fingerprint alias_fingerprint_key_version
      alias_fingerprint_schema_version error_code source_event_at =
    metadata_of C (optional ''alias_fingerprint'' (\<lambda>f. JString (AliasFingerprint_to_hex_string C f)) alias_fingerprint @
      optional ''alias_fingerprint_key_version'' (\<lambda>v. json_uint (KeyVersion_get v))
        alias_fingerprint_key_version @
      optional ''alias_fingerprint_schema_version''
        (\<lambda>v. json_uint (AliasFingerprintSchemaVersion_get v)) alias_fingerprint_schema_version @
      optional ''error_code'' JString error_code @
      [(SOURCE_EVENT_AT_KEY, time_value source_event_at)])"

definition SecretAliasUpdateMetadata_build ::
    "crates \<Rightarrow> AliasFingerprint option \<Rightarrow>
      AliasFingerprint option \<Rightarrow> KeyVersion option \<Rightarrow>
      AliasFingerprintSchemaVersion option \<Rightarrow> string option \<Rightarrow>
      SourceEventAt \<Rightarrow> AuditEventError + AuditMetadata" where
  "SecretAliasUpdateMetadata_build C old_alias_fingerprint new_alias_fingerprint
      alias_fingerprint_key_version alias_fingerprint_schema_version error_code source_event_at
      =
    metadata_of C (optional ''old_alias_fingerprint'' (\<lambda>f. JString (AliasFingerprint_to_hex_string C f)) old_alias_fingerprint @
      optional ''new_alias_fingerprint'' (\<lambda>f. JString (AliasFingerprint_to_hex_string C f)) new_alias_fingerprint @
      optional ''alias_fingerprint_key_version'' (\<lambda>v. json_uint (KeyVersion_get v))
        alias_fingerprint_key_version @
      optional ''alias_fingerprint_schema_version''
        (\<lambda>v. json_uint (AliasFingerprintSchemaVersion_get v)) alias_fingerprint_schema_version @
      optional ''error_code'' JString error_code @
      [(SOURCE_EVENT_AT_KEY, time_value source_event_at)])"

definition SecretAliasDeleteMetadata_build ::
    "crates \<Rightarrow> AliasFingerprint option \<Rightarrow> KeyVersion option \<Rightarrow>
      AliasFingerprintSchemaVersion option \<Rightarrow> string option \<Rightarrow>
      SourceEventAt \<Rightarrow> AuditEventError + AuditMetadata" where
  "SecretAliasDeleteMetadata_build C alias_fingerprint alias_fingerprint_key_version
      alias_fingerprint_schema_version error_code source_event_at =
    metadata_of C (optional ''alias_fingerprint'' (\<lambda>f. JString (AliasFingerprint_to_hex_string C f)) alias_fingerprint @
      optional ''alias_fingerprint_key_version'' (\<lambda>v. json_uint (KeyVersion_get v))
        alias_fingerprint_key_version @
      optional ''alias_fingerprint_schema_version''
        (\<lambda>v. json_uint (AliasFingerprintSchemaVersion_get v)) alias_fingerprint_schema_version @
      optional ''error_code'' JString error_code @
      [(SOURCE_EVENT_AT_KEY, time_value source_event_at)])"

definition SecretAliasListMetadata_build ::
    "crates \<Rightarrow> u64 option \<Rightarrow> string option \<Rightarrow>
      SourceEventAt \<Rightarrow> AuditEventError + AuditMetadata" where
  "SecretAliasListMetadata_build C result_count error_code source_event_at =
    metadata_of C (optional ''result_count'' json_uint result_count @
      optional ''error_code'' JString error_code @
      [(SOURCE_EVENT_AT_KEY, time_value source_event_at)])"

definition AuditUiReadMetadata_build ::
    "crates \<Rightarrow> string \<Rightarrow> string \<Rightarrow> u64 option \<Rightarrow>
      SourceEventAt option \<Rightarrow> SourceEventAt option \<Rightarrow>
      u64 option \<Rightarrow> u64 option \<Rightarrow> MonthlyDigestPeriod option \<Rightarrow>
      string option \<Rightarrow> SourceEventAt \<Rightarrow> AuditEventError + AuditMetadata" where
  "AuditUiReadMetadata_build C endpoint resource result_count period_start period_end
      start_sequence_no end_sequence_no target_year_month error_code source_event_at =
    metadata_of C ([(''endpoint'', JString endpoint)] @ [(''method'', JString ''GET'')] @
      [(''resource'', JString resource)] @ optional ''result_count'' json_uint result_count @
      optional ''period_start'' time_value period_start @
      optional ''period_end'' time_value period_end @
      optional ''start_sequence_no'' json_uint start_sequence_no @
      optional ''end_sequence_no'' json_uint end_sequence_no @
      optional ''target_year_month'' (\<lambda>p. JString (MonthlyDigestPeriod_str p)) target_year_month @
      optional ''error_code'' JString error_code @
      [(SOURCE_EVENT_AT_KEY, time_value source_event_at)])"

definition SiemForwardFailureMetadata_build ::
    "crates \<Rightarrow> string \<Rightarrow> string option \<Rightarrow>
      u64 option \<Rightarrow> SourceEventAt option \<Rightarrow>
      AuditEventError + AuditMetadata" where
  "SiemForwardFailureMetadata_build C error_code event_type event_count source_event_at =
    metadata_of C ([(''error_code'', JString error_code)] @ optional ''event_type'' JString event_type @
      optional ''event_count'' json_uint event_count @
      optional SOURCE_EVENT_AT_KEY time_value source_event_at)"

definition IncidentDetectedMetadata_build ::
    "crates \<Rightarrow> string \<Rightarrow> string \<Rightarrow> string \<Rightarrow>
      string \<Rightarrow> string \<Rightarrow> string \<Rightarrow> string \<Rightarrow>
      SourceEventAt \<Rightarrow> string option \<Rightarrow> u64 option \<Rightarrow>
      MonthlyDigestPeriod option \<Rightarrow> AuditEventError + AuditMetadata" where
  "IncidentDetectedMetadata_build C incident_type severity detection_source dedupe_key
      notification_sink notification_result error_code source_event_at source_event_id
      target_sequence_no target_year_month =
    metadata_of C ([(''incident_type'', JString incident_type)] @ [(''severity'', JString severity)] @
      [(''detection_source'', JString detection_source)] @
      [(''dedupe_key'', JString dedupe_key)] @
      [(''notification_sink'', JString notification_sink)] @
      [(''notification_result'', JString notification_result)] @
      [(''error_code'', JString error_code)] @
      [(SOURCE_EVENT_AT_KEY, time_value source_event_at)] @
      optional ''source_event_id'' JString source_event_id @
      optional ''target_sequence_no'' json_uint target_sequence_no @
      optional ''target_year_month'' (\<lambda>p. JString (MonthlyDigestPeriod_str p)) target_year_month)"


section \<open>The values accepted for a key\<close>

definition text_ok :: "(string \<Rightarrow> bool) \<Rightarrow> json \<Rightarrow> bool" where
  "text_ok acceptable v = (case v of JString text \<Rightarrow> acceptable text | _ \<Rightarrow> False)"

definition count_ok :: "json \<Rightarrow> bool" where "count_ok v \<longleftrightarrow> json_as_u64 v \<noteq> None"

definition positive_ok :: "json \<Rightarrow> bool" where
  "positive_ok v \<longleftrightarrow> (\<exists>n. json_as_u64 v = Some n \<and> n \<noteq> 0)"

definition summary_ok :: "json \<Rightarrow> bool" where
  "summary_ok v \<longleftrightarrow> (\<exists>summary. v = JObject summary \<and> (\<forall>(k, w) \<in> set summary. count_ok w))"

definition metadata_value_ok ::
    "crates \<Rightarrow> AuditAction \<Rightarrow> AuditResult \<Rightarrow> string \<Rightarrow> json \<Rightarrow> bool" where
  "metadata_value_ok C action result key v \<longleftrightarrow>
    (key \<in> {''checked_secret_count'', ''checked_secret_version_count'',
        ''checked_audit_event_count'', ''duration_ms'', ''violation_count'', ''sample_count'',
        ''processed_count'', ''remaining_count'', ''result_count''} \<longrightarrow> count_ok v) \<and>
    (key \<in> {''version'', ''old_key_version'', ''new_key_version'', ''signature_key_version'',
        ''batch_size'', ''target_sequence_no'', ''start_sequence_no'', ''end_sequence_no'',
        ''alias_fingerprint_key_version'', ''alias_fingerprint_schema_version''} \<longrightarrow>
      positive_ok v) \<and>
    (key = ''failed_version'' \<longrightarrow> (v = JNull \<or> positive_ok v) \<and> result = AuditFailure) \<and>
    (key \<in> {''secret_version_id'', ''attempted_secret_id''} \<longrightarrow>
      text_ok (\<lambda>text. is_ok (SecretVersionId_parse C text)) v) \<and>
    (key = ''source_event_id'' \<longrightarrow>
      text_ok (\<lambda>text. is_ok (AuditEventId_parse C text)) v \<and> action = Action_IncidentDetected) \<and>
    (key = ''attempted_secret_id'' \<longrightarrow> action = Action_Decrypt \<and> result = AuditFailure) \<and>
    (key = ''error_code'' \<longrightarrow> result = AuditFailure \<and> text_ok (short_string 64) v) \<and>
    (key = ''job_name'' \<longrightarrow> text_ok (short_string 96) v) \<and>
    (key \<in> {''endpoint'', ''resource'', ''detection_source'', ''dedupe_key'',
        ''notification_sink''} \<longrightarrow> text_ok (short_string 128) v) \<and>
    (key = ''method'' \<longrightarrow> v = JString ''GET'') \<and>
    (key \<in> {''public_key_fingerprint'', ''alias_fingerprint'', ''old_alias_fingerprint'',
        ''new_alias_fingerprint''} \<longrightarrow> text_ok (hex_string 64) v) \<and>
    (key \<in> {''created_at'', ''activated_at'', ''retired_at'', ''period_start'', ''period_end''} \<longrightarrow>
      text_ok (\<lambda>text. is_ok (SourceEventAt_parse C text)) v) \<and>
    (key = ''incident_type'' \<longrightarrow> text_ok incident_type_allowed v) \<and>
    (key = ''severity'' \<longrightarrow>
      text_ok (\<lambda>text. text \<in> {''critical'', ''high'', ''medium'', ''low''}) v) \<and>
    (key = ''notification_result'' \<longrightarrow>
      text_ok (\<lambda>text. text \<in> {''sent'', ''failed'', ''suppressed'', ''not_configured''}) v) \<and>
    (key = ''target_year_month'' \<longrightarrow>
      text_ok (\<lambda>text. is_ok (MonthlyDigestPeriod_parse text)) v) \<and>
    (key = ''format'' \<longrightarrow> v \<in> {JString ''json'', JString ''markdown''}) \<and>
    (key = ''archive_key'' \<longrightarrow> result = AuditSuccess \<and> text_ok (short_string 256) v) \<and>
    (key = ''check_name'' \<longrightarrow> v = JString ''mvp_integrity_check'') \<and>
    (key = ''phase'' \<longrightarrow> v = JString ''verify'') \<and>
    (key = ''reason'' \<longrightarrow> v = JString ''no_current_secret_versions'') \<and>
    (key = ''violation_summary'' \<and> action = Action_IntegrityCheck \<longrightarrow> summary_ok v)"

text \<open>Each check of the source, as a condition on the value under its key.\<close>

lemma metadata_text_Inr: "metadata_text key acceptable v = Inr () \<longleftrightarrow> text_ok acceptable v"
  by (auto simp: metadata_text_def text_ok_def as_str_def split: json.splits)

lemma u64_checks_Inr:
  "validate_u64_value key v = Inr () \<longleftrightarrow> count_ok v"
  "validate_positive_u64_value key v = Inr () \<longleftrightarrow> positive_ok v"
  by (auto simp: validate_u64_value_def validate_positive_u64_value_def count_ok_def positive_ok_def)

lemma summary_Inr:
  "(\<exists>x. as_object v = Some x \<and> try_each (\<lambda>(key, y). validate_u64_value (f key) y) x = Inr ()) \<longleftrightarrow>
    summary_ok v"
  by (cases v) (auto simp: summary_ok_def as_object_def try_each_eq_Inr u64_checks_Inr)

lemma failed_version_Inr:
  "(if v \<noteq> JNull then validate_positive_u64_value k v else Inr ()) = Inr () \<longleftrightarrow>
    v = JNull \<or> positive_ok v"
  by (simp add: u64_checks_Inr)

lemma text_ok_eq:
  "text_ok (\<lambda>t. t = s) v \<longleftrightarrow> v = JString s"
  "text_ok (\<lambda>t. t = s \<or> t = s') v \<longleftrightarrow> v = JString s \<or> v = JString s'"
  by (auto simp: text_ok_def split: json.splits)

lemma rbind_unit_Inr: "rbind (a :: 'e + unit) (\<lambda>_. b) = Inr () \<longleftrightarrow> a = Inr () \<and> b = Inr ()"
  by auto

text \<open>A condition on the value of one key, if the key is there.\<close>

definition holds_at :: "(string \<times> json) list \<Rightarrow> string \<Rightarrow> (json \<Rightarrow> bool) \<Rightarrow> bool" where
  "holds_at object key P \<longleftrightarrow> (\<forall>v. bt_get object key = Some v \<longrightarrow> P v)"

lemma holds_at_simps:
  "holds_at object key (\<lambda>_. Q) \<longleftrightarrow> bt_get object key = None \<or> Q"
  "holds_at object key (\<lambda>v. P v \<and> R v) \<longleftrightarrow> holds_at object key P \<and> holds_at object key R"
  by (auto simp: holds_at_def)

lemma all_keys:
  "(\<forall>key v. bt_get object key = Some v \<longrightarrow> key = k \<longrightarrow> P v) \<longleftrightarrow> holds_at object k P"
  "(\<forall>key v. bt_get object key = Some v \<longrightarrow> key = k \<and> Q \<longrightarrow> P v) \<longleftrightarrow> (Q \<longrightarrow> holds_at object k P)"
  "(\<forall>key v. bt_get object key = Some v \<longrightarrow> key \<in> insert k K \<longrightarrow> P v) \<longleftrightarrow>
    holds_at object k P \<and> (\<forall>key v. bt_get object key = Some v \<longrightarrow> key \<in> K \<longrightarrow> P v)"
  "\<forall>key v. bt_get object key = Some v \<longrightarrow> key \<in> {} \<longrightarrow> P v"
  by (auto simp: holds_at_def)

lemma if_present_Inr:
  "if_present object key check = Inr () \<longleftrightarrow> holds_at object key (\<lambda>v. check v = Inr ())"
  by (simp add: if_present_def holds_at_def split: option.splits)

lemmas value_checks_Inr = rbind_unit_Inr if_present_Inr metadata_text_Inr u64_checks_Inr
  failed_version_Inr




section \<open>Built metadata\<close>

definition keys_within :: "string list \<Rightarrow> AuditEventError + AuditMetadata \<Rightarrow> bool" where
  "keys_within allowed built \<longleftrightarrow>
    (\<forall>m. built = Inr m \<longrightarrow> (\<exists>object. m = AuditMetadata (JObject object) \<and>
      set (bt_keys object) \<subseteq> set allowed))"

lemma metadata_of_keys:
  assumes "fst ` set entries \<subseteq> set allowed"
  shows "keys_within allowed (metadata_of C entries)"
  unfolding keys_within_def
proof (intro allI impI)
  fix m assume "metadata_of C entries = Inr m"
  then have "m = AuditMetadata (JObject (bt_of_list entries))"
    using AuditMetadata_from_object_Inr(1) [OF _ bt_of_list_wf]
    by (simp add: metadata_of_def AuditMetadata_new_def json_object_def as_object_def)
  then show "\<exists>object. m = AuditMetadata (JObject object) \<and> set (bt_keys object) \<subseteq> set allowed"
    using assms by (simp add: bt_keys_of_list)
qed

lemma optional_keys: "fst ` set (optional key encode field) \<subseteq> K \<longleftrightarrow> field = None \<or> key \<in> K"
  by (cases field) (simp_all add: optional_def)


end
