(* ===== verification/Json_Lines.thy ===== *)
theory Json_Lines
  imports Ledger_Digest
begin

text \<open>
  Append-only files of JSON lines, the format that the local stores of audit and SIEM events share
  (\<open>src/audit/fallback/file_store.rs\<close>, \<open>src/siem/buffer.rs\<close>).

  The disk is modelled by the bytes of the file, the sealed archives with their modification times,
  the answers of the operating system to the calls still to come (a call may fail, and a failing
  write may leave a prefix behind) and the readings of the clock.  The operation lock of a store
  makes each operation atomic, so an operation is one step here; closures handed to
  \<open>spawn_blocking\<close> do not panic, so joining them does not fail.

  The interface \<open>outbox\<close> says what the senders of events rely on; it is interpreted on both stores.
\<close>


section \<open>The disk\<close>

datatype io_result = Io_Done | Io_Failed nat string

record disk =
  disk_file :: "string option"
  disk_archives :: "(string \<times> string \<times> nat) list"
  disk_io :: "io_result stream"
  disk_clock :: "datetime stream"

definition file_content :: "disk \<Rightarrow> string" where
  "file_content d = (case disk_file d of None \<Rightarrow> [] | Some content \<Rightarrow> content)"

text \<open>A call that changes nothing we track, and a write to the end of the file.\<close>

definition io_call :: "(disk, string, unit) comp" where
  "io_call d =
    (let d' = d\<lparr>disk_io := stl (disk_io d)\<rparr> in
     case shd (disk_io d) of Io_Done \<Rightarrow> (Inr (), d') | Io_Failed _ message \<Rightarrow> (Inl message, d'))"

definition io_write :: "string \<Rightarrow> (disk, string, unit) comp" where
  "io_write t d =
    (let written = (case shd (disk_io d) of Io_Done \<Rightarrow> t | Io_Failed n _ \<Rightarrow> take n t);
       d' = d\<lparr>disk_file := Some (file_content d @ written), disk_io := stl (disk_io d)\<rparr> in
     case shd (disk_io d) of Io_Done \<Rightarrow> (Inr (), d') | Io_Failed _ message \<Rightarrow> (Inl message, d'))"

definition read_clock :: "disk \<Rightarrow> datetime \<times> disk" where
  "read_clock d = (shd (disk_clock d), d\<lparr>disk_clock := stl (disk_clock d)\<rparr>)"

text \<open>\<open>BufRead::lines\<close>: lines end with a newline, which is dropped together with a carriage
  return before it; a last line without newline counts if it is not empty.\<close>

definition newline :: char where "newline = CHR 0x0A"

definition strip_cr :: "string \<Rightarrow> string" where
  "strip_cr line = (if line \<noteq> [] \<and> last line = CHR 0x0D then butlast line else line)"

fun lines_from :: "string \<Rightarrow> string \<Rightarrow> string list" where
  "lines_from acc [] = (if acc = [] then [] else [rev acc])"
| "lines_from acc (c # s) =
    (if c = newline then strip_cr (rev acc) # lines_from [] s else lines_from (c # acc) s)"

definition file_lines :: "string \<Rightarrow> string list" where
  "file_lines content = lines_from [] content"

text \<open>Reading may fail at some line.\<close>

definition io_read_lines :: "disk \<Rightarrow> (string + string) list \<times> disk" where
  "io_read_lines d =
    (let ls = map Inr (file_lines (file_content d)) in
     (case shd (disk_io d) of Io_Done \<Rightarrow> ls | Io_Failed n message \<Rightarrow> take n ls @ [Inl message],
      d\<lparr>disk_io := stl (disk_io d)\<rparr>))"

text \<open>One line: the file is opened, the value and a newline are written, and the data is synced.
  The serializer reports a failing write as an error of its own.\<close>

definition append_json_line ::
    "crates \<Rightarrow> (string \<Rightarrow> 'x) \<Rightarrow> (string \<Rightarrow> 'x) \<Rightarrow> json \<Rightarrow> (disk, 'x, unit) comp" where
  "append_json_line C io_error json_error v =
    sbind (smap_err io_error io_call) (\<lambda>_.
    sbind (\<lambda>d. (Inr (), d\<lparr>disk_file := Some (file_content d)\<rparr>)) (\<lambda>_.
    sbind (slift (map_err json_error (json_to_string C v))) (\<lambda>line.
    sbind (smap_err json_error (io_write line)) (\<lambda>_.
    sbind (smap_err io_error (io_write [newline])) (\<lambda>_.
    smap_err io_error io_call)))))"


section \<open>Fields\<close>

datatype DeliveryStatus = Delivery_Pending | Delivery_Sent

fun DeliveryStatus_as_str :: "DeliveryStatus \<Rightarrow> string" where
  "DeliveryStatus_as_str Delivery_Pending = ''pending''"
| "DeliveryStatus_as_str Delivery_Sent = ''sent''"

text \<open>What \<open>serde\<close> reads from an object for the fields of the record.  The text of its errors is
  left out.\<close>

definition string_field :: "json \<Rightarrow> string \<Rightarrow> string + string" where
  "string_field v key = ok_or ''invalid field'' (Option.bind (json_get v key) as_str)"

definition optional_string_field :: "json \<Rightarrow> string \<Rightarrow> string + string option" where
  "optional_string_field v key =
    (case json_get v key of
      None \<Rightarrow> Inr None
    | Some JNull \<Rightarrow> Inr None
    | Some (JString s) \<Rightarrow> Inr (Some s)
    | Some _ \<Rightarrow> Inl ''invalid field'')"

definition optional_u32_field :: "json \<Rightarrow> string \<Rightarrow> string + u32 option" where
  "optional_u32_field v key =
    (case json_get v key of
      None \<Rightarrow> Inr None
    | Some JNull \<Rightarrow> Inr None
    | Some w \<Rightarrow> (case Option.bind (json_as_u64 w) try_from_word of
        Some n \<Rightarrow> Inr (Some n)
      | None \<Rightarrow> Inl ''invalid field''))"

definition status_field :: "json \<Rightarrow> string \<Rightarrow> string + DeliveryStatus" where
  "status_field v key =
    rbind (string_field v key) (\<lambda>s.
    if s = ''pending'' then Inr Delivery_Pending
    else if s = ''sent'' then Inr Delivery_Sent else Inl ''unknown variant'')"

lemma json_opt_plain [simp]: "json_exact (json_opt t)" "json_sorted (json_opt t)"
  by (cases t; simp add: json_opt_def)+

lemma optional_field_simps:
  "json_get v key = Some (json_opt t) \<Longrightarrow> optional_string_field v key = Inr t"
  "json_get v key = Some (JString s) \<Longrightarrow> optional_string_field v key = Inr (Some s)"
  "json_get v key = Some (JString s) \<Longrightarrow> string_field v key = Inr s"
  "json_get v key = Some (JString (DeliveryStatus_as_str status)) \<Longrightarrow>
    status_field v key = Inr status"
  by (auto simp: optional_string_field_def string_field_def status_field_def json_opt_def as_str_def
      split: option.splits) (cases status; simp)+



section \<open>States replayed from a log\<close>

text \<open>The last value under each key, in the order of the keys.\<close>

definition latest :: "('r \<Rightarrow> string) \<Rightarrow> ('r \<Rightarrow> 'v) \<Rightarrow> 'r list \<Rightarrow> (string \<times> 'v) list" where
  "latest key entry rs = fold (\<lambda>r. bt_insert (key r) (entry r)) rs []"

lemma latest_simps:
  "latest key entry [] = []"
  "latest key entry (rs @ [r]) = bt_insert (key r) (entry r) (latest key entry rs)"
  by (simp_all add: latest_def)

lemma latest_wf: "bt_wf (latest key entry rs)"
  by (induction rs rule: rev_induct) (simp_all add: latest_simps bt_wf_insert)

lemma latest_in:
  "bt_get (latest key entry rs) k = Some v \<Longrightarrow> \<exists>r \<in> set rs. key r = k \<and> entry r = v"
proof (induction rs rule: rev_induct)
  case Nil
  then show ?case by (simp add: latest_simps bt_get_def)
next
  case (snoc r rs)
  then show ?case by (auto simp: latest_simps bt_get_insert split: if_splits)
qed

lemma set_bt_insert: "set (bt_insert k v m) \<subseteq> insert (k, v) (set m)"
  by (induction k v m rule: bt_insert.induct) auto

lemma set_bt_of_list: "set (bt_of_list kvs) \<subseteq> set kvs"
proof -
  have "set (fold (\<lambda>(k, v). bt_insert k v) kvs m) \<subseteq> set kvs \<union> set m" for m
  proof (induction kvs arbitrary: m)
    case (Cons kv kvs)
    then show ?case using set_bt_insert [of "fst kv" "snd kv" m] by (fastforce simp: case_prod_unfold)
  qed simp
  from this [of "[]"] show ?thesis by (simp add: bt_of_list_def)
qed

lemma bt_insert_map: "bt_insert k (f v) (map (apsnd f) m) = map (apsnd f) (bt_insert k v m)"
  by (induction k v m rule: bt_insert.induct) auto

lemma latest_entry: "latest key (\<lambda>r. f (entry r)) rs = map (apsnd f) (latest key entry rs)"
  by (induction rs rule: rev_induct) (simp_all add: latest_simps bt_insert_map)

lemma latest_map:
  "bt_get (latest key (\<lambda>r. f (entry r)) rs) k = map_option f (bt_get (latest key entry rs) k)"
  by (simp add: latest_entry bt_get_def map_of_map apsnd_def map_prod_def)

definition pending_of :: "(string \<times> 'v \<times> DeliveryStatus) list \<Rightarrow> 'v list" where
  "pending_of states =
    map (fst \<circ> snd) (filter (\<lambda>(_, _, status). status = Delivery_Pending) states)"

lemma pending_of_iff:
  "bt_wf states \<Longrightarrow> e \<in> set (pending_of states) \<longleftrightarrow> (\<exists>k. bt_get states k = Some (e, Delivery_Pending))"
  by (force simp: pending_of_def bt.entries_iff [symmetric])

lemma pending_of_map: "pending_of (map (apsnd (apfst f)) m) = map f (pending_of m)"
  by (induction m) (auto simp: pending_of_def)

lemma pending_of_distinct:
  assumes "bt_wf states" "\<And>k e status. bt_get states k = Some (e, status) \<Longrightarrow> key e = k"
  shows "distinct (map key (pending_of states))"
proof -
  let ?P = "\<lambda>(_, _, status). status = Delivery_Pending"
  have "map key (pending_of states) = map fst (filter ?P states)"
    using assms(2) bt.entries_iff [OF assms(1)] by (fastforce simp: pending_of_def)
  then show ?thesis
    using bt_wf_distinct [OF assms(1)] by (simp add: distinct_map_filter)
qed



section \<open>Files of lines\<close>

definition file_of :: "string list \<Rightarrow> string" where
  "file_of ls = concat (map (\<lambda>l. l @ [newline]) ls)"

lemma lines_from_append:
  "newline \<notin> set l \<Longrightarrow> lines_from acc (l @ newline # s) = strip_cr (rev acc @ l) # lines_from [] s"
  by (induction l arbitrary: acc) auto

lemma file_lines_file_of:
  assumes "\<forall>l \<in> set ls. \<forall>c \<in> set l. 32 \<le> (of_char c :: nat)"
  shows "file_lines (file_of ls) = ls"
  using assms
proof (induction ls)
  case Nil
  then show ?case by (simp add: file_lines_def file_of_def)
next
  case (Cons l ls)
  have "(of_char newline :: nat) = 10" "(of_char (CHR 0x0D) :: nat) = 13"
    by (simp_all add: newline_def)
  with Cons.prems have "newline \<notin> set l" "CHR 0x0D \<notin> set l" by fastforce+
  moreover from this have "strip_cr l = l" by (metis strip_cr_def last_in_set)
  ultimately show ?case
    using Cons lines_from_append [of l "[]" "file_of ls"] by (simp add: file_lines_def file_of_def)
qed

text \<open>A file that holds the records \<open>ps\<close>, one per line.\<close>

definition disk_holds :: "('r \<Rightarrow> string \<Rightarrow> bool) \<Rightarrow> 'r list \<Rightarrow> disk \<Rightarrow> bool" where
  "disk_holds is_line ps d \<longleftrightarrow>
    (\<exists>ls. list_all2 is_line ps ls \<and> file_content d = file_of ls)"

lemma disk_holds_Nil: "file_content d = [] \<Longrightarrow> disk_holds is_line [] d"
  by (simp add: disk_holds_def file_of_def)

lemma disk_holds_file: "disk_file d' = disk_file d \<Longrightarrow> disk_holds P ps d' = disk_holds P ps d"
  by (simp add: disk_holds_def file_content_def)

lemma disk_holds_append:
  assumes "disk_holds is_line ps d" "is_line p line" "file_content d' = file_content d @ line @ [newline]"
  shows "disk_holds is_line (ps @ [p]) d'"
proof -
  from assms(1) obtain ls where "list_all2 is_line ps ls" "file_content d = file_of ls"
    by (auto simp: disk_holds_def)
  with assms(2,3) show ?thesis
    unfolding disk_holds_def
    by (intro exI [of _ "ls @ [line]"]) (simp add: file_of_def list_all2_appendI)
qed

lemma disk_holds_file_lines:
  assumes "disk_holds is_line ps d" "\<And>p l. is_line p l \<Longrightarrow> \<forall>c \<in> set l. 32 \<le> (of_char c :: nat)"
  shows "list_all2 is_line ps (file_lines (file_content d))"
proof -
  from assms(1) obtain ls where ls: "list_all2 is_line ps ls" "file_content d = file_of ls"
    by (auto simp: disk_holds_def)
  have "\<forall>l \<in> set ls. \<forall>c \<in> set l. 32 \<le> (of_char c :: nat)"
    using ls(1) assms(2) unfolding list_all2_conv_all_nth by (metis in_set_conv_nth)
  from file_lines_file_of [OF this] ls show ?thesis by simp
qed


section \<open>A healthy disk\<close>

text \<open>No call fails, and every clock reading can be formatted.\<close>

definition disk_healthy :: "crates \<Rightarrow> disk \<Rightarrow> bool" where
  "disk_healthy C d \<longleftrightarrow>
    disk_io d = sconst Io_Done \<and>
    (\<forall>now \<in> sset (disk_clock d). is_ok (rfc3339_format C (dt_to_utc C now)))"

lemma io_healthy:
  "disk_io d = sconst Io_Done \<Longrightarrow> io_call d = (Inr (), d)"
  "disk_io d = sconst Io_Done \<Longrightarrow>
    io_write t d = (Inr (), d\<lparr>disk_file := Some (file_content d @ t)\<rparr>)"
  "disk_io d = sconst Io_Done \<Longrightarrow>
    io_read_lines d = (map Inr (file_lines (file_content d)), d)"
  by (simp_all add: io_call_def io_write_def io_read_lines_def Let_def)

text \<open>\<open>serde_json\<close> writes every value: only the keys of maps and the writer can make it fail.\<close>

definition json_total :: "crates \<Rightarrow> bool" where
  "json_total C \<longleftrightarrow> (\<forall>v. is_ok (json_to_string C v))"

text \<open>The fields of a struct are found by name in the text of an object, whatever their order.\<close>

definition json_struct_law :: "crates \<Rightarrow> bool" where
  "json_struct_law C \<longleftrightarrow>
    (\<forall>kvs s. json_exact (JObject kvs) \<longrightarrow> distinct (map fst kvs) \<longrightarrow>
      list_all (\<lambda>(_, v). json_sorted v) kvs \<longrightarrow> json_to_string C (JObject kvs) = Inr s \<longrightarrow>
      (\<exists>m. json_from_str C s = Inr (JObject m) \<and> (\<forall>k. bt_get m k = map_of kvs k)))"

lemma append_json_line_healthy:
  assumes "disk_io d = sconst Io_Done" "json_to_string C v = Inr line"
  shows "append_json_line C io_error json_error v d =
    (Inr (), d\<lparr>disk_file := Some (file_content d @ line @ [newline])\<rparr>)"
  using assms
  by (simp add: append_json_line_def sbind_def smap_err_def io_healthy file_content_def)

lemma io_call_file: "io_call d = (r, d') \<Longrightarrow> disk_file d' = disk_file d"
  by (auto simp: io_call_def Let_def split: io_result.splits)

lemma io_call_err_file: "smap_err g io_call d = (r, d') \<Longrightarrow> disk_file d' = disk_file d"
  by (auto simp: smap_err_def split: prod.splits dest: io_call_file)



section \<open>Outboxes\<close>

text \<open>A store of events that are still to be delivered, as the object that a sender holds.\<close>

record ('d, 'e, 'x) outbox_store =
  st_append_pending :: "'e \<Rightarrow> ('d, 'x, unit) comp"
  st_mark_sent :: "'e \<Rightarrow> ('d, 'x, unit) comp"
  st_pending_events :: "('d, 'x, 'e list) comp"

text \<open>A lawful store keeps, for each event identifier, the event last written under it and whether
  it is still pending.\<close>

locale outbox =
  fixes store :: "'c \<Rightarrow> ('d, 'e, 'x) outbox_store"
    and inv :: "'c \<Rightarrow> 'd \<Rightarrow> bool"
    and storable :: "'c \<Rightarrow> 'e \<Rightarrow> bool"
    and key :: "'c \<Rightarrow> 'e \<Rightarrow> string"
    and states :: "'c \<Rightarrow> 'd \<Rightarrow> string \<Rightarrow> ('e \<times> bool) option"
  assumes append_pending: "inv c d \<Longrightarrow> storable c e \<Longrightarrow>
      \<exists>d'. st_append_pending (store c) e d = (Inr (), d') \<and> inv c d' \<and>
        states c d' = (states c d)(key c e \<mapsto> (e, True))"
    and mark_sent: "inv c d \<Longrightarrow> storable c e \<Longrightarrow>
      \<exists>d'. st_mark_sent (store c) e d = (Inr (), d') \<and> inv c d' \<and>
        states c d' = (states c d)(key c e \<mapsto> (e, False))"
    and pending_events: "inv c d \<Longrightarrow>
      \<exists>evs d'. st_pending_events (store c) d = (Inr evs, d') \<and> inv c d' \<and> states c d' = states c d \<and>
        (\<forall>e. e \<in> set evs \<longleftrightarrow> states c d (key c e) = Some (e, True)) \<and>
        distinct (map (key c) evs) \<and> (\<forall>e \<in> set evs. storable c e)"
    and states_keys: "inv c d \<Longrightarrow> states c d k = Some (e, b) \<Longrightarrow> key c e = k"
begin

lemma pendingE:
  assumes "inv c d"
  obtains evs d' where "st_pending_events (store c) d = (Inr evs, d')" "inv c d'"
    "states c d' = states c d" "\<forall>e. e \<in> set evs \<longleftrightarrow> states c d (key c e) = Some (e, True)"
    "distinct (map (key c) evs)" "\<forall>e \<in> set evs. storable c e"
  using pending_events [OF assms] by blast

lemma pending_is_listed:
  assumes "inv c d" "states c d k = Some (e, True)"
  shows "\<exists>evs d'. st_pending_events (store c) d = (Inr evs, d') \<and> e \<in> set evs"
  using pendingE [OF assms(1)] states_keys [OF assms] assms(2) by metis

lemma nothing_pending:
  assumes "inv c d" "\<forall>k e. states c d k \<noteq> Some (e, True)"
  shows "\<exists>d'. st_pending_events (store c) d = (Inr [], d')"
  using pendingE [OF assms(1)] assms(2) by (metis list.set_intros(1) neq_Nil_conv)

end

text \<open>A working disk that holds nothing.\<close>

definition fresh_disk :: disk where
  "fresh_disk = \<lparr>disk_file = None, disk_archives = [], disk_io = sconst Io_Done,
    disk_clock = sconst (7, 0)\<rparr>"

end
