(* ===== verification/Audit_Fallback.thy ===== *)
theory Audit_Fallback
  imports Audit_Event Json_Lines
begin

text \<open>
  The local fallback store for audit events (\<open>src/audit/fallback/\<close>): a file of JSON lines, one per
  change of state of an event, which is rolled over into compressed archives once everything in it
  has been sent.
\<close>


section \<open>Errors and records\<close>

datatype (plugins only: code size) LocalAuditStoreError =
    Store_Io string
  | Store_Json string
  | Store_TimestampFormat string
  | Store_ArchivePathUnavailable string
  | Store_GzipWriteFailed string string
  | Store_HashReadFailed string string
  | Store_CurrentFileRemoveFailed string string
  | Store_ArchiveDeleteFailed string string
  | Store_LockPoisoned
  | Store_InvalidLine nat string
  | Store_Event AuditEventError

definition current_occurred_at :: "crates \<Rightarrow> (disk, LocalAuditStoreError, string) comp" where
  "current_occurred_at C d =
    (case read_clock d of (now, d') \<Rightarrow>
      (map_err Store_TimestampFormat (rfc3339_format C (dt_to_utc C now)), d'))"

definition fallback_document :: "crates \<Rightarrow> AuditEvent \<Rightarrow> DeliveryStatus \<Rightarrow> string \<Rightarrow> json" where
  "fallback_document C event delivery_status occurred_at = JObject
    [(''action'', JString (AuditAction_as_str (ev_action event))),
     (''actor_device_id'', json_opt (map_option DeviceId_str (ev_actor_device_id event))),
     (''actor_user_id'',
       json_opt (map_option (OwnerUserId_as_canonical_string C) (ev_actor_user_id event))),
     (''audit_event_id'', JString (AuditEventId_as_canonical_string C (ev_audit_event_id event))),
     (''delivery_status'', JString (DeliveryStatus_as_str delivery_status)),
     (''key_version'', case ev_key_version event of None \<Rightarrow> JNull
        | Some v \<Rightarrow> json_uint (KeyVersion_get v)),
     (''metadata_json'', AuditMetadata_as_value (ev_metadata_json event)),
     (''occurred_at'', JString occurred_at),
     (''request_id'', JString (RequestId_as_canonical_string C (ev_request_id event))),
     (''result'', JString (AuditResult_as_str (ev_result event))),
     (''target_secret_id'',
       json_opt (map_option (SecretId_as_canonical_string C) (ev_target_secret_id event)))]"

definition fallback_json ::
    "crates \<Rightarrow> AuditEvent \<Rightarrow> DeliveryStatus \<Rightarrow> (disk, LocalAuditStoreError, json) comp" where
  "fallback_json C event delivery_status =
    sbind (current_occurred_at C) (\<lambda>occurred_at.
    sret (fallback_document C event delivery_status occurred_at))"

record LocalAuditFallbackRecord =
  fr_audit_event_id :: string
  fr_request_id :: string
  fr_actor_user_id :: "string option"
  fr_actor_device_id :: "string option"
  fr_action :: string
  fr_target_secret_id :: "string option"
  fr_result :: string
  fr_key_version :: "u32 option"
  fr_metadata_json :: json
  fr_occurred_at :: "string option"
  fr_delivery_status :: DeliveryStatus

definition record_from_str :: "crates \<Rightarrow> string \<Rightarrow> string + LocalAuditFallbackRecord" where
  "record_from_str C line =
    rbind (json_from_str C line) (\<lambda>v.
    rbind (string_field v ''audit_event_id'') (\<lambda>audit_event_id.
    rbind (string_field v ''request_id'') (\<lambda>request_id.
    rbind (optional_string_field v ''actor_user_id'') (\<lambda>actor_user_id.
    rbind (optional_string_field v ''actor_device_id'') (\<lambda>actor_device_id.
    rbind (string_field v ''action'') (\<lambda>action.
    rbind (optional_string_field v ''target_secret_id'') (\<lambda>target_secret_id.
    rbind (string_field v ''result'') (\<lambda>result.
    rbind (optional_u32_field v ''key_version'') (\<lambda>key_version.
    rbind (ok_or ''missing field'' (json_get v ''metadata_json'')) (\<lambda>metadata_json.
    rbind (optional_string_field v ''occurred_at'') (\<lambda>occurred_at.
    rbind (status_field v ''delivery_status'') (\<lambda>delivery_status.
    Inr \<lparr>fr_audit_event_id = audit_event_id, fr_request_id = request_id,
      fr_actor_user_id = actor_user_id, fr_actor_device_id = actor_device_id, fr_action = action,
      fr_target_secret_id = target_secret_id, fr_result = result, fr_key_version = key_version,
      fr_metadata_json = metadata_json, fr_occurred_at = occurred_at,
      fr_delivery_status = delivery_status\<rparr>))))))))))))"

definition non_empty_occurred_at :: "LocalAuditFallbackRecord \<Rightarrow> string option" where
  "non_empty_occurred_at r =
    (case fr_occurred_at r of
      Some text \<Rightarrow> if str_trim text \<noteq> [] then Some text else None
    | None \<Rightarrow> None)"

text \<open>\<open>field.map(parse).transpose().map_err(|_| ..)\<close>\<close>

definition parse_optional_field :: "'f \<Rightarrow> ('a \<Rightarrow> 'e + 'b) \<Rightarrow> 'a option \<Rightarrow> 'f + 'b option" where
  "parse_optional_field error parse field =
    (case field of None \<Rightarrow> Inr None
     | Some text \<Rightarrow> map_err (\<lambda>_. error) (map_ok Some (parse text)))"

definition to_event ::
    "crates \<Rightarrow> nat \<Rightarrow> LocalAuditFallbackRecord \<Rightarrow> LocalAuditStoreError + AuditEvent" where
  "to_event C line_number r =
    (let invalid = (\<lambda>reason. Store_InvalidLine line_number reason) in
    rbind (parse_optional_field (invalid ''actor_user_id is invalid'') (OwnerUserId_parse C)
      (fr_actor_user_id r)) (\<lambda>actor_user_id.
    rbind (parse_optional_field (invalid ''actor_device_id is invalid'') DeviceId_new
      (fr_actor_device_id r)) (\<lambda>actor_device_id.
    rbind (parse_optional_field (invalid ''target_secret_id is invalid'') (SecretId_parse C)
      (fr_target_secret_id r)) (\<lambda>target_secret_id.
    rbind (parse_optional_field (invalid ''key_version is invalid'') KeyVersion_new
      (fr_key_version r)) (\<lambda>key_version.
    rbind (map_err (\<lambda>error. if error = InvalidSourceEventAt
        then invalid ''metadata_json.source_event_at is invalid'' else Store_Event error)
      (AuditMetadata_new C (fr_metadata_json r))) (\<lambda>metadata_json.
    rbind (map_err Store_Event (AuditEventId_parse C (fr_audit_event_id r))) (\<lambda>audit_event_id.
    rbind (map_err Store_Event (RequestId_parse C (fr_request_id r))) (\<lambda>request_id.
    rbind (map_err Store_Event (AuditAction_parse (fr_action r))) (\<lambda>action.
    rbind (map_err Store_Event (AuditResult_parse (fr_result r))) (\<lambda>result.
    map_err (\<lambda>error.
        if error = MissingSourceEventAt then invalid ''metadata_json.source_event_at is missing''
        else if error = InvalidSourceEventAt
        then invalid ''metadata_json.source_event_at is invalid''
        else Store_Event error)
      (AuditEvent_new C
        \<lparr>ev_audit_event_id = audit_event_id, ev_request_id = request_id,
         ev_actor_user_id = actor_user_id, ev_actor_device_id = actor_device_id, ev_action = action,
         ev_target_secret_id = target_secret_id, ev_result = result, ev_key_version = key_version,
         ev_metadata_json = metadata_json\<rparr>)))))))))))"



section \<open>The store\<close>

definition append_line :: "crates \<Rightarrow> json \<Rightarrow> (disk, LocalAuditStoreError, unit) comp" where
  "append_line C v = append_json_line C Store_Io Store_Json v"

definition append_pending :: "crates \<Rightarrow> AuditEvent \<Rightarrow> (disk, LocalAuditStoreError, unit) comp" where
  "append_pending C event = sbind (fallback_json C event Delivery_Pending) (append_line C)"

definition mark_sent :: "crates \<Rightarrow> AuditEvent \<Rightarrow> (disk, LocalAuditStoreError, unit) comp" where
  "mark_sent C event = sbind (fallback_json C event Delivery_Sent) (append_line C)"

record ParsedFallbackRecord =
  pr_event :: AuditEvent
  pr_event_id :: string
  pr_delivery_status :: DeliveryStatus
  pr_occurred_at :: "string option"

fun parse_fallback_lines ::
    "crates \<Rightarrow> nat \<Rightarrow> (string + string) list \<Rightarrow> LocalAuditStoreError + ParsedFallbackRecord list" where
  "parse_fallback_lines C line_number [] = Inr []"
| "parse_fallback_lines C line_number (Inl message # rest) = Inl (Store_Io message)"
| "parse_fallback_lines C line_number (Inr line # rest) =
    (if \<not> utf8_valid (str_bytes line) then Inl (Store_Io ''stream did not contain valid UTF-8'')
     else if str_trim line = [] then parse_fallback_lines C (line_number + 1) rest
     else
     rbind (map_err Store_Json (record_from_str C line)) (\<lambda>r.
     rbind (to_event C line_number r) (\<lambda>event.
     rbind (parse_fallback_lines C (line_number + 1) rest) (\<lambda>parsed.
     Inr (\<lparr>pr_event = event,
       pr_event_id = AuditEventId_as_canonical_string C (ev_audit_event_id event),
       pr_delivery_status = fr_delivery_status r,
       pr_occurred_at = non_empty_occurred_at r\<rparr> # parsed)))))"

definition parse_existing_fallback_records_unlocked ::
    "crates \<Rightarrow> (disk, LocalAuditStoreError, ParsedFallbackRecord list) comp" where
  "parse_existing_fallback_records_unlocked C =
    sbind (smap_err Store_Io io_call) (\<lambda>_.
    \<lambda>d. case io_read_lines d of (ls, d') \<Rightarrow> (parse_fallback_lines C 1 ls, d'))"

text \<open>The last state recorded for each event, in the order of the event identifiers.\<close>

definition final_states ::
    "ParsedFallbackRecord list \<Rightarrow> (string \<times> AuditEvent \<times> DeliveryStatus) list" where
  "final_states parsed = latest pr_event_id (\<lambda>r. (pr_event r, pr_delivery_status r)) parsed"

definition pending_events :: "crates \<Rightarrow> (disk, LocalAuditStoreError, AuditEvent list) comp" where
  "pending_events C d =
    (if disk_file d = None then (Inr [], d)
     else
     sbind (parse_existing_fallback_records_unlocked C) (\<lambda>parsed.
     sret (pending_of (final_states parsed))) d)"

record FallbackFileSnapshot =
  sn_size_bytes :: nat
  sn_line_count :: nat
  sn_final_status_by_event_id :: "(string \<times> DeliveryStatus) list"
  sn_first_occurred_at :: "string option"
  sn_last_occurred_at :: "string option"

definition snapshot_of :: "nat \<Rightarrow> ParsedFallbackRecord list \<Rightarrow> FallbackFileSnapshot" where
  "snapshot_of size_bytes parsed =
    (let times = List.map_filter pr_occurred_at parsed in
     \<lparr>sn_size_bytes = size_bytes, sn_line_count = length parsed,
      sn_final_status_by_event_id = latest pr_event_id pr_delivery_status parsed,
      sn_first_occurred_at = (if times = [] then None else Some (hd times)),
      sn_last_occurred_at = (if times = [] then None else Some (last times))\<rparr>)"

definition current_file_snapshot_unlocked ::
    "crates \<Rightarrow> (disk, LocalAuditStoreError, FallbackFileSnapshot option) comp" where
  "current_file_snapshot_unlocked C d =
    (if disk_file d = None then (Inr None, d)
     else
     sbind (smap_err Store_Io io_call) (\<lambda>_.
     sbind (parse_existing_fallback_records_unlocked C) (\<lambda>parsed.
     sret (Some (snapshot_of (length (file_content d)) parsed)))) d)"

definition is_rollover_eligible :: "u64 \<Rightarrow> FallbackFileSnapshot \<Rightarrow> bool" where
  "is_rollover_eligible rotate_size_bytes sn \<longleftrightarrow>
    sn_size_bytes sn \<ge> unat rotate_size_bytes \<and> sn_line_count sn > 0 \<and>
    sn_final_status_by_event_id sn \<noteq> [] \<and>
    list_all (\<lambda>(_, status). status = Delivery_Sent) (sn_final_status_by_event_id sn)"

definition should_rollover :: "crates \<Rightarrow> u64 \<Rightarrow> (disk, LocalAuditStoreError, bool) comp" where
  "should_rollover C rotate_size_bytes =
    sbind (current_file_snapshot_unlocked C) (\<lambda>snapshot.
    sret (case snapshot of None \<Rightarrow> False | Some sn \<Rightarrow> is_rollover_eligible rotate_size_bytes sn))"

record RolloverArchive =
  ra_archive_path :: string
  ra_sha256_hex :: string
  ra_line_count :: nat
  ra_first_occurred_at :: "string option"
  ra_last_occurred_at :: "string option"
  ra_size_bytes :: nat

datatype RolloverOutcome = Rollover_Skipped | Rollover_Sealed RolloverArchive

text \<open>The compressed archive, written by \<open>flate2\<close>: \<open>gzip\<close> is the format it produces.  Creating
  the file, copying and finishing, and syncing may each fail.\<close>

definition archive_exists :: "string \<Rightarrow> disk \<Rightarrow> bool" where
  "archive_exists path d \<longleftrightarrow> path \<in> fst ` set (disk_archives d)"

definition write_gzip_archive ::
    "(string \<Rightarrow> string) \<Rightarrow> nat \<Rightarrow> string \<Rightarrow> (disk, LocalAuditStoreError, unit) comp" where
  "write_gzip_archive gzip modified path =
    smap_err (Store_GzipWriteFailed path) (
      sbind io_call (\<lambda>_.
      sbind io_call (\<lambda>_.
      sbind (\<lambda>d.
        let packed = gzip (file_content d);
          written = (case shd (disk_io d) of Io_Done \<Rightarrow> packed | Io_Failed n _ \<Rightarrow> take n packed) in
        io_call (d\<lparr>disk_archives := disk_archives d @ [(path, written, modified)]\<rparr>)) (\<lambda>_.
      io_call))))"

definition next_archive_path :: "string \<Rightarrow> (disk, LocalAuditStoreError, string) comp" where
  "next_archive_path timestamp d =
    (let path = ''audit-fallback-'' @ timestamp @ ''.jsonl.sealed.gz'' in
     (if archive_exists path d then Inl (Store_ArchivePathUnavailable path) else Inr path, d))"

definition sha256_archive :: "crates \<Rightarrow> string \<Rightarrow> disk \<Rightarrow> string" where
  "sha256_archive C path d =
    hex_encode C (sha256 C (str_bytes (case map_of (disk_archives d) path of
      Some (content, _) \<Rightarrow> content | None \<Rightarrow> [])))"

definition seal_current_file ::
    "crates \<Rightarrow> (string \<Rightarrow> string) \<Rightarrow> string \<Rightarrow> string \<Rightarrow> nat \<Rightarrow> FallbackFileSnapshot \<Rightarrow>
      (disk, LocalAuditStoreError, RolloverOutcome) comp" where
  "seal_current_file C gzip current_path timestamp modified sn =
    sbind (smap_err Store_Io io_call) (\<lambda>_.
    sbind (next_archive_path timestamp) (\<lambda>path.
    sbind (write_gzip_archive gzip modified path) (\<lambda>_.
    sbind (smap_err (Store_HashReadFailed path) io_call) (\<lambda>_.
    sbind (\<lambda>d. (Inr (sha256_archive C path d), d)) (\<lambda>sha256_hex.
    sbind (smap_err (Store_CurrentFileRemoveFailed current_path) io_call) (\<lambda>_.
    sbind (\<lambda>d. (Inr (), d\<lparr>disk_file := None\<rparr>)) (\<lambda>_.
    sbind (smap_err Store_Io io_call) (\<lambda>_.
    sbind (\<lambda>d. (Inr (), d\<lparr>disk_file := Some []\<rparr>)) (\<lambda>_.
    sbind (smap_err Store_Io io_call) (\<lambda>_.
    sret (Rollover_Sealed
      \<lparr>ra_archive_path = path, ra_sha256_hex = sha256_hex, ra_line_count = sn_line_count sn,
       ra_first_occurred_at = sn_first_occurred_at sn, ra_last_occurred_at = sn_last_occurred_at sn,
       ra_size_bytes = sn_size_bytes sn\<rparr>)))))))))))"

definition rollover ::
    "crates \<Rightarrow> (string \<Rightarrow> string) \<Rightarrow> string \<Rightarrow> string \<Rightarrow> nat \<Rightarrow> u64 \<Rightarrow>
      (disk, LocalAuditStoreError, RolloverOutcome) comp" where
  "rollover C gzip current_path timestamp modified rotate_size_bytes =
    sbind (current_file_snapshot_unlocked C) (\<lambda>snapshot.
    case snapshot of
      None \<Rightarrow> sret Rollover_Skipped
    | Some sn \<Rightarrow>
        if \<not> is_rollover_eligible rotate_size_bytes sn then sret Rollover_Skipped
        else seal_current_file C gzip current_path timestamp modified sn)"

record SweptArchive =
  sw_archive_path :: string
  sw_sha256_hex :: "string option"
  sw_line_count :: "nat option"
  sw_size_bytes :: nat

definition is_archive_file :: "string \<Rightarrow> bool" where
  "is_archive_file name \<longleftrightarrow>
    str_starts_with name ''audit-fallback-'' \<and> str_ends_with name ''.jsonl.sealed.gz''"

text \<open>\<open>.ok()\<close> of a call on an archive: a failure is dropped.\<close>

definition io_ok :: "'a option \<Rightarrow> (disk, LocalAuditStoreError, 'a option) comp" where
  "io_ok answer d = (case io_call d of (Inr _, d') \<Rightarrow> (Inr answer, d') | (Inl _, d') \<Rightarrow> (Inr None, d'))"

definition gzip_line_count :: "(string \<Rightarrow> string option) \<Rightarrow> string \<Rightarrow> nat option" where
  "gzip_line_count gunzip content =
    (case gunzip content of
      None \<Rightarrow> None
    | Some unpacked \<Rightarrow>
        (let ls = file_lines unpacked in
         if list_all (\<lambda>l. utf8_valid (str_bytes l)) ls then Some (length ls) else None))"

text \<open>The directory holds files only.  A modification time after the present counts as age zero,
  as subtraction on natural numbers does.\<close>

fun sweep_entries ::
    "crates \<Rightarrow> (string \<Rightarrow> string option) \<Rightarrow> nat \<Rightarrow> nat \<Rightarrow> (string \<times> string \<times> nat) list \<Rightarrow>
      (disk, LocalAuditStoreError, SweptArchive list) comp" where
  "sweep_entries C gunzip now max_age [] = sret []"
| "sweep_entries C gunzip now max_age ((path, content, modified) # entries) =
    sbind (smap_err Store_Io io_call) (\<lambda>_.
    sbind (smap_err Store_Io io_call) (\<lambda>_.
    if \<not> is_archive_file path then sweep_entries C gunzip now max_age entries
    else
    sbind (smap_err Store_Io io_call) (\<lambda>_.
    if now - modified < max_age then sweep_entries C gunzip now max_age entries
    else
    sbind (io_ok (Some (hex_encode C (sha256 C (str_bytes content))))) (\<lambda>sha256_hex.
    sbind (io_ok (gzip_line_count gunzip content)) (\<lambda>line_count.
    sbind (smap_err (Store_ArchiveDeleteFailed path) io_call) (\<lambda>_.
    sbind (\<lambda>d. (Inr (), d\<lparr>disk_archives := filter (\<lambda>a. fst a \<noteq> path) (disk_archives d)\<rparr>)) (\<lambda>_.
    sbind (sweep_entries C gunzip now max_age entries) (\<lambda>deleted.
    sret (\<lparr>sw_archive_path = path, sw_sha256_hex = sha256_hex, sw_line_count = line_count,
      sw_size_bytes = length content\<rparr> # deleted)))))))))"

definition sweep_archive ::
    "crates \<Rightarrow> (string \<Rightarrow> string option) \<Rightarrow> nat \<Rightarrow> nat \<Rightarrow>
      (disk, LocalAuditStoreError, SweptArchive list) comp" where
  "sweep_archive C gunzip now max_age d =
    sbind (smap_err Store_Io io_call) (\<lambda>_. sweep_entries C gunzip now max_age (disk_archives d)) d"


section \<open>Events read back from their lines\<close>

definition store_laws :: "crates \<Rightarrow> bool" where
  "store_laws C \<longleftrightarrow> uuid_laws C \<and> json_laws C \<and> json_line_laws C \<and> json_total C"

text \<open>What the constructors of an event and of its parts guarantee.\<close>

definition event_storable :: "crates \<Rightarrow> AuditEvent \<Rightarrow> bool" where
  "event_storable C e \<longleftrightarrow>
    validate_event_parts C e = Inr () \<and> AuditMetadata_wf C (ev_metadata_json e) \<and>
    json_exact (AuditMetadata_as_value (ev_metadata_json e)) \<and>
    json_sorted (AuditMetadata_as_value (ev_metadata_json e)) \<and>
    pred_option (\<lambda>d. str_trim (DeviceId_str d) \<noteq> []) (ev_actor_device_id e) \<and>
    pred_option KeyVersion_wf (ev_key_version e) \<and>
    pred_option (\<lambda>i. uuid_is_v4 C (SecretId_uuid i)) (ev_target_secret_id e)"

definition fallback_record ::
    "crates \<Rightarrow> AuditEvent \<Rightarrow> DeliveryStatus \<Rightarrow> string \<Rightarrow> LocalAuditFallbackRecord" where
  "fallback_record C e status at =
    \<lparr>fr_audit_event_id = AuditEventId_as_canonical_string C (ev_audit_event_id e),
     fr_request_id = RequestId_as_canonical_string C (ev_request_id e),
     fr_actor_user_id = map_option (OwnerUserId_as_canonical_string C) (ev_actor_user_id e),
     fr_actor_device_id = map_option DeviceId_str (ev_actor_device_id e),
     fr_action = AuditAction_as_str (ev_action e),
     fr_target_secret_id = map_option (SecretId_as_canonical_string C) (ev_target_secret_id e),
     fr_result = AuditResult_as_str (ev_result e),
     fr_key_version = map_option KeyVersion_get (ev_key_version e),
     fr_metadata_json = AuditMetadata_as_value (ev_metadata_json e),
     fr_occurred_at = Some at, fr_delivery_status = status\<rparr>"

lemma json_key_version [simp]:
  "json_exact (case v of None \<Rightarrow> JNull | Some v \<Rightarrow> json_uint (KeyVersion_get v))"
  "json_sorted (case v of None \<Rightarrow> JNull | Some v \<Rightarrow> json_uint (KeyVersion_get v))"
  by (cases v; simp)+

lemma fallback_document_sorted:
  assumes "event_storable C e"
  shows "json_exact (fallback_document C e status at)"
    and "json_sorted (fallback_document C e status at)"
  using assms by (simp_all add: fallback_document_def event_storable_def bt_wf_def)

lemma key_version_field:
  assumes "json_get v key = Some (case k of None \<Rightarrow> JNull | Some k \<Rightarrow> json_uint (KeyVersion_get k))"
  shows "optional_u32_field v key = Inr (map_option KeyVersion_get k)"
  using assms
  by (cases k) (simp_all add: optional_u32_field_def json_uint_def json_as_u64_def as_u64_def)

lemma record_of_document:
  assumes "json_laws C" "event_storable C e"
    and "json_to_string C (fallback_document C e status at) = Inr line"
  shows "record_from_str C line = Inr (fallback_record C e status at)"
proof -
  let ?v = "fallback_document C e status at"
  have parse: "json_from_str C line = Inr ?v"
    using json_lawsD(2) [OF assms(1)] fallback_document_sorted [OF assms(2)] assms(3) by blast
  note get = fallback_document_def json_get_def bt_get_def
  have strings:
    "string_field ?v ''audit_event_id'' =
      Inr (AuditEventId_as_canonical_string C (ev_audit_event_id e))"
    "string_field ?v ''request_id'' = Inr (RequestId_as_canonical_string C (ev_request_id e))"
    "string_field ?v ''action'' = Inr (AuditAction_as_str (ev_action e))"
    "string_field ?v ''result'' = Inr (AuditResult_as_str (ev_result e))"
    "status_field ?v ''delivery_status'' = Inr status"
    "json_get ?v ''metadata_json'' = Some (AuditMetadata_as_value (ev_metadata_json e))"
    by (rule optional_field_simps | simp add: get)+
  have optionals:
    "optional_string_field ?v ''actor_user_id'' =
      Inr (map_option (OwnerUserId_as_canonical_string C) (ev_actor_user_id e))"
    "optional_string_field ?v ''actor_device_id'' =
      Inr (map_option DeviceId_str (ev_actor_device_id e))"
    "optional_string_field ?v ''target_secret_id'' =
      Inr (map_option (SecretId_as_canonical_string C) (ev_target_secret_id e))"
    by (rule optional_field_simps(1), simp add: get)+
  have others: "optional_string_field ?v ''occurred_at'' = Inr (Some at)"
    "optional_u32_field ?v ''key_version'' = Inr (map_option KeyVersion_get (ev_key_version e))"
    by (rule optional_field_simps(2) key_version_field, simp add: get)+
  show ?thesis
    unfolding record_from_str_def parse fallback_record_def
    by (simp only: rbind_simps ok_or_simps strings optionals others)
qed

lemma parse_optional_field_map:
  "(\<And>x. field = Some x \<Longrightarrow> parse (print x) = Inr x) \<Longrightarrow>
    parse_optional_field error parse (map_option print field) = Inr field"
  by (cases field) (simp_all add: parse_optional_field_def)

lemma AuditMetadata_new_wf_id:
  "AuditMetadata_wf C m \<Longrightarrow> AuditMetadata_new C (AuditMetadata_as_value m) = Inr m"
  by (auto simp: AuditMetadata_wf_def AuditMetadata_new_def as_object_def)

lemma to_event_of_record:
  assumes "uuid_laws C" "event_storable C e"
  shows "to_event C n (fallback_record C e status at) = Inr e"
proof -
  note ids = uuid_id_roundtrips [OF assms(1)] audit_id_roundtrips [OF assms(1)]
  have user: "parse_optional_field err (OwnerUserId_parse C)
      (map_option (OwnerUserId_as_canonical_string C) (ev_actor_user_id e)) =
    Inr (ev_actor_user_id e)" for err :: LocalAuditStoreError
    by (rule parse_optional_field_map) (simp add: ids)
  have device: "parse_optional_field err DeviceId_new (map_option DeviceId_str (ev_actor_device_id e)) =
    Inr (ev_actor_device_id e)" for err :: LocalAuditStoreError
    using assms(2) by (intro parse_optional_field_map) (simp add: event_storable_def DeviceId_new_def)
  have target: "parse_optional_field err (SecretId_parse C)
      (map_option (SecretId_as_canonical_string C) (ev_target_secret_id e)) =
    Inr (ev_target_secret_id e)" for err :: LocalAuditStoreError
    using assms(2) by (intro parse_optional_field_map) (simp add: event_storable_def ids)
  have key: "parse_optional_field err KeyVersion_new (map_option KeyVersion_get (ev_key_version e)) =
    Inr (ev_key_version e)" for err :: LocalAuditStoreError
    using assms(2)
    by (intro parse_optional_field_map) (simp add: event_storable_def KeyVersion_new_def KeyVersion_wf_def)
  have "AuditMetadata_new C (AuditMetadata_as_value (ev_metadata_json e)) = Inr (ev_metadata_json e)"
    using assms(2) by (simp add: event_storable_def AuditMetadata_new_wf_id)
  moreover have "AuditEvent_new C \<lparr>ev_audit_event_id = ev_audit_event_id e,
      ev_request_id = ev_request_id e, ev_actor_user_id = ev_actor_user_id e,
      ev_actor_device_id = ev_actor_device_id e, ev_action = ev_action e,
      ev_target_secret_id = ev_target_secret_id e, ev_result = ev_result e,
      ev_key_version = ev_key_version e, ev_metadata_json = ev_metadata_json e\<rparr> = Inr e"
    using assms(2) by (cases e) (simp add: event_storable_def AuditEvent_new_def)
  ultimately show ?thesis
    unfolding to_event_def fallback_record_def Let_def
    by (simp add: user device target key ids audit_action.parse_print audit_result.parse_print
        del: rbind_eq_Inr)
qed

text \<open>
  C24 --- A line of the fallback file restores the event it was written for.  For every event that
  the constructors can produce, under either delivery status and any time of writing, the line that
  is appended to the file parses, and yields exactly that event and status.
\<close>

theorem fallback_line_restores_event:
  assumes "store_laws C" "event_storable C event"
    and "json_to_string C (fallback_document C event status at) = Inr line"
  shows "\<exists>r. record_from_str C line = Inr r \<and> to_event C n r = Inr event \<and>
    fr_delivery_status r = status"
  using record_of_document [OF _ assms(2,3)] to_event_of_record [OF _ assms(2), of n status at] assms(1)
  by (auto simp: store_laws_def fallback_record_def)

lemma sample_store_laws: "store_laws sample_crates"
  by (simp add: store_laws_def sample_laws json_total_def)

lemma sample_audit_event_storable: "event_storable sample_crates sample_audit_event"
proof -
  have "uuid_is_v4 sample_crates sample_v4"
    using sample_uuid_laws by (simp add: uuid_laws_def sample_v4_def)
  moreover have "json_exact (AuditMetadata_as_value (ev_metadata_json sample_audit_event))"
    "json_sorted (AuditMetadata_as_value (ev_metadata_json sample_audit_event))"
    by (simp_all add: sample_audit_event_def timed_metadata_def bt_wf_def)
  moreover have "ev_actor_device_id sample_audit_event = None"
    "ev_key_version sample_audit_event = None"
    "ev_target_secret_id sample_audit_event = Some (SecretId sample_v4)"
    by (simp_all add: sample_audit_event_def)
  ultimately show ?thesis
    using built_event_valid [OF sample_audit_event_built] unfolding event_storable_def by simp
qed

theorem fallback_line_restores_event_witness:
  "\<exists>line r. json_to_string sample_crates
      (fallback_document sample_crates sample_audit_event Delivery_Pending ''7Z'') = Inr line \<and>
    record_from_str sample_crates line = Inr r \<and> to_event sample_crates 1 r = Inr sample_audit_event"
  using fallback_line_restores_event [OF sample_store_laws sample_audit_event_storable]
  by (simp del: json_exact.simps) blast


section \<open>Lines of the file\<close>

text \<open>A line that holds a record.\<close>

definition line_of :: "crates \<Rightarrow> ParsedFallbackRecord \<Rightarrow> string \<Rightarrow> bool" where
  "line_of C p line \<longleftrightarrow>
    event_storable C (pr_event p) \<and>
    pr_event_id p = AuditEventId_as_canonical_string C (ev_audit_event_id (pr_event p)) \<and>
    (\<exists>at. json_to_string C (fallback_document C (pr_event p) (pr_delivery_status p) at) = Inr line \<and>
      pr_occurred_at p = (if str_trim at \<noteq> [] then Some at else None))"

lemma line_of_text:
  assumes "json_line_laws C" "line_of C p line"
  shows "utf8_valid (str_bytes line)" "str_trim line \<noteq> []" "\<forall>c \<in> set line. 32 \<le> (of_char c :: nat)"
  using assms unfolding json_line_laws_def line_of_def by blast+

lemma parse_fallback_lines_of:
  assumes "store_laws C" "list_all2 (line_of C) ps ls"
  shows "parse_fallback_lines C n (map Inr ls) = Inr ps"
  using assms(2)
proof (induction arbitrary: n)
  case Nil
  then show ?case by simp
next
  case (Cons p ps l ls)
  from assms(1) have laws: "uuid_laws C" "json_laws C" "json_line_laws C"
    by (simp_all add: store_laws_def)
  from Cons(1) obtain at where ok: "event_storable C (pr_event p)"
    and enc: "json_to_string C (fallback_document C (pr_event p) (pr_delivery_status p) at) = Inr l"
    and id: "pr_event_id p = AuditEventId_as_canonical_string C (ev_audit_event_id (pr_event p))"
    and at: "pr_occurred_at p = (if str_trim at \<noteq> [] then Some at else None)"
    by (auto simp: line_of_def)
  note r = record_of_document [OF laws(2) ok enc]
  have "p = \<lparr>pr_event = pr_event p, pr_event_id = pr_event_id p,
      pr_delivery_status = pr_delivery_status p, pr_occurred_at = pr_occurred_at p\<rparr>" by simp
  moreover have "non_empty_occurred_at (fallback_record C (pr_event p) (pr_delivery_status p) at) =
      pr_occurred_at p" "fr_delivery_status (fallback_record C (pr_event p) (pr_delivery_status p) at) =
      pr_delivery_status p"
    by (simp_all add: non_empty_occurred_at_def fallback_record_def at)
  ultimately show ?case
    using line_of_text [OF laws(3) Cons(1)] Cons.IH r to_event_of_record [OF laws(1) ok] id
    by (simp del: rbind_eq_Inr)
qed

section \<open>The store on a healthy disk\<close>

definition store_inv :: "crates \<Rightarrow> disk \<Rightarrow> bool" where
  "store_inv C d \<longleftrightarrow> store_laws C \<and> disk_healthy C d \<and> (\<exists>ps. disk_holds (line_of C) ps d)"

text \<open>The state of the store: the last event and status under each identifier.\<close>

definition store_states :: "crates \<Rightarrow> disk \<Rightarrow> string \<Rightarrow> (AuditEvent \<times> bool) option" where
  "store_states C d k =
    (case parse_fallback_lines C 1 (map Inr (file_lines (file_content d))) of
      Inl _ \<Rightarrow> None
    | Inr ps \<Rightarrow> map_option (\<lambda>(e, status). (e, status = Delivery_Pending)) (bt_get (final_states ps) k))"

lemma disk_holds_lines:
  assumes "store_laws C" "disk_holds (line_of C) ps d"
  shows "parse_fallback_lines C 1 (map Inr (file_lines (file_content d))) = Inr ps"
  using assms(1) line_of_text(3)
  by (intro parse_fallback_lines_of [OF assms(1)] disk_holds_file_lines [OF assms(2)])
    (auto simp: store_laws_def)

lemma store_states_holds:
  assumes "store_laws C" "disk_holds (line_of C) ps d"
  shows "store_states C d k =
    map_option (\<lambda>(e, status). (e, status = Delivery_Pending)) (bt_get (final_states ps) k)"
  unfolding store_states_def disk_holds_lines [OF assms] by simp

text \<open>Appending a line, under either status.\<close>

lemma append_event_healthy:
  assumes "store_inv C d" "event_storable C e"
  shows "\<exists>d'. sbind (fallback_json C e status) (append_line C) d = (Inr (), d') \<and> store_inv C d' \<and>
    store_states C d' = (store_states C d)
      (AuditEventId_as_canonical_string C (ev_audit_event_id e) \<mapsto> (e, status = Delivery_Pending))"
proof -
  from assms(1) obtain ps where laws: "store_laws C" and health: "disk_healthy C d"
    and ps: "disk_holds (line_of C) ps d"
    by (auto simp: store_inv_def)
  have "shd (disk_clock d) \<in> sset (disk_clock d)" by (cases "disk_clock d") simp
  then obtain at where at: "rfc3339_format C (dt_to_utc C (shd (disk_clock d))) = Inr at"
    using health by (auto simp: disk_healthy_def is_ok_iff)
  obtain line where line: "json_to_string C (fallback_document C e status at) = Inr line"
    using laws by (auto simp: store_laws_def json_total_def is_ok_iff)
  let ?id = "AuditEventId_as_canonical_string C (ev_audit_event_id e)"
  define p where "p = \<lparr>pr_event = e, pr_event_id = ?id, pr_delivery_status = status,
    pr_occurred_at = (if str_trim at \<noteq> [] then Some at else None)\<rparr>"
  define d' where "d' = d\<lparr>disk_clock := stl (disk_clock d),
    disk_file := Some (file_content d @ line @ [newline])\<rparr>"
  have run: "sbind (fallback_json C e status) (append_line C) d = (Inr (), d')"
    using health at append_json_line_healthy [OF _ line, of "d\<lparr>disk_clock := stl (disk_clock d)\<rparr>"]
    by (simp add: fallback_json_def current_occurred_at_def read_clock_def sbind_def append_line_def
        disk_healthy_def file_content_def d'_def)
  have "line_of C p line" using assms(2) line by (auto simp: line_of_def p_def)
  then have holds: "disk_holds (line_of C) (ps @ [p]) d'"
    by (rule disk_holds_append [OF ps]) (simp add: file_content_def d'_def)
  have "disk_healthy C d'"
    using health by (auto simp: disk_healthy_def d'_def intro: stl_sset)
  with laws holds have inv: "store_inv C d'" by (auto simp: store_inv_def)
  have "store_states C d' = (store_states C d)(?id \<mapsto> (e, status = Delivery_Pending))"
    by (simp add: fun_eq_iff store_states_holds [OF laws holds] store_states_holds [OF laws ps]
        final_states_def latest_simps bt_get_insert p_def)
  with run inv show ?thesis by blast
qed

lemma final_states_wf: "bt_wf (final_states ps)"
  by (simp add: final_states_def latest_wf)

lemma store_states_key:
  assumes "store_inv C d" "store_states C d k = Some (e, b)"
  shows "AuditEventId_as_canonical_string C (ev_audit_event_id e) = k" "event_storable C e"
proof -
  from assms(1) obtain ps ls where laws: "store_laws C" and ls: "list_all2 (line_of C) ps ls"
    and holds: "disk_holds (line_of C) ps d"
    by (auto simp: store_inv_def disk_holds_def)
  obtain status where "bt_get (final_states ps) k = Some (e, status)"
    using assms(2) by (auto simp: store_states_holds [OF laws holds])
  from latest_in [OF this [unfolded final_states_def]] obtain p where p: "p \<in> set ps" "pr_event_id p = k" "pr_event p = e"
    by blast
  then obtain line where "line_of C p line"
    using ls by (metis in_set_conv_nth list_all2_conv_all_nth)
  with p show "AuditEventId_as_canonical_string C (ev_audit_event_id e) = k" "event_storable C e"
    by (auto simp: line_of_def)
qed

lemma pending_events_healthy:
  assumes "store_inv C d"
  shows "\<exists>evs. pending_events C d = (Inr evs, d) \<and>
    (\<forall>e. e \<in> set evs \<longleftrightarrow>
      store_states C d (AuditEventId_as_canonical_string C (ev_audit_event_id e)) = Some (e, True)) \<and>
    distinct (map (\<lambda>e. AuditEventId_as_canonical_string C (ev_audit_event_id e)) evs)"
proof -
  from assms obtain ps where laws: "store_laws C" and health: "disk_healthy C d"
    and holds: "disk_holds (line_of C) ps d"
    by (auto simp: store_inv_def)
  note st = store_states_holds [OF laws holds]
  let ?id = "\<lambda>e. AuditEventId_as_canonical_string C (ev_audit_event_id e)"
  have keys: "?id e = k" if "bt_get (final_states ps) k = Some (e, status)" for k e status
    using store_states_key(1) [OF assms, of k e] that by (simp add: st)
  have run: "pending_events C d = (Inr (pending_of (final_states ps)), d)"
  proof (cases "disk_file d")
    case None
    then have "ps = []"
      using holds disk_holds_lines [OF laws holds] by (simp add: file_content_def file_lines_def)
    with None show ?thesis by (simp add: pending_events_def final_states_def latest_def pending_of_def)
  next
    case (Some content)
    then show ?thesis
      using health disk_holds_lines [OF laws holds]
      by (simp add: pending_events_def parse_existing_fallback_records_unlocked_def sbind_def
          smap_err_def io_healthy disk_healthy_def)
  qed
  have "e \<in> set (pending_of (final_states ps)) \<longleftrightarrow> store_states C d (?id e) = Some (e, True)" for e
    using keys by (auto simp: pending_of_iff [OF final_states_wf] st)
  moreover have "distinct (map ?id (pending_of (final_states ps)))"
    by (rule pending_of_distinct [OF final_states_wf]) (rule keys)
  ultimately show ?thesis using run by blast
qed


section \<open>Rolling the file over\<close>

lemma snapshot_statuses:
  "bt_get (sn_final_status_by_event_id (snapshot_of n ps)) k = map_option snd (bt_get (final_states ps) k)"
  using latest_map [of pr_event_id snd "\<lambda>r. (pr_event r, pr_delivery_status r)" ps k]
  by (simp add: snapshot_of_def Let_def final_states_def)

lemma eligible_nothing_pending:
  assumes "is_rollover_eligible size_limit (snapshot_of n ps)"
  shows "pending_of (final_states ps) = []"
proof -
  have "bt_get (final_states ps) k \<noteq> Some (e, Delivery_Pending)" for k e
  proof
    assume "bt_get (final_states ps) k = Some (e, Delivery_Pending)"
    then have "(k, Delivery_Pending) \<in> set (sn_final_status_by_event_id (snapshot_of n ps))"
      using snapshot_statuses [of n ps k] by (simp add: bt_get_def map_of_SomeD)
    with assms show False by (auto simp: is_rollover_eligible_def list_all_iff)
  qed
  then show ?thesis
    using pending_of_iff [OF final_states_wf, of _ ps] by (metis list.set_intros(1) neq_Nil_conv)
qed

text \<open>Reading the file for a snapshot, whatever the answers of the operating system.\<close>

lemma read_error_fails:
  "\<exists>e. parse_fallback_lines C i (take n (map Inr ls) @ [Inl m]) = Inl e"
proof (induction ls arbitrary: n i)
  case Nil
  then show ?case by simp
next
  case (Cons l ls)
  show ?case
  proof (cases n)
    case 0
    then show ?thesis by simp
  next
    case (Suc j)
    from Cons [of "i + 1" j] obtain e where
      "parse_fallback_lines C (i + 1) (take j (map Inr ls) @ [Inl m]) = Inl e" by blast
    with Suc show ?thesis
      by (cases "record_from_str C l"; cases "to_event C i (projr (record_from_str C l))") simp_all
  qed
qed

lemma parse_existing_reads:
  assumes "store_laws C" "disk_holds (line_of C) ps d" "parse_existing_fallback_records_unlocked C d = (r, d')"
  shows "disk_file d' = disk_file d" and "r = Inr ps' \<Longrightarrow> ps' = ps"
proof -
  have "disk_file d' = disk_file d \<and> (r = Inr ps' \<longrightarrow> ps' = ps)"
    using assms(3) unfolding parse_existing_fallback_records_unlocked_def
  proof (rule sbind_cases)
    fix e assume e: "smap_err Store_Io io_call d = (Inl e, d')" "r = Inl e"
    from e(1) have "disk_file d' = disk_file d" by (rule io_call_err_file)
    with e(2) show ?thesis by simp
  next
    fix x u assume u: "smap_err Store_Io io_call d = (Inr x, u)"
      "(case io_read_lines u of (ls, d') \<Rightarrow> (parse_fallback_lines C 1 ls, d')) = (r, d')"
    from u(1) have same: "disk_file u = disk_file d" by (rule io_call_err_file)
    with assms(2) have "disk_holds (line_of C) ps u" by (metis disk_holds_file)
    note lines = disk_holds_lines [OF assms(1) this]
    show ?thesis
    proof (cases "shd (disk_io u)")
      case Io_Done
      have "d' = u\<lparr>disk_io := stl (disk_io u)\<rparr> \<and> r = Inr ps"
        using u(2) Io_Done lines by (simp add: io_read_lines_def)
      with same show ?thesis by simp
    next
      case (Io_Failed n m)
      obtain e where "parse_fallback_lines C 1 (take n (map Inr (file_lines (file_content u))) @ [Inl m]) =
          Inl e"
        using read_error_fails by blast
      then have "d' = u\<lparr>disk_io := stl (disk_io u)\<rparr> \<and> r = Inl e"
        using u(2) Io_Failed by (simp add: io_read_lines_def)
      with same show ?thesis by simp
    qed
  qed
  then show "disk_file d' = disk_file d" "r = Inr ps' \<Longrightarrow> ps' = ps" by auto
qed

lemma snapshot_reads:
  assumes "store_laws C" "disk_holds (line_of C) ps d" "current_file_snapshot_unlocked C d = (r, d')"
  shows "disk_file d' = disk_file d" and "r = Inr (Some sn) \<Longrightarrow> sn = snapshot_of (length (file_content d)) ps"
proof -
  have "disk_file d' = disk_file d \<and> (r = Inr (Some sn) \<longrightarrow> sn = snapshot_of (length (file_content d)) ps)"
  proof (cases "disk_file d")
    case None
    then show ?thesis using assms(3) by (auto simp: current_file_snapshot_unlocked_def)
  next
    case (Some content)
    with assms(3) have "sbind (smap_err Store_Io io_call) (\<lambda>_.
        sbind (parse_existing_fallback_records_unlocked C) (\<lambda>parsed.
        sret (Some (snapshot_of (length (file_content d)) parsed)))) d = (r, d')"
      by (simp add: current_file_snapshot_unlocked_def)
    then show ?thesis
    proof (rule sbind_cases)
      fix e assume e: "smap_err Store_Io io_call d = (Inl e, d')" "r = Inl e"
      from e(1) have "disk_file d' = disk_file d" by (rule io_call_err_file)
      with e(2) show ?thesis by simp
    next
      fix x u assume u: "smap_err Store_Io io_call d = (Inr x, u)"
        "sbind (parse_existing_fallback_records_unlocked C) (\<lambda>parsed.
          sret (Some (snapshot_of (length (file_content d)) parsed))) u = (r, d')"
      from u(1) have same: "disk_file u = disk_file d" by (rule io_call_err_file)
      with assms(2) have "disk_holds (line_of C) ps u" by (metis disk_holds_file)
      note reads = parse_existing_reads [OF assms(1) this]
      from u(2) show ?thesis
      proof (rule sbind_cases)
        fix e assume e: "parse_existing_fallback_records_unlocked C u = (Inl e, d')" "r = Inl e"
        from reads(1) [OF e(1)] same e(2) show ?thesis by simp
      next
        fix parsed t assume t: "parse_existing_fallback_records_unlocked C u = (Inr parsed, t)"
          "sret (Some (snapshot_of (length (file_content d)) parsed)) t = (r, d')"
        from reads(1) [OF t(1)] reads(2) [OF t(1) refl] t(2) same show ?thesis by auto
      qed
    qed
  qed
  then show "disk_file d' = disk_file d"
    "r = Inr (Some sn) \<Longrightarrow> sn = snapshot_of (length (file_content d)) ps" by auto
qed

lemma rollover_untouched:
  assumes "store_laws C" "disk_holds (line_of C) ps d" "pending_of (final_states ps) \<noteq> []"
    and "rollover C gzip current_path timestamp modified size_limit d = (r, d')"
  shows "disk_file d' = disk_file d"
  using assms(4) unfolding rollover_def
proof (rule sbind_cases)
  fix x assume "current_file_snapshot_unlocked C d = (Inl x, d')"
  then show ?thesis by (rule snapshot_reads(1) [OF assms(1,2)])
next
  fix snapshot u
  assume u: "current_file_snapshot_unlocked C d = (Inr snapshot, u)"
    and rest: "(case snapshot of None \<Rightarrow> sret Rollover_Skipped
      | Some sn \<Rightarrow> if \<not> is_rollover_eligible size_limit sn then sret Rollover_Skipped
          else seal_current_file C gzip current_path timestamp modified sn) u = (r, d')"
  have "\<not> is_rollover_eligible size_limit sn" if "snapshot = Some sn" for sn
    using snapshot_reads(2) [OF assms(1,2) u] that eligible_nothing_pending assms(3) by blast
  with rest have "d' = u" by (cases snapshot) auto
  with snapshot_reads(1) [OF assms(1,2) u] show ?thesis by simp
qed

text \<open>
  C17 --- Rolling over never discards an event that is still pending.  Whatever the operating system
  answers to the calls that rolling over makes --- a read that fails half-way, an archive that
  cannot be created, a removal that is refused --- and whatever rolling over returns, a file in
  which some event is pending is left untouched, so the
  pending event is read from it as before.
\<close>

theorem rollover_keeps_pending:
  assumes "store_laws C" "disk_holds (line_of C) ps d" "e \<in> set (pending_of (final_states ps))"
    and "rollover C gzip current_path timestamp modified size_limit d = (r, d')"
  shows "disk_file d' = disk_file d \<and>
    (disk_healthy C d'' \<longrightarrow> disk_file d'' = disk_file d' \<longrightarrow>
      (\<exists>evs. pending_events C d'' = (Inr evs, d'') \<and> e \<in> set evs))"
proof -
  have same: "disk_file d' = disk_file d"
    using assms by (intro rollover_untouched [OF assms(1,2) _ assms(4)]) auto
  moreover have "\<exists>evs. pending_events C d'' = (Inr evs, d'') \<and> e \<in> set evs"
    if "disk_healthy C d''" "disk_file d'' = disk_file d'"
  proof -
    have holds: "disk_holds (line_of C) ps d''" using assms(2) same that(2) by (metis disk_holds_file)
    with assms(1) that(1) have inv: "store_inv C d''" by (auto simp: store_inv_def)
    obtain k where "store_states C d'' k = Some (e, True)"
      using assms(3) by (auto simp: pending_of_iff [OF final_states_wf] store_states_holds [OF assms(1) holds])
    with pending_events_healthy [OF inv] store_states_key(1) [OF inv] show ?thesis by blast
  qed
  ultimately show ?thesis by blast
qed

definition sample_record :: ParsedFallbackRecord where
  "sample_record = \<lparr>pr_event = sample_audit_event,
    pr_event_id = AuditEventId_as_canonical_string sample_crates (ev_audit_event_id sample_audit_event),
    pr_delivery_status = Delivery_Pending, pr_occurred_at = Some ''7Z''\<rparr>"

definition sample_line :: string where
  "sample_line = jenc (fallback_document sample_crates sample_audit_event Delivery_Pending ''7Z'')"

text \<open>A disk with one pending event on which every call fails.\<close>

definition failing_disk :: disk where
  "failing_disk = \<lparr>disk_file = Some (sample_line @ [newline]), disk_archives = [],
    disk_io = sconst (Io_Failed 0 ''gone''), disk_clock = sconst (7, 0)\<rparr>"

lemma failing_disk_holds: "disk_holds (line_of sample_crates) [sample_record] failing_disk"
proof -
  have "str_trim ''7Z'' = ''7Z''" by (rule str_trim_all_plain) (simp add: plain_char_def)
  then have "line_of sample_crates sample_record sample_line"
    using sample_audit_event_storable
    by (auto simp: line_of_def sample_record_def sample_line_def intro!: exI [of _ "''7Z''"])
  then show ?thesis
    unfolding disk_holds_def
    by (intro exI [of _ "[sample_line]"]) (simp add: failing_disk_def file_content_def file_of_def)
qed

theorem rollover_keeps_pending_witness:
  "disk_file (snd (rollover sample_crates id ''audit.jsonl'' ''t'' 0 1 failing_disk)) =
    disk_file failing_disk"
  using rollover_keeps_pending [OF sample_store_laws failing_disk_holds, of sample_audit_event id
      "''audit.jsonl''" "''t''" 0 1 "fst (rollover sample_crates id ''audit.jsonl'' ''t'' 0 1 failing_disk)"
      "snd (rollover sample_crates id ''audit.jsonl'' ''t'' 0 1 failing_disk)"]
  by (simp add: pending_of_def final_states_def latest_def sample_record_def)

end
