(* ===== verification/Audit_Recorder.thy ===== *)
theory Audit_Recorder
  imports Audit_Fallback
begin

text \<open>
  The recorder of audit events (\<open>src/audit/recorder.rs\<close>), which writes to the primary store and
  falls back to the local one, and the resending of what is pending
  (\<open>src/audit/fallback/resend.rs\<close>).
\<close>


section \<open>Recording and resending\<close>

datatype AuditAppendError = ExternalDependencyFailed string | AuditAppend_IdempotencyConflict

datatype (plugins only: code size) AuditRecordError =
    EventConstructionFailed AuditEventError
  | Record_LedgerAppendFailed
  | PrimaryAndFallbackFailed AuditAppendError LocalAuditStoreError
  | Record_IdempotencyConflict
  | ResendReadFailed LocalAuditStoreError
  | ResendMarkSentFailed LocalAuditStoreError

datatype AuditRecordOutcome = PrimarySucceeded | FallbackSucceeded

text \<open>The appender of the primary store and the fallback store, as the objects that the recorder
  holds, each with its own state.\<close>

type_synonym 's audit_appender = "AuditEvent \<Rightarrow> ('s, AuditAppendError, unit) comp"
type_synonym 'd fallback_store = "('d, AuditEvent, LocalAuditStoreError) outbox_store"

definition LocalAuditFallbackStore :: "crates \<Rightarrow> disk fallback_store" where
  "LocalAuditFallbackStore C =
    \<lparr>st_append_pending = append_pending C, st_mark_sent = mark_sent C,
     st_pending_events = pending_events C\<rparr>"

definition record_event ::
    "'s audit_appender \<Rightarrow> 'd fallback_store \<Rightarrow> AuditEvent \<Rightarrow>
      ('s \<times> 'd, AuditRecordError, AuditRecordOutcome) comp" where
  "record_event append_audit_event store event = (\<lambda>(s, d).
    case append_audit_event event s of
      (Inr _, s') \<Rightarrow> (Inr PrimarySucceeded, s', d)
    | (Inl (ExternalDependencyFailed code), s') \<Rightarrow>
        on_snd (smap_err (PrimaryAndFallbackFailed (ExternalDependencyFailed code))
          (sbind (st_append_pending store event) (\<lambda>_. sret FallbackSucceeded))) (s', d)
    | (Inl AuditAppend_IdempotencyConflict, s') \<Rightarrow> (Inl Record_IdempotencyConflict, s', d))"

record ResendAuditSummary =
  rs_attempted :: nat
  rs_sent :: nat
  rs_failed :: nat

fun resend_loop ::
    "'s audit_appender \<Rightarrow> 'd fallback_store \<Rightarrow> nat \<Rightarrow> nat \<Rightarrow> AuditEvent list \<Rightarrow>
      ('s \<times> 'd, AuditRecordError, nat \<times> nat) comp" where
  "resend_loop append_audit_event store sent failed [] = sret (sent, failed)"
| "resend_loop append_audit_event store sent failed (event # events) = (\<lambda>(s, d).
    case append_audit_event event s of
      (Inr _, s') \<Rightarrow>
        sbind (on_snd (smap_err ResendMarkSentFailed (st_mark_sent store event))) (\<lambda>_.
        resend_loop append_audit_event store (sent + 1) failed events) (s', d)
    | (Inl (ExternalDependencyFailed _), s') \<Rightarrow>
        resend_loop append_audit_event store sent (failed + 1) events (s', d)
    | (Inl AuditAppend_IdempotencyConflict, s') \<Rightarrow> (Inl Record_IdempotencyConflict, s', d))"

definition resend_pending ::
    "'s audit_appender \<Rightarrow> 'd fallback_store \<Rightarrow> ('s \<times> 'd, AuditRecordError, ResendAuditSummary) comp"
  where
  "resend_pending append_audit_event store =
    sbind (on_snd (smap_err ResendReadFailed (st_pending_events store))) (\<lambda>events.
    sbind (resend_loop append_audit_event store 0 0 events) (\<lambda>(sent, failed).
    sret \<lparr>rs_attempted = length events, rs_sent = sent, rs_failed = failed\<rparr>))"


text \<open>The three answers of the primary store.\<close>

lemma append_answer_cases [case_names accepted down conflict]:
  fixes r :: "AuditAppendError + unit"
  obtains "r = Inr ()" | code where "r = Inl (ExternalDependencyFailed code)"
    | "r = Inl AuditAppend_IdempotencyConflict"
  by (cases r) (auto intro: AuditAppendError.exhaust)


section \<open>The recorder over any lawful store\<close>

locale audit_outbox = outbox store inv storable key states
  for store :: "'c \<Rightarrow> ('d, AuditEvent, LocalAuditStoreError) outbox_store" and inv storable key states
begin

lemma record_event_cases:
  assumes "inv c d" "storable c e" "record_event A (store c) e (s, d) = (r, s', d')"
  shows "inv c d' \<and>
    (r = Inr PrimarySucceeded \<and> A e s = (Inr (), s') \<and> d' = d \<or>
     r = Inr FallbackSucceeded \<and> (\<exists>x. A e s = (Inl x, s')) \<and>
       states c d' = (states c d)(key c e \<mapsto> (e, True)) \<or>
     r = Inl Record_IdempotencyConflict \<and> (\<exists>x. A e s = (Inl x, s')) \<and> d' = d)"
proof (cases "A e s")
  case (Pair r1 s1)
  obtain d1 where d1: "st_append_pending (store c) e d = (Inr (), d1)" "inv c d1"
    "states c d1 = (states c d)(key c e \<mapsto> (e, True))"
    using append_pending [OF assms(1,2)] by blast
  show ?thesis
  proof (cases r1 rule: append_answer_cases)
    case accepted
    then show ?thesis using assms Pair by (simp add: record_event_def)
  next
    case (down code)
    then show ?thesis using assms Pair d1 by (simp add: record_event_def sbind_def smap_err_def)
  next
    case conflict
    then show ?thesis using assms Pair by (simp add: record_event_def)
  qed
qed

text \<open>One pass over pending events: every one of them stays pending or was accepted.\<close>

lemma resend_loop_keeps:
  assumes "inv c d" "\<forall>e \<in> set evs. storable c e"
    and contract: "\<And>e s r s'. A e s = (r, s') \<Longrightarrow> delivered s \<subseteq> delivered s' \<and>
      (r = Inr () \<longrightarrow> e \<in> delivered s')"
    and "resend_loop A (store c) sent failed evs (s, d) = (r, s', d')"
  shows "inv c d' \<and> delivered s \<subseteq> delivered s' \<and>
    (\<forall>k e b. states c d' k = Some (e, b) \<longrightarrow> (\<exists>b'. states c d k = Some (e, b')) \<or> e \<in> set evs) \<and>
    (\<forall>k e. states c d k = Some (e, True) \<longrightarrow> k = key c e \<longrightarrow>
      (\<forall>e' \<in> set evs. key c e' = k \<longrightarrow> e' = e) \<longrightarrow>
      states c d' k = Some (e, True) \<or> e \<in> delivered s')"
  using assms(1,2,4)
proof (induction evs arbitrary: d s sent failed)
  case Nil
  then show ?case by auto
next
  case (Cons e evs)
  obtain r1 s1 where A: "A e s = (r1, s1)" by (cases "A e s")
  note c = contract [OF A]
  show ?case
  proof (cases r1 rule: append_answer_cases)
    case accepted
    obtain d1 where d1: "st_mark_sent (store c) e d = (Inr (), d1)" "inv c d1"
      "states c d1 = (states c d)(key c e \<mapsto> (e, False))"
      using mark_sent [OF Cons.prems(1)] Cons.prems(2) by auto
    have loop: "resend_loop A (store c) (sent + 1) failed evs (s1, d1) = (r, s', d')"
      using Cons.prems(3) A accepted d1(1) by (simp add: sbind_def smap_err_def)
    note IH = Cons.IH [OF d1(2) _ loop]
    have "e \<in> delivered s1" using c accepted by simp
    then show ?thesis
      using IH Cons.prems(2) c d1(3) by (auto split: if_splits)
  next
    case (down code)
    have "resend_loop A (store c) sent (failed + 1) evs (s1, d) = (r, s', d')"
      using Cons.prems(3) A down by simp
    from Cons.IH [OF Cons.prems(1) _ this] Cons.prems(2) c show ?thesis by fastforce
  next
    case conflict
    with Cons.prems A c show ?thesis by auto
  qed
qed

lemma resend_pending_keeps:
  assumes inv: "inv c d"
    and contract: "\<And>e s r s'. A e s = (r, s') \<Longrightarrow> delivered s \<subseteq> delivered s' \<and>
      (r = Inr () \<longrightarrow> e \<in> delivered s')"
    and run: "resend_pending A (store c) (s, d) = (r, s', d')"
  shows "inv c d' \<and> delivered s \<subseteq> delivered s' \<and>
    (\<forall>k e b. states c d' k = Some (e, b) \<longrightarrow> (\<exists>b'. states c d k = Some (e, b'))) \<and>
    (\<forall>k e. states c d k = Some (e, True) \<longrightarrow> states c d' k = Some (e, True) \<or> e \<in> delivered s')"
proof -
  obtain evs d1 where evs: "st_pending_events (store c) d = (Inr evs, d1)" "inv c d1"
    "states c d1 = states c d" "\<forall>e. e \<in> set evs \<longleftrightarrow> states c d (key c e) = Some (e, True)"
    "\<forall>e \<in> set evs. storable c e"
    using pending_events [OF inv] by blast
  obtain r1 where loop: "resend_loop A (store c) 0 0 evs (s, d1) = (r1, s', d')"
    using run evs(1)
    by (auto simp: resend_pending_def sbind_def smap_err_def split: prod.splits sum.splits)
  note keeps = resend_loop_keeps [where A = A and delivered = delivered, OF evs(2,5) contract loop]
  have same: "e' = e" if "states c d k = Some (e, b)" "e' \<in> set evs" "key c e' = k" for k e e' b
    using that evs(4) by auto
  have "states c d' k = Some (e, True) \<or> e \<in> delivered s'" if "states c d k = Some (e, True)" for k e
    using keeps that same [OF that] states_keys [OF inv that] evs(3) by metis
  moreover have "\<exists>b'. states c d k = Some (e, b')" if "states c d' k = Some (e, b)" for k e b
    using keeps that states_keys [of c d' k e b] evs(3,4) by metis
  ultimately show ?thesis using keeps by blast
qed

text \<open>A primary store that answers again: resending drains the outbox.\<close>

lemma resend_loop_drains:
  assumes "inv c d" "\<forall>e \<in> set evs. storable c e" "\<And>e s. \<exists>s'. A e s = (Inr (), s')"
  shows "\<exists>s' d'. resend_loop A (store c) sent failed evs (s, d) =
      (Inr (sent + length evs, failed), s', d') \<and> inv c d' \<and>
    (\<forall>k e. states c d' k = Some (e, True) \<longrightarrow> states c d k = Some (e, True) \<and> k \<notin> key c ` set evs)"
  using assms(1,2)
proof (induction evs arbitrary: d s sent)
  case Nil
  then show ?case by auto
next
  case (Cons e evs)
  obtain s1 where A: "A e s = (Inr (), s1)" using assms(3) by blast
  obtain d1 where d1: "st_mark_sent (store c) e d = (Inr (), d1)" "inv c d1"
    "states c d1 = (states c d)(key c e \<mapsto> (e, False))"
    using mark_sent [OF Cons.prems(1)] Cons.prems(2) by auto
  from Cons.IH [OF d1(2), of "sent + 1" s1] Cons.prems(2) obtain s' d' where
    "resend_loop A (store c) (sent + 1) failed evs (s1, d1) =
      (Inr (sent + 1 + length evs, failed), s', d')" "inv c d'"
    "\<forall>k e. states c d' k = Some (e, True) \<longrightarrow> states c d1 k = Some (e, True) \<and> k \<notin> key c ` set evs"
    by auto
  with A d1 show ?case
    by (intro exI [of _ s'] exI [of _ d']) (auto simp: sbind_def smap_err_def split: if_splits)
qed

lemma resend_pending_drains:
  assumes "inv c d" "\<And>e s. \<exists>s'. A e s = (Inr (), s')"
  shows "\<exists>n s' d'. resend_pending A (store c) (s, d) =
      (Inr \<lparr>rs_attempted = n, rs_sent = n, rs_failed = 0\<rparr>, s', d') \<and> inv c d' \<and>
    (\<forall>k e. states c d' k \<noteq> Some (e, True))"
proof -
  obtain evs d1 where evs: "st_pending_events (store c) d = (Inr evs, d1)" "inv c d1"
    "states c d1 = states c d" "\<forall>e. e \<in> set evs \<longleftrightarrow> states c d (key c e) = Some (e, True)"
    "\<forall>e \<in> set evs. storable c e"
    using pending_events [OF assms(1)] by blast
  from resend_loop_drains [where A = A, OF evs(2,5) assms(2), of 0 0 s] obtain s' d' where run:
    "resend_loop A (store c) 0 0 evs (s, d1) = (Inr (length evs, 0), s', d')" "inv c d'"
    "\<forall>k e. states c d' k = Some (e, True) \<longrightarrow> states c d1 k = Some (e, True) \<and> k \<notin> key c ` set evs"
    by auto
  have "states c d' k \<noteq> Some (e, True)" for k e
    using run(3) evs(3,4) states_keys [OF assms(1)] by (metis image_eqI)
  with run(1,2) evs(1) show ?thesis
    by (auto simp: resend_pending_def sbind_def smap_err_def)
qed

end

definition event_key :: "crates \<Rightarrow> AuditEvent \<Rightarrow> string" where
  "event_key C e = AuditEventId_as_canonical_string C (ev_audit_event_id e)"

interpretation local_store: audit_outbox LocalAuditFallbackStore store_inv event_storable event_key
    store_states
proof unfold_locales
  fix C d e
  assume inv: "store_inv C d" and e: "event_storable C e"
  show "\<exists>d'. st_append_pending (LocalAuditFallbackStore C) e d = (Inr (), d') \<and> store_inv C d' \<and>
      store_states C d' = (store_states C d)(event_key C e \<mapsto> (e, True))"
    using append_event_healthy [OF inv e, of Delivery_Pending]
    by (simp add: LocalAuditFallbackStore_def append_pending_def event_key_def)
  show "\<exists>d'. st_mark_sent (LocalAuditFallbackStore C) e d = (Inr (), d') \<and> store_inv C d' \<and>
      store_states C d' = (store_states C d)(event_key C e \<mapsto> (e, False))"
    using append_event_healthy [OF inv e, of Delivery_Sent]
    by (simp add: LocalAuditFallbackStore_def mark_sent_def event_key_def)
next
  fix C d
  assume inv: "store_inv C d"
  show "\<exists>evs d'. st_pending_events (LocalAuditFallbackStore C) d = (Inr evs, d') \<and> store_inv C d' \<and>
      store_states C d' = store_states C d \<and>
      (\<forall>e. e \<in> set evs \<longleftrightarrow> store_states C d (event_key C e) = Some (e, True)) \<and>
      distinct (map (event_key C) evs) \<and> (\<forall>e \<in> set evs. event_storable C e)"
    using pending_events_healthy [OF inv] store_states_key(2) [OF inv] inv
    by (auto simp: LocalAuditFallbackStore_def event_key_def [abs_def])
next
  fix C d k e b
  assume "store_inv C d" "store_states C d k = Some (e, b)"
  then show "event_key C e = k" by (simp add: event_key_def store_states_key(1))
qed


section \<open>Runs of the recorder\<close>

text \<open>
  The service from a fresh start: events are recorded, pending ones are resent, the file is rolled
  over, in any order and with any answers of the primary store.  \<open>R\<close> collects the events whose
  recording was reported as successful.  Identifiers are random, so an event recorded under the
  identifier of another one is that event again.
\<close>

inductive audit_run ::
    "crates \<Rightarrow> 's audit_appender \<Rightarrow> 's \<Rightarrow> disk \<Rightarrow> AuditEvent set \<Rightarrow> bool" for C A where
  run_start: "disk_file d = None \<Longrightarrow> disk_healthy C d \<Longrightarrow> audit_run C A s d {}"
| run_record: "audit_run C A s d R \<Longrightarrow> event_storable C e \<Longrightarrow>
    (\<forall>e' \<in> R. event_key C e' = event_key C e \<longrightarrow> e' = e) \<Longrightarrow>
    record_event A (LocalAuditFallbackStore C) e (s, d) = (r, s', d') \<Longrightarrow>
    audit_run C A s' d' (if is_ok r then insert e R else R)"
| run_resend: "audit_run C A s d R \<Longrightarrow>
    resend_pending A (LocalAuditFallbackStore C) (s, d) = (r, s', d') \<Longrightarrow> audit_run C A s' d' R"
| run_rollover: "audit_run C A s d R \<Longrightarrow>
    rollover C gzip current_path timestamp modified size_limit d = (r, d') \<Longrightarrow> audit_run C A s d' R"

text \<open>Rolling over on a healthy disk: the file keeps its content or starts anew.\<close>

lemma io_call_healthy: "disk_healthy C d \<Longrightarrow> smap_err g io_call d = (Inr (), d)"
  by (simp add: smap_err_def disk_healthy_def io_healthy)

lemma rollover_healthy:
  assumes "store_inv C d" "rollover C gzip current_path timestamp modified size_limit d = (r, d')"
  shows "disk_healthy C d' \<and> (disk_file d' = disk_file d \<or> disk_file d' = Some [])"
proof -
  from assms(1) have h: "disk_healthy C d" and io: "disk_io d = sconst Io_Done"
    by (simp_all add: store_inv_def disk_healthy_def)
  have read: "current_file_snapshot_unlocked C d = (fst (current_file_snapshot_unlocked C d), d)"
    using h io
    by (simp add: current_file_snapshot_unlocked_def sbind_def parse_existing_fallback_records_unlocked_def
        io_call_healthy io_healthy split: sum.splits)
  have seal: "disk_healthy C d'' \<and> (disk_file d'' = disk_file d \<or> disk_file d'' = Some [])"
    if "seal_current_file C gzip current_path timestamp modified sn d = (r, d'')" for sn r d''
    using that h io
    by (auto simp: seal_current_file_def sbind_def io_call_healthy next_archive_path_def Let_def
        write_gzip_archive_def smap_err_def io_healthy disk_healthy_def io_call_def split: if_splits)
  show ?thesis
    using assms(2) h read seal
    by (cases "fst (current_file_snapshot_unlocked C d)")
      (auto simp: rollover_def sbind_def split: option.splits if_splits)
qed

lemma rollover_states:
  assumes "store_inv C d" "rollover C gzip current_path timestamp modified size_limit d = (r, d')"
  shows "store_inv C d' \<and>
    (\<forall>k e. store_states C d k = Some (e, True) \<longrightarrow> store_states C d' k = Some (e, True)) \<and>
    (\<forall>k e b. store_states C d' k = Some (e, b) \<longrightarrow> store_states C d k = Some (e, b))"
proof -
  from assms(1) obtain ps where laws: "store_laws C" and ps: "disk_holds (line_of C) ps d"
    by (auto simp: store_inv_def)
  note h = rollover_healthy [OF assms]
  show ?thesis
  proof (cases "disk_file d' = disk_file d")
    case True
    then have "file_content d' = file_content d" by (simp add: file_content_def)
    with h laws ps show ?thesis by (auto simp: store_inv_def store_states_def disk_holds_def)
  next
    case False
    with h have "disk_file d' = Some []" by blast
    then have empty: "disk_holds (line_of C) [] d'" by (simp add: disk_holds_Nil file_content_def)
    have "pending_of (final_states ps) = []"
      using rollover_untouched [OF laws ps _ assms(2)] False by blast
    then have "store_states C d k \<noteq> Some (e, True)" for k e
      using pending_of_iff [OF final_states_wf, of e ps] by (auto simp: store_states_holds [OF laws ps])
    with empty h laws show ?thesis
      by (auto simp: store_inv_def store_states_holds [OF laws empty] final_states_def latest_simps bt_get_def)
  qed
qed

text \<open>What every run maintains: the store is well formed, holds only recorded events, and every
  recorded event was delivered or is still pending.\<close>

lemma audit_run_inv:
  assumes "audit_run C A s d R" "store_laws C"
    and contract: "\<And>e s r s'. A e s = (r, s') \<Longrightarrow> delivered s \<subseteq> delivered s' \<and>
      (r = Inr () \<longrightarrow> e \<in> delivered s')"
  shows "store_inv C d \<and> (\<forall>k e b. store_states C d k = Some (e, b) \<longrightarrow> e \<in> R) \<and>
    (\<forall>e \<in> R. e \<in> delivered s \<or> store_states C d (event_key C e) = Some (e, True))"
  using assms(1)
proof induction
  case (run_start d s)
  then have "disk_holds (line_of C) [] d" by (simp add: disk_holds_Nil file_content_def)
  with run_start assms(2) store_states_holds [OF assms(2) this] show ?case
    by (auto simp: store_inv_def final_states_def latest_simps bt_get_def)
next
  case (run_record s d R e r s' d')
  then have inv: "store_inv C d" by blast
  note c = local_store.record_event_cases [OF inv run_record(2,4)]
  have d: "delivered s \<subseteq> delivered s'" using c contract by blast
  from c show ?case
  proof (elim conjE disjE)
    assume "r = Inr PrimarySucceeded" "A e s = (Inr (), s')" "d' = d"
    with run_record.IH d contract [of e s "Inr ()" s'] show ?thesis by auto
  next
    assume "store_inv C d'" "r = Inr FallbackSucceeded"
      "store_states C d' = (store_states C d)(event_key C e \<mapsto> (e, True))"
    with run_record.IH run_record(3) d show ?thesis by (auto split: if_splits)
  next
    assume "r = Inl Record_IdempotencyConflict" "d' = d"
    with run_record.IH d show ?thesis by auto
  qed
next
  case (run_resend s d R r s' d')
  then have "store_inv C d" by blast
  from local_store.resend_pending_keeps [where A = A and delivered = delivered, OF this contract run_resend(2)]
    run_resend.IH show ?case by (meson subsetD)
next
  case (run_rollover s d R gzip current_path timestamp modified size_limit r d')
  then have "store_inv C d" by blast
  from rollover_states [OF this run_rollover(2)] run_rollover.IH show ?case by blast
qed



text \<open>A run in which the primary store is down: the event goes to the local file.\<close>

definition down :: "unit audit_appender" where
  "down e s = (Inl (ExternalDependencyFailed ''down''), s)"

lemma sample_run: "\<exists>d. audit_run sample_crates down () d {sample_audit_event}"
proof -
  have "sample_rfc3339_format (7, 0) = Inr ''7Z''" by code_simp
  then have h: "disk_healthy sample_crates fresh_disk"
    by (simp add: disk_healthy_def fresh_disk_def)
  have start: "audit_run sample_crates down () fresh_disk {}"
    by (rule run_start [OF _ h]) (simp add: fresh_disk_def)
  have "disk_holds (line_of sample_crates) [] fresh_disk"
    by (simp add: disk_holds_Nil fresh_disk_def file_content_def)
  with h sample_store_laws have inv: "store_inv sample_crates fresh_disk" by (auto simp: store_inv_def)
  obtain d1 where d1: "st_append_pending (LocalAuditFallbackStore sample_crates) sample_audit_event
      fresh_disk = (Inr (), d1)"
    using local_store.append_pending [OF inv sample_audit_event_storable] by blast
  have "record_event down (LocalAuditFallbackStore sample_crates) sample_audit_event ((), fresh_disk) =
      (Inr FallbackSucceeded, (), d1)"
    using d1 by (simp add: record_event_def down_def sbind_def smap_err_def)
  from run_record [OF start sample_audit_event_storable _ this] show ?thesis by auto
qed



end
