(* ===== verification/Siem.thy ===== *)
theory Siem
  imports Json_Lines Audit_Builders
begin

text \<open>
  Forwarding of audit events and ledger entries to a SIEM (\<open>src/siem/\<close>): the events that are sent,
  the local buffer of events that could not be sent, and the forwarder that combines a sink with the
  buffer and remembers since when sending fails.  The sink is a parameter with a state of its own.
\<close>


section \<open>Events\<close>

definition SIEM_EVENT_SCHEMA_VERSION :: u32 where "SIEM_EVENT_SCHEMA_VERSION = 1"

definition SIEM_EVENT_TOP_LEVEL_KEYS :: "string list" where
  "SIEM_EVENT_TOP_LEVEL_KEYS =
    [''actor_device_id'', ''actor_user_id'', ''event_id'', ''event_type'', ''key_version'',
     ''metadata'', ''request_id'', ''result'', ''schema_version'', ''source_event_at'',
     ''target_secret_id'']"

record SiemEvent =
  se_schema_version :: u32
  se_event_id :: string
  se_event_type :: string
  se_result :: string
  se_request_id :: string
  se_actor_user_id :: "string option"
  se_actor_device_id :: "string option"
  se_target_secret_id :: "string option"
  se_key_version :: "u32 option"
  se_source_event_at :: string
  se_metadata :: json

definition from_audit_event :: "crates \<Rightarrow> AuditEvent \<Rightarrow> SiemEvent" where
  "from_audit_event C event =
    \<lparr>se_schema_version = SIEM_EVENT_SCHEMA_VERSION,
     se_event_id = AuditEventId_as_canonical_string C (ev_audit_event_id event),
     se_event_type = AuditAction_as_str (ev_action event),
     se_result = AuditResult_as_str (ev_result event),
     se_request_id = RequestId_as_canonical_string C (ev_request_id event),
     se_actor_user_id = map_option (OwnerUserId_as_canonical_string C) (ev_actor_user_id event),
     se_actor_device_id = map_option DeviceId_str (ev_actor_device_id event),
     se_target_secret_id = map_option (SecretId_as_canonical_string C) (ev_target_secret_id event),
     se_key_version = map_option KeyVersion_get (ev_key_version event),
     se_source_event_at =
       (case event_source_event_at C event of Inr at \<Rightarrow> SourceEventAt_str at | Inl _ \<Rightarrow> []),
     se_metadata = AuditMetadata_as_value (ev_metadata_json event)\<rparr>"

definition from_signed_ledger_entry :: "crates \<Rightarrow> SignedLedgerEntry \<Rightarrow> SiemEvent" where
  "from_signed_ledger_entry C e =
    \<lparr>se_schema_version = SIEM_EVENT_SCHEMA_VERSION,
     se_event_id = LedgerEntryId_as_canonical_string C (le_ledger_entry_id e),
     se_event_type = LedgerEntryType_as_str (le_entry_type e),
     se_result = LedgerResult_as_str (le_result e),
     se_request_id = RequestId_as_canonical_string C (le_request_id e),
     se_actor_user_id = map_option (OwnerUserId_as_canonical_string C) (le_actor_user_id e),
     se_actor_device_id = map_option DeviceId_str (le_actor_device_id e),
     se_target_secret_id = map_option (SecretId_as_canonical_string C) (le_target_secret_id e),
     se_key_version = Some (LedgerSignatureKeyVersion_get (le_signature_key_version e)),
     se_source_event_at = SourceEventAt_str (le_source_event_at e),
     se_metadata = json_object
       [(''event_family'', JString ''ledger''),
        (''entry_hash'', JString (LedgerHash_to_hex C (le_entry_hash e))),
        (''ledger_entry_id'', JString (LedgerEntryId_as_canonical_string C (le_ledger_entry_id e))),
        (''payload'', LedgerPayload_as_value (le_payload e)),
        (''previous_entry_hash'', JString (LedgerHash_to_hex C (le_previous_entry_hash e))),
        (''sequence_no'', json_uint (LedgerSequenceNo_get (le_sequence_no e))),
        (''signature_algorithm'', JString ''ed25519''),
        (''signature_key_version'',
          json_uint (LedgerSignatureKeyVersion_get (le_signature_key_version e))),
        (''source_event_id'',
          json_opt (map_option (AuditEventId_as_canonical_string C) (le_source_event_id e))),
        (''target_secret_version_id'',
          json_opt (map_option (LedgerTargetSecretVersionId_as_canonical_string C)
            (le_target_secret_version_id e)))]\<rparr>"

text \<open>The derived \<open>Serialize\<close> and \<open>Deserialize\<close>; unknown fields are denied.\<close>

definition json_opt_u32 :: "u32 option \<Rightarrow> json" where
  "json_opt_u32 v = (case v of None \<Rightarrow> JNull | Some n \<Rightarrow> json_uint n)"

definition SiemEvent_to_value :: "SiemEvent \<Rightarrow> json" where
  "SiemEvent_to_value e = JObject
    [(''actor_device_id'', json_opt (se_actor_device_id e)),
     (''actor_user_id'', json_opt (se_actor_user_id e)),
     (''event_id'', JString (se_event_id e)),
     (''event_type'', JString (se_event_type e)),
     (''key_version'', json_opt_u32 (se_key_version e)),
     (''metadata'', se_metadata e),
     (''request_id'', JString (se_request_id e)),
     (''result'', JString (se_result e)),
     (''schema_version'', json_uint (se_schema_version e)),
     (''source_event_at'', JString (se_source_event_at e)),
     (''target_secret_id'', json_opt (se_target_secret_id e))]"

definition SiemEvent_from_value :: "json \<Rightarrow> string + SiemEvent" where
  "SiemEvent_from_value v =
    rbind (ok_or ''invalid type'' (as_object v)) (\<lambda>object.
    rbind (try_each (\<lambda>key. reject_if (key \<notin> set SIEM_EVENT_TOP_LEVEL_KEYS) ''unknown field'')
      (bt_keys object)) (\<lambda>_.
    rbind (rbind (optional_u32_field v ''schema_version'') (ok_or ''missing field'')) (\<lambda>schema_version.
    rbind (string_field v ''event_id'') (\<lambda>event_id.
    rbind (string_field v ''event_type'') (\<lambda>event_type.
    rbind (string_field v ''result'') (\<lambda>result.
    rbind (string_field v ''request_id'') (\<lambda>request_id.
    rbind (optional_string_field v ''actor_user_id'') (\<lambda>actor_user_id.
    rbind (optional_string_field v ''actor_device_id'') (\<lambda>actor_device_id.
    rbind (optional_string_field v ''target_secret_id'') (\<lambda>target_secret_id.
    rbind (optional_u32_field v ''key_version'') (\<lambda>key_version.
    rbind (string_field v ''source_event_at'') (\<lambda>source_event_at.
    rbind (ok_or ''missing field'' (json_get v ''metadata'')) (\<lambda>metadata.
    Inr \<lparr>se_schema_version = schema_version, se_event_id = event_id, se_event_type = event_type,
      se_result = result, se_request_id = request_id, se_actor_user_id = actor_user_id,
      se_actor_device_id = actor_device_id, se_target_secret_id = target_secret_id,
      se_key_version = key_version, se_source_event_at = source_event_at,
      se_metadata = metadata\<rparr>)))))))))))))"


section \<open>The buffer\<close>

datatype LocalSiemBufferError =
    SiemBuffer_Io string
  | SiemBuffer_Serialization string
  | SiemBuffer_LockPoisoned

text \<open>The status enumeration of the buffer has the values and names of that of the audit store.\<close>

record LocalSiemFallbackRecord =
  sr_event_id :: string
  sr_status :: DeliveryStatus
  sr_event :: json

definition siem_record_value :: "LocalSiemFallbackRecord \<Rightarrow> json" where
  "siem_record_value r = JObject
    [(''event_id'', JString (sr_event_id r)),
     (''status'', JString (DeliveryStatus_as_str (sr_status r))),
     (''event'', sr_event r)]"

definition siem_record_from_str :: "crates \<Rightarrow> string \<Rightarrow> string + LocalSiemFallbackRecord" where
  "siem_record_from_str C line =
    rbind (json_from_str C line) (\<lambda>v.
    rbind (string_field v ''event_id'') (\<lambda>event_id.
    rbind (status_field v ''status'') (\<lambda>status.
    rbind (ok_or ''missing field'' (json_get v ''event'')) (\<lambda>event.
    Inr \<lparr>sr_event_id = event_id, sr_status = status, sr_event = event\<rparr>))))"

definition append_record ::
    "crates \<Rightarrow> LocalSiemFallbackRecord \<Rightarrow> (disk, LocalSiemBufferError, unit) comp" where
  "append_record C r =
    append_json_line C SiemBuffer_Io SiemBuffer_Serialization (siem_record_value r)"

definition siem_append_pending :: "crates \<Rightarrow> SiemEvent \<Rightarrow> (disk, LocalSiemBufferError, unit) comp" where
  "siem_append_pending C event =
    append_record C \<lparr>sr_event_id = se_event_id event, sr_status = Delivery_Pending,
      sr_event = SiemEvent_to_value event\<rparr>"

definition siem_mark_sent :: "crates \<Rightarrow> SiemEvent \<Rightarrow> (disk, LocalSiemBufferError, unit) comp" where
  "siem_mark_sent C event =
    append_record C \<lparr>sr_event_id = se_event_id event, sr_status = Delivery_Sent,
      sr_event = SiemEvent_to_value event\<rparr>"

fun parse_siem_lines ::
    "crates \<Rightarrow> (string + string) list \<Rightarrow> LocalSiemBufferError + LocalSiemFallbackRecord list" where
  "parse_siem_lines C [] = Inr []"
| "parse_siem_lines C (Inl message # rest) = Inl (SiemBuffer_Io message)"
| "parse_siem_lines C (Inr line # rest) =
    (if \<not> utf8_valid (str_bytes line)
     then Inl (SiemBuffer_Io ''stream did not contain valid UTF-8'')
     else if str_trim line = [] then parse_siem_lines C rest
     else
     rbind (map_err SiemBuffer_Serialization (siem_record_from_str C line)) (\<lambda>r.
     rbind (parse_siem_lines C rest) (\<lambda>rs. Inr (r # rs))))"

definition siem_states ::
    "LocalSiemFallbackRecord list \<Rightarrow> (string \<times> json \<times> DeliveryStatus) list" where
  "siem_states rs = latest sr_event_id (\<lambda>r. (sr_event r, sr_status r)) rs"

definition siem_pending_events :: "crates \<Rightarrow> (disk, LocalSiemBufferError, SiemEvent list) comp" where
  "siem_pending_events C d =
    (if disk_file d = None then (Inr [], d)
     else
     sbind (smap_err SiemBuffer_Io io_call) (\<lambda>_.
     sbind (\<lambda>d. case io_read_lines d of (ls, d') \<Rightarrow> (parse_siem_lines C ls, d')) (\<lambda>rs.
     slift (map_err SiemBuffer_Serialization
       (try_map SiemEvent_from_value (pending_of (siem_states rs)))))) d)"

definition LocalSiemFallbackBuffer :: "crates \<Rightarrow> (disk, SiemEvent, LocalSiemBufferError) outbox_store" where
  "LocalSiemFallbackBuffer C =
    \<lparr>st_append_pending = siem_append_pending C, st_mark_sent = siem_mark_sent C,
     st_pending_events = siem_pending_events C\<rparr>"


section \<open>The forwarder\<close>

datatype SiemSinkError = BackendFailed string | SinkInvalidResponse string

type_synonym 's siem_sink = "SiemEvent \<Rightarrow> ('s, SiemSinkError, unit) comp"

datatype SiemForwardOutcome = SentDirect | Buffered string | BufferingFailed string

record SiemResendSummary =
  ss_attempted :: nat
  ss_sent :: nat
  ss_failed :: nat

record SiemForwarderStatus =
  failure_since :: "datetime option"
  last_failure_code :: "128 word option"

definition SiemForwarderStatus_new :: SiemForwarderStatus where
  "SiemForwarderStatus_new = \<lparr>failure_since = None, last_failure_code = None\<rparr>"

text \<open>Durations are nanoseconds; \<open>time::Duration\<close> holds those whose seconds fit 63 bits.\<close>

definition is_long_failure :: "SiemForwarderStatus \<Rightarrow> datetime \<Rightarrow> nat \<Rightarrow> bool" where
  "is_long_failure status now threshold =
    (case failure_since status of
      None \<Rightarrow> False
    | Some since \<Rightarrow>
        if threshold div 10 ^ 9 \<ge> 2 ^ 63 then False else fst now - fst since \<ge> int threshold)"

definition record_failure :: "datetime \<Rightarrow> SiemForwarderStatus \<Rightarrow> SiemForwarderStatus" where
  "record_failure now status =
    (if failure_since status = None then status\<lparr>failure_since := Some now\<rparr> else status)"

definition clear_status :: "SiemForwarderStatus \<Rightarrow> SiemForwarderStatus" where
  "clear_status status = status\<lparr>failure_since := None, last_failure_code := None\<rparr>"

record ('s, 'd) SiemForwarder =
  fw_sink :: 's
  fw_buffer :: 'd
  fw_status :: SiemForwarderStatus

definition sink_error_code :: "SiemSinkError \<Rightarrow> string" where
  "sink_error_code error =
    (case error of
      BackendFailed code \<Rightarrow> if str_starts_with code ''siem_'' then code else ''siem_backend_failed''
    | SinkInvalidResponse _ \<Rightarrow> ''siem_invalid_response'')"

text \<open>\<open>now\<close> is the clock reading that a failure takes.\<close>

definition handle_send_failure ::
    "('d, SiemEvent, 'x) outbox_store \<Rightarrow> datetime \<Rightarrow> SiemEvent \<Rightarrow> SiemSinkError \<Rightarrow>
      ('s, 'd) SiemForwarder \<Rightarrow> SiemForwardOutcome \<times> ('s, 'd) SiemForwarder" where
  "handle_send_failure buffer now event error f =
    (let code = sink_error_code error;
       f = f\<lparr>fw_status := record_failure now (fw_status f)\<rparr> in
     case st_append_pending buffer event (fw_buffer f) of
       (Inr _, d) \<Rightarrow> (Buffered code, f\<lparr>fw_buffer := d\<rparr>)
     | (Inl _, d) \<Rightarrow> (BufferingFailed code, f\<lparr>fw_buffer := d\<rparr>))"

definition forward ::
    "('d, SiemEvent, 'x) outbox_store \<Rightarrow> 's siem_sink \<Rightarrow> datetime \<Rightarrow> SiemEvent \<Rightarrow>
      ('s, 'd) SiemForwarder \<Rightarrow> SiemForwardOutcome \<times> ('s, 'd) SiemForwarder" where
  "forward buffer send_event now event f =
    (case send_event event (fw_sink f) of
      (Inr _, s) \<Rightarrow> (SentDirect, f\<lparr>fw_sink := s, fw_status := clear_status (fw_status f)\<rparr>)
    | (Inl error, s) \<Rightarrow> handle_send_failure buffer now event error (f\<lparr>fw_sink := s\<rparr>))"

fun siem_resend_loop ::
    "('d, SiemEvent, 'x) outbox_store \<Rightarrow> 's siem_sink \<Rightarrow> nat \<Rightarrow> nat \<Rightarrow> SiemEvent list \<Rightarrow>
      ('s, 'd) SiemForwarder \<Rightarrow> (nat \<times> nat) \<times> ('s, 'd) SiemForwarder" where
  "siem_resend_loop buffer send_event sent failed [] f = ((sent, failed), f)"
| "siem_resend_loop buffer send_event sent failed (event # events) f =
    (case send_event event (fw_sink f) of
      (Inr _, s) \<Rightarrow>
        (case st_mark_sent buffer event (fw_buffer f) of
          (Inr _, d) \<Rightarrow> siem_resend_loop buffer send_event (sent + 1) failed events
            (f\<lparr>fw_sink := s, fw_buffer := d\<rparr>)
        | (Inl _, d) \<Rightarrow> siem_resend_loop buffer send_event sent (failed + 1) events
            (f\<lparr>fw_sink := s, fw_buffer := d\<rparr>))
    | (Inl _, s) \<Rightarrow>
        siem_resend_loop buffer send_event sent (failed + 1) events (f\<lparr>fw_sink := s\<rparr>))"

definition siem_resend_pending ::
    "('d, SiemEvent, 'x) outbox_store \<Rightarrow> 's siem_sink \<Rightarrow>
      ('s, 'd) SiemForwarder \<Rightarrow> SiemResendSummary \<times> ('s, 'd) SiemForwarder" where
  "siem_resend_pending buffer send_event f =
    (case st_pending_events buffer (fw_buffer f) of
      (Inl _, d) \<Rightarrow> (\<lparr>ss_attempted = 0, ss_sent = 0, ss_failed = 0\<rparr>, f\<lparr>fw_buffer := d\<rparr>)
    | (Inr events, d) \<Rightarrow>
        (case siem_resend_loop buffer send_event 0 0 events (f\<lparr>fw_buffer := d\<rparr>) of
          ((sent, failed), f) \<Rightarrow>
            (\<lparr>ss_attempted = length events, ss_sent = sent, ss_failed = failed\<rparr>,
             if failed = 0 \<and> length events > 0
             then f\<lparr>fw_status := clear_status (fw_status f)\<rparr> else f)))"

definition build_siem_forward_failure_audit_event ::
    "crates \<Rightarrow> datetime \<Rightarrow> RequestId \<Rightarrow> string \<Rightarrow> string \<Rightarrow> u64 option \<Rightarrow>
      (rng, AuditEventError, AuditEvent) comp" where
  "build_siem_forward_failure_audit_event C now request_id event_type error_code event_count =
    sbind (slift (rbind (SiemForwardFailureMetadata_build C error_code (Some event_type) event_count None)
      (with_current_source_event_at C now))) (\<lambda>metadata.
    sbind (AuditEventId_generate C) (\<lambda>audit_event_id.
    slift (AuditEvent_new C
      \<lparr>ev_audit_event_id = audit_event_id, ev_request_id = request_id, ev_actor_user_id = None,
       ev_actor_device_id = None, ev_action = Action_SiemForwardFailure, ev_target_secret_id = None,
       ev_result = AuditFailure, ev_key_version = None, ev_metadata_json = metadata\<rparr>)))"


section \<open>The buffer as an outbox\<close>

definition siem_laws :: "crates \<Rightarrow> bool" where
  "siem_laws C \<longleftrightarrow> json_struct_law C \<and> json_line_laws C \<and> json_total C"

definition siem_storable :: "crates \<Rightarrow> SiemEvent \<Rightarrow> bool" where
  "siem_storable C e \<longleftrightarrow> json_exact (se_metadata e) \<and> json_sorted (se_metadata e)"

lemma u32_field:
  "json_get v key = Some (json_opt_u32 n) \<Longrightarrow> optional_u32_field v key = Inr n"
  "json_get v key = Some (json_uint m) \<Longrightarrow> optional_u32_field v key = Inr (Some (m :: u32))"
  by (cases n; simp add: optional_u32_field_def json_opt_u32_def json_uint_def json_as_u64_def as_u64_def)+

lemma SiemEvent_roundtrip: "SiemEvent_from_value (SiemEvent_to_value e) = Inr e"
proof -
  let ?v = "SiemEvent_to_value e"
  note get = SiemEvent_to_value_def json_get_def bt_get_def
  have strings:
    "string_field ?v ''event_id'' = Inr (se_event_id e)"
    "string_field ?v ''event_type'' = Inr (se_event_type e)"
    "string_field ?v ''result'' = Inr (se_result e)"
    "string_field ?v ''request_id'' = Inr (se_request_id e)"
    "string_field ?v ''source_event_at'' = Inr (se_source_event_at e)"
    by (rule optional_field_simps(3), simp add: get)+
  have optionals:
    "optional_string_field ?v ''actor_user_id'' = Inr (se_actor_user_id e)"
    "optional_string_field ?v ''actor_device_id'' = Inr (se_actor_device_id e)"
    "optional_string_field ?v ''target_secret_id'' = Inr (se_target_secret_id e)"
    by (rule optional_field_simps(1), simp add: get)+
  have numbers: "optional_u32_field ?v ''key_version'' = Inr (se_key_version e)"
    "optional_u32_field ?v ''schema_version'' = Inr (Some (se_schema_version e))"
    by (rule u32_field, simp add: get)+
  have meta: "json_get ?v ''metadata'' = Some (se_metadata e)" by (simp add: get)
  obtain object where object: "as_object ?v = Some object"
    "try_each (\<lambda>key. reject_if (key \<notin> set SIEM_EVENT_TOP_LEVEL_KEYS) ''unknown field'')
      (bt_keys object) = Inr ()"
    by (simp add: SiemEvent_to_value_def as_object_def bt_keys_def SIEM_EVENT_TOP_LEVEL_KEYS_def)
  show ?thesis
    unfolding SiemEvent_from_value_def
    by (simp only: rbind_simps ok_or_simps object strings optionals numbers meta) (cases e; simp)
qed

definition siem_record_of :: "SiemEvent \<Rightarrow> DeliveryStatus \<Rightarrow> LocalSiemFallbackRecord" where
  "siem_record_of e status =
    \<lparr>sr_event_id = se_event_id e, sr_status = status, sr_event = SiemEvent_to_value e\<rparr>"

definition siem_line :: "crates \<Rightarrow> SiemEvent \<times> DeliveryStatus \<Rightarrow> string \<Rightarrow> bool" where
  "siem_line C p line \<longleftrightarrow>
    siem_storable C (fst p) \<and>
    json_to_string C (siem_record_value (siem_record_of (fst p) (snd p))) = Inr line"

lemma SiemEvent_to_value_plain:
  assumes "siem_storable C e"
  shows "json_exact (SiemEvent_to_value e)" "json_sorted (SiemEvent_to_value e)"
proof -
  have "json_exact (json_opt_u32 n)" "json_sorted (json_opt_u32 n)" for n
    by (cases n; simp add: json_opt_u32_def)+
  with assms show "json_exact (SiemEvent_to_value e)" "json_sorted (SiemEvent_to_value e)"
    by (simp_all add: SiemEvent_to_value_def siem_storable_def bt_wf_def)
qed

lemma siem_record_of_line:
  assumes "siem_laws C" "siem_line C (e, status) line"
  shows "siem_record_from_str C line = Inr (siem_record_of e status)"
proof -
  let ?kvs = "[(''event_id'', JString (se_event_id e)),
    (''status'', JString (DeliveryStatus_as_str status)), (''event'', SiemEvent_to_value e)]"
  from assms(2) have line: "json_to_string C (JObject ?kvs) = Inr line" and ok: "siem_storable C e"
    by (simp_all add: siem_line_def siem_record_value_def siem_record_of_def)
  have "json_exact (JObject ?kvs)" "distinct (map fst ?kvs)" "list_all (\<lambda>(_, v). json_sorted v) ?kvs"
    using SiemEvent_to_value_plain [OF ok] by simp_all
  with line assms(1) obtain m where
    m: "json_from_str C line = Inr (JObject m)" "\<forall>k. bt_get m k = map_of ?kvs k"
    unfolding siem_laws_def json_struct_law_def by blast
  have fields: "string_field (JObject m) ''event_id'' = Inr (se_event_id e)"
    "status_field (JObject m) ''status'' = Inr status"
    by (rule optional_field_simps(3,4), simp add: json_get_def m(2))+
  have "json_get (JObject m) ''event'' = Some (SiemEvent_to_value e)"
    by (simp add: json_get_def m(2))
  then show ?thesis
    unfolding siem_record_from_str_def m(1)
    by (simp only: rbind_simps ok_or_simps fields) (simp add: siem_record_of_def)
qed

lemma siem_line_text:
  assumes "siem_laws C" "siem_line C p line"
  shows "utf8_valid (str_bytes line)" "str_trim line \<noteq> []" "\<forall>c \<in> set line. 32 \<le> (of_char c :: nat)"
  using assms unfolding siem_laws_def json_line_laws_def siem_line_def by blast+

lemma parse_siem_lines_of:
  assumes "siem_laws C" "list_all2 (siem_line C) ps ls"
  shows "parse_siem_lines C (map Inr ls) = Inr (map (\<lambda>(e, status). siem_record_of e status) ps)"
  using assms(2)
proof induction
  case Nil
  then show ?case by simp
next
  case (Cons p ps l ls)
  obtain e status where p: "p = (e, status)" by (cases p)
  from siem_line_text [OF assms(1) Cons(1)] siem_record_of_line [OF assms(1) Cons(1) [unfolded p]] Cons.IH
  show ?case by (simp add: p del: rbind_eq_Inr)
qed

definition siem_inv :: "crates \<Rightarrow> disk \<Rightarrow> bool" where
  "siem_inv C d \<longleftrightarrow>
    siem_laws C \<and> disk_io d = sconst Io_Done \<and> (\<exists>ps. disk_holds (siem_line C) ps d)"

definition siem_status :: "crates \<Rightarrow> disk \<Rightarrow> string \<Rightarrow> (SiemEvent \<times> bool) option" where
  "siem_status C d k =
    (case parse_siem_lines C (map Inr (file_lines (file_content d))) of
      Inl _ \<Rightarrow> None
    | Inr rs \<Rightarrow> map_option (\<lambda>(v, status). (projr (SiemEvent_from_value v), status = Delivery_Pending))
        (bt_get (siem_states rs) k))"

lemma siem_holds_lines:
  assumes "siem_laws C" "disk_holds (siem_line C) ps d"
  shows "parse_siem_lines C (map Inr (file_lines (file_content d))) =
    Inr (map (\<lambda>(e, status). siem_record_of e status) ps)"
  using siem_line_text(3) [OF assms(1)]
  by (intro parse_siem_lines_of [OF assms(1)] disk_holds_file_lines [OF assms(2)]) auto

lemma siem_states_of:
  "siem_states (map (\<lambda>(e, status). siem_record_of e status) ps) =
    map (apsnd (apfst SiemEvent_to_value)) (latest (se_event_id \<circ> fst) id ps)"
  unfolding siem_states_def latest_entry [symmetric]
  by (simp add: latest_def fold_map comp_def split_beta siem_record_of_def apfst_def map_prod_def)

lemma siem_status_holds:
  assumes "siem_laws C" "disk_holds (siem_line C) ps d"
  shows "siem_status C d k = map_option (\<lambda>(e, status). (e, status = Delivery_Pending))
    (bt_get (latest (se_event_id \<circ> fst) id ps) k)"
  unfolding siem_status_def siem_holds_lines [OF assms] sum.case siem_states_of
    latest_entry [symmetric] latest_map
  by (simp add: option.map_comp comp_def case_prod_unfold SiemEvent_roundtrip)

lemma siem_append_healthy:
  assumes "siem_inv C d" "siem_storable C e"
  shows "\<exists>d'. append_record C (siem_record_of e status) d = (Inr (), d') \<and> siem_inv C d' \<and>
    siem_status C d' = (siem_status C d)(se_event_id e \<mapsto> (e, status = Delivery_Pending))"
proof -
  from assms(1) obtain ps where laws: "siem_laws C" and io: "disk_io d = sconst Io_Done"
    and ps: "disk_holds (siem_line C) ps d"
    by (auto simp: siem_inv_def)
  obtain line where line: "json_to_string C (siem_record_value (siem_record_of e status)) = Inr line"
    using laws by (auto simp: siem_laws_def json_total_def is_ok_iff)
  define d' where "d' = d\<lparr>disk_file := Some (file_content d @ line @ [newline])\<rparr>"
  have run: "append_record C (siem_record_of e status) d = (Inr (), d')"
    by (simp add: append_record_def append_json_line_healthy [OF io line] d'_def)
  have holds: "disk_holds (siem_line C) (ps @ [(e, status)]) d'"
    by (rule disk_holds_append [OF ps, of _ line])
      (simp_all add: siem_line_def assms(2) line d'_def file_content_def)
  with laws io have "siem_inv C d'" by (auto simp: siem_inv_def d'_def)
  moreover have "siem_status C d' = (siem_status C d)(se_event_id e \<mapsto> (e, status = Delivery_Pending))"
    by (simp add: fun_eq_iff siem_status_holds [OF laws holds] siem_status_holds [OF laws ps]
        latest_simps bt_get_insert)
  ultimately show ?thesis using run by blast
qed

lemma siem_status_key:
  assumes "siem_inv C d" "siem_status C d k = Some (e, b)"
  shows "se_event_id e = k" "siem_storable C e"
proof -
  from assms(1) obtain ps ls where laws: "siem_laws C" and ls: "list_all2 (siem_line C) ps ls"
    and ps: "disk_holds (siem_line C) ps d"
    by (auto simp: siem_inv_def disk_holds_def)
  obtain status where "bt_get (latest (se_event_id \<circ> fst) id ps) k = Some (e, status)"
    using assms(2) by (auto simp: siem_status_holds [OF laws ps])
  from latest_in [OF this] have p: "(e, status) \<in> set ps" "se_event_id e = k" by auto
  then obtain line where "siem_line C (e, status) line"
    using ls by (metis in_set_conv_nth list_all2_conv_all_nth)
  with p show "se_event_id e = k" "siem_storable C e" by (auto simp: siem_line_def)
qed

lemma siem_pending_healthy:
  assumes "siem_inv C d"
  shows "\<exists>evs. siem_pending_events C d = (Inr evs, d) \<and>
    (\<forall>e. e \<in> set evs \<longleftrightarrow> siem_status C d (se_event_id e) = Some (e, True)) \<and>
    distinct (map se_event_id evs)"
proof -
  from assms obtain ps where laws: "siem_laws C" and io: "disk_io d = sconst Io_Done"
    and ps: "disk_holds (siem_line C) ps d"
    by (auto simp: siem_inv_def)
  note st = siem_status_holds [OF laws ps]
  let ?L = "latest (se_event_id \<circ> fst) id ps"
  let ?rs = "map (\<lambda>(e, status). siem_record_of e status) ps"
  have "pending_of (siem_states ?rs) = map SiemEvent_to_value (pending_of ?L)"
    by (simp add: siem_states_of pending_of_map)
  then have parsed: "try_map SiemEvent_from_value (pending_of (siem_states ?rs)) = Inr (pending_of ?L)"
    by (simp add: try_map_eq_Inr list_all2_conv_all_nth SiemEvent_roundtrip)
  have run: "siem_pending_events C d = (Inr (pending_of ?L), d)"
  proof (cases "disk_file d")
    case None
    then have "ps = []"
      using siem_holds_lines [OF laws ps] by (simp add: file_content_def file_lines_def)
    with None show ?thesis by (simp add: siem_pending_events_def latest_simps pending_of_def)
  next
    case (Some content)
    then show ?thesis
      using io siem_holds_lines [OF laws ps] parsed
      by (simp add: siem_pending_events_def sbind_def smap_err_def io_healthy)
  qed
  have keys: "se_event_id e = k" if "bt_get ?L k = Some (e, status)" for k e status
    using siem_status_key(1) [OF assms, of k e] that by (simp add: st)
  have "e \<in> set (pending_of ?L) \<longleftrightarrow> siem_status C d (se_event_id e) = Some (e, True)" for e
    using keys by (auto simp: pending_of_iff [OF latest_wf] st)
  moreover have "distinct (map se_event_id (pending_of ?L))"
    by (rule pending_of_distinct [OF latest_wf]) (rule keys)
  ultimately show ?thesis using run by blast
qed

interpretation siem_buffer: outbox LocalSiemFallbackBuffer siem_inv siem_storable "\<lambda>_. se_event_id"
    siem_status
proof unfold_locales
  fix C d e
  assume inv: "siem_inv C d" and e: "siem_storable C e"
  show "\<exists>d'. st_append_pending (LocalSiemFallbackBuffer C) e d = (Inr (), d') \<and> siem_inv C d' \<and>
      siem_status C d' = (siem_status C d)(se_event_id e \<mapsto> (e, True))"
    using siem_append_healthy [OF inv e, of Delivery_Pending]
    by (simp add: LocalSiemFallbackBuffer_def siem_append_pending_def siem_record_of_def)
  show "\<exists>d'. st_mark_sent (LocalSiemFallbackBuffer C) e d = (Inr (), d') \<and> siem_inv C d' \<and>
      siem_status C d' = (siem_status C d)(se_event_id e \<mapsto> (e, False))"
    using siem_append_healthy [OF inv e, of Delivery_Sent]
    by (simp add: LocalSiemFallbackBuffer_def siem_mark_sent_def siem_record_of_def)
next
  fix C d
  assume inv: "siem_inv C d"
  show "\<exists>evs d'. st_pending_events (LocalSiemFallbackBuffer C) d = (Inr evs, d') \<and> siem_inv C d' \<and>
      siem_status C d' = siem_status C d \<and>
      (\<forall>e. e \<in> set evs \<longleftrightarrow> siem_status C d (se_event_id e) = Some (e, True)) \<and>
      distinct (map se_event_id evs) \<and> (\<forall>e \<in> set evs. siem_storable C e)"
    using siem_pending_healthy [OF inv] siem_status_key(2) [OF inv] inv
    by (auto simp: LocalSiemFallbackBuffer_def)
next
  fix C d k e b
  assume "siem_inv C d" "siem_status C d k = Some (e, b)"
  then show "se_event_id e = k" by (rule siem_status_key(1))
qed


section \<open>The forwarder over any lawful buffer\<close>

locale siem_outbox = outbox store inv storable key states
  for store :: "'c \<Rightarrow> ('d, SiemEvent, 'x) outbox_store" and inv storable key states
begin

lemma forward_cases:
  assumes "inv c (fw_buffer f)" "storable c e" "forward (store c) A now e f = (out, f')"
  shows "(out = SentDirect \<and> A e (fw_sink f) = (Inr (), fw_sink f') \<and> fw_buffer f' = fw_buffer f \<and>
      failure_since (fw_status f') = None) \<or>
    (\<exists>error. out = Buffered (sink_error_code error) \<and> A e (fw_sink f) = (Inl error, fw_sink f') \<and>
      inv c (fw_buffer f') \<and>
      states c (fw_buffer f') = (states c (fw_buffer f))(key c e \<mapsto> (e, True)) \<and>
      failure_since (fw_status f') = failure_since (record_failure now (fw_status f)))"
proof -
  obtain d where d: "st_append_pending (store c) e (fw_buffer f) = (Inr (), d)" "inv c d"
    "states c d = (states c (fw_buffer f))(key c e \<mapsto> (e, True))"
    using append_pending [OF assms(1,2)] by blast
  with assms(3) show ?thesis
    by (cases "A e (fw_sink f)"; cases "fst (A e (fw_sink f))")
      (auto simp: forward_def handle_send_failure_def Let_def clear_status_def)
qed

lemma resend_loop_keeps:
  assumes "inv c (fw_buffer f)" "\<forall>e \<in> set evs. storable c e"
    and contract: "\<And>e s r s'. A e s = (r, s') \<Longrightarrow> accepted s \<subseteq> accepted s' \<and>
      (r = Inr () \<longrightarrow> e \<in> accepted s')"
    and "siem_resend_loop (store c) A sent failed evs f = (n, f')"
  shows "inv c (fw_buffer f') \<and> accepted (fw_sink f) \<subseteq> accepted (fw_sink f') \<and>
    (\<forall>k e b. states c (fw_buffer f') k = Some (e, b) \<longrightarrow>
      (\<exists>b'. states c (fw_buffer f) k = Some (e, b')) \<or> e \<in> set evs) \<and>
    (\<forall>k e. states c (fw_buffer f) k = Some (e, True) \<longrightarrow> k = key c e \<longrightarrow>
      (\<forall>e' \<in> set evs. key c e' = k \<longrightarrow> e' = e) \<longrightarrow>
      states c (fw_buffer f') k = Some (e, True) \<or> e \<in> accepted (fw_sink f'))"
  using assms(1,2,4)
proof (induction evs arbitrary: f sent failed)
  case Nil
  then show ?case by auto
next
  case (Cons e evs)
  obtain r1 s1 where A: "A e (fw_sink f) = (r1, s1)" by (cases "A e (fw_sink f)")
  note c = contract [OF A]
  show ?case
  proof (cases r1)
    case (Inl error)
    with A Cons.prems(3)
    have "siem_resend_loop (store c) A sent (failed + 1) evs (f\<lparr>fw_sink := s1\<rparr>) = (n, f')" by simp
    from Cons.IH [OF _ _ this] Cons.prems(1,2) c show ?thesis by fastforce
  next
    case (Inr u)
    obtain d1 where d1: "st_mark_sent (store c) e (fw_buffer f) = (Inr (), d1)" "inv c d1"
      "states c d1 = (states c (fw_buffer f))(key c e \<mapsto> (e, False))"
      using mark_sent [OF Cons.prems(1)] Cons.prems(2) by auto
    have loop: "siem_resend_loop (store c) A (sent + 1) failed evs
        (f\<lparr>fw_sink := s1, fw_buffer := d1\<rparr>) = (n, f')"
      using Cons.prems(3) A Inr d1(1) by simp
    have "e \<in> accepted s1" using c Inr by simp
    then show ?thesis
      using Cons.IH [OF _ _ loop] Cons.prems(2) c d1(2,3) by (auto split: if_splits)
  qed
qed

lemma resend_keeps:
  assumes inv: "inv c (fw_buffer f)"
    and contract: "\<And>e s r s'. A e s = (r, s') \<Longrightarrow> accepted s \<subseteq> accepted s' \<and>
      (r = Inr () \<longrightarrow> e \<in> accepted s')"
    and run: "siem_resend_pending (store c) A f = (n, f')"
  shows "inv c (fw_buffer f') \<and> accepted (fw_sink f) \<subseteq> accepted (fw_sink f') \<and>
    (\<forall>k e b. states c (fw_buffer f') k = Some (e, b) \<longrightarrow> (\<exists>b'. states c (fw_buffer f) k = Some (e, b'))) \<and>
    (\<forall>k e. states c (fw_buffer f) k = Some (e, True) \<longrightarrow>
      states c (fw_buffer f') k = Some (e, True) \<or> e \<in> accepted (fw_sink f'))"
proof -
  obtain evs d where evs: "st_pending_events (store c) (fw_buffer f) = (Inr evs, d)" "inv c d"
    "states c d = states c (fw_buffer f)"
    "\<forall>e. e \<in> set evs \<longleftrightarrow> states c (fw_buffer f) (key c e) = Some (e, True)"
    "\<forall>e \<in> set evs. storable c e"
    by (rule pendingE [OF inv])
  obtain m f1 where loop: "siem_resend_loop (store c) A 0 0 evs (f\<lparr>fw_buffer := d\<rparr>) = (m, f1)"
    by fastforce
  have f': "fw_buffer f' = fw_buffer f1" "fw_sink f' = fw_sink f1"
    using run evs(1) loop by (auto simp: siem_resend_pending_def split: prod.splits)
  have "inv c (fw_buffer (f\<lparr>fw_buffer := d\<rparr>))" using evs(2) by simp
  note keeps = resend_loop_keeps [where A = A and accepted = accepted, OF this evs(5) contract loop]
  have same: "e' = e" if "states c (fw_buffer f) k = Some (e, b)" "e' \<in> set evs" "key c e' = k"
    for k e e' b
    using that evs(4) by auto
  have "states c (fw_buffer f') k = Some (e, True) \<or> e \<in> accepted (fw_sink f')"
    if "states c (fw_buffer f) k = Some (e, True)" for k e
    using keeps that same [OF that] states_keys [OF inv that] evs(3) f' by auto
  moreover have "\<exists>b'. states c (fw_buffer f) k = Some (e, b')"
    if "states c (fw_buffer f') k = Some (e, b)" for k e b
  proof -
    have "(\<exists>b'. states c (fw_buffer f) k = Some (e, b')) \<or> e \<in> set evs" "inv c (fw_buffer f')"
      using keeps that evs(3) f' by auto
    with states_keys [OF _ that] evs(4) show ?thesis by auto
  qed
  ultimately show ?thesis using keeps f' by simp
qed

lemma resend_loop_drains:
  assumes "inv c (fw_buffer f)" "\<forall>e \<in> set evs. storable c e" "\<And>e s. \<exists>s'. A e s = (Inr (), s')"
  shows "\<exists>f'. siem_resend_loop (store c) A sent failed evs f = ((sent + length evs, failed), f') \<and>
    inv c (fw_buffer f') \<and>
    (\<forall>k e. states c (fw_buffer f') k = Some (e, True) \<longrightarrow>
      states c (fw_buffer f) k = Some (e, True) \<and> k \<notin> key c ` set evs)"
  using assms(1,2)
proof (induction evs arbitrary: f sent)
  case Nil
  then show ?case by auto
next
  case (Cons e evs)
  obtain s1 where A: "A e (fw_sink f) = (Inr (), s1)" using assms(3) by blast
  obtain d1 where d1: "st_mark_sent (store c) e (fw_buffer f) = (Inr (), d1)" "inv c d1"
    "states c d1 = (states c (fw_buffer f))(key c e \<mapsto> (e, False))"
    using mark_sent [OF Cons.prems(1)] Cons.prems(2) by auto
  from Cons.IH [of "f\<lparr>fw_sink := s1, fw_buffer := d1\<rparr>" "sent + 1"] Cons.prems(2) d1(2) obtain f' where
    "siem_resend_loop (store c) A (sent + 1) failed evs (f\<lparr>fw_sink := s1, fw_buffer := d1\<rparr>) =
      ((sent + 1 + length evs, failed), f')" "inv c (fw_buffer f')"
    "\<forall>k e. states c (fw_buffer f') k = Some (e, True) \<longrightarrow>
      states c d1 k = Some (e, True) \<and> k \<notin> key c ` set evs"
    by auto
  with A d1 show ?case by (intro exI [of _ f']) (auto split: if_splits)
qed

lemma resend_drains:
  assumes "inv c (fw_buffer f)" "\<And>e s. \<exists>s'. A e s = (Inr (), s')"
    "states c (fw_buffer f) k = Some (e, True)"
  shows "\<exists>n f'. siem_resend_pending (store c) A f =
      (\<lparr>ss_attempted = n, ss_sent = n, ss_failed = 0\<rparr>, f') \<and> inv c (fw_buffer f') \<and>
    (\<forall>k e. states c (fw_buffer f') k \<noteq> Some (e, True)) \<and> failure_since (fw_status f') = None"
proof -
  obtain evs d where evs: "st_pending_events (store c) (fw_buffer f) = (Inr evs, d)" "inv c d"
    "states c d = states c (fw_buffer f)"
    "\<forall>e. e \<in> set evs \<longleftrightarrow> states c (fw_buffer f) (key c e) = Some (e, True)"
    "\<forall>e \<in> set evs. storable c e"
    by (rule pendingE [OF assms(1)])
  from resend_loop_drains [where A = A, OF _ evs(5) assms(2), of "f\<lparr>fw_buffer := d\<rparr>" 0 0] evs(2)
  obtain f' where run: "siem_resend_loop (store c) A 0 0 evs (f\<lparr>fw_buffer := d\<rparr>) = ((length evs, 0), f')"
    "inv c (fw_buffer f')"
    "\<forall>k e. states c (fw_buffer f') k = Some (e, True) \<longrightarrow> states c d k = Some (e, True) \<and> k \<notin> key c ` set evs"
    by auto
  have "states c (fw_buffer f') k \<noteq> Some (e, True)" for k e
    using run(3) evs(3,4) states_keys [OF assms(1)] by (metis image_eqI)
  moreover have "evs \<noteq> []" using assms(3) evs(4) states_keys [OF assms(1,3)] by auto
  ultimately show ?thesis using run(1,2) evs(1)
    by (auto simp: siem_resend_pending_def clear_status_def)
qed

end

interpretation siem_forwarder: siem_outbox LocalSiemFallbackBuffer siem_inv siem_storable
    "\<lambda>_. se_event_id" siem_status
  by unfold_locales


section \<open>Runs of the forwarder\<close>

text \<open>Events are forwarded and buffered ones resent, in any order and with any answers of the sink;
  \<open>F\<close> collects the forwarded events.  An event forwarded under the identifier of another one is
  that event again.\<close>

inductive siem_run ::
    "crates \<Rightarrow> 's siem_sink \<Rightarrow> ('s, disk) SiemForwarder \<Rightarrow> SiemEvent set \<Rightarrow> bool" for C A where
  siem_start: "disk_file (fw_buffer f) = None \<Longrightarrow> disk_io (fw_buffer f) = sconst Io_Done \<Longrightarrow>
    siem_run C A f {}"
| siem_forward: "siem_run C A f F \<Longrightarrow> siem_storable C e \<Longrightarrow>
    (\<forall>e' \<in> F. se_event_id e' = se_event_id e \<longrightarrow> e' = e) \<Longrightarrow>
    forward (LocalSiemFallbackBuffer C) A now e f = (out, f') \<Longrightarrow> siem_run C A f' (insert e F)"
| siem_resend: "siem_run C A f F \<Longrightarrow>
    siem_resend_pending (LocalSiemFallbackBuffer C) A f = (n, f') \<Longrightarrow> siem_run C A f' F"

lemma siem_run_inv:
  assumes "siem_run C A f F" "siem_laws C"
    and contract: "\<And>e s r s'. A e s = (r, s') \<Longrightarrow> accepted s \<subseteq> accepted s' \<and>
      (r = Inr () \<longrightarrow> e \<in> accepted s')"
  shows "siem_inv C (fw_buffer f) \<and>
    (\<forall>k e b. siem_status C (fw_buffer f) k = Some (e, b) \<longrightarrow> e \<in> F) \<and>
    (\<forall>e \<in> F. e \<in> accepted (fw_sink f) \<or>
      siem_status C (fw_buffer f) (se_event_id e) = Some (e, True))"
  using assms(1)
proof induction
  case (siem_start f)
  then have "disk_holds (siem_line C) [] (fw_buffer f)" by (simp add: disk_holds_Nil file_content_def)
  with siem_start assms(2) siem_status_holds [OF assms(2) this] show ?case
    by (auto simp: siem_inv_def latest_simps bt_get_def)
next
  case (siem_forward f F e now out f')
  then have "siem_inv C (fw_buffer f)" by blast
  from siem_forwarder.forward_cases [OF this siem_forward(2,4)] show ?case
  proof (elim disjE exE conjE)
    assume "A e (fw_sink f) = (Inr (), fw_sink f')" "fw_buffer f' = fw_buffer f"
    with siem_forward.IH contract [of e "fw_sink f" "Inr ()" "fw_sink f'"] show ?thesis by auto
  next
    fix error
    assume "A e (fw_sink f) = (Inl error, fw_sink f')" "siem_inv C (fw_buffer f')"
      "siem_status C (fw_buffer f') = (siem_status C (fw_buffer f))(se_event_id e \<mapsto> (e, True))"
    with siem_forward.IH siem_forward(3) contract [of e "fw_sink f" "Inl error" "fw_sink f'"]
    show ?thesis by (auto split: if_splits)
  qed
next
  case (siem_resend f F n f')
  then have "siem_inv C (fw_buffer f)" by blast
  from siem_forwarder.resend_keeps [where A = A and accepted = accepted, OF this contract siem_resend(2)]
    siem_resend.IH show ?case by (meson subsetD)
qed




section \<open>How long an outage has lasted\<close>

fun forward_all ::
    "('d, SiemEvent, 'x) outbox_store \<Rightarrow> 's siem_sink \<Rightarrow> (datetime \<times> SiemEvent) list \<Rightarrow>
      ('s, 'd) SiemForwarder \<Rightarrow> ('s, 'd) SiemForwarder" where
  "forward_all buffer A [] f = f"
| "forward_all buffer A ((now, e) # rest) f =
    forward_all buffer A rest (snd (forward buffer A now e f))"

lemma forward_fails:
  assumes "\<And>e s. \<exists>x s'. A e s = (Inl x, s')"
  shows "fw_status (snd (forward buffer A now e f)) = record_failure now (fw_status f)"
  using assms [of e "fw_sink f"]
  by (auto simp: forward_def handle_send_failure_def Let_def split: prod.splits sum.splits)

lemma forward_all_fails:
  assumes "\<And>e s. \<exists>x s'. A e s = (Inl x, s')"
  shows "failure_since (fw_status f) = Some since \<Longrightarrow>
    failure_since (fw_status (forward_all buffer A evs f)) = Some since"
  by (induction evs arbitrary: f) (auto simp: forward_fails [where A = A, OF assms] record_failure_def)



section \<open>What leaves for the SIEM\<close>

definition unsafe_key :: "string \<Rightarrow> bool" where
  "unsafe_key k \<longleftrightarrow> to_ascii_lowercase (str_trim k) \<in>
    set FORBIDDEN_AUDIT_METADATA_KEYS \<union> set FORBIDDEN_LEDGER_PAYLOAD_KEYS"

lemma same_forbidden_keys: "FORBIDDEN_LEDGER_PAYLOAD_KEYS = FORBIDDEN_AUDIT_METADATA_KEYS"
  by (simp add: FORBIDDEN_LEDGER_PAYLOAD_KEYS_def FORBIDDEN_AUDIT_METADATA_KEYS_def)

lemma unsafe_key_iff:
  "unsafe_key k \<longleftrightarrow> is_forbidden_metadata_key k" "unsafe_key k \<longleftrightarrow> is_forbidden_payload_key k"
  by (simp_all add: unsafe_key_def is_forbidden_metadata_key_def is_forbidden_payload_key_def
      list_ex_iff same_forbidden_keys)

definition siem_ledger_keys :: "string list" where
  "siem_ledger_keys =
    [''event_family'', ''entry_hash'', ''ledger_entry_id'', ''payload'', ''previous_entry_hash'',
     ''sequence_no'', ''signature_algorithm'', ''signature_key_version'', ''source_event_id'',
     ''target_secret_version_id'']"

lemma siem_keys_safe:
  assumes "k \<in> set SIEM_EVENT_TOP_LEVEL_KEYS \<union> set siem_ledger_keys"
  shows "\<not> unsafe_key k"
proof -
  have "list_all snake_case (SIEM_EVENT_TOP_LEVEL_KEYS @ siem_ledger_keys)"
    by (simp add: SIEM_EVENT_TOP_LEVEL_KEYS_def siem_ledger_keys_def snake_case_def)
  with assms have "to_ascii_lowercase (str_trim k) = k"
    by (intro snake_case_compared) (auto simp: list_all_iff)
  with assms show ?thesis
    by (auto simp: unsafe_key_def same_forbidden_keys FORBIDDEN_AUDIT_METADATA_KEYS_def
        SIEM_EVENT_TOP_LEVEL_KEYS_def siem_ledger_keys_def)
qed

lemma json_object_keys: "set (json_keys (json_object kvs)) \<subseteq> set (json_keys (JObject kvs))"
  using set_bt_of_list [of kvs] by (auto simp: json_object_def)

lemma json_opt_keys [simp]: "json_keys (json_opt v) = []" "json_keys (json_opt_u32 n) = []"
  by (simp_all add: json_opt_def json_opt_u32_def json_uint_def split: option.split)

lemma SiemEvent_keys:
  "set (json_keys (SiemEvent_to_value e)) = set SIEM_EVENT_TOP_LEVEL_KEYS \<union> set (json_keys (se_metadata e))"
  by (auto simp: SiemEvent_to_value_def SIEM_EVENT_TOP_LEVEL_KEYS_def json_uint_def)

lemma AuditMetadata_keys_safe:
  assumes "AuditMetadata_wf C m" "k \<in> set (json_keys (AuditMetadata_as_value m))"
  shows "\<not> unsafe_key k"
proof -
  from assms(1) obtain object where
    "m = AuditMetadata (JObject object)" "reject_forbidden_metadata_keys (JObject object) = Inr ()"
    by (auto simp: AuditMetadata_wf_def dest: AuditMetadata_from_object_Inr(3))
  with assms(2) show ?thesis
    by (auto simp: unsafe_key_iff(1) metadata_scan.scan_ok_iff
        simp del: reject_forbidden_metadata_keys.simps json_keys.simps)
qed

lemma LedgerPayload_keys_safe:
  assumes "LedgerPayload_new C t v = Inr p" "k \<in> set (json_keys (LedgerPayload_as_value p))"
  shows "\<not> unsafe_key k"
  using assms
  by (auto simp: LedgerPayload_new_Inr LedgerPayload_as_value_def unsafe_key_iff(2)
      payload_scan.scan_ok_iff simp del: reject_forbidden_payload_keys.simps json_keys.simps)

text \<open>
  C21 --- What leaves for the SIEM is safe.  The serialised event made from an audit event whose
  metadata was accepted, and the one made from a ledger entry whose payload was accepted, have no
  key at any depth that is, up to case and surrounding blanks, one of the forbidden names.
\<close>

theorem siem_events_are_safe:
  assumes "AuditMetadata_wf C (ev_metadata_json event)" "LedgerPayload_new C t v = Inr (le_payload entry)"
  shows "\<forall>k \<in> set (json_keys (SiemEvent_to_value (from_audit_event C event))) \<union>
      set (json_keys (SiemEvent_to_value (from_signed_ledger_entry C entry))).
    to_ascii_lowercase (str_trim k) \<notin> set FORBIDDEN_AUDIT_METADATA_KEYS \<union> set FORBIDDEN_LEDGER_PAYLOAD_KEYS"
proof -
  have "\<not> unsafe_key k" if "k \<in> set (json_keys (se_metadata (from_audit_event C event)))" for k
    using that AuditMetadata_keys_safe [OF assms(1)] by (simp add: from_audit_event_def)
  moreover have "\<not> unsafe_key k" if k: "k \<in> set (json_keys (se_metadata (from_signed_ledger_entry C entry)))" for k
  proof -
    from k have "k \<in> set siem_ledger_keys \<or>
      k \<in> set (json_keys (LedgerPayload_as_value (le_payload entry)))"
      unfolding from_signed_ledger_entry_def SiemEvent.select_convs
      by (auto simp: json_uint_def siem_ledger_keys_def dest!: subsetD [OF json_object_keys])
    with siem_keys_safe LedgerPayload_keys_safe [OF assms(2)] show ?thesis by blast
  qed
  ultimately show ?thesis
    using siem_keys_safe unfolding SiemEvent_keys unsafe_key_def by blast
qed


section \<open>Examples\<close>

definition sink_down :: "unit siem_sink" where
  "sink_down e s = (Inl (BackendFailed ''siem_timeout''), s)"

definition fresh_forwarder :: "(unit, disk) SiemForwarder" where
  "fresh_forwarder = \<lparr>fw_sink = (), fw_buffer = fresh_disk, fw_status = SiemForwarderStatus_new\<rparr>"

definition sample_siem_event :: SiemEvent where
  "sample_siem_event = from_audit_event sample_crates sample_audit_event"

lemma sample_siem_laws: "siem_laws sample_crates"
proof -
  have "json_struct_law sample_crates"
    unfolding json_struct_law_def
    by (auto simp: sample_json_roundtrip bt_get_def simp del: jenc.simps)
  then show ?thesis by (simp add: siem_laws_def sample_laws json_total_def)
qed

lemma sample_siem_storable: "siem_storable sample_crates sample_siem_event"
  by (simp add: siem_storable_def sample_siem_event_def from_audit_event_def sample_audit_event_def
      timed_metadata_def bt_wf_def)

lemma sample_siem_run: "\<exists>f. siem_run sample_crates sink_down f {sample_siem_event}"
proof -
  obtain out f where "forward (LocalSiemFallbackBuffer sample_crates) sink_down (7, 0)
      sample_siem_event fresh_forwarder = (out, f)" by fastforce
  from siem_forward [OF siem_start sample_siem_storable _ this] show ?thesis
    by (auto simp: fresh_forwarder_def fresh_disk_def)
qed

lemma sample_pending:
  assumes "siem_run sample_crates sink_down f {sample_siem_event}"
  shows "siem_pending_events sample_crates (fw_buffer f) \<noteq> (Inr [], fw_buffer f)"
proof -
  have "siem_inv sample_crates (fw_buffer f) \<and>
      siem_status sample_crates (fw_buffer f) (se_event_id sample_siem_event) = Some (sample_siem_event, True)"
    using siem_run_inv [OF assms sample_siem_laws, where accepted = "\<lambda>_. {}"]
    by (simp add: sink_down_def)
  then show ?thesis using siem_pending_healthy [of sample_crates "fw_buffer f"] by force
qed




theorem siem_events_are_safe_witness:
  "list_all (\<lambda>k. to_ascii_lowercase (str_trim k) \<notin> set FORBIDDEN_AUDIT_METADATA_KEYS)
    (json_keys (SiemEvent_to_value sample_siem_event))"
  using siem_events_are_safe [of sample_crates sample_audit_event Entry_KeyRotationStarted sample_payload
      sample_entry] sample_payload_ok built_event_valid [OF sample_audit_event_built]
  by (auto simp: sample_siem_event_def list_all_iff sample_ledger_payload_def
      simp del: json_keys.simps)

end
