(* ===== verification/Sql_Checks.thy ===== *)
theory Sql_Checks
  imports Ledger_System Audit_Event
begin

text \<open>
  The check functions of the database schema (\<open>supabase/migrations/\<close>, each in its last version):
  which metadata an audit event and which payload a ledger entry may carry.  They repeat rules that
  the service checks in Rust; what is shown here is how the two sets of rules relate.  What
  PostgreSQL itself computes is the parameter \<^typ>\<open>'a\<close> of type \<open>postgres\<close>.
\<close>


section \<open>PostgreSQL\<close>

text \<open>
  Casts between text and \<open>timestamptz\<close> (microseconds since the epoch), \<open>to_char\<close> with whole seconds,
  the text of a JSON number that is no integer, the stored size of a JSON value, case folding in the
  locale of the database, and the setting \<open>mipsorcu.audit_metadata_allowlist_mode\<close>.
\<close>

record postgres =
  pg_timestamptz :: "string \<Rightarrow> int option"
  pg_timestamptz_text :: "int \<Rightarrow> string"
  pg_to_char_seconds :: "int \<Rightarrow> string"
  pg_float_text :: "64 word \<Rightarrow> string"
  pg_column_size :: "json \<Rightarrow> nat"
  pg_lower :: "string \<Rightarrow> string"
  pg_allowlist_setting :: "string option"

text \<open>The operator \<open>#>> '{}'\<close> on a scalar: the text of a string or number.\<close>

definition jsonb_text :: "postgres \<Rightarrow> json \<Rightarrow> string" where
  "jsonb_text P v =
    (case v of
      JString s \<Rightarrow> s
    | JNumber (PosInt n) \<Rightarrow> dec_digits (unat n)
    | JNumber (NegInt i) \<Rightarrow> if i < 0 then CHR ''-'' # dec_digits (nat (- i)) else dec_digits (nat i)
    | JNumber (Float w) \<Rightarrow> pg_float_text P w
    | JBool b \<Rightarrow> if b then ''true'' else ''false''
    | _ \<Rightarrow> [])"

definition is_json_string :: "json \<Rightarrow> bool" where
  "is_json_string v \<longleftrightarrow> (case v of JString _ \<Rightarrow> True | _ \<Rightarrow> False)"

definition is_json_number :: "json \<Rightarrow> bool" where
  "is_json_number v \<longleftrightarrow> (case v of JNumber _ \<Rightarrow> True | _ \<Rightarrow> False)"

text \<open>The regular expressions of the schema: \<open>[0-9]+\<close>, sixty-four lower-case hexadecimal digits,
  thirty-six hexadecimal digits or hyphens, a month, and a UTC time.\<close>

definition digits_text :: "string \<Rightarrow> bool" where
  "digits_text s \<longleftrightarrow> s \<noteq> [] \<and> list_all is_ascii_digit s"

definition hex64_text :: "string \<Rightarrow> bool" where
  "hex64_text s \<longleftrightarrow> length s = 64 \<and> list_all is_lower_hex s"

definition uuid_text :: "string \<Rightarrow> bool" where
  "uuid_text s \<longleftrightarrow> length s = 36 \<and>
    list_all (\<lambda>c. c = CHR ''-'' \<or> is_lower_hex c \<or> is_lower_hex (ascii_lower c)) s"

definition month_text :: "string \<Rightarrow> bool" where
  "month_text s \<longleftrightarrow> length s = 7 \<and> list_all is_ascii_digit (take 4 s) \<and> s ! 4 = CHR ''-'' \<and>
    list_all is_ascii_digit (drop 5 s) \<and> 1 \<le> dec_value (drop 5 s) \<and> dec_value (drop 5 s) \<le> 12"

definition utc_text :: "string \<Rightarrow> bool" where
  "utc_text s \<longleftrightarrow>
    list_all2 (\<lambda>p c. if p = CHR ''d'' then is_ascii_digit c else c = p)
      ''dddd-dd-ddTdd:dd:dd'' (take 19 s) \<and>
    (case drop 19 s of
      [] \<Rightarrow> False
    | c # r \<Rightarrow> c = CHR ''Z'' \<and> r = [] \<or>
        c = CHR ''.'' \<and> r \<noteq> [] \<and> last r = CHR ''Z'' \<and> digits_text (butlast r))"

definition sql_short_text :: "postgres \<Rightarrow> nat \<Rightarrow> json \<Rightarrow> bool" where
  "sql_short_text P limit v \<longleftrightarrow>
    is_json_string v \<and> sql_btrim (jsonb_text P v) \<noteq> [] \<and> sql_length (jsonb_text P v) \<le> limit"

text \<open>A number whose text is decimal digits; the cast to \<open>bigint\<close> fails beyond its range.\<close>

definition sql_count :: "postgres \<Rightarrow> json \<Rightarrow> bool" where
  "sql_count P v \<longleftrightarrow> is_json_number v \<and> digits_text (jsonb_text P v)"

definition sql_positive :: "postgres \<Rightarrow> json \<Rightarrow> bool" where
  "sql_positive P v \<longleftrightarrow>
    sql_count P v \<and> 0 < dec_value (jsonb_text P v) \<and> dec_value (jsonb_text P v) < 2 ^ 63"


section \<open>Vocabularies\<close>

definition incident_severity_allowed :: "string \<Rightarrow> bool" where
  "incident_severity_allowed p_severity \<longleftrightarrow> p_severity \<in> {''critical'', ''high'', ''medium'', ''low''}"

definition incident_notification_result_allowed :: "string \<Rightarrow> bool" where
  "incident_notification_result_allowed p_notification_result \<longleftrightarrow>
    p_notification_result \<in> {''sent'', ''failed'', ''suppressed'', ''not_configured''}"

definition sql_incident_type_allowed :: "string \<Rightarrow> bool" where
  "sql_incident_type_allowed p_incident_type \<longleftrightarrow>
    p_incident_type \<in>
     {''hash_chain_mismatch'', ''signature_mismatch'', ''monthly_digest_mismatch'',
      ''digest_timestamping_mismatch'', ''archive_export_mismatch'', ''sequence_gap'',
      ''unknown_signature_key'', ''non_auditor_ledger_read'', ''ledger_secret_leak_suspected'',
      ''siem_long_failure'', ''audit_ui_forbidden_operation''}"

definition audit_metadata_source_event_at_is_valid :: "postgres \<Rightarrow> json \<Rightarrow> bool" where
  "audit_metadata_source_event_at_is_valid P metadata_json =
    (case metadata_json of
      JObject object \<Rightarrow>
        (case bt_get object ''source_event_at'' of
          None \<Rightarrow> True
        | Some (JString text) \<Rightarrow> utc_text text \<and> pg_timestamptz P text \<noteq> None
        | Some _ \<Rightarrow> False)
    | _ \<Rightarrow> False)"

definition sql_time :: "postgres \<Rightarrow> json \<Rightarrow> bool" where
  "sql_time P v \<longleftrightarrow> is_json_string v \<and>
    audit_metadata_source_event_at_is_valid P
      (JObject [(''source_event_at'', JString (jsonb_text P v))])"

definition sql_ledger_source_event_at_is_valid :: "postgres \<Rightarrow> string \<Rightarrow> bool" where
  "sql_ledger_source_event_at_is_valid P source_event_at =
    (if \<not> utc_text source_event_at then False
     else
     case pg_timestamptz P source_event_at of
       None \<Rightarrow> False
     | Some parsed \<Rightarrow>
         pg_to_char_seconds P parsed = source_event_at \<or> source_event_at ! 19 = CHR ''.'')"


section \<open>Ledger payloads\<close>

definition sql_ledger_entry_type_allowed :: "string \<Rightarrow> bool" where
  "sql_ledger_entry_type_allowed entry_type \<longleftrightarrow>
    entry_type \<in> set
     [''secret_created'', ''secret_version_created'', ''secret_decrypted'', ''secret_version_purged'',
      ''integrity_check_completed'', ''restore_test_completed'', ''key_rotation_started'',
      ''key_rotation_reencrypted'', ''key_rotation_completed'', ''key_rotation_aborted'',
      ''signature_key_created'', ''signature_key_activated'', ''signature_key_retired'',
      ''ledger_verified'', ''ledger_verification_failed'', ''audit_fallback_resent'',
      ''monthly_digest'', ''archive_exported'', ''digest_timestamped'', ''scheduler_job_completed'',
      ''incident_detected'']"

definition ledger_payload_allowed_keys :: "string \<Rightarrow> string list option" where
  "ledger_payload_allowed_keys entry_type = map_of
    [(''secret_created'', [''algorithm'', ''classification'', ''key_version'', ''version'']),
     (''secret_version_created'', [''algorithm'', ''classification'', ''key_version'', ''version'']),
     (''secret_decrypted'', [''algorithm'', ''key_version'', ''version'']),
     (''secret_version_purged'', [''key_version'', ''retention_limit'', ''version'']),
     (''integrity_check_completed'', [''checked_audit_event_count'', ''checked_secret_count'',
       ''checked_secret_version_count'', ''duration_ms'', ''violation_count'']),
     (''restore_test_completed'',
       [''duration_ms'', ''failure_count'', ''sample_count'', ''success_count'', ''trigger'']),
     (''key_rotation_started'', [''new_key_version'', ''old_key_version'']),
     (''key_rotation_reencrypted'', [''batch_size'', ''new_key_version'', ''old_key_version'',
       ''processed_count'', ''remaining_count'']),
     (''key_rotation_completed'', [''new_key_version'', ''old_key_version'', ''remaining_count'']),
     (''key_rotation_aborted'', [''new_key_version'', ''old_key_version'', ''reason_code'']),
     (''signature_key_created'', [''created_at'', ''public_key_fingerprint'', ''signature_key_version'']),
     (''signature_key_activated'',
       [''activated_at'', ''public_key_fingerprint'', ''signature_key_version'']),
     (''signature_key_retired'', [''public_key_fingerprint'', ''retired_at'', ''signature_key_version'']),
     (''ledger_verified'', [''checked_count'', ''duration_ms'', ''end_sequence_no'', ''start_sequence_no'']),
     (''ledger_verification_failed'',
       [''end_sequence_no'', ''error_code'', ''failed_count'', ''start_sequence_no'']),
     (''audit_fallback_resent'', [''duration_ms'', ''failed_count'', ''resent_count'']),
     (''monthly_digest'', [''digest_hash'', ''end_sequence_no'', ''entry_count'', ''start_sequence_no'',
       ''target_year_month'']),
     (''archive_exported'', [''archive_key'', ''digest_hash'', ''target_year_month'']),
     (''digest_timestamped'', [''digest_hash'', ''target_year_month'', ''timestamp_token_hash'']),
     (''scheduler_job_completed'', [''duration_ms'', ''job_name'', ''target_year_month'', ''trigger'']),
     (''incident_detected'', [''dedupe_key'', ''detection_source'', ''incident_type'',
       ''notification_result'', ''notification_sink'', ''severity'', ''target_sequence_no'',
       ''target_year_month''])] entry_type"

definition ledger_payload_has_unknown_key :: "string \<Rightarrow> json \<Rightarrow> bool" where
  "ledger_payload_has_unknown_key entry_type payload =
    (case payload of
      JObject object \<Rightarrow>
        (case ledger_payload_allowed_keys entry_type of
          None \<Rightarrow> True
        | Some allowed \<Rightarrow> list_ex (\<lambda>key. key \<notin> set allowed) (bt_keys object))
    | _ \<Rightarrow> True)"

text \<open>One round of the loop over the fields of a payload.\<close>

definition ledger_payload_field_is_valid :: "postgres \<Rightarrow> string \<Rightarrow> json \<Rightarrow> bool" where
  "ledger_payload_field_is_valid P key v =
    (if key \<in> {''version'', ''key_version'', ''old_key_version'', ''new_key_version'',
        ''signature_key_version'', ''retention_limit'', ''start_sequence_no'',
        ''end_sequence_no'', ''entry_count'', ''target_sequence_no''}
     then sql_positive P v \<and> (key = ''retention_limit'' \<longrightarrow> dec_value (jsonb_text P v) = 4)
     else if key \<in> {''entry_count'', ''batch_size'', ''checked_audit_event_count'', ''checked_count'',
        ''checked_secret_count'', ''checked_secret_version_count'', ''duration_ms'',
        ''failed_count'', ''failure_count'', ''processed_count'', ''remaining_count'',
        ''resent_count'', ''sample_count'', ''success_count'', ''violation_count''}
     then sql_count P v
     else if key = ''algorithm'' then v = JString ''xchacha20-poly1305''
     else if key = ''classification'' then sql_short_text P 128 v
     else if key = ''trigger''
     then is_json_string v \<and> jsonb_text P v \<in> {''background'', ''cli'', ''startup''}
     else if key \<in> {''error_code'', ''reason_code'', ''archive_key'', ''job_name'',
        ''detection_source'', ''dedupe_key'', ''notification_sink''}
     then sql_short_text P 128 v
     else if key = ''incident_type''
     then is_json_string v \<and> sql_incident_type_allowed (jsonb_text P v)
     else if key = ''severity'' then is_json_string v \<and> incident_severity_allowed (jsonb_text P v)
     else if key = ''notification_result''
     then is_json_string v \<and> incident_notification_result_allowed (jsonb_text P v)
     else if key \<in> {''digest_hash'', ''timestamp_token_hash'', ''public_key_fingerprint''}
     then is_json_string v \<and> hex64_text (jsonb_text P v)
     else if key = ''target_year_month'' then is_json_string v \<and> month_text (jsonb_text P v)
     else if key \<in> {''created_at'', ''activated_at'', ''retired_at''} then sql_time P v
     else False)"

definition ledger_payload_schema_is_valid :: "postgres \<Rightarrow> string \<Rightarrow> json \<Rightarrow> bool" where
  "ledger_payload_schema_is_valid P entry_type payload =
    (case payload of
      JObject object \<Rightarrow>
        sql_ledger_entry_type_allowed entry_type \<and>
        \<not> ledger_payload_has_unknown_key entry_type payload \<and>
        \<not> list_ex (\<lambda>(_, v). json_is_container v) object \<and>
        (entry_type = ''incident_detected'' \<longrightarrow>
          list_all (\<lambda>key. bt_get object key \<noteq> None)
            [''incident_type'', ''severity'', ''detection_source'', ''dedupe_key'',
             ''notification_sink'', ''notification_result'']) \<and>
        list_all (\<lambda>(key, v). ledger_payload_field_is_valid P key v) object \<and>
        (case (bt_get object ''old_key_version'', bt_get object ''new_key_version'') of
          (Some old_version, Some new_version) \<Rightarrow>
            dec_value (jsonb_text P old_version) \<noteq> dec_value (jsonb_text P new_version)
        | _ \<Rightarrow> True)
    | _ \<Rightarrow> False)"

text \<open>The recursive query visits every object at any depth.\<close>

definition SQL_FORBIDDEN_KEYS :: "string list" where
  "SQL_FORBIDDEN_KEYS =
    [''alias_decryption_key'', ''alias_encryption_key'', ''alias_fingerprint_key'',
     ''authorization'', ''authorization_header'', ''bearer_token'', ''canonical_alias_plaintext'',
     ''ciphertext'', ''data_key'', ''decrypt_result'', ''decrypted'', ''decrypted_data'',
     ''ed25519_private_key'', ''encrypted_data_key'', ''jwt'', ''jwt_full'', ''ledger_signing_key'',
     ''master_key'', ''passphrase'', ''password'', ''plain_text'', ''plaintext'', ''raw_jwt'',
     ''request_body'', ''request_body_full'', ''response_body'', ''response_body_full'',
     ''secret_body'', ''secret_key'', ''secret_value'', ''service_role'', ''service_role_key'',
     ''token'']"

definition ledger_payload_has_forbidden_key :: "postgres \<Rightarrow> json \<Rightarrow> bool" where
  "ledger_payload_has_forbidden_key P payload =
    list_ex (\<lambda>key. pg_lower P (sql_btrim key) \<in> set SQL_FORBIDDEN_KEYS) (json_keys payload)"

definition sql_ledger_payload_is_valid :: "postgres \<Rightarrow> string \<Rightarrow> json \<Rightarrow> bool" where
  "sql_ledger_payload_is_valid P entry_type payload \<longleftrightarrow>
    (case payload of JObject _ \<Rightarrow> True | _ \<Rightarrow> False) \<and> pg_column_size P payload \<le> 8192 \<and>
    sql_ledger_entry_type_allowed entry_type \<and> \<not> ledger_payload_has_forbidden_key P payload \<and>
    \<not> ledger_payload_has_unknown_key entry_type payload \<and>
    ledger_payload_schema_is_valid P entry_type payload"

definition schema_checks :: "postgres \<Rightarrow> ledger_checks" where
  "schema_checks P =
    \<lparr>ledger_entry_type_allowed = sql_ledger_entry_type_allowed,
     ledger_source_event_at_is_valid = sql_ledger_source_event_at_is_valid P,
     ledger_payload_is_valid = sql_ledger_payload_is_valid P\<rparr>"


section \<open>Texts that the service accepts\<close>

lemma dec_digits_text: "digits_text (dec_digits n)"
proof (induction n rule: dec_digits.induct)
  case (1 n)
  have "is_ascii_digit (char_of (48 + m))" if "m < 10" for m :: nat
    using that by (simp add: is_ascii_digit_def)
  then show ?case
    using 1 by (auto simp: dec_digits.simps [of n] digits_text_def)
qed

lemma spaces_trim: "\<forall>c \<in> set s. c = CHR '' '' \<Longrightarrow> strip_ws ws_len s = []"
proof (induction s)
  case (Cons c s)
  then have "ws_len (c # s) = 1" by (simp add: ws_len_def ws1_def)
  with Cons show ?case by (subst strip_ws.simps) simp
qed (simp add: strip_ws_stop [of ws_len "[]"] ws_len_def)

lemma sql_btrim_blank:
  assumes "sql_btrim s = []"
  shows "str_trim s = []"
proof -
  let ?space = "\<lambda>c. c = CHR '' ''"
  have "\<forall>c \<in> set (dropWhile ?space s). ?space c"
    using assms unfolding sql_btrim_def rev_is_Nil_conv dropWhile_eq_Nil_conv set_rev .
  then have "dropWhile ?space s = []"
    using hd_dropWhile [of ?space s] hd_in_set [of "dropWhile ?space s"] by blast
  then have "\<forall>c \<in> set s. ?space c" unfolding dropWhile_eq_Nil_conv .
  from spaces_trim [OF this] show ?thesis
    using strip_ws_stop [of ws_len_rev "[]"] by (simp add: str_trim_def ws_len_rev_def)
qed

lemma sql_length_le: "sql_length s \<le> length s"
  by (simp add: sql_length_def)

lemma short_text_sql:
  "str_trim s \<noteq> [] \<Longrightarrow> length s \<le> n \<Longrightarrow> sql_short_text P n (JString s)"
  using sql_btrim_blank [of s] sql_length_le [of s]
  by (auto simp: sql_short_text_def is_json_string_def jsonb_text_def)

lemma count_sql:
  "sql_count P (JNumber (PosInt n))"
  "n \<noteq> 0 \<Longrightarrow> n \<le> LEDGER_I64_MAX_U64 \<Longrightarrow> sql_positive P (JNumber (PosInt n))"
  "dec_value (jsonb_text P (JNumber (PosInt n))) = unat n"
proof -
  show "sql_count P (JNumber (PosInt n))"
    by (simp add: sql_count_def is_json_number_def jsonb_text_def dec_digits_text)
  show v: "dec_value (jsonb_text P (JNumber (PosInt n))) = unat n"
    by (simp add: jsonb_text_def dec_value_digits)
  show "sql_positive P (JNumber (PosInt n))" if "n \<noteq> 0" "n \<le> LEDGER_I64_MAX_U64"
    using that \<open>sql_count P (JNumber (PosInt n))\<close> v
    by (simp add: sql_positive_def LEDGER_I64_MAX_U64_def word_le_nat_alt unat_gt_0)
qed


section \<open>Payloads that the service accepts\<close>

definition entry_types :: "LedgerEntryType list" where
  "entry_types =
    [Entry_SecretCreated, Entry_SecretVersionCreated, Entry_SecretDecrypted, Entry_SecretVersionPurged,
     Entry_IntegrityCheckCompleted, Entry_RestoreTestCompleted, Entry_KeyRotationStarted,
     Entry_KeyRotationReencrypted, Entry_KeyRotationCompleted, Entry_KeyRotationAborted,
     Entry_SignatureKeyCreated, Entry_SignatureKeyActivated, Entry_SignatureKeyRetired,
     Entry_LedgerVerified, Entry_LedgerVerificationFailed, Entry_AuditFallbackResent,
     Entry_MonthlyDigest, Entry_ArchiveExported, Entry_DigestTimestamped, Entry_SchedulerJobCompleted,
     Entry_IncidentDetected]"

lemma entry_types_all: "t \<in> set entry_types"
  by (cases t) (simp_all add: entry_types_def)

lemma ledger_type_allowed: "sql_ledger_entry_type_allowed (LedgerEntryType_as_str t)"
proof -
  have "sql_ledger_entry_type_allowed e \<longleftrightarrow> e \<in> LedgerEntryType_as_str ` set entry_types" for e
    by (simp add: sql_ledger_entry_type_allowed_def entry_types_def)
  then show ?thesis using entry_types_all by blast
qed

lemma ledger_allowed_keys:
  "ledger_payload_allowed_keys (LedgerEntryType_as_str t) = Some (allowed_payload_keys t)"
proof -
  have table: "ledger_payload_allowed_keys e =
      map_of (map (\<lambda>t. (LedgerEntryType_as_str t, allowed_payload_keys t)) entry_types) e" for e
    by (simp add: ledger_payload_allowed_keys_def entry_types_def)
  have "map_of (map (\<lambda>t. (LedgerEntryType_as_str t, allowed_payload_keys t)) ts) (LedgerEntryType_as_str t) =
      (if t \<in> set ts then Some (allowed_payload_keys t) else None)" for ts
    by (induction ts) (auto simp: entry_type.print_inj)
  then show ?thesis by (simp add: table entry_types_all)
qed

definition payload_time_key :: "string \<Rightarrow> bool" where
  "payload_time_key key \<longleftrightarrow> key \<in> {''created_at'', ''activated_at'', ''retired_at''}"

lemma payload_text_sql:
  "validate_classification_value key v = Inr () \<Longrightarrow> sql_short_text P 128 v"
  "validate_non_blank_short_string key v = Inr () \<Longrightarrow> sql_short_text P 128 v"
  "validate_trigger_value key v = Inr () \<Longrightarrow>
    is_json_string v \<and> jsonb_text P v \<in> {''background'', ''cli'', ''startup''}"
  "validate_incident_type_value key v = Inr () \<Longrightarrow>
    is_json_string v \<and> sql_incident_type_allowed (jsonb_text P v)"
  "validate_string_enum_value key v [''critical'', ''high'', ''medium'', ''low''] = Inr () \<Longrightarrow>
    is_json_string v \<and> incident_severity_allowed (jsonb_text P v)"
  "validate_string_enum_value key v [''sent'', ''failed'', ''suppressed'', ''not_configured''] = Inr () \<Longrightarrow>
    is_json_string v \<and> incident_notification_result_allowed (jsonb_text P v)"
  "validate_year_month_value key v = Inr () \<Longrightarrow> is_json_string v \<and> month_text (jsonb_text P v)"
  "validate_digest_hash_value key v = Inr () \<Longrightarrow> is_json_string v \<and> hex64_text (jsonb_text P v)"
  by (auto simp: payload_value_defs Let_def is_json_string_def jsonb_text_def month_text_def hex64_text_def
      sql_incident_type_allowed_def incident_severity_allowed_def incident_notification_result_allowed_def
      AuditTrigger_parse_def short_text_sql split: if_splits)

definition positive_payload_keys :: "string set" where
  "positive_payload_keys =
    {''version'', ''key_version'', ''old_key_version'', ''new_key_version'', ''signature_key_version'',
     ''retention_limit'', ''start_sequence_no'', ''end_sequence_no'', ''entry_count'',
     ''target_sequence_no''}"

definition count_payload_keys :: "string set" where
  "count_payload_keys =
    {''batch_size'', ''checked_audit_event_count'', ''checked_count'', ''checked_secret_count'',
     ''checked_secret_version_count'', ''duration_ms'', ''failed_count'', ''failure_count'',
     ''processed_count'', ''remaining_count'', ''resent_count'', ''sample_count'', ''success_count'',
     ''violation_count''}"

lemma if_chain:
  "(if c then r else r') = z \<Longrightarrow> (c \<Longrightarrow> r = z \<Longrightarrow> b) \<Longrightarrow> (\<not> c \<Longrightarrow> r' = z \<Longrightarrow> b') \<Longrightarrow>
    (if c then b else b')"
  by (cases c) simp_all

lemma field_tail_sql:
  assumes "payload_time_key key \<Longrightarrow> sql_time P v"
    and "(if key = ''target_year_month'' then validate_year_month_value key v
      else if key \<in> {''digest_hash'', ''timestamp_token_hash'', ''public_key_fingerprint''}
      then validate_digest_hash_value key v
      else if key \<in> {''created_at'', ''activated_at'', ''retired_at''}
      then validate_source_event_at_value C key v
      else Inl (UnknownPayloadKey key Entry_SecretCreated)) = Inr ()"
  shows "if key \<in> {''digest_hash'', ''timestamp_token_hash'', ''public_key_fingerprint''}
      then is_json_string v \<and> hex64_text (jsonb_text P v)
      else if key = ''target_year_month'' then is_json_string v \<and> month_text (jsonb_text P v)
      else if key \<in> {''created_at'', ''activated_at'', ''retired_at''} then sql_time P v else False"
proof (cases "key = ''target_year_month''")
  case True
  with assms(2) show ?thesis by (simp add: payload_text_sql)
next
  case False
  then show ?thesis
    using assms(2) payload_text_sql(8) [of key v P] assms(1) [unfolded payload_time_key_def]
    by (simp only: if_False) (auto simp only: sum.distinct split: if_split_asm if_split)
qed

lemma payload_field_sql:
  assumes "validate_payload_field C key v = Inr ()" "payload_time_key key \<Longrightarrow> sql_time P v"
  shows "ledger_payload_field_is_valid P key v"
proof -
  have entry_count: "''entry_count'' \<in> positive_payload_keys" by (simp add: positive_payload_keys_def)
  note rust = assms(1) [unfolded validate_payload_field_def
      positive_payload_keys_def [symmetric] count_payload_keys_def [symmetric]]
  note sql = ledger_payload_field_is_valid_def [unfolded
      positive_payload_keys_def [symmetric] count_payload_keys_def [symmetric]]
  consider "key \<in> positive_payload_keys" | "key \<notin> positive_payload_keys" "key \<in> count_payload_keys"
    | "key \<notin> positive_payload_keys" "key \<notin> count_payload_keys" by blast
  then show ?thesis
  proof cases
    case 1
    show ?thesis
      using rust unfolding sql
      apply (simp only: 1 if_True)
      by (auto simp: require_positive_json_u64_Inr count_sql split: if_splits)
  next
    case 2
    then have some: "key \<in> insert ''entry_count'' count_payload_keys" by simp
    show ?thesis
      using rust unfolding sql
      apply (simp only: 2 some if_True if_False)
      by (auto simp: require_non_negative_json_u64_def require_json_u64_Inr count_sql)
  next
    case 3
    with entry_count have none: "key \<notin> insert ''entry_count'' count_payload_keys" by auto
    show ?thesis
      using rust unfolding sql
      apply (simp only: 3 none if_False)
      apply (erule if_chain, fastforce simp: require_string_value_def as_str_def split: if_splits json.splits)
      apply (erule if_chain, rule payload_text_sql, assumption)
      apply (erule if_chain, rule payload_text_sql, assumption)
      apply (erule if_chain, rule payload_text_sql, assumption)
      apply (erule if_chain, rule payload_text_sql, assumption)
      apply (erule if_chain, rule payload_text_sql, assumption)
      apply (erule if_chain, rule payload_text_sql, assumption)
      by (rule field_tail_sql [OF assms(2)])
  qed
qed

lemma snake_btrim: "snake_case k \<Longrightarrow> sql_btrim k = k"
proof -
  have stay: "dropWhile (\<lambda>c. c = CHR '' '') k = k" if "snake_case k" for k
    using that by (cases k) (auto simp: snake_case_def Let_def)
  moreover have "snake_case (rev k)" if "snake_case k"
    using that by (simp add: snake_case_def)
  ultimately show "snake_case k \<Longrightarrow> sql_btrim k = k" by (simp add: sql_btrim_def)
qed

lemma payload_keys_snake: "k \<in> set (allowed_payload_keys t) \<Longrightarrow> snake_case k"
proof -
  have "list_all snake_case (allowed_payload_keys t)"
    by (cases t) (simp_all add: snake_case_def)
  then show "k \<in> set (allowed_payload_keys t) \<Longrightarrow> snake_case k" by (simp add: list_all_iff)
qed

text \<open>Case folding leaves lower-case ASCII names alone in every locale.\<close>

definition pg_lower_law :: "postgres \<Rightarrow> bool" where
  "pg_lower_law P \<longleftrightarrow> (\<forall>k. snake_case k \<longrightarrow> pg_lower P k = k)"

lemma sql_forbidden_keys: "SQL_FORBIDDEN_KEYS = FORBIDDEN_LEDGER_PAYLOAD_KEYS"
  by (simp only: SQL_FORBIDDEN_KEYS_def FORBIDDEN_LEDGER_PAYLOAD_KEYS_def)

lemma payload_scalar_flat: "payload_scalar v \<Longrightarrow> json_keys v = [] \<and> \<not> json_is_container v"
  by (auto simp: payload_scalar_def json_is_container_def split: json.splits)

lemma payload_keys_flat:
  assumes "LedgerPayload_new C t v = Inr p"
  shows "set (json_keys v) \<subseteq> set (allowed_payload_keys t)"
proof -
  have "json_keys x = []" if "(k, x) \<in> set (lp_object p)" for k x
    using LedgerPayload_new_entries(2) [OF assms that] by (simp add: payload_scalar_flat)
  moreover have "v = JObject (lp_object p)" using assms by (simp add: LedgerPayload_new_Inr)
  ultimately show ?thesis
    using LedgerPayload_new_entries(1) [OF assms] by fastforce
qed

lemma old_new_versions_sql:
  assumes "validate_old_new_key_versions object = Inr ()"
    "bt_get object ''old_key_version'' = Some a" "bt_get object ''new_key_version'' = Some b"
  shows "dec_value (jsonb_text P a) \<noteq> dec_value (jsonb_text P b)"
  using assms
  by (auto simp: validate_old_new_key_versions_def require_positive_json_u64_Inr count_sql(3)
      word_unat_eq_iff split: if_splits)

text \<open>What a payload of the service may still fail in the database: its stored size and its times.\<close>

definition payload_fits :: "postgres \<Rightarrow> LedgerPayload \<Rightarrow> bool" where
  "payload_fits P p \<longleftrightarrow> pg_column_size P (LedgerPayload_as_value p) \<le> 8192 \<and>
    list_all (\<lambda>(k, x). payload_time_key k \<longrightarrow> sql_time P x) (lp_object p)"

lemma payload_schema_sql:
  assumes new: "LedgerPayload_new C t v = Inr p" and fits: "payload_fits P p"
  shows "ledger_payload_schema_is_valid P (LedgerEntryType_as_str t) v"
proof -
  have v: "v = JObject (lp_object p)" and obj: "validate_payload_object C t (lp_object p) = Inr ()"
    using new by (simp_all add: LedgerPayload_new_Inr)
  have required: "list_all (\<lambda>key. bt_get (lp_object p) key \<noteq> None)
      [''incident_type'', ''severity'', ''detection_source'', ''dedupe_key'',
       ''notification_sink'', ''notification_result'']" if "t = Entry_IncidentDetected"
    using obj that
    by (auto simp: validate_payload_object_def validate_required_payload_keys_def split: if_splits)
  have "t = Entry_IncidentDetected" if "LedgerEntryType_as_str t = ''incident_detected''"
    using that entry_type.print_inj [of t Entry_IncidentDetected] by simp
  with required have req: "LedgerEntryType_as_str t = ''incident_detected'' \<longrightarrow>
      list_all (\<lambda>key. bt_get (lp_object p) key \<noteq> None)
        [''incident_type'', ''severity'', ''detection_source'', ''dedupe_key'',
         ''notification_sink'', ''notification_result'']" by blast
  have fields: "list_all (\<lambda>(key, v). ledger_payload_field_is_valid P key v) (lp_object p)"
    using LedgerPayload_new_entries(3) [OF new] fits
    by (fastforce simp: payload_fits_def list_all_iff intro!: payload_field_sql)
  have versions: "validate_old_new_key_versions (lp_object p) = Inr ()"
    using obj by (auto simp: validate_payload_object_def)
  have flat: "\<not> list_ex (\<lambda>(_, v). json_is_container v) (lp_object p)"
    using LedgerPayload_new_entries(2) [OF new] payload_scalar_flat by (fastforce simp: list_ex_iff)
  have known: "\<not> ledger_payload_has_unknown_key (LedgerEntryType_as_str t) v"
    using LedgerPayload_new_entries(1) [OF new]
    by (auto simp: v ledger_payload_has_unknown_key_def ledger_allowed_keys list_ex_iff bt_keys_def)
  show ?thesis
    using req fields flat known old_new_versions_sql [OF versions]
    by (simp add: v ledger_payload_schema_is_valid_def ledger_type_allowed split: option.split)
qed

text \<open>
  C22 --- The two copies of the ledger's payload rules agree in the direction that matters for
  writing: every payload that the service accepts passes the check function of the database, for
  every entry type and all keys and values, as long as PostgreSQL stores it in at most 8192 bytes
  and can read the times it holds.  So the database never refuses a payload for a key, a
  vocabulary or a number that the service let through.
\<close>

theorem accepted_payload_passes_database:
  assumes "pg_lower_law P" "LedgerPayload_new C t v = Inr p" "payload_fits P p"
  shows "sql_ledger_payload_is_valid P (LedgerEntryType_as_str t) v"
proof -
  have v: "v = JObject (lp_object p)" using assms(2) by (simp add: LedgerPayload_new_Inr)
  have "\<not> ledger_payload_has_forbidden_key P v"
    unfolding ledger_payload_has_forbidden_key_def list_ex_iff sql_forbidden_keys
  proof clarify
    fix k
    assume k: "k \<in> set (json_keys v)" and bad: "pg_lower P (sql_btrim k) \<in> set FORBIDDEN_LEDGER_PAYLOAD_KEYS"
    from k have allowed: "k \<in> set (allowed_payload_keys t)" using payload_keys_flat [OF assms(2)] by blast
    then have "pg_lower P (sql_btrim k) = k"
      using assms(1) by (simp add: payload_keys_snake snake_btrim pg_lower_law_def)
    with bad allowed_not_forbidden [OF allowed] show False by metis
  qed
  then show ?thesis
    using payload_schema_sql [OF assms(2,3)] assms(3)
    by (simp add: sql_ledger_payload_is_valid_def ledger_payload_schema_is_valid_def v
        payload_fits_def LedgerPayload_as_value_def)
qed

definition sample_postgres :: postgres where
  "sample_postgres =
    \<lparr>pg_timestamptz = (\<lambda>s. if utc_text s then Some 0 else None), pg_timestamptz_text = (\<lambda>_. []),
     pg_to_char_seconds = (\<lambda>_. []),
     pg_float_text = (\<lambda>_. []), pg_column_size = (\<lambda>_. 0), pg_lower = to_ascii_lowercase,
     pg_allowlist_setting = None\<rparr>"

lemma sample_pg_lower: "pg_lower_law sample_postgres"
proof -
  have "to_ascii_lowercase k = k" if "snake_case k" for k
    unfolding to_ascii_lowercase_def
    using that by (intro map_idI) (auto simp: snake_case_def list_all_iff ascii_lower_def Let_def)
  then show ?thesis by (simp add: pg_lower_law_def sample_postgres_def)
qed

theorem accepted_payload_passes_database_witness:
  "sql_ledger_payload_is_valid sample_postgres ''key_rotation_started'' sample_payload"
  using accepted_payload_passes_database [OF sample_pg_lower sample_payload_ok]
  by (simp add: payload_fits_def LedgerPayload_as_value_def sample_postgres_def payload_time_key_def)

end
