(* ===== verification/Audit_Database.thy ===== *)
theory Audit_Database
  imports Sql_Checks Audit_Recorder Supabase_Rpc "HOL-Library.Sublist"
begin

text \<open>
  The audit table of the database: the metadata schema of each action
  (\<open>1230_complete_t05_alias_audit_extension.sql\<close>, \<open>1250_security_forbidden_key_parity.sql\<close>), the
  function \<open>rpc_append_audit_event\<close> and the client that calls it
  (\<open>src/server/supabase/audit_rpc.rs\<close>).  Shown: the key rules are those of the service, and the
  table records every event once.
\<close>


section \<open>Metadata schema\<close>

definition VIOLATION_SUMMARY_KEYS :: "string list" where
  "VIOLATION_SUMMARY_KEYS =
    [''current_version_invalid'', ''version_invalid'', ''retention_exceeded'', ''ciphertext_empty'',
     ''encrypted_data_key_empty'', ''nonce_length_invalid'', ''algorithm_invalid'',
     ''nonce_duplicate'', ''aad_keys_invalid'', ''aad_row_mismatch'', ''created_at_mismatch'',
     ''audit_action_invalid'', ''audit_result_invalid'', ''audit_metadata_not_object'',
     ''audit_metadata_forbidden_key'', ''audit_source_event_at_invalid'']"

definition required_keys_table :: "string \<Rightarrow> (string \<times> string list) list" where
  "required_keys_table result =
    (let if_success = (\<lambda>keys. if result = ''success'' then keys else []) in
    [(''encrypt_create'', [''version'', ''secret_version_id'']),
     (''encrypt_rotate'', [''version'', ''secret_version_id'']),
     (''version_purge'', [''version'', ''secret_version_id'']),
     (''decrypt'', []),
     (''integrity_check'', [''check_name'', ''checked_secret_count'', ''checked_secret_version_count'',
       ''checked_audit_event_count'', ''duration_ms'', ''violation_count'', ''violation_summary'',
       ''trigger'']),
     (''restore_test'', [''phase'', ''sample_count'', ''trigger'', ''duration_ms'']),
     (''auth_failure'', [''error_code'']),
     (''key_rotation_start'', [''old_key_version'', ''new_key_version'']),
     (''key_rotation_reencrypt'', [''old_key_version'', ''new_key_version'', ''batch_size'',
       ''processed_count'', ''remaining_count'']),
     (''key_rotation_complete'', [''old_key_version'', ''new_key_version'', ''remaining_count'']),
     (''signature_key_created'', [''signature_key_version'', ''public_key_fingerprint'', ''created_at'']),
     (''signature_key_activated'',
       [''signature_key_version'', ''public_key_fingerprint'', ''activated_at'']),
     (''signature_key_retired'', [''signature_key_version'', ''public_key_fingerprint'', ''retired_at'']),
     (''monthly_digest_generate'', []),
     (''monthly_digest_verify'', []),
     (''archive_export'', [''target_year_month'']),
     (''digest_timestamping'', [''target_year_month'']),
     (''siem_forward_failure'', [''error_code'']),
     (''audit_report_generate'', [''format'', ''period_end'', ''period_start'']),
     (''audit_ui_read'', [''endpoint'', ''method'', ''resource'']),
     (''scheduler_job'', [''job_name'', ''trigger'', ''duration_ms'']),
     (''incident_detected'', [''incident_type'', ''severity'', ''detection_source'', ''dedupe_key'',
       ''notification_sink'', ''notification_result'', ''error_code'']),
     (''secret_alias_create'', if_success [''alias_fingerprint'', ''alias_fingerprint_key_version'',
       ''alias_fingerprint_schema_version'']),
     (''secret_alias_update'', if_success [''old_alias_fingerprint'', ''new_alias_fingerprint'',
       ''alias_fingerprint_key_version'', ''alias_fingerprint_schema_version'']),
     (''secret_alias_delete'', if_success [''alias_fingerprint'', ''alias_fingerprint_key_version'',
       ''alias_fingerprint_schema_version'']),
     (''secret_alias_list'', if_success [''result_count''])])"

definition audit_metadata_has_missing_required_key_for_action ::
    "string \<Rightarrow> string \<Rightarrow> json \<Rightarrow> bool \<Rightarrow> bool" where
  "audit_metadata_has_missing_required_key_for_action action result metadata_json
      want_source_event_at =
    (case metadata_json of
      JObject object \<Rightarrow>
        (case map_of (required_keys_table result) action of
          None \<Rightarrow> True
        | Some v_required_keys \<Rightarrow>
            list_ex (\<lambda>key. bt_get object key = None)
              (v_required_keys @ (if want_source_event_at then [''source_event_at''] else [])) \<or>
            action = ''integrity_check'' \<and>
              (case bt_get object ''violation_summary'' of
                Some (JObject summary) \<Rightarrow>
                  list_ex (\<lambda>key. bt_get summary key = None) VIOLATION_SUMMARY_KEYS
              | _ \<Rightarrow> True))
    | _ \<Rightarrow> True)"

definition allowed_keys_table :: "string \<Rightarrow> (string \<times> string list) list" where
  "allowed_keys_table result =
    [(''encrypt_create'', [''version'', ''secret_version_id'', ''source_event_at'']),
     (''encrypt_rotate'', [''version'', ''secret_version_id'', ''source_event_at'']),
     (''version_purge'', [''version'', ''secret_version_id'', ''source_event_at'']),
     (''decrypt'', if result = ''failure'' then [''attempted_secret_id'', ''source_event_at'']
       else [''source_event_at'']),
     (''integrity_check'', [''check_name'', ''checked_secret_count'', ''checked_secret_version_count'',
       ''checked_audit_event_count'', ''duration_ms'', ''violation_count'', ''violation_summary'',
       ''trigger'', ''error_code'', ''source_event_at'']),
     (''restore_test'', [''phase'', ''sample_count'', ''trigger'', ''duration_ms'', ''error_code'',
       ''failed_version'', ''reason'', ''source_event_at'']),
     (''auth_failure'', [''error_code'', ''source_event_at'']),
     (''key_rotation_start'', [''old_key_version'', ''new_key_version'', ''source_event_at'']),
     (''key_rotation_reencrypt'', [''old_key_version'', ''new_key_version'', ''batch_size'',
       ''processed_count'', ''remaining_count'', ''source_event_at'']),
     (''key_rotation_complete'',
       [''old_key_version'', ''new_key_version'', ''remaining_count'', ''source_event_at'']),
     (''signature_key_created'',
       [''created_at'', ''public_key_fingerprint'', ''signature_key_version'', ''source_event_at'']),
     (''signature_key_activated'',
       [''activated_at'', ''public_key_fingerprint'', ''signature_key_version'', ''source_event_at'']),
     (''signature_key_retired'',
       [''public_key_fingerprint'', ''retired_at'', ''signature_key_version'', ''source_event_at'']),
     (''monthly_digest_generate'', [''error_code'', ''target_year_month'', ''source_event_at'']),
     (''monthly_digest_verify'', [''error_code'', ''target_year_month'', ''source_event_at'']),
     (''archive_export'',
       [''archive_key'', ''digest_hash'', ''target_year_month'', ''error_code'', ''source_event_at'']),
     (''digest_timestamping'', [''digest_hash'', ''timestamp_token_hash'', ''target_year_month'',
       ''error_code'', ''source_event_at'']),
     (''siem_forward_failure'', [''error_code'', ''event_type'', ''event_count'', ''source_event_at'']),
     (''audit_report_generate'',
       [''error_code'', ''format'', ''period_end'', ''period_start'', ''source_event_at'']),
     (''audit_ui_read'', [''endpoint'', ''method'', ''resource'', ''result_count'', ''period_start'',
       ''period_end'', ''start_sequence_no'', ''end_sequence_no'', ''target_year_month'',
       ''error_code'', ''source_event_at'']),
     (''scheduler_job'', [''duration_ms'', ''error_code'', ''job_name'', ''target_year_month'',
       ''trigger'', ''source_event_at'']),
     (''incident_detected'', [''incident_type'', ''severity'', ''detection_source'', ''dedupe_key'',
       ''notification_sink'', ''notification_result'', ''error_code'', ''source_event_at'',
       ''source_event_id'', ''target_sequence_no'', ''target_year_month'']),
     (''secret_alias_create'', [''alias_fingerprint'', ''alias_fingerprint_key_version'',
       ''alias_fingerprint_schema_version'', ''error_code'', ''source_event_at'']),
     (''secret_alias_update'', [''old_alias_fingerprint'', ''new_alias_fingerprint'',
       ''alias_fingerprint_key_version'', ''alias_fingerprint_schema_version'', ''error_code'',
       ''source_event_at'']),
     (''secret_alias_delete'', [''alias_fingerprint'', ''alias_fingerprint_key_version'',
       ''alias_fingerprint_schema_version'', ''error_code'', ''source_event_at'']),
     (''secret_alias_list'', [''result_count'', ''error_code'', ''source_event_at''])]"

definition audit_metadata_has_unknown_key_for_action :: "string \<Rightarrow> string \<Rightarrow> json \<Rightarrow> bool" where
  "audit_metadata_has_unknown_key_for_action action result metadata_json =
    (case metadata_json of
      JObject object \<Rightarrow>
        (case map_of (allowed_keys_table result) action of
          None \<Rightarrow> True
        | Some v_allowed_keys \<Rightarrow>
            list_ex (\<lambda>v_key. v_key \<notin> set v_allowed_keys) (bt_keys object) \<or>
            action = ''integrity_check'' \<and>
              (case bt_get object ''violation_summary'' of
                Some (JObject summary) \<Rightarrow>
                  list_ex (\<lambda>v_key. v_key \<notin> set VIOLATION_SUMMARY_KEYS) (bt_keys summary)
              | _ \<Rightarrow> False))
    | _ \<Rightarrow> True)"

text \<open>One round of the loop over the fields of the metadata.\<close>

definition audit_metadata_value_is_invalid ::
    "postgres \<Rightarrow> string \<Rightarrow> string \<Rightarrow> string \<Rightarrow> json \<Rightarrow> bool" where
  "audit_metadata_value_is_invalid P action result v_key v_val =
    (if v_key \<in> {''version'', ''old_key_version'', ''new_key_version'', ''batch_size'',
        ''target_sequence_no'', ''start_sequence_no'', ''end_sequence_no'', ''signature_key_version'',
        ''alias_fingerprint_key_version'', ''alias_fingerprint_schema_version''}
     then \<not> sql_positive P v_val
     else if v_key \<in> {''checked_secret_count'', ''checked_secret_version_count'',
        ''checked_audit_event_count'', ''duration_ms'', ''violation_count'', ''sample_count'',
        ''processed_count'', ''remaining_count'', ''event_count'', ''result_count''}
     then \<not> sql_count P v_val
     else if v_key = ''error_code'' then result \<noteq> ''failure'' \<or> \<not> sql_short_text P 64 v_val
     else if v_key \<in> {''source_event_at'', ''created_at'', ''activated_at'', ''retired_at'',
        ''period_start'', ''period_end''}
     then \<not> sql_time P v_val
     else if v_key \<in> {''public_key_fingerprint'', ''digest_hash'', ''timestamp_token_hash'',
        ''alias_fingerprint'', ''old_alias_fingerprint'', ''new_alias_fingerprint''}
     then \<not> (is_json_string v_val \<and> hex64_text (jsonb_text P v_val))
     else if v_key \<in> {''secret_version_id'', ''attempted_secret_id''}
     then v_key = ''attempted_secret_id'' \<and> \<not> (action = ''decrypt'' \<and> result = ''failure'') \<or>
       \<not> (is_json_string v_val \<and> uuid_text (jsonb_text P v_val))
     else if v_key = ''source_event_id''
     then action \<noteq> ''incident_detected'' \<or> \<not> (is_json_string v_val \<and> uuid_text (jsonb_text P v_val))
     else if v_key = ''trigger''
     then \<not> (is_json_string v_val \<and> jsonb_text P v_val \<in> {''background'', ''cli'', ''startup''})
     else if v_key \<in> {''job_name'', ''event_type'', ''detection_source'', ''dedupe_key'',
        ''notification_sink''}
     then \<not> sql_short_text P 128 v_val
     else if v_key \<in> {''endpoint'', ''resource''} then \<not> sql_short_text P 128 v_val
     else if v_key = ''method'' then v_val \<noteq> JString ''GET''
     else if v_key = ''target_year_month''
     then \<not> (is_json_string v_val \<and> month_text (jsonb_text P v_val))
     else if v_key = ''format'' then v_val \<notin> {JString ''json'', JString ''markdown''}
     else if v_key = ''check_name'' then v_val \<noteq> JString ''mvp_integrity_check''
     else if v_key = ''phase'' then v_val \<noteq> JString ''verify''
     else if v_key = ''reason'' then v_val \<noteq> JString ''no_current_secret_versions''
     else if v_key = ''failed_version''
     then result = ''success'' \<or> v_val \<noteq> JNull \<and> \<not> sql_positive P v_val
     else if v_key = ''archive_key'' then result = ''failure'' \<or> \<not> sql_short_text P 256 v_val
     else if v_key = ''incident_type''
     then \<not> (is_json_string v_val \<and> sql_incident_type_allowed (jsonb_text P v_val))
     else if v_key = ''severity''
     then \<not> (is_json_string v_val \<and> incident_severity_allowed (jsonb_text P v_val))
     else if v_key = ''notification_result''
     then \<not> (is_json_string v_val \<and> incident_notification_result_allowed (jsonb_text P v_val))
     else if v_key = ''violation_summary'' then (case v_val of JObject _ \<Rightarrow> False | _ \<Rightarrow> True)
     else False)"

definition audit_metadata_has_invalid_value_for_action ::
    "postgres \<Rightarrow> string \<Rightarrow> string \<Rightarrow> json \<Rightarrow> bool" where
  "audit_metadata_has_invalid_value_for_action P action result metadata_json =
    (case metadata_json of
      JObject object \<Rightarrow>
        list_ex (\<lambda>(v_key, v_val). audit_metadata_value_is_invalid P action result v_key v_val) object
    | _ \<Rightarrow> True)"

definition audit_metadata_has_schema_violation_for_action ::
    "postgres \<Rightarrow> string \<Rightarrow> string \<Rightarrow> json \<Rightarrow> bool \<Rightarrow> bool" where
  "audit_metadata_has_schema_violation_for_action P action result metadata_json want_source_event_at \<longleftrightarrow>
    audit_metadata_has_unknown_key_for_action action result metadata_json \<or>
    audit_metadata_has_missing_required_key_for_action action result metadata_json
      want_source_event_at \<or>
    audit_metadata_has_invalid_value_for_action P action result metadata_json"

definition audit_metadata_allowlist_mode :: "postgres \<Rightarrow> string" where
  "audit_metadata_allowlist_mode P =
    (case pg_allowlist_setting P of
      Some mode \<Rightarrow> if mode \<in> {''warning'', ''strict''} then mode else ''warning''
    | None \<Rightarrow> ''warning'')"

definition audit_metadata_has_forbidden_key :: "postgres \<Rightarrow> json \<Rightarrow> bool" where
  "audit_metadata_has_forbidden_key P metadata_json =
    list_ex (\<lambda>key. pg_lower P (sql_btrim key) \<in> set SQL_FORBIDDEN_KEYS) (json_keys metadata_json)"


section \<open>Tables\<close>

text \<open>
  The rows of \<open>secrets\<close>, \<open>secret_versions\<close> and \<open>audit_events\<close> and the identities of \<open>auth.users\<close>.
  Identifiers and binary columns are the texts in which they travel; \<open>timestamptz\<close> columns are
  microseconds.  The column \<open>secrets.updated_at\<close>, which nothing reads, is left out.
\<close>

record AppendAuditEventParams =
  ae_audit_event_id :: string
  ae_request_id :: string
  ae_actor_user_id :: "string option"
  ae_actor_device_id :: "string option"
  ae_action :: string
  ae_target_secret_id :: "string option"
  ae_result :: string
  ae_key_version :: "u32 option"
  ae_metadata_json :: json

record audit_events_row =
  row_event :: AppendAuditEventParams
  row_occurred_at :: int

record secrets_row =
  s_id :: string
  s_current_version_id :: "string option"
  s_owner_user_id :: string
  s_classification :: string
  s_created_at :: int

record secret_versions_row =
  sv_id :: string
  sv_secret_id :: string
  sv_version :: int
  sv_ciphertext :: string
  sv_encrypted_data_key :: string
  sv_key_version :: int
  sv_algorithm :: string
  sv_classification :: string
  sv_nonce_or_iv :: string
  sv_aad_context :: json
  sv_created_by_user_id :: string
  sv_created_by_device_id :: string
  sv_created_at :: int

record store_db =
  t_users :: "string list"
  t_secrets :: "secrets_row list"
  t_secret_versions :: "secret_versions_row list"
  t_audit_events :: "audit_events_row list"

text \<open>A JSON integer as an argument of type \<open>integer\<close>.\<close>

definition sql_integer :: "u32 \<Rightarrow> string + int" where
  "sql_integer n = (if uint n < 2 ^ 31 then Inr (uint n) else Inl ''numeric_value_out_of_range'')"

definition AUDIT_ACTIONS :: "string list" where
  "AUDIT_ACTIONS =
    [''encrypt_create'', ''encrypt_rotate'', ''decrypt'', ''version_purge'', ''integrity_check'',
     ''restore_test'', ''auth_failure'', ''key_rotation_start'', ''key_rotation_reencrypt'',
     ''key_rotation_complete'', ''signature_key_created'', ''signature_key_activated'',
     ''signature_key_retired'', ''monthly_digest_generate'', ''monthly_digest_verify'',
     ''archive_export'', ''digest_timestamping'', ''siem_forward_failure'', ''audit_report_generate'',
     ''audit_ui_read'', ''scheduler_job'', ''incident_detected'', ''secret_alias_create'',
     ''secret_alias_update'', ''secret_alias_delete'', ''secret_alias_list'']"

text \<open>The insertion checks the foreign keys of the row.\<close>

definition insert_audit_event ::
    "int \<Rightarrow> AppendAuditEventParams \<Rightarrow> store_db \<Rightarrow> string + store_db" where
  "insert_audit_event now e db =
    (if list_ex (\<lambda>row. ae_audit_event_id (row_event row) = ae_audit_event_id e) (t_audit_events db)
     then Inr db
     else if (case ae_actor_user_id e of None \<Rightarrow> False | Some u \<Rightarrow> u \<notin> set (t_users db)) \<or>
       (case ae_target_secret_id e of None \<Rightarrow> False | Some i \<Rightarrow> i \<notin> s_id ` set (t_secrets db))
     then Inl ''foreign_key_violation''
     else Inr (db\<lparr>t_audit_events :=
       t_audit_events db @ [\<lparr>row_event = e, row_occurred_at = now\<rparr>]\<rparr>))"

definition audit_event_rejected :: "postgres \<Rightarrow> AppendAuditEventParams \<Rightarrow> bool" where
  "audit_event_rejected P e \<longleftrightarrow>
    ae_action e \<notin> set AUDIT_ACTIONS \<or>
    ae_result e \<notin> {''success'', ''failure''} \<or>
    ae_result e = ''success'' \<and> ae_action e \<in> {''encrypt_create'', ''encrypt_rotate'', ''version_purge''} \<or>
    ae_action e \<in> {''auth_failure'', ''siem_forward_failure'', ''incident_detected''} \<and>
      ae_result e \<noteq> ''failure'' \<or>
    ae_action e \<in> {''monthly_digest_generate'', ''monthly_digest_verify''} \<and> ae_result e \<noteq> ''failure'' \<or>
    ae_action e \<in> {''auth_failure'', ''signature_key_created'', ''signature_key_activated'',
        ''signature_key_retired''} \<and>
      (ae_actor_user_id e \<noteq> None \<or> ae_actor_device_id e \<noteq> None \<or> ae_target_secret_id e \<noteq> None \<or>
       ae_key_version e \<noteq> None) \<or>
    (case ae_actor_device_id e of None \<Rightarrow> False | Some d \<Rightarrow> sql_btrim d = []) \<or>
    ae_key_version e = Some 0 \<or>
    (case ae_metadata_json e of JObject _ \<Rightarrow> False | _ \<Rightarrow> True) \<or>
    audit_metadata_has_forbidden_key P (ae_metadata_json e) \<or>
    \<not> audit_metadata_source_event_at_is_valid P (ae_metadata_json e) \<or>
    audit_metadata_has_schema_violation_for_action P (ae_action e) (ae_result e) (ae_metadata_json e) True \<and>
      audit_metadata_allowlist_mode P = ''strict''"

definition rpc_append_audit_event ::
    "postgres \<Rightarrow> int \<Rightarrow> AppendAuditEventParams \<Rightarrow> store_db \<Rightarrow> string + string \<times> store_db" where
  "rpc_append_audit_event P now e db =
    rbind (case ae_key_version e of None \<Rightarrow> Inr 0 | Some n \<Rightarrow> sql_integer n) (\<lambda>_.
    rbind (reject_if (audit_event_rejected P e) ''invalid_rpc_input'') (\<lambda>_.
    rbind (insert_audit_event now e db) (\<lambda>db'.
    case find (\<lambda>row. ae_audit_event_id (row_event row) = ae_audit_event_id e) (t_audit_events db') of
      None \<Rightarrow> Inl ''audit_event_id_conflict''
    | Some v_existing_audit_event \<Rightarrow>
        if row_event v_existing_audit_event \<noteq> e then Inl ''audit_event_id_conflict''
        else Inr (ae_audit_event_id e, db'))))"


section \<open>The client\<close>

definition from_event :: "crates \<Rightarrow> AuditEvent \<Rightarrow> AppendAuditEventParams" where
  "from_event C event =
    \<lparr>ae_audit_event_id = AuditEventId_as_canonical_string C (ev_audit_event_id event),
     ae_request_id = RequestId_as_canonical_string C (ev_request_id event),
     ae_actor_user_id = map_option (OwnerUserId_as_canonical_string C) (ev_actor_user_id event),
     ae_actor_device_id = map_option DeviceId_str (ev_actor_device_id event),
     ae_action = AuditAction_as_str (ev_action event),
     ae_target_secret_id = map_option (SecretId_as_canonical_string C) (ev_target_secret_id event),
     ae_result = AuditResult_as_str (ev_result event),
     ae_key_version = map_option KeyVersion_get (ev_key_version event),
     ae_metadata_json = AuditMetadata_as_value (ev_metadata_json event)\<rparr>"

definition classify_append_audit_error :: "crates \<Rightarrow> SupabaseRpcError \<Rightarrow> AuditAppendError" where
  "classify_append_audit_error C error =
    (case error of
      NonSuccessStatus status body \<Rightarrow>
        if status = 409 \<and> response_contains_marker C body ''audit_event_id_conflict''
        then AuditAppend_IdempotencyConflict else ExternalDependencyFailed ''supabase_rpc_failed''
    | _ \<Rightarrow> ExternalDependencyFailed ''supabase_rpc_failed'')"

text \<open>\<open>SupabaseAuditAppender\<close>, over any implementation of the remote call.\<close>

definition SupabaseAuditAppender_append_audit_event ::
    "crates \<Rightarrow> (AppendAuditEventParams \<Rightarrow> ('s, SupabaseRpcError, unit) comp) \<Rightarrow> 's audit_appender" where
  "SupabaseAuditAppender_append_audit_event C call event =
    smap_err (classify_append_audit_error C) (call (from_event C event))"


section \<open>The key rules of the service and of the database\<close>

definition audit_actions :: "AuditAction list" where
  "audit_actions =
    [Action_EncryptCreate, Action_EncryptRotate, Action_VersionPurge, Action_Decrypt,
     Action_IntegrityCheck, Action_RestoreTest, Action_AuthFailure, Action_KeyRotationStart,
     Action_KeyRotationReencrypt, Action_KeyRotationComplete, Action_SignatureKeyCreated,
     Action_SignatureKeyActivated, Action_SignatureKeyRetired, Action_MonthlyDigestGenerate,
     Action_MonthlyDigestVerify, Action_ArchiveExport, Action_DigestTimestamping,
     Action_SiemForwardFailure, Action_AuditReportGenerate, Action_AuditUiRead, Action_SchedulerJob,
     Action_IncidentDetected, Action_SecretAliasCreate, Action_SecretAliasUpdate,
     Action_SecretAliasDelete, Action_SecretAliasList]"

lemma audit_actions_all: "a \<in> set audit_actions"
  by (cases a) (simp_all add: audit_actions_def)

lemma table_lookup:
  assumes "list_all2 (\<lambda>(k, v) a. k = f a \<and> Q v a) table xs" "a \<in> set xs"
    and "\<And>a b. f a = f b \<Longrightarrow> a = b"
  shows "\<exists>v. map_of table (f a) = Some v \<and> Q v a"
  using assms(1,2)
proof (induction table xs rule: list_all2_induct)
  case (Cons kv table x xs)
  then show ?case using assms(3) by (cases kv) fastforce
qed simp

lemma allowed_keys_lookup:
  "\<exists>ks. map_of (allowed_keys_table (AuditResult_as_str r)) (AuditAction_as_str a) = Some ks \<and>
    set ks = set (allowed_metadata_keys a r)"
proof (rule table_lookup [OF _ audit_actions_all])
  show "list_all2 (\<lambda>(k, v) a. k = AuditAction_as_str a \<and> set v = set (allowed_metadata_keys a r))
      (allowed_keys_table (AuditResult_as_str r)) audit_actions"
    by (cases r) (simp_all add: allowed_keys_table_def audit_actions_def SOURCE_EVENT_AT_KEY_def
        TRIGGER_KEY_def insert_commute)
qed (simp add: audit_action.print_inj)

lemma required_keys_lookup:
  "\<exists>ks. map_of (required_keys_table (AuditResult_as_str r)) (AuditAction_as_str a) = Some ks \<and>
    ks = required_metadata_keys a r"
proof (rule table_lookup [OF _ audit_actions_all])
  show "list_all2 (\<lambda>(k, v) a. k = AuditAction_as_str a \<and> v = required_metadata_keys a r)
      (required_keys_table (AuditResult_as_str r)) audit_actions"
    by (cases r) (simp_all add: required_keys_table_def audit_actions_def TRIGGER_KEY_def)
qed (simp add: audit_action.print_inj)

lemma violation_summary_keys: "VIOLATION_SUMMARY_KEYS = INTEGRITY_CHECK_VIOLATION_SUMMARY_ALLOWLIST"
  by (simp only: VIOLATION_SUMMARY_KEYS_def INTEGRITY_CHECK_VIOLATION_SUMMARY_ALLOWLIST_def)

lemma integrity_check_name: "AuditAction_as_str a = ''integrity_check'' \<longleftrightarrow> a = Action_IntegrityCheck"
  using audit_action.print_inj [of a Action_IntegrityCheck] by auto

text \<open>
  C8 --- The allow-list and the required keys of audit metadata are written down twice, in Rust and
  in SQL, and the two copies agree: for every action, result and metadata object, the database finds
  neither an unknown nor a missing key exactly when the service finds none.
\<close>

theorem audit_key_rules_agree:
  "(\<not> audit_metadata_has_unknown_key_for_action (AuditAction_as_str a) (AuditResult_as_str r) (JObject object) \<and>
    \<not> audit_metadata_has_missing_required_key_for_action (AuditAction_as_str a) (AuditResult_as_str r)
        (JObject object) want) =
   ((if a = Action_IntegrityCheck then violation_summary_keys_allowed object else Inr ()) = Inr () \<and>
    list_all (\<lambda>key. key \<in> set (allowed_metadata_keys a r)) (bt_keys object) \<and>
    validate_required_metadata_keys a r object want = Inr ())"
proof -
  obtain ks where "map_of (allowed_keys_table (AuditResult_as_str r)) (AuditAction_as_str a) = Some ks"
    "set ks = set (allowed_metadata_keys a r)"
    using allowed_keys_lookup by blast
  moreover have "map_of (required_keys_table (AuditResult_as_str r)) (AuditAction_as_str a) =
      Some (required_metadata_keys a r)"
    using required_keys_lookup by blast
  ultimately show ?thesis
    by (cases "bt_get object ''violation_summary''"; cases "the (bt_get object ''violation_summary'')")
      (auto simp: audit_metadata_has_unknown_key_for_action_def as_object_def try_each_eq_Inr
        audit_metadata_has_missing_required_key_for_action_def integrity_check_name if_present_def
        violation_summary_keys violation_summary_keys_allowed_def validate_required_metadata_keys_def
        list_ex_iff list_all_iff SOURCE_EVENT_AT_KEY_def)
qed


section \<open>Every event once\<close>

text \<open>The constraints of the table: the primary key, the checks of each row and its references.\<close>

definition audit_row_ok :: "store_db \<Rightarrow> AppendAuditEventParams \<Rightarrow> bool" where
  "audit_row_ok db e \<longleftrightarrow>
    ae_action e \<in> set AUDIT_ACTIONS \<and> ae_result e \<in> {''success'', ''failure''} \<and>
    pred_option (\<lambda>d. sql_btrim d \<noteq> []) (ae_actor_device_id e) \<and>
    pred_option (\<lambda>n. 0 < n \<and> uint n < 2 ^ 31) (ae_key_version e) \<and>
    (\<exists>object. ae_metadata_json e = JObject object) \<and>
    pred_option (\<lambda>u. u \<in> set (t_users db)) (ae_actor_user_id e) \<and>
    pred_option (\<lambda>i. i \<in> s_id ` set (t_secrets db)) (ae_target_secret_id e)"

definition audit_table_ok :: "store_db \<Rightarrow> bool" where
  "audit_table_ok db \<longleftrightarrow>
    distinct (map (\<lambda>row. ae_audit_event_id (row_event row)) (t_audit_events db)) \<and>
    list_all (\<lambda>row. audit_row_ok db (row_event row)) (t_audit_events db)"

lemma rejected_row_ok:
  assumes "\<not> audit_event_rejected P e"
    "(case ae_key_version e of None \<Rightarrow> Inr 0 | Some n \<Rightarrow> sql_integer n) = Inr k"
    "\<not> ((case ae_actor_user_id e of None \<Rightarrow> False | Some u \<Rightarrow> u \<notin> set (t_users db)) \<or>
       (case ae_target_secret_id e of None \<Rightarrow> False | Some i \<Rightarrow> i \<notin> s_id ` set (t_secrets db)))"
  shows "audit_row_ok db e"
proof -
  have "\<exists>object. ae_metadata_json e = JObject object"
    using assms(1) by (cases "ae_metadata_json e") (simp_all add: audit_event_rejected_def)
  moreover have "pred_option (\<lambda>n. 0 < n \<and> uint n < 2 ^ 31) (ae_key_version e)"
    using assms(1,2) unfolding audit_event_rejected_def
    by (auto simp: sql_integer_def word_gt_0 split: option.splits if_splits)
  moreover have "pred_option (\<lambda>d. sql_btrim d \<noteq> []) (ae_actor_device_id e)"
    "ae_action e \<in> set AUDIT_ACTIONS" "ae_result e \<in> {''success'', ''failure''}"
    using assms(1) unfolding audit_event_rejected_def by (auto split: option.splits)
  ultimately show ?thesis
    using assms(3) unfolding audit_row_ok_def by (auto split: option.splits)
qed

lemma find_event:
  assumes "distinct (map (\<lambda>row. ae_audit_event_id (row_event row)) rows)" "row \<in> set rows"
  shows "find (\<lambda>x. ae_audit_event_id (row_event x) = ae_audit_event_id (row_event row)) rows = Some row"
  using assms by (induction rows) auto

lemma find_event_append:
  assumes "ae_audit_event_id e \<notin> (\<lambda>row. ae_audit_event_id (row_event row)) ` set rows"
  shows "find (\<lambda>row. ae_audit_event_id (row_event row) = ae_audit_event_id e)
      (rows @ [\<lparr>row_event = e, row_occurred_at = now\<rparr>]) = Some \<lparr>row_event = e, row_occurred_at = now\<rparr>"
  using assms by (induction rows) auto

lemma rpc_append_audit_event_Inr:
  assumes "rpc_append_audit_event P now e db = Inr (i, db')" "audit_table_ok db"
  shows "i = ae_audit_event_id e \<and> audit_row_ok db e \<and> \<not> audit_event_rejected P e \<and>
    (db' = db \<and> (\<exists>row \<in> set (t_audit_events db). row_event row = e) \<or>
     i \<notin> (\<lambda>row. ae_audit_event_id (row_event row)) ` set (t_audit_events db) \<and>
     db' = db\<lparr>t_audit_events := t_audit_events db @ [\<lparr>row_event = e, row_occurred_at = now\<rparr>]\<rparr>)"
proof -
  obtain k db1 row where k: "(case ae_key_version e of None \<Rightarrow> Inr 0 | Some n \<Rightarrow> sql_integer n) = Inr k"
    and ok: "\<not> audit_event_rejected P e" and ins: "insert_audit_event now e db = Inr db1"
    and f: "find (\<lambda>row. ae_audit_event_id (row_event row) = ae_audit_event_id e) (t_audit_events db1) = Some row"
    and row: "row_event row = e" and res: "i = ae_audit_event_id e" "db' = db1"
    using assms(1) unfolding rpc_append_audit_event_def
    by (auto split: option.splits if_splits)
  from f row have mem: "row \<in> set (t_audit_events db1)" by (auto simp: find_Some_iff)
  show ?thesis
  proof (cases "list_ex (\<lambda>row. ae_audit_event_id (row_event row) = ae_audit_event_id e) (t_audit_events db)")
    case True
    with ins have "db1 = db" by (simp add: insert_audit_event_def)
    with mem row ok res assms(2) show ?thesis
      by (auto simp: audit_table_ok_def list_all_iff)
  next
    case False
    with ins have new: "db1 = db\<lparr>t_audit_events :=
        t_audit_events db @ [\<lparr>row_event = e, row_occurred_at = now\<rparr>]\<rparr>"
      and fk: "\<not> ((case ae_actor_user_id e of None \<Rightarrow> False | Some u \<Rightarrow> u \<notin> set (t_users db)) \<or>
       (case ae_target_secret_id e of None \<Rightarrow> False | Some i \<Rightarrow> i \<notin> s_id ` set (t_secrets db)))"
      by (simp_all add: insert_audit_event_def split: if_splits)
    from False new rejected_row_ok [OF ok k fk] ok res show ?thesis by (auto simp: list_ex_iff)
  qed
qed

lemma audit_row_ok_append [simp]:
  "audit_row_ok (db\<lparr>t_audit_events := rows\<rparr>) e = audit_row_ok db e"
  by (simp add: audit_row_ok_def)

lemma rpc_append_audit_event_keeps:
  assumes "rpc_append_audit_event P now e db = Inr (i, db')" "audit_table_ok db"
  shows "audit_table_ok db' \<and> prefix (t_audit_events db) (t_audit_events db') \<and>
    (\<exists>row \<in> set (t_audit_events db'). row_event row = e)"
  using rpc_append_audit_event_Inr [OF assms] assms(2)
  by (auto simp: audit_table_ok_def)

text \<open>
  Calls that the network may lose: the request before it reaches the database, or the response after
  the database has committed.  A caller that sees no response may call again.
\<close>

datatype delivery = Delivered | RequestLost | ResponseLost

definition deliver ::
    "postgres \<Rightarrow> delivery \<Rightarrow> int \<Rightarrow> AppendAuditEventParams \<Rightarrow> (store_db, string, string) comp" where
  "deliver P d now e db =
    (if d = RequestLost then (Inl ''network'', db)
     else
     case rpc_append_audit_event P now e db of
       Inl m \<Rightarrow> (Inl m, db)
     | Inr (i, db') \<Rightarrow> (if d = ResponseLost then Inl ''network'' else Inr i, db'))"

fun deliver_all ::
    "postgres \<Rightarrow> (delivery \<times> int \<times> AppendAuditEventParams) list \<Rightarrow> store_db \<Rightarrow>
      (string + string) list \<times> store_db" where
  "deliver_all P [] db = ([], db)"
| "deliver_all P ((d, now, e) # calls) db =
    (let (answer, db1) = deliver P d now e db; (answers, db2) = deliver_all P calls db1
     in (answer # answers, db2))"

lemma deliver_keeps:
  assumes "deliver P d now e db = (r, db')" "audit_table_ok db"
  shows "audit_table_ok db' \<and> prefix (t_audit_events db) (t_audit_events db') \<and>
    (is_ok r \<longrightarrow> (\<exists>row \<in> set (t_audit_events db'). row_event row = e))"
  using assms rpc_append_audit_event_keeps [of P now e db]
  by (auto simp: deliver_def split: if_splits sum.splits)

lemma deliver_all_keeps:
  assumes "deliver_all P calls db = (answers, db')" "audit_table_ok db"
  shows "audit_table_ok db' \<and> prefix (t_audit_events db) (t_audit_events db') \<and>
    list_all2 (\<lambda>(_, _, e) r. is_ok r \<longrightarrow> (\<exists>row \<in> set (t_audit_events db'). row_event row = e)) calls answers"
  using assms
proof (induction P calls db arbitrary: answers db' rule: deliver_all.induct)
  case (2 P d now e calls db)
  obtain r db1 where r: "deliver P d now e db = (r, db1)" by fastforce
  with 2(2) obtain rs where rs: "deliver_all P calls db1 = (rs, db')" "answers = r # rs"
    by (auto split: prod.splits)
  note one = deliver_keeps [OF r 2(3)]
  with 2(1) [OF r [symmetric] refl rs(1)] have rest: "audit_table_ok db'"
    "prefix (t_audit_events db1) (t_audit_events db')"
    "list_all2 (\<lambda>(_, _, e) r. is_ok r \<longrightarrow> (\<exists>row \<in> set (t_audit_events db'). row_event row = e)) calls rs"
    by simp_all
  from rest(2) have "set (t_audit_events db1) \<subseteq> set (t_audit_events db')" by (simp add: set_mono_prefix)
  with one rest rs(2) show ?case
    by (auto intro: prefix_order.trans)
qed simp

text \<open>
  C7 --- The audit table records every event exactly once, however often calls are repeated and
  whatever the network loses.  After any sequence of calls, each of which may lose its request or its
  response, the rows that were there are still there, unchanged and in place; no two rows share an
  identifier; every row satisfies the constraints of the table; and each call that was answered with
  success has its event in the table in exactly one row.
\<close>

theorem audit_events_recorded_once:
  assumes "audit_table_ok db" "deliver_all P calls db = (answers, db')"
  shows "audit_table_ok db' \<and> prefix (t_audit_events db) (t_audit_events db') \<and>
    list_all2 (\<lambda>(_, _, e) answer. is_ok answer \<longrightarrow>
      (\<exists>!row. row \<in> set (t_audit_events db') \<and>
        ae_audit_event_id (row_event row) = ae_audit_event_id e) \<and>
      (\<exists>row \<in> set (t_audit_events db'). row_event row = e)) calls answers"
proof -
  note kept = deliver_all_keeps [OF assms(2,1)]
  have uniq: "\<exists>!row. row \<in> set (t_audit_events db') \<and> ae_audit_event_id (row_event row) = ae_audit_event_id e"
    if "\<exists>row \<in> set (t_audit_events db'). row_event row = e" for e
    using kept that find_event [of "t_audit_events db'"]
    by (intro ex_ex1I) (auto simp: audit_table_ok_def distinct_map inj_on_def)
  from kept uniq show ?thesis by (auto elim!: list_all2_mono)
qed

definition sample_audit_params :: AppendAuditEventParams where
  "sample_audit_params =
    \<lparr>ae_audit_event_id = ''e1'', ae_request_id = ''r1'', ae_actor_user_id = None,
     ae_actor_device_id = None, ae_action = ''auth_failure'', ae_target_secret_id = None,
     ae_result = ''failure'', ae_key_version = None,
     ae_metadata_json = JObject [(''error_code'', JString ''invalid_token''),
       (''source_event_at'', JString ''2026-01-01T00:00:00Z'')]\<rparr>"

definition empty_store_db :: store_db where
  "empty_store_db = \<lparr>t_users = [], t_secrets = [], t_secret_versions = [], t_audit_events = []\<rparr>"

lemma sample_time_valid:
  "utc_text ''2026-01-01T00:00:00Z'' \<and> pg_timestamptz sample_postgres ''2026-01-01T00:00:00Z'' \<noteq> None"
  by code_simp

lemma sample_audit_accepted: "\<not> audit_event_rejected sample_postgres sample_audit_params"
proof -
  have "audit_metadata_allowlist_mode sample_postgres \<noteq> ''strict''"
    by (simp add: audit_metadata_allowlist_mode_def sample_postgres_def)
  moreover have "\<not> audit_metadata_has_forbidden_key sample_postgres (ae_metadata_json sample_audit_params)"
    using sample_pg_lower
    by (simp add: audit_metadata_has_forbidden_key_def sample_audit_params_def pg_lower_law_def
        snake_btrim snake_case_def SQL_FORBIDDEN_KEYS_def)
  moreover have "audit_metadata_source_event_at_is_valid sample_postgres (ae_metadata_json sample_audit_params)"
    using sample_time_valid
    by (simp add: audit_metadata_source_event_at_is_valid_def sample_audit_params_def bt_get_def)
  ultimately show ?thesis
    by (simp add: audit_event_rejected_def AUDIT_ACTIONS_def sample_audit_params_def)
qed

lemma sample_audit_run:
  "deliver_all sample_postgres
     [(ResponseLost, 5, sample_audit_params), (Delivered, 8, sample_audit_params)] empty_store_db =
   ([Inl ''network'', Inr ''e1''],
    empty_store_db\<lparr>t_audit_events := [\<lparr>row_event = sample_audit_params, row_occurred_at = 5\<rparr>]\<rparr>)"
  by (simp add: deliver_def rpc_append_audit_event_def sample_audit_accepted insert_audit_event_def
      empty_store_db_def) (simp add: sample_audit_params_def)

theorem audit_events_recorded_once_witness:
  "\<exists>!row. row \<in> set (t_audit_events (snd (deliver_all sample_postgres
      [(ResponseLost, 5, sample_audit_params), (Delivered, 8, sample_audit_params)] empty_store_db))) \<and>
    ae_audit_event_id (row_event row) = ''e1''"
proof -
  have "audit_table_ok empty_store_db" by (simp add: audit_table_ok_def empty_store_db_def)
  from audit_events_recorded_once [OF this sample_audit_run] show ?thesis
    unfolding sample_audit_run by (simp add: is_ok_def sample_audit_params_def)
qed


section \<open>Events of the service\<close>

text \<open>
  What the service does not check before it sends an event: the success of a monthly digest job and
  the fields of a signature key event, which the database refuses, the range of the key version, and
  that actor and secret exist.
\<close>

definition event_fits_database :: "crates \<Rightarrow> postgres \<Rightarrow> store_db \<Rightarrow> AuditEvent \<Rightarrow> bool" where
  "event_fits_database C P db event \<longleftrightarrow>
    \<not> (ev_action event \<in> {Action_MonthlyDigestGenerate, Action_MonthlyDigestVerify} \<and>
       ev_result event = AuditSuccess) \<and>
    (ev_action event \<in> {Action_SignatureKeyCreated, Action_SignatureKeyActivated,
        Action_SignatureKeyRetired} \<longrightarrow>
      ev_actor_user_id event = None \<and> ev_actor_device_id event = None \<and>
      ev_target_secret_id event = None \<and> ev_key_version event = None) \<and>
    pred_option (\<lambda>d. str_trim (DeviceId_str d) \<noteq> []) (ev_actor_device_id event) \<and>
    pred_option (\<lambda>v. KeyVersion_wf v \<and> uint (KeyVersion_get v) < 2 ^ 31) (ev_key_version event) \<and>
    list_all snake_case (json_keys (AuditMetadata_as_value (ev_metadata_json event))) \<and>
    audit_metadata_source_event_at_is_valid P (AuditMetadata_as_value (ev_metadata_json event)) \<and>
    pred_option (\<lambda>u. OwnerUserId_as_canonical_string C u \<in> set (t_users db)) (ev_actor_user_id event) \<and>
    pred_option (\<lambda>i. SecretId_as_canonical_string C i \<in> s_id ` set (t_secrets db))
      (ev_target_secret_id event)"

lemma action_names:
  "AuditAction_as_str a \<in> set AUDIT_ACTIONS"
  "AuditAction_as_str a \<in> {''encrypt_create'', ''encrypt_rotate'', ''version_purge''} \<longleftrightarrow>
    is_write_success_only a"
  "AuditAction_as_str a \<in> {''auth_failure'', ''siem_forward_failure'', ''incident_detected''} \<longleftrightarrow>
    is_failure_only a"
  "AuditAction_as_str a \<in> {''monthly_digest_generate'', ''monthly_digest_verify''} \<longleftrightarrow>
    a \<in> {Action_MonthlyDigestGenerate, Action_MonthlyDigestVerify}"
  "AuditAction_as_str a \<in> {''auth_failure'', ''signature_key_created'', ''signature_key_activated'',
      ''signature_key_retired''} \<longleftrightarrow>
    a \<in> {Action_AuthFailure, Action_SignatureKeyCreated, Action_SignatureKeyActivated,
      Action_SignatureKeyRetired}"
  by (cases a; simp add: AUDIT_ACTIONS_def is_write_success_only_def is_failure_only_def)+

lemma result_names:
  "AuditResult_as_str r = ''success'' \<longleftrightarrow> r = AuditSuccess"
  "AuditResult_as_str r = ''failure'' \<longleftrightarrow> r = AuditFailure"
  "AuditResult_as_str r \<in> {''success'', ''failure''}"
  by (cases r; simp)+

lemma metadata_keys_permitted:
  assumes "reject_forbidden_metadata_keys v = Inr ()" "list_all snake_case (json_keys v)"
    "pg_lower_law P"
  shows "\<not> audit_metadata_has_forbidden_key P v"
  unfolding audit_metadata_has_forbidden_key_def list_ex_iff
proof clarify
  fix k assume k: "k \<in> set (json_keys v)" and bad: "pg_lower P (sql_btrim k) \<in> set SQL_FORBIDDEN_KEYS"
  from k assms(2) have s: "snake_case k" by (simp add: list_all_iff)
  with assms(3) have "pg_lower P (sql_btrim k) = k" by (simp add: snake_btrim pg_lower_law_def)
  moreover from k assms(1) have "\<not> is_forbidden_metadata_key k"
    by (simp add: metadata_scan.scan_ok_iff)
  moreover have "SQL_FORBIDDEN_KEYS = FORBIDDEN_AUDIT_METADATA_KEYS"
    by (simp only: SQL_FORBIDDEN_KEYS_def FORBIDDEN_AUDIT_METADATA_KEYS_def)
  ultimately show False
    using bad by (simp add: is_forbidden_metadata_key_def list_ex_iff snake_case_compared [OF s])
qed

lemma service_event_not_rejected:
  assumes "pg_lower_law P" "audit_metadata_allowlist_mode P = ''warning''"
    and "validate_event_parts C event = Inr ()" "event_fits_database C P db event"
    and "reject_forbidden_metadata_keys (AuditMetadata_as_value (ev_metadata_json event)) = Inr ()"
  shows "\<not> audit_event_rejected P (from_event C event)"
proof -
  have auth: "ev_actor_user_id event = None \<and> ev_actor_device_id event = None \<and>
      ev_target_secret_id event = None \<and> ev_key_version event = None"
    if "ev_action event = Action_AuthFailure"
    using assms(3) that by (auto simp: validate_event_parts_def validate_auth_failure_parts_def)
  have success: "ev_result event = AuditSuccess \<Longrightarrow>
      \<not> is_write_success_only (ev_action event) \<and> \<not> is_failure_only (ev_action event)"
    using assms(3) by (auto simp: validate_event_parts_def)
  obtain object where object: "AuditMetadata_as_value (ev_metadata_json event) = JObject object"
    using validate_event_parts_Inr [OF assms(3)] by metis
  note keys = metadata_keys_permitted [OF assms(5) _ assms(1)]
  from assms(4) have fits: "ev_actor_device_id event = Some d \<Longrightarrow> sql_btrim (DeviceId_str d) \<noteq> []"
    "ev_key_version event = Some v \<Longrightarrow> KeyVersion_get v \<noteq> 0" for d v
    using sql_btrim_blank by (auto simp: event_fits_database_def KeyVersion_wf_def)
  let ?p = "from_event C event"
  have p: "ae_action ?p = AuditAction_as_str (ev_action event)"
    "ae_result ?p = AuditResult_as_str (ev_result event)"
    "ae_metadata_json ?p = JObject object"
    by (simp_all add: from_event_def object)
  have fields: "ae_actor_user_id ?p = None \<and> ae_actor_device_id ?p = None \<and>
      ae_target_secret_id ?p = None \<and> ae_key_version ?p = None"
    if "ev_action event \<in> {Action_AuthFailure, Action_SignatureKeyCreated,
      Action_SignatureKeyActivated, Action_SignatureKeyRetired}"
    using that auth assms(4) by (auto simp: from_event_def event_fits_database_def)
  have digest: "ev_action event \<in> {Action_MonthlyDigestGenerate, Action_MonthlyDigestVerify} \<Longrightarrow>
      ev_result event = AuditFailure"
    using assms(4) by (cases "ev_result event") (auto simp: event_fits_database_def)
  have rest: "(case ae_actor_device_id ?p of None \<Rightarrow> False | Some d \<Rightarrow> sql_btrim d = []) = False"
    "ae_key_version ?p \<noteq> Some 0" "audit_metadata_source_event_at_is_valid P (JObject object)"
    "\<not> audit_metadata_has_forbidden_key P (JObject object)"
    using fits keys assms(4) by (auto simp: from_event_def event_fits_database_def object split: option.splits)
  have only_failure: "is_failure_only (ev_action event) \<Longrightarrow> ev_result event = AuditFailure"
    using success by (cases "ev_result event") auto
  show ?thesis
    unfolding audit_event_rejected_def p action_names(2-) result_names(1,2)
    using action_names(1) [of "ev_action event"] result_names(3) [of "ev_result event"] rest fields digest only_failure success assms(2) by (simp del: insert_iff)
qed

lemma append_new_event:
  assumes ok: "\<not> audit_event_rejected P e"
    and key: "pred_option (\<lambda>n. uint n < 2 ^ 31) (ae_key_version e)"
    and fresh: "ae_audit_event_id e \<notin> (\<lambda>row. ae_audit_event_id (row_event row)) ` set (t_audit_events db)"
    and user: "pred_option (\<lambda>u. u \<in> set (t_users db)) (ae_actor_user_id e)"
    and target: "pred_option (\<lambda>i. i \<in> s_id ` set (t_secrets db)) (ae_target_secret_id e)"
  shows "rpc_append_audit_event P now e db = Inr (ae_audit_event_id e,
      db\<lparr>t_audit_events := t_audit_events db @ [\<lparr>row_event = e, row_occurred_at = now\<rparr>]\<rparr>)"
proof -
  have none: "list_ex (\<lambda>row. ae_audit_event_id (row_event row) = ae_audit_event_id e) (t_audit_events db) = False"
    using fresh by (force simp: list_ex_iff)
  have "insert_audit_event now e db =
      Inr (db\<lparr>t_audit_events := t_audit_events db @ [\<lparr>row_event = e, row_occurred_at = now\<rparr>]\<rparr>)"
    unfolding insert_audit_event_def none 
    using user target by (cases "ae_actor_user_id e"; cases "ae_target_secret_id e") simp_all
  moreover have "\<exists>k. (case ae_key_version e of None \<Rightarrow> Inr 0 | Some n \<Rightarrow> sql_integer n) = Inr k"
    using key by (cases "ae_key_version e") (simp_all add: sql_integer_def)
  ultimately show ?thesis
    using ok find_event_append [OF fresh, of now] by (auto simp: rpc_append_audit_event_def)
qed

text \<open>
  C23 --- The database takes the events of the service.  An event that the service has validated,
  with metadata free of forbidden keys, is appended as a new row holding exactly its fields,
  provided its identifier is new, the allow-list is in warning mode, actor and secret exist, and the
  event is none of the few that only the database refuses.
\<close>

theorem service_event_is_appended:
  assumes "pg_lower_law P" "audit_metadata_allowlist_mode P = ''warning''"
    and "AuditEvent_new C parts = Inr event" "event_fits_database C P db event"
    and "reject_forbidden_metadata_keys (AuditMetadata_as_value (ev_metadata_json event)) = Inr ()"
    and "AuditEventId_as_canonical_string C (ev_audit_event_id event)
      \<notin> (\<lambda>row. ae_audit_event_id (row_event row)) ` set (t_audit_events db)"
  shows "rpc_append_audit_event P now (from_event C event) db =
    Inr (AuditEventId_as_canonical_string C (ev_audit_event_id event),
      db\<lparr>t_audit_events := t_audit_events db @
        [\<lparr>row_event = from_event C event, row_occurred_at = now\<rparr>]\<rparr>)"
proof -
  let ?e = "from_event C event"
  from assms(3) have "validate_event_parts C event = Inr ()" by (auto simp: AuditEvent_new_def)
  note ok = service_event_not_rejected [OF assms(1,2) this assms(4,5)]
  have id: "ae_audit_event_id ?e = AuditEventId_as_canonical_string C (ev_audit_event_id event)"
    by (simp add: from_event_def)
  note fits = assms(4) [unfolded event_fits_database_def]
  have fields: "pred_option (\<lambda>n. uint n < 2 ^ 31) (ae_key_version ?e)"
    "pred_option (\<lambda>u. u \<in> set (t_users db)) (ae_actor_user_id ?e)"
    "pred_option (\<lambda>i. i \<in> s_id ` set (t_secrets db)) (ae_target_secret_id ?e)"
    using fits by (auto simp: from_event_def option.pred_map comp_def elim: option.pred_mono_strong)
  from append_new_event [OF ok fields(1) _ fields(2,3), unfolded id, OF assms(6)] show ?thesis .
qed

text \<open>An event with a time that both parsers read.\<close>

definition dated_crates :: crates where
  "dated_crates = sample_crates\<lparr>rfc3339_parse :=
    (\<lambda>s. if s = ''2026-01-01T00:00:00Z'' then Some (0, 0) else sample_rfc3339_parse s)\<rparr>"

definition dated_event :: AuditEvent where
  "dated_event = \<lparr>ev_audit_event_id = AuditEventId sample_v4, ev_request_id = RequestId 9,
    ev_actor_user_id = None, ev_actor_device_id = None, ev_action = Action_Decrypt,
    ev_target_secret_id = None, ev_result = AuditSuccess, ev_key_version = Some (KeyVersion 1),
    ev_metadata_json = timed_metadata (SourceEventAt ''2026-01-01T00:00:00Z'')\<rparr>"

lemma dated_event_ok:
  "AuditEvent_new dated_crates dated_event = Inr dated_event"
  "event_fits_database dated_crates sample_postgres empty_store_db dated_event"
  "reject_forbidden_metadata_keys (AuditMetadata_as_value (ev_metadata_json dated_event)) = Inr ()"
proof -
  have "SourceEventAt_parse dated_crates ''2026-01-01T00:00:00Z'' = Inr (SourceEventAt ''2026-01-01T00:00:00Z'')"
    by (simp add: SourceEventAt_parse_def dated_crates_def str_ends_with_def)
  then have "validate_event_parts dated_crates dated_event = Inr ()"
    unfolding dated_event_def
    by (intro timed_metadata_ok) (simp_all add: is_write_success_only_def is_failure_only_def)
  then show "AuditEvent_new dated_crates dated_event = Inr dated_event"
    by (simp add: AuditEvent_new_def)
  have keys: "json_keys (AuditMetadata_as_value (ev_metadata_json dated_event)) = [''source_event_at'']"
    by (simp add: dated_event_def timed_metadata_def SOURCE_EVENT_AT_KEY_def)
  then show "reject_forbidden_metadata_keys (AuditMetadata_as_value (ev_metadata_json dated_event)) = Inr ()"
    unfolding metadata_scan.scan_ok_iff is_forbidden_metadata_key_def
    by (simp add: snake_case_compared snake_case_def FORBIDDEN_AUDIT_METADATA_KEYS_def)
  have "audit_metadata_source_event_at_is_valid sample_postgres
      (AuditMetadata_as_value (ev_metadata_json dated_event))"
    using sample_time_valid
    by (simp add: audit_metadata_source_event_at_is_valid_def dated_event_def timed_metadata_def
        SOURCE_EVENT_AT_KEY_def bt_get_def)
  with keys show "event_fits_database dated_crates sample_postgres empty_store_db dated_event"
    by (simp add: event_fits_database_def snake_case_def)
      (simp add: dated_event_def KeyVersion_wf_def)
qed

theorem service_event_is_appended_witness:
  "row_event ` set (t_audit_events (snd (projr (rpc_append_audit_event sample_postgres 3
    (from_event dated_crates dated_event) empty_store_db)))) = {from_event dated_crates dated_event}"
proof -
  have "audit_metadata_allowlist_mode sample_postgres = ''warning''"
    by (simp add: audit_metadata_allowlist_mode_def sample_postgres_def)
  from service_event_is_appended [OF sample_pg_lower this dated_event_ok, of 3]
  show ?thesis by (simp add: empty_store_db_def)
qed

end
