(* ===== verification/Spec2Isabelle.thy ===== *)
theory Spec2Isabelle
  imports Auth Envelope Alias Monthly_Digest Audit_Builders Audit_Recorder Siem Audit_Database
begin

text \<open>Verification of mipsorcu, a secret store with versioned envelope encryption, a signed
  hash-chained ledger and an audit trail.\<close>

end
